(* ===== verification/Prelude.thy ===== *)
theory Prelude
  imports Main "HOL-Library.Multiset" "HOL-Library.List_Lexorder" "HOL-Library.Char_ord"
begin

text \<open>
  The prelude holds what every component shares: errors as values, the combinator for
  early returns, stable sorting by a comparison function (Go's \<open>sort.SliceStable\<close>), and
  small generic lemmas. Nothing here is specific to one file of the repository.
\<close>

section \<open>Theorem collections\<close>

named_theorems go_simps \<open>evaluation rules for the Go standard library functions used\<close>
named_theorems io_simps \<open>evaluation rules for operating system calls\<close>

section \<open>Errors as values\<close>

text \<open>
  A Go \<open>error\<close> is nil (\<^term>\<open>None\<close>) or one of these. \<open>Wrap\<close> is \<open>fmt.Errorf\<close> with a
  trailing \<open>: %w\<close> (and the shape of \<open>os.PathError\<close>); \<open>Joined\<close> is \<open>errors.Join\<close>; \<open>Panic\<close> is a
  run-time panic, which no code of the repository recovers from: the operation ends with it.
\<close>

datatype errno = ENOENT | EEXIST | EXDEV | EACCES | ESRCH | EIO | ENOSPC | ENOTDIR | EISDIR | EMFILE

datatype goerror =
    Errorf string
  | Errno errno
  | Wrap string goerror
  | Joined "goerror list"
  | Panic string

type_synonym 'a result = "goerror + 'a"

fun errno_text :: "errno \<Rightarrow> string" where
  "errno_text ENOENT = ''no such file or directory''"
| "errno_text EEXIST = ''file exists''"
| "errno_text EXDEV = ''invalid cross-device link''"
| "errno_text EACCES = ''permission denied''"
| "errno_text ESRCH = ''no such process''"
| "errno_text EIO = ''input/output error''"
| "errno_text ENOSPC = ''no space left on device''"
| "errno_text ENOTDIR = ''not a directory''"
| "errno_text EISDIR = ''is a directory''"
| "errno_text EMFILE = ''too many open files''"

fun join :: "string \<Rightarrow> string list \<Rightarrow> string" where
  "join sep [] = ''''"
| "join sep [x] = x"
| "join sep (x # y # zs) = x @ sep @ join sep (y # zs)"

fun error_text :: "goerror \<Rightarrow> string" where
  "error_text (Errorf s) = s"
| "error_text (Errno e) = errno_text e"
| "error_text (Wrap s e) = s @ '': '' @ error_text e"
| "error_text (Joined es) = join [CHR 0x0A] (map error_text es)"
| "error_text (Panic s) = s"

text \<open>\<open>errors.Is(err, errno)\<close>: the error itself or anything it wraps.\<close>

fun errors_is :: "goerror \<Rightarrow> errno \<Rightarrow> bool" where
  "errors_is (Errorf s) n = False"
| "errors_is (Errno e) n = (e = n)"
| "errors_is (Wrap s e) n = errors_is e n"
| "errors_is (Joined es) n = list_ex (\<lambda>e. errors_is e n) es"
| "errors_is (Panic s) n = False"

text \<open>\<open>errors.Join(errs...)\<close> is nil for no errors.\<close>

definition errors_join :: "goerror list \<Rightarrow> goerror option" where
  "errors_join es = (if es = [] then None else Some (Joined es))"

text \<open>
  A stateful operation returns its outcome and the next state. \<open>try_io\<close> is Go's
  \<open>if err != nil { return err }\<close>: it continues with the value on success only.
\<close>

definition try_io :: "'a result \<times> 'w \<Rightarrow> ('a \<Rightarrow> 'w \<Rightarrow> 'b result \<times> 'w) \<Rightarrow> 'b result \<times> 'w" where
  "try_io r f = (case r of (Inl e, w) \<Rightarrow> (Inl e, w) | (Inr a, w) \<Rightarrow> f a w)"

lemma try_io_simps [simp, io_simps]:
  "try_io (Inl e, w) f = (Inl e, w)"
  "try_io (Inr a, w) f = f a w"
  by (simp_all add: try_io_def)

lemma try_io_Inr_iff:
  "try_io r f = (Inr b, w') \<longleftrightarrow> (\<exists>a w. r = (Inr a, w) \<and> f a w = (Inr b, w'))"
  by (auto simp: try_io_def split: prod.splits sum.splits)

lemma try_io_Inl_iff:
  "try_io r f = (Inl e, w') \<longleftrightarrow>
     r = (Inl e, w') \<or> (\<exists>a w. r = (Inr a, w) \<and> f a w = (Inl e, w'))"
  by (auto simp: try_io_def split: prod.splits sum.splits)

lemma try_io_invariant:
  assumes "P (snd r)" and "\<And>a w. r = (Inr a, w) \<Longrightarrow> P w \<Longrightarrow> P (snd (f a w))"
  shows "P (snd (try_io r f))"
  using assms by (cases r; cases "fst r") (auto simp: try_io_def)

text \<open>Trying the next alternative after an error; a panic ends the program.\<close>

definition or_next :: "'a result \<times> 'w \<Rightarrow> ('w \<Rightarrow> 'a result \<times> 'w) \<Rightarrow> 'a result \<times> 'w" where
  "or_next r f = (case r of
       (Inr a, w) \<Rightarrow> (Inr a, w)
     | (Inl (Panic s), w) \<Rightarrow> (Inl (Panic s), w)
     | (Inl e, w) \<Rightarrow> f w)"

abbreviation succeeded :: "'a result \<Rightarrow> bool" where
  "succeeded r \<equiv> \<not> isl r"

text \<open>A plain result without state, chained the same way.\<close>

definition try_res :: "'a result \<Rightarrow> ('a \<Rightarrow> 'b result) \<Rightarrow> 'b result" where
  "try_res r f = (case r of Inl e \<Rightarrow> Inl e | Inr a \<Rightarrow> f a)"

lemma try_res_simps [simp]:
  "try_res (Inl e) f = Inl e"
  "try_res (Inr a) f = f a"
  by (simp_all add: try_res_def)

section \<open>Stable sorting by a comparison function\<close>

fun insert_by :: "('a \<Rightarrow> 'a \<Rightarrow> bool) \<Rightarrow> 'a \<Rightarrow> 'a list \<Rightarrow> 'a list" where
  "insert_by lt x [] = [x]"
| "insert_by lt x (y # ys) =
     (if lt y x then y # insert_by lt x ys else x # y # ys)"

definition sort_by :: "('a \<Rightarrow> 'a \<Rightarrow> bool) \<Rightarrow> 'a list \<Rightarrow> 'a list" where
  "sort_by lt xs = foldr (insert_by lt) xs []"

lemma sort_by_simps [simp]:
  "sort_by lt [] = []"
  "sort_by lt (x # xs) = insert_by lt x (sort_by lt xs)"
  by (simp_all add: sort_by_def)

lemma mset_insert_by [simp]: "mset (insert_by lt x xs) = add_mset x (mset xs)"
  by (induction xs) auto

lemma mset_sort_by [simp]: "mset (sort_by lt xs) = mset xs"
  by (induction xs) auto

lemma set_insert_by [simp]: "set (insert_by lt x xs) = insert x (set xs)"
  by (induction xs) auto

lemma set_sort_by [simp]: "set (sort_by lt xs) = set xs"
  by (induction xs) auto

lemma length_sort_by [simp]: "length (sort_by lt xs) = length xs"
  using mset_sort_by [of lt xs] by (metis size_mset)

text \<open>
  What a comparison function passed to Go's sort package has to be. Under it the result
  of a stable sort is determined by its specification, so modelling \<open>sort.SliceStable\<close> by
  insertion sort loses nothing.
\<close>

locale strict_weak_order =
  fixes lt :: "'a \<Rightarrow> 'a \<Rightarrow> bool"
  assumes irrefl: "\<not> lt x x"
    and trans: "lt x y \<Longrightarrow> lt y z \<Longrightarrow> lt x z"
    and neg_trans: "lt x z \<Longrightarrow> lt x y \<or> lt y z"
begin

lemma asym: "lt x y \<Longrightarrow> \<not> lt y x"
  using irrefl trans by blast

abbreviation incomparable :: "'a \<Rightarrow> 'a \<Rightarrow> bool" where
  "incomparable x y \<equiv> \<not> lt x y \<and> \<not> lt y x"

lemma incomparable_trans: "incomparable x y \<Longrightarrow> incomparable y z \<Longrightarrow> incomparable x z"
  using neg_trans by blast

lemma sorted_insert_by:
  "sorted_wrt (\<lambda>a b. \<not> lt b a) xs \<Longrightarrow> sorted_wrt (\<lambda>a b. \<not> lt b a) (insert_by lt x xs)"
  by (induction xs) (auto dest: asym neg_trans)

lemma sorted_sort_by: "sorted_wrt (\<lambda>a b. \<not> lt b a) (sort_by lt xs)"
  by (induction xs) (auto intro: sorted_insert_by)

lemma filter_insert_by_other:
  "\<not> P x \<Longrightarrow> filter P (insert_by lt x xs) = filter P xs"
  by (induction xs) auto

lemma filter_insert_by_class:
  "incomparable c x \<Longrightarrow> filter (incomparable c) (insert_by lt x xs)
     = x # filter (incomparable c) xs"
proof (induction xs)
  case (Cons y ys)
  show ?case
  proof (cases "lt y x")
    case True
    with Cons.prems have "\<not> incomparable c y" using incomparable_trans by blast
    with True Cons show ?thesis by auto
  qed (use Cons in auto)
qed simp

lemma stable_sort_by: "filter (incomparable c) (sort_by lt xs) = filter (incomparable c) xs"
proof (induction xs)
  case (Cons x xs)
  then show ?case
    using filter_insert_by_other [of "incomparable c" x "sort_by lt xs"]
      filter_insert_by_class [of c x "sort_by lt xs"] by auto
qed simp

text \<open>Any sorted, stable rearrangement is the one \<^const>\<open>sort_by\<close> computes.\<close>

lemma stable_sort_unique:
  assumes "mset ys = mset xs" and "sorted_wrt (\<lambda>a b. \<not> lt b a) ys"
    and "sorted_wrt (\<lambda>a b. \<not> lt b a) xs"
    and "\<And>c. filter (incomparable c) ys = filter (incomparable c) xs"
  shows "ys = xs"
  using assms
proof (induction xs arbitrary: ys)
  case (Cons x xs)
  then obtain y ys' where ys: "ys = y # ys'" by (cases ys) auto
  have "y \<in> set (x # xs)" "x \<in> set (y # ys')"
    using Cons.prems(1) ys mset_eq_setD by (metis list.set_intros(1))+
  then have "incomparable x y"
    using Cons.prems(2,3) ys irrefl by auto
  with Cons.prems(4) [of x] ys have "y = x" using irrefl by auto
  moreover have "filter (incomparable c) ys' = filter (incomparable c) xs" for c
    using Cons.prems(4) [of c] \<open>y = x\<close> ys by (auto split: if_splits)
  ultimately show ?case using Cons ys by auto
qed simp

end

section \<open>Generic list lemmas\<close>

lemma join_append_sep:
  "xs \<noteq> [] \<Longrightarrow> ys \<noteq> [] \<Longrightarrow> join sep (xs @ ys) = join sep xs @ sep @ join sep ys"
proof (induction xs)
  case (Cons x xs)
  then show ?case by (cases xs; cases ys) auto
qed simp

lemma join_Cons: "xs \<noteq> [] \<Longrightarrow> join sep (x # xs) = x @ sep @ join sep xs"
  by (cases xs) auto

lemma takeWhile_append_stop:
  "\<forall>x\<in>set xs. P x \<Longrightarrow> \<not> P y \<Longrightarrow> takeWhile P (xs @ y # ys) = xs"
  by (induction xs) auto

lemma dropWhile_append_stop:
  "\<forall>x\<in>set xs. P x \<Longrightarrow> \<not> P y \<Longrightarrow> dropWhile P (xs @ y # ys) = y # ys"
  by (induction xs) auto

lemma takeWhile_all: "\<forall>x\<in>set xs. P x \<Longrightarrow> takeWhile P xs = xs"
  by (induction xs) auto

lemma dropWhile_all: "\<forall>x\<in>set xs. P x \<Longrightarrow> dropWhile P xs = []"
  by (induction xs) auto

text \<open>The last element satisfying \<open>P\<close>, as a loop without \<open>break\<close> leaves it.\<close>

definition find_last :: "('a \<Rightarrow> bool) \<Rightarrow> 'a list \<Rightarrow> 'a option" where
  "find_last P xs = List.find P (rev xs)"

lemma find_Some_iff2:
  "List.find P xs = Some x \<Longrightarrow> P x \<and> x \<in> set xs"
  by (induction xs) (auto split: if_splits)

lemma find_None_ball: "List.find P xs = None \<longleftrightarrow> (\<forall>x\<in>set xs. \<not> P x)"
  by (induction xs) auto

end
