(* ===== verification/GoStrings.thy ===== *)
theory GoStrings
  imports Prelude
begin

text \<open>
  The parts of Go's \<open>strings\<close>, \<open>strconv\<close>, \<open>bufio\<close> and \<open>path\<close> packages the repository
  calls, as functions on byte strings (\<^typ>\<open>string\<close> is a list of 8-bit characters, as a Go
  string is). White space is ASCII white space, which is what \<open>strings.Fields\<close> and
  \<open>strings.TrimSpace\<close> recognise in an ASCII text. The lemmas say how splitting undoes
  joining and how parsing a number undoes printing it.
\<close>

section \<open>Characters\<close>

definition is_space :: "char \<Rightarrow> bool" where
  "is_space c \<longleftrightarrow> c = CHR '' '' \<or> (9 \<le> (of_char c :: nat) \<and> (of_char c :: nat) \<le> 13)"

text \<open>\<open>unicode.IsSpace(rune(b))\<close> of a single byte also accepts U+0085 and U+00A0.\<close>

definition is_space_rune :: "char \<Rightarrow> bool" where
  "is_space_rune c \<longleftrightarrow> is_space c \<or> c = CHR 0x85 \<or> c = CHR 0xA0"

definition is_digit :: "char \<Rightarrow> bool" where
  "is_digit c \<longleftrightarrow> 48 \<le> (of_char c :: nat) \<and> (of_char c :: nat) \<le> 57"

definition digit_val :: "char \<Rightarrow> nat" where
  "digit_val c = of_char c - 48"

definition digit_char :: "nat \<Rightarrow> char" where
  "digit_char n = char_of (48 + n)"

lemma of_char_digit_char [simp]: "n < 10 \<Longrightarrow> of_char (digit_char n) = (48 + n :: nat)"
  by (simp add: digit_char_def)

lemma is_digit_digit_char [simp]: "n < 10 \<Longrightarrow> is_digit (digit_char n)"
  by (simp add: is_digit_def)

lemma digit_val_digit_char [simp]: "n < 10 \<Longrightarrow> digit_val (digit_char n) = n"
  by (simp add: digit_val_def)

lemma digit_not_space: "is_digit c \<Longrightarrow> \<not> is_space c"
  by (auto simp: is_digit_def is_space_def)

lemma digit_not_special:
  "is_digit c \<Longrightarrow> c \<noteq> CHR ''.'' \<and> c \<noteq> CHR '':'' \<and> c \<noteq> CHR ''/'' \<and> c \<noteq> CHR ''%'' \<and> c \<noteq> CHR '' ''
     \<and> c \<noteq> CHR ''-'' \<and> c \<noteq> CHR ''+''"
  by (auto simp: is_digit_def)

definition to_lower_char :: "char \<Rightarrow> char" where
  "to_lower_char c =
     (if 65 \<le> (of_char c :: nat) \<and> (of_char c :: nat) \<le> 90 then char_of (of_char c + 32 :: nat) else c)"

definition ToLower :: "string \<Rightarrow> string" where
  "ToLower s = map to_lower_char s"

definition EqualFold :: "string \<Rightarrow> string \<Rightarrow> bool" where
  "EqualFold a b \<longleftrightarrow> ToLower a = ToLower b"

section \<open>Prefixes, trimming, splitting\<close>

fun HasPrefix :: "string \<Rightarrow> string \<Rightarrow> bool" where
  "HasPrefix s [] = True"
| "HasPrefix [] (c # p) = False"
| "HasPrefix (d # s) (c # p) = (d = c \<and> HasPrefix s p)"

definition HasSuffix :: "string \<Rightarrow> string \<Rightarrow> bool" where
  "HasSuffix s p \<longleftrightarrow> HasPrefix (rev s) (rev p)"

lemma HasPrefix_append [simp]: "HasPrefix (p @ s) p"
  by (induction p) auto

lemma HasPrefix_iff: "HasPrefix s p \<longleftrightarrow> (\<exists>t. s = p @ t)"
  by (induction s p rule: HasPrefix.induct) auto

lemma HasSuffix_iff: "HasSuffix s p \<longleftrightarrow> (\<exists>t. s = t @ p)"
proof
  assume "HasSuffix s p"
  then obtain t where "rev s = rev p @ t" by (auto simp: HasSuffix_def HasPrefix_iff)
  then have "s = rev t @ p" by (metis rev_append rev_rev_ident)
  then show "\<exists>t. s = t @ p" by blast
qed (auto simp: HasSuffix_def)

definition TrimSpace :: "string \<Rightarrow> string" where
  "TrimSpace s = rev (dropWhile is_space (rev (dropWhile is_space s)))"

text \<open>\<open>strings.Fields\<close>: the maximal runs of non-space bytes.\<close>

function Fields :: "string \<Rightarrow> string list" where
  "Fields s =
     (case dropWhile is_space s of
        [] \<Rightarrow> []
      | c # t \<Rightarrow> (c # takeWhile (\<lambda>x. \<not> is_space x) t) # Fields (dropWhile (\<lambda>x. \<not> is_space x) t))"
  by pat_completeness auto
termination
proof (relation "measure length")
  fix s :: string and c t
  assume "dropWhile is_space s = c # t"
  then have "length (c # t) \<le> length s" by (metis length_dropWhile_le)
  moreover have "length (dropWhile (\<lambda>x. \<not> is_space x) t) \<le> length t" by (rule length_dropWhile_le)
  ultimately show "(dropWhile (\<lambda>x. \<not> is_space x) t, s) \<in> measure length" by simp
qed simp

declare Fields.simps [simp del]

lemma Fields_Nil [simp]: "Fields [] = []"
  by (simp add: Fields.simps)

lemma Fields_space [simp]: "is_space c \<Longrightarrow> Fields (c # s) = Fields s"
  by (subst Fields.simps, subst (2) Fields.simps) simp

definition is_word :: "string \<Rightarrow> bool" where
  "is_word w \<longleftrightarrow> w \<noteq> [] \<and> (\<forall>c\<in>set w. \<not> is_space c)"

lemma Fields_word: "is_word w \<Longrightarrow> Fields w = [w]"
  by (cases w) (simp_all add: Fields.simps [of "_ # _"] is_word_def takeWhile_all dropWhile_all)

lemma Fields_word_space:
  assumes "is_word w" and "is_space c"
  shows "Fields (w @ c # s) = w # Fields s"
proof -
  obtain d v where w: "w = d # v" using assms(1) by (cases w) (auto simp: is_word_def)
  have "Fields (d # v @ c # s) = (d # v) # Fields (c # s)"
    using assms w by (subst Fields.simps)
      (auto simp: is_word_def takeWhile_append_stop dropWhile_append_stop)
  with assms(2) w show ?thesis by simp
qed

lemma space_is_space [simp]: "is_space CHR '' ''"
  by (simp add: is_space_def)

lemma Fields_join:
  "\<forall>w\<in>set ws. is_word w \<Longrightarrow> Fields (join '' '' ws) = ws"
proof (induction ws)
  case (Cons w ws)
  then show ?case
    by (cases ws) (simp_all add: Fields_word Fields_word_space)
qed simp

lemma Fields_words: "w \<in> set (Fields s) \<Longrightarrow> is_word w"
proof (induction s rule: Fields.induct)
  case (1 s)
  show ?case
  proof (cases "dropWhile is_space s")
    case Nil
    with "1.prems" show ?thesis by (simp add: Fields.simps [of s])
  next
    case (Cons c t)
    then have "\<not> is_space c" by (simp add: dropWhile_eq_Cons_conv)
    then have "is_word (c # takeWhile (\<lambda>x. \<not> is_space x) t)"
      by (auto simp: is_word_def dest: set_takeWhileD)
    moreover from "1.prems" Cons have "w = c # takeWhile (\<lambda>x. \<not> is_space x) t
        \<or> w \<in> set (Fields (dropWhile (\<lambda>x. \<not> is_space x) t))"
      by (simp add: Fields.simps [of s])
    ultimately show ?thesis using "1.IH" [OF Cons] by blast
  qed
qed

text \<open>\<open>strings.Split(s, c)\<close> for a one-byte separator: never empty.\<close>

fun Split :: "char \<Rightarrow> string \<Rightarrow> string list" where
  "Split d [] = [[]]"
| "Split d (c # s) =
     (if c = d then [] # Split d s
      else case Split d s of [] \<Rightarrow> [[c]] | w # ws \<Rightarrow> (c # w) # ws)"

lemma Split_not_Nil [simp]: "Split d s \<noteq> []"
  by (cases s) (auto split: list.splits)

lemma Split_no_sep: "d \<notin> set s \<Longrightarrow> Split d s = [s]"
  by (induction s) auto

lemma Split_append_sep: "d \<notin> set w \<Longrightarrow> Split d (w @ d # s) = w # Split d s"
  by (induction w) auto

lemma Split_join:
  "ws \<noteq> [] \<Longrightarrow> \<forall>w\<in>set ws. d \<notin> set w \<Longrightarrow> Split d (join [d] ws) = ws"
proof (induction ws)
  case (Cons w ws)
  then show ?case
    by (cases ws) (simp_all add: Split_no_sep Split_append_sep)
qed simp

lemma join_Split: "join [d] (Split d s) = s"
proof (induction s)
  case (Cons c s)
  obtain w ws where "Split d s = w # ws" by (cases "Split d s") auto
  with Cons show ?case by (cases ws) auto
qed simp

text \<open>The part before the first occurrence of a byte, the whole string if there is none.\<close>

definition before :: "char \<Rightarrow> string \<Rightarrow> string" where
  "before c s = takeWhile (\<lambda>x. x \<noteq> c) s"

lemma before_id: "c \<notin> set s \<Longrightarrow> before c s = s"
  unfolding before_def by (rule takeWhile_all) auto

text \<open>\<open>strings.Cut(s, c)\<close>: the text around the first occurrence, and whether there is one.\<close>

definition Cut :: "char \<Rightarrow> string \<Rightarrow> (string \<times> string) option" where
  "Cut c s = (if c \<in> set s then Some (before c s, tl (dropWhile (\<lambda>x. x \<noteq> c) s)) else None)"

lemma Cut_append:
  assumes "c \<notin> set a"
  shows "Cut c (a @ c # b) = Some (a, b)"
proof -
  have "\<forall>x\<in>set a. x \<noteq> c" using assms by auto
  then show ?thesis
    by (simp add: Cut_def before_def takeWhile_append_stop dropWhile_append_stop)
qed

section \<open>Numbers\<close>

fun show_nat :: "nat \<Rightarrow> string" where
  "show_nat n = (if n < 10 then [digit_char n] else show_nat (n div 10) @ [digit_char (n mod 10)])"

declare show_nat.simps [simp del]

text \<open>\<open>strconv.Itoa\<close> and the verb \<open>%d\<close>.\<close>

definition Itoa :: "int \<Rightarrow> string" where
  "Itoa i = (if i < 0 then CHR ''-'' # show_nat (nat (- i)) else show_nat (nat i))"

definition digits_val :: "string \<Rightarrow> nat" where
  "digits_val s = foldl (\<lambda>n c. 10 * n + digit_val c) 0 s"

lemma show_nat_digits: "\<forall>c\<in>set (show_nat n). is_digit c"
proof (induction n rule: show_nat.induct)
  case (1 n)
  then show ?case by (cases "n < 10") (auto simp: show_nat.simps [of n])
qed

lemma Nil_not_show_nat [simp]: "[] \<noteq> show_nat n"
  by (simp add: show_nat.simps [of n])

lemma show_nat_not_Nil [simp]: "show_nat n \<noteq> []"
  by (simp add: show_nat.simps [of n])

lemma digits_val_snoc: "digits_val (s @ [c]) = 10 * digits_val s + digit_val c"
  by (simp add: digits_val_def)

lemma digits_val_show_nat [simp]: "digits_val (show_nat n) = n"
proof (induction n rule: show_nat.induct)
  case (1 n)
  then show ?case
    by (cases "n < 10") (simp_all add: show_nat.simps [of n] digits_val_snoc, simp add: digits_val_def)
qed

lemma show_nat_inj [simp]: "show_nat m = show_nat n \<longleftrightarrow> m = n"
  by (metis digits_val_show_nat)

lemma show_nat_no_leading_zero: "0 < n \<Longrightarrow> hd (show_nat n) \<noteq> CHR ''0''"
proof (induction n rule: show_nat.induct)
  case (1 n)
  show ?case
  proof (cases "n < 10")
    case True
    have "digit_char n \<noteq> CHR ''0''"
    proof
      assume "digit_char n = CHR ''0''"
      then have "digit_val (digit_char n) = digit_val CHR ''0''" by simp
      with True "1.prems" show False by (simp add: digit_val_def)
    qed
    with True show ?thesis by (simp add: show_nat.simps [of n])
  next
    case False
    with 1 show ?thesis by (simp add: show_nat.simps [of n])
  qed
qed

text \<open>
  \<open>strconv.Atoi\<close> on a 64-bit platform: an optional sign, at least one digit, nothing else,
  and the value in the range of \<open>int64\<close>.
\<close>

definition all_digits :: "string \<Rightarrow> bool" where
  "all_digits s \<longleftrightarrow> s \<noteq> [] \<and> (\<forall>c\<in>set s. is_digit c)"

definition parse_int64 :: "string \<Rightarrow> int option" where
  "parse_int64 s =
     (if all_digits s \<and> int (digits_val s) < 2 ^ 63 then Some (int (digits_val s)) else None)"

definition Atoi :: "string \<Rightarrow> int option" where
  "Atoi s = (case s of
       [] \<Rightarrow> None
     | c # t \<Rightarrow>
         if c = CHR ''-'' then
           (if all_digits t \<and> int (digits_val t) \<le> 2 ^ 63 then Some (- int (digits_val t)) else None)
         else if c = CHR ''+'' then parse_int64 t
         else parse_int64 s)"

lemma all_digits_show_nat [simp]: "all_digits (show_nat n)"
  by (simp add: all_digits_def show_nat_digits)

lemma Atoi_digits:
  assumes "all_digits s" and "int (digits_val s) < 2 ^ 63"
  shows "Atoi s = Some (int (digits_val s))"
proof -
  obtain c t where s: "s = c # t" using assms(1) by (cases s) (auto simp: all_digits_def)
  then have "is_digit c" using assms(1) by (simp add: all_digits_def)
  then have "c \<noteq> CHR ''-''" "c \<noteq> CHR ''+''" by (auto dest: digit_not_special)
  with assms s show ?thesis by (simp add: Atoi_def parse_int64_def)
qed

lemma Atoi_Itoa:
  assumes "- (2 ^ 63) \<le> i" and "i < 2 ^ 63"
  shows "Atoi (Itoa i) = Some i"
  using assms by (auto simp: Itoa_def Atoi_digits) (auto simp: Atoi_def)

lemma Itoa_word: "is_word (Itoa i)"
  using show_nat_digits by (auto simp: Itoa_def is_word_def dest: digit_not_space)
    (auto simp: is_space_def)

lemma is_word_show_nat [simp]: "is_word (show_nat n)"
  using show_nat_digits by (auto simp: is_word_def dest: digit_not_space)

lemma Itoa_not_Nil [simp]: "Itoa i \<noteq> []"
  by (simp add: Itoa_def)

section \<open>Lines\<close>

text \<open>
  \<open>bufio.Scanner\<close> with the default split function: lines end in a newline, one carriage
  return before it is dropped, an empty last line is not reported, and a line that does
  not fit the 64 KiB buffer ends the scan (the callers do not look at \<open>Err\<close>).
\<close>

definition newline :: char where
  "newline = CHR 0x0A"

definition raw_lines :: "string \<Rightarrow> string list" where
  "raw_lines s = (let ls = Split newline s in if last ls = [] then butlast ls else ls)"

definition drop_cr :: "string \<Rightarrow> string" where
  "drop_cr s = (if s \<noteq> [] \<and> last s = CHR 0x0D then butlast s else s)"

definition max_token :: nat where
  "max_token = 65536"

definition fits_buffer :: "string \<Rightarrow> bool" where
  "fits_buffer l \<longleftrightarrow> length l < max_token"

definition scan_lines :: "string \<Rightarrow> string list" where
  "scan_lines s = map drop_cr (takeWhile fits_buffer (raw_lines s))"

text \<open>To evaluate the test, a line is halved as often as the buffer's length can be.\<close>

fun halve :: "'a list \<Rightarrow> 'a list" where
  "halve (x # y # zs) = x # halve zs"
| "halve xs = []"

lemma length_halve: "length (halve xs) = length xs div 2"
  by (induction xs rule: halve.induct) auto

lemma length_halves: "length ((halve ^^ k) xs) = length xs div 2 ^ k"
  by (induction k) (auto simp: length_halve simp flip: div_mult2_eq simp: mult.commute)

lemma fits_buffer_code [code]: "fits_buffer l = ((halve ^^ 16) l = [])"
proof -
  have "(halve ^^ 16) l = [] \<longleftrightarrow> length l div 2 ^ 16 = 0"
    using length_halves [of 16 l] by (metis length_0_conv)
  then show ?thesis by (simp add: fits_buffer_def max_token_def div_eq_0_iff)
qed

text \<open>\<open>Scanner.Err\<close> after such a scan.\<close>

definition scan_error :: "string \<Rightarrow> goerror option" where
  "scan_error s = (if list_ex (\<lambda>l. \<not> fits_buffer l) (raw_lines s)
     then Some (Errorf ''bufio.Scanner: token too long'') else None)"

text \<open>Writing lines, each ended by a newline, and scanning them back.\<close>

definition unlines :: "string list \<Rightarrow> string" where
  "unlines ls = concat (map (\<lambda>l. l @ [newline]) ls)"

lemma unlines_simps [simp]:
  "unlines [] = []"
  "unlines (l # ls) = l @ newline # unlines ls"
  by (simp_all add: unlines_def)

lemma Split_unlines:
  "\<forall>l\<in>set ls. newline \<notin> set l \<Longrightarrow> Split newline (unlines ls) = ls @ [[]]"
  by (induction ls) (auto simp: Split_append_sep)

definition scannable :: "string \<Rightarrow> bool" where
  "scannable l \<longleftrightarrow> newline \<notin> set l \<and> length l < max_token \<and> (l \<noteq> [] \<longrightarrow> last l \<noteq> CHR 0x0D)"

lemma scan_unlines: "\<forall>l\<in>set ls. scannable l \<Longrightarrow> scan_lines (unlines ls) = ls"
proof -
  assume a: "\<forall>l\<in>set ls. scannable l"
  then have "raw_lines (unlines ls) = ls"
    by (simp add: raw_lines_def Split_unlines scannable_def)
  moreover have "map drop_cr ls = ls"
    using a by (intro map_idI) (auto simp: scannable_def drop_cr_def)
  ultimately show ?thesis
    using a by (simp add: scan_lines_def takeWhile_all scannable_def fits_buffer_def)
qed

section \<open>Blank text\<close>

lemma TrimSpace_Nil_iff: "TrimSpace s = [] \<longleftrightarrow> (\<forall>c\<in>set s. is_space c)"
proof
  assume a: "TrimSpace s = []"
  show "\<forall>c\<in>set s. is_space c"
  proof (cases "dropWhile is_space s")
    case Nil
    then show ?thesis by (metis dropWhile_eq_Nil_conv)
  next
    case (Cons c t)
    have "\<forall>x\<in>set (rev (dropWhile is_space s)). is_space x"
      using a by (simp add: TrimSpace_def del: set_rev)
    then have "is_space c" using Cons by simp
    moreover have "\<not> is_space c" using Cons hd_dropWhile [of is_space s] by simp
    ultimately show ?thesis by blast
  qed
qed (simp add: TrimSpace_def dropWhile_all)

lemma Fields_dropWhile: "Fields (dropWhile is_space s) = Fields s"
  by (induction s) auto

lemma Fields_all_space: "\<forall>c\<in>set s. is_space c \<Longrightarrow> Fields s = []"
  by (induction s) auto

lemma Fields_append_space: "\<forall>c\<in>set t. is_space c \<Longrightarrow> Fields (s @ t) = Fields s"
proof (induction s rule: Fields.induct)
  case (1 s)
  show ?case
  proof (cases "dropWhile is_space s")
    case Nil
    then have "\<forall>c\<in>set (s @ t). is_space c" using "1.prems" by (auto simp: dropWhile_eq_Nil_conv)
    moreover have "\<forall>c\<in>set s. is_space c" using Nil by (simp add: dropWhile_eq_Nil_conv)
    ultimately show ?thesis by (simp add: Fields_all_space)
  next
    case (Cons c u)
    let ?ns = "\<lambda>x. \<not> is_space x"
    have d: "dropWhile is_space (s @ t) = c # u @ t"
      using Cons dropWhile_eq_Nil_conv [of is_space s] by (auto simp: dropWhile_append)
    have tw: "takeWhile ?ns (u @ t) = takeWhile ?ns u"
      using "1.prems" by (cases t) (auto simp: takeWhile_append takeWhile_all)
    have dw: "Fields (dropWhile ?ns (u @ t)) = Fields (dropWhile ?ns u @ t)"
    proof (cases "\<forall>x\<in>set u. ?ns x")
      case True
      then have "dropWhile ?ns (u @ t) = dropWhile ?ns t" and du: "dropWhile ?ns u = []"
        using dropWhile_all [of u ?ns] by (simp_all add: dropWhile_append)
      moreover have "dropWhile ?ns t = t" using "1.prems" by (cases t) auto
      ultimately show ?thesis by (simp add: du)
    next
      case False
      then show ?thesis by (auto simp: dropWhile_append)
    qed
    have s: "Fields s = (c # takeWhile ?ns u) # Fields (dropWhile ?ns u)"
      using Cons by (subst Fields.simps) simp
    have st: "Fields (s @ t) = (c # takeWhile ?ns (u @ t)) # Fields (dropWhile ?ns (u @ t))"
      using d by (subst Fields.simps) simp
    show ?thesis
      unfolding s st tw dw using "1.IH" [OF Cons] "1.prems" by simp
  qed
qed

lemma Fields_TrimSpace [simp]: "Fields (TrimSpace s) = Fields s"
proof -
  let ?d = "dropWhile is_space s"
  have "?d = TrimSpace s @ rev (takeWhile is_space (rev ?d))"
    unfolding TrimSpace_def by (metis rev_append rev_rev_ident takeWhile_dropWhile_id)
  moreover have "\<forall>c\<in>set (rev (takeWhile is_space (rev ?d))). is_space c"
    by (auto dest: set_takeWhileD)
  ultimately have "Fields ?d = Fields (TrimSpace s)" by (metis Fields_append_space)
  then show ?thesis by (simp add: Fields_dropWhile)
qed

lemma Fields_Nil_iff: "Fields s = [] \<longleftrightarrow> (\<forall>c\<in>set s. is_space c)"
proof
  assume "Fields s = []"
  then show "\<forall>c\<in>set s. is_space c"
    by (subst (asm) Fields.simps) (auto simp: dropWhile_eq_Nil_conv split: list.splits)
qed (rule Fields_all_space)

end
