(* ===== verification/OS.thy ===== *)
theory OS
  imports GoStrings "HOL-Library.AList"
begin

text \<open>
  The operating system as the program sees it through Go's \<open>os\<close>, \<open>path\<close>, \<open>os/exec\<close> and
  \<open>time\<close> packages: a file store, a clock, subprocesses, and the log. The environment is
  adversarial: every system call may fail (\<open>w_fault\<close> says which call fails and how, and
  how many bytes a failing write had written), every clock reading and every subprocess
  outcome is arbitrary. Theorems are about all such environments, so the error paths of
  the program are reachable.
\<close>

section \<open>Paths\<close>

definition clean_step :: "bool \<Rightarrow> string list \<Rightarrow> string \<Rightarrow> string list" where
  "clean_step rooted st c =
     (if c = ''..'' then
        (if st \<noteq> [] \<and> last st \<noteq> ''..'' then butlast st else if rooted then st else st @ [c])
      else st @ [c])"

text \<open>\<open>path.Clean\<close>: no empty or dot elements, parents resolved, no trailing slash.\<close>

definition path_clean :: "string \<Rightarrow> string" where
  "path_clean p =
     (let rooted = HasPrefix p ''/'';
          cs = filter (\<lambda>c. c \<noteq> [] \<and> c \<noteq> ''.'') (Split CHR ''/'' p);
          st = foldl (clean_step rooted) [] cs;
          body = (if rooted then ''/'' else []) @ join ''/'' st
      in if body = [] then ''.'' else body)"

definition path_join :: "string \<Rightarrow> string \<Rightarrow> string" where
  "path_join d n =
     (if d = [] \<and> n = [] then [] else if d = [] then path_clean n
      else if n = [] then path_clean d else path_clean (d @ ''/'' @ n))"

text \<open>\<open>filepath.Join\<close> of several elements.\<close>

definition path_joins :: "string list \<Rightarrow> string" where
  "path_joins es = (let ne = filter (\<lambda>e. e \<noteq> []) es in if ne = [] then [] else path_clean (join ''/'' ne))"

text \<open>\<open>path.Split\<close>: up to and including the last slash, and the rest.\<close>

definition path_split :: "string \<Rightarrow> string \<times> string" where
  "path_split p = (rev (dropWhile (\<lambda>c. c \<noteq> CHR ''/'') (rev p)), rev (takeWhile (\<lambda>c. c \<noteq> CHR ''/'') (rev p)))"

definition path_base :: "string \<Rightarrow> string" where
  "path_base p =
     (if p = [] then ''.''
      else let t = rev (dropWhile (\<lambda>c. c = CHR ''/'') (rev p)) in
        if t = [] then ''/'' else snd (path_split t))"

text \<open>File names and directories for which \<open>path.Join\<close> is plain concatenation.\<close>

definition file_name :: "string \<Rightarrow> bool" where
  "file_name n \<longleftrightarrow> n \<noteq> [] \<and> n \<noteq> ''.'' \<and> n \<noteq> ''..'' \<and> CHR ''/'' \<notin> set n"

definition abs_dir :: "string \<Rightarrow> bool" where
  "abs_dir d \<longleftrightarrow> (\<exists>cs. cs \<noteq> [] \<and> (\<forall>c\<in>set cs. file_name c) \<and> d = CHR ''/'' # join ''/'' cs)"

lemma foldl_clean_names:
  "\<forall>c\<in>set cs. file_name c \<Longrightarrow> foldl (clean_step r) st cs = st @ cs"
  by (induction cs arbitrary: st) (auto simp: clean_step_def file_name_def)

lemma path_join_name:
  assumes "abs_dir d" and "file_name n"
  shows "path_join d n = d @ ''/'' @ n"
proof -
  obtain cs where cs: "cs \<noteq> []" "\<forall>c\<in>set cs. file_name c" "d = CHR ''/'' # join ''/'' cs"
    using assms(1) by (auto simp: abs_dir_def)
  have all: "\<forall>c\<in>set (cs @ [n]). file_name c" using cs(2) assms(2) by simp
  have dn: "d @ ''/'' @ n = CHR ''/'' # join ''/'' (cs @ [n])"
    using cs by (simp add: join_append_sep)
  have "Split CHR ''/'' (join ''/'' (cs @ [n])) = cs @ [n]"
    using all by (intro Split_join) (auto simp: file_name_def)
  then have "filter (\<lambda>c. c \<noteq> [] \<and> c \<noteq> ''.'') (Split CHR ''/'' (d @ ''/'' @ n)) = cs @ [n]"
    unfolding dn using all by (auto simp: file_name_def filter_id_conv)
  moreover have "HasPrefix (d @ ''/'' @ n) ''/''" by (simp add: cs(3))
  ultimately have "path_clean (d @ ''/'' @ n) = CHR ''/'' # join ''/'' (cs @ [n])"
    using foldl_clean_names [OF all] by (simp add: path_clean_def)
  then show ?thesis
    using dn cs assms(2) by (simp add: path_join_def file_name_def)
qed

lemma path_join_inj:
  "abs_dir d \<Longrightarrow> file_name m \<Longrightarrow> file_name n \<Longrightarrow> path_join d m = path_join d n \<longleftrightarrow> m = n"
  by (simp add: path_join_name)

lemma abs_dir_code [code]:
  "abs_dir d \<longleftrightarrow> (case d of [] \<Rightarrow> False | c # r \<Rightarrow> c = CHR ''/'' \<and> list_all file_name (Split CHR ''/'' r))"
proof
  assume "abs_dir d"
  then obtain cs where cs: "cs \<noteq> []" "\<forall>c\<in>set cs. file_name c" "d = CHR ''/'' # join ''/'' cs"
    by (auto simp: abs_dir_def)
  then have "Split CHR ''/'' (join ''/'' cs) = cs"
    by (intro Split_join) (auto simp: file_name_def)
  with cs show "case d of [] \<Rightarrow> False | c # r \<Rightarrow> c = CHR ''/'' \<and> list_all file_name (Split CHR ''/'' r)"
    by (simp add: list_all_iff)
next
  assume "case d of [] \<Rightarrow> False | c # r \<Rightarrow> c = CHR ''/'' \<and> list_all file_name (Split CHR ''/'' r)"
  then obtain r where r: "d = CHR ''/'' # r" "\<forall>c\<in>set (Split CHR ''/'' r). file_name c"
    by (auto simp: list_all_iff split: list.splits)
  then show "abs_dir d"
    unfolding abs_dir_def by (intro exI [of _ "Split CHR ''/'' r"]) (simp add: join_Split)
qed

section \<open>The world\<close>

datatype node =
    File string nat nat  \<comment> \<open>content, mode, modification time\<close>
  | Dir
  | Symlink string

type_synonym store = "(string \<times> node) list"

record proc_result =
  pr_start :: "goerror option"   \<comment> \<open>failing to set up or start the process\<close>
  pr_stdout :: string
  pr_stderr :: string
  pr_wait :: "goerror option"    \<comment> \<open>non-zero exit, or killed by the context\<close>
  pr_store :: store              \<comment> \<open>the files after it ran\<close>

record world =
  w_fs :: store
  w_tick :: nat
  w_fault :: "nat \<Rightarrow> (errno \<times> nat) option"
  w_clock :: "nat \<Rightarrow> nat"
  w_exec :: "nat \<Rightarrow> string list \<Rightarrow> store \<Rightarrow> proc_result"
  w_trace :: "string list list"  \<comment> \<open>the commands run so far\<close>
  w_log :: "string list"
  w_path :: "string list"        \<comment> \<open>the directories of the PATH variable\<close>

definition fs_get :: "world \<Rightarrow> string \<Rightarrow> node option" where
  "fs_get w p = map_of (w_fs w) p"

definition fs_put :: "string \<Rightarrow> node \<Rightarrow> world \<Rightarrow> world" where
  "fs_put p n w = w\<lparr>w_fs := AList.update p n (w_fs w)\<rparr>"

definition fs_del :: "string \<Rightarrow> world \<Rightarrow> world" where
  "fs_del p w = w\<lparr>w_fs := AList.delete p (w_fs w)\<rparr>"

definition tick :: "world \<Rightarrow> world" where
  "tick w = w\<lparr>w_tick := Suc (w_tick w)\<rparr>"

definition fault :: "world \<Rightarrow> (errno \<times> nat) option" where
  "fault w = w_fault w (w_tick w)"

definition now :: "world \<Rightarrow> nat" where
  "now w = w_clock w (w_tick w)"

definition log_print :: "string \<Rightarrow> world \<Rightarrow> world" where
  "log_print s w = w\<lparr>w_log := w_log w @ [s]\<rparr>"

definition content_of :: "world \<Rightarrow> string \<Rightarrow> string option" where
  "content_of w p = (case fs_get w p of Some (File c m t) \<Rightarrow> Some c | _ \<Rightarrow> None)"

lemma fs_get_put [simp]: "fs_get (fs_put p n w) q = (if q = p then Some n else fs_get w q)"
  by (simp add: fs_get_def fs_put_def update_conv')

lemma fs_get_del [simp]: "fs_get (fs_del p w) q = (if q = p then None else fs_get w q)"
  by (simp add: fs_get_def fs_del_def delete_conv')

lemma fs_get_tick [simp]: "fs_get (tick w) q = fs_get w q"
  by (simp add: fs_get_def tick_def)

lemma fs_get_log [simp]: "fs_get (log_print s w) q = fs_get w q"
  by (simp add: fs_get_def log_print_def)

lemma content_of_put [simp]:
  "content_of (fs_put p (File c m t) w) q = (if q = p then Some c else content_of w q)"
  by (simp add: content_of_def)

lemma content_of_del [simp]: "content_of (fs_del p w) q = (if q = p then None else content_of w q)"
  by (simp add: content_of_def)

lemma content_of_tick [simp]: "content_of (tick w) q = content_of w q"
  by (simp add: content_of_def)

lemma content_of_log [simp]: "content_of (log_print s w) q = content_of w q"
  by (simp add: content_of_def)

lemma world_fault_simps [simp]:
  "w_fault (tick w) = w_fault w" "w_fault (fs_put p n w) = w_fault w"
  "w_fault (fs_del p w) = w_fault w" "w_fault (log_print s w) = w_fault w"
  by (simp_all add: tick_def fs_put_def fs_del_def log_print_def)

section \<open>System calls\<close>

definition path_error :: "string \<Rightarrow> string \<Rightarrow> errno \<Rightarrow> goerror" where
  "path_error op p e = Wrap (op @ '' '' @ p) (Errno e)"

lemma errors_is_path_error [simp]: "errors_is (path_error op p e) n = (e = n)"
  by (simp add: path_error_def)

text \<open>
  A call takes one tick; if it does not fail, \<open>ok\<close> runs on the world after the tick. The
  text of the error names the call and the path, as \<open>os.PathError\<close> does.
\<close>

definition syscall ::
  "string \<Rightarrow> string \<Rightarrow> (world \<Rightarrow> 'a result \<times> world) \<Rightarrow> world \<Rightarrow> 'a result \<times> world" where
  "syscall op p ok w = (case fault w of
       Some (e, k) \<Rightarrow> (Inl (path_error op p e), tick w)
     | None \<Rightarrow> ok (tick w))"

text \<open>Symbolic links are followed at most 40 times, as Linux does.\<close>

fun follow :: "nat \<Rightarrow> world \<Rightarrow> string \<Rightarrow> string option" where
  "follow 0 w p = None"
| "follow (Suc n) w p = (case fs_get w p of Some (Symlink t) \<Rightarrow> follow n w t | _ \<Rightarrow> Some p)"

definition resolve :: "world \<Rightarrow> string \<Rightarrow> string" where
  "resolve w p = (case follow 40 w p of None \<Rightarrow> p | Some q \<Rightarrow> q)"

record finfo =
  fi_mode :: nat
  fi_mtime :: nat
  fi_dir :: bool
  fi_link :: bool

definition node_info :: "node \<Rightarrow> finfo" where
  "node_info n = (case n of
       File c m t \<Rightarrow> \<lparr>fi_mode = m, fi_mtime = t, fi_dir = False, fi_link = False\<rparr>
     | Dir \<Rightarrow> \<lparr>fi_mode = 493, fi_mtime = 0, fi_dir = True, fi_link = False\<rparr>
     | Symlink t \<Rightarrow> \<lparr>fi_mode = 511, fi_mtime = 0, fi_dir = False, fi_link = True\<rparr>)"

definition os_Lstat :: "string \<Rightarrow> world \<Rightarrow> finfo result \<times> world" where
  "os_Lstat p = syscall ''lstat'' p (\<lambda>w. case fs_get w p of
       None \<Rightarrow> (Inl (path_error ''lstat'' p ENOENT), w)
     | Some n \<Rightarrow> (Inr (node_info n), w))"

definition os_Stat :: "string \<Rightarrow> world \<Rightarrow> finfo result \<times> world" where
  "os_Stat p = syscall ''stat'' p (\<lambda>w. case fs_get w (resolve w p) of
       None \<Rightarrow> (Inl (path_error ''stat'' p ENOENT), w)
     | Some n \<Rightarrow> (Inr (node_info n), w))"

definition os_ReadFile :: "string \<Rightarrow> world \<Rightarrow> string result \<times> world" where
  "os_ReadFile p = syscall ''open'' p (\<lambda>w. case fs_get w (resolve w p) of
       Some (File c m t) \<Rightarrow> (Inr c, w)
     | Some Dir \<Rightarrow> (Inl (path_error ''read'' p EISDIR), w)
     | _ \<Rightarrow> (Inl (path_error ''open'' p ENOENT), w))"

text \<open>\<open>os.IsNotExist\<close> of the error of a call.\<close>

definition is_not_exist :: "'a result \<Rightarrow> bool" where
  "is_not_exist r = (case r of Inl e \<Rightarrow> errors_is e ENOENT | Inr a \<Rightarrow> False)"

text \<open>
  Opening for writing with \<open>O_CREATE\<close>, with or without \<open>O_TRUNC\<close>. The descriptor is the
  resolved path; a new file is empty. The process umask is taken to be zero.
\<close>

definition os_open_write :: "bool \<Rightarrow> string \<Rightarrow> nat \<Rightarrow> world \<Rightarrow> string result \<times> world" where
  "os_open_write trunc p perm = syscall ''open'' p (\<lambda>w. let q = resolve w p in
     case fs_get w q of
       Some Dir \<Rightarrow> (Inl (path_error ''open'' p EISDIR), w)
     | Some (File c m t) \<Rightarrow> (Inr q, if trunc then fs_put q (File [] m (now w)) w else w)
     | _ \<Rightarrow> (Inr q, fs_put q (File [] perm (now w)) w))"

text \<open>
  Writing at the start of an open file: bytes beyond the new text survive. All the writes
  on one descriptor are one call here; a failing one has written a prefix of the text.
\<close>

definition overlay :: "string \<Rightarrow> string \<Rightarrow> string" where
  "overlay old new = new @ drop (length new) old"

definition write_at :: "string \<Rightarrow> string \<Rightarrow> world \<Rightarrow> world" where
  "write_at q d w = (case fs_get w q of
       Some (File c m t) \<Rightarrow> fs_put q (File (overlay c d) m (now w)) w
     | _ \<Rightarrow> w)"

definition fd_write :: "string \<Rightarrow> string \<Rightarrow> world \<Rightarrow> unit result \<times> world" where
  "fd_write q d w = (case fault w of
       Some (e, k) \<Rightarrow> (Inl (path_error ''write'' q e), write_at q (take k d) (tick w))
     | None \<Rightarrow> (Inr (), write_at q d (tick w)))"

text \<open>
  Reading an open file to its end by a scanner nobody asks for an error: a failing read
  is indistinguishable from the end of the file.
\<close>

definition fd_read :: "string \<Rightarrow> world \<Rightarrow> string \<times> world" where
  "fd_read q w =
     (let c = (case content_of w q of Some c \<Rightarrow> c | None \<Rightarrow> []) in
      case fault w of Some (e, k) \<Rightarrow> (take k c, tick w) | None \<Rightarrow> (c, tick w))"

text \<open>A sequence of writes on one descriptor whose errors nobody looks at.\<close>

definition write_from :: "string \<Rightarrow> nat \<Rightarrow> string \<Rightarrow> world \<Rightarrow> world" where
  "write_from q pos d w = (case fs_get w q of
       Some (File c m t) \<Rightarrow> fs_put q (File (take pos c @ overlay (drop pos c) d) m (now w)) w
     | _ \<Rightarrow> w)"

fun fd_prints :: "string \<Rightarrow> nat \<Rightarrow> string list \<Rightarrow> world \<Rightarrow> world" where
  "fd_prints q pos [] w = w"
| "fd_prints q pos (d # ds) w = (case fault w of
       Some (e, k) \<Rightarrow> fd_prints q (pos + min k (length d)) ds (write_from q pos (take k d) (tick w))
     | None \<Rightarrow> fd_prints q (pos + length d) ds (write_from q pos d (tick w)))"

definition os_WriteFile :: "string \<Rightarrow> string \<Rightarrow> nat \<Rightarrow> world \<Rightarrow> unit result \<times> world" where
  "os_WriteFile p d perm w = try_io (os_open_write True p perm w) (\<lambda>q w. fd_write q d w)"

definition os_Rename :: "string \<Rightarrow> string \<Rightarrow> world \<Rightarrow> unit result \<times> world" where
  "os_Rename a b = syscall ''rename'' a (\<lambda>w. case fs_get w a of
       None \<Rightarrow> (Inl (path_error ''rename'' a ENOENT), w)
     | Some n \<Rightarrow>
         if a = b then (Inr (), w)
         else if fs_get w b = Some Dir then (Inl (path_error ''rename'' a EEXIST), w)
         else (Inr (), fs_put b n (fs_del a w)))"

definition children :: "world \<Rightarrow> string \<Rightarrow> string list" where
  "children w d = filter file_name
     (map (\<lambda>p. drop (length d + 1) p) (filter (\<lambda>p. HasPrefix p (d @ ''/'')) (map fst (w_fs w))))"

definition os_Remove :: "string \<Rightarrow> world \<Rightarrow> unit result \<times> world" where
  "os_Remove p = syscall ''remove'' p (\<lambda>w. case fs_get w p of
       None \<Rightarrow> (Inl (path_error ''remove'' p ENOENT), w)
     | Some n \<Rightarrow>
         if n = Dir \<and> children w p \<noteq> [] then (Inl (path_error ''remove'' p EEXIST), w)
         else (Inr (), fs_del p w))"

definition os_Chmod :: "string \<Rightarrow> nat \<Rightarrow> world \<Rightarrow> unit result \<times> world" where
  "os_Chmod p m = syscall ''chmod'' p (\<lambda>w. let q = resolve w p in case fs_get w q of
       Some (File c m' t) \<Rightarrow> (Inr (), fs_put q (File c m t) w)
     | Some n \<Rightarrow> (Inr (), w)
     | None \<Rightarrow> (Inl (path_error ''chmod'' p ENOENT), w))"

definition os_Mkdir :: "string \<Rightarrow> world \<Rightarrow> unit result \<times> world" where
  "os_Mkdir p = syscall ''mkdir'' p (\<lambda>w. case fs_get w p of
       Some n \<Rightarrow> (Inl (path_error ''mkdir'' p EEXIST), w)
     | None \<Rightarrow> (Inr (), fs_put p Dir w))"

text \<open>\<open>os.ReadDir\<close>: the entries by name, each with its kind (the node itself).\<close>

record dirent =
  de_name :: string
  de_info :: finfo

definition os_ReadDir :: "string \<Rightarrow> world \<Rightarrow> dirent list result \<times> world" where
  "os_ReadDir d = syscall ''open'' d (\<lambda>w. case fs_get w (resolve w d) of
       Some Dir \<Rightarrow> (let r = resolve w d in
         (Inr (map (\<lambda>n. \<lparr>de_name = n, de_info = node_info (the (fs_get w (r @ ''/'' @ n)))\<rparr>)
           (sort (remdups (children w r)))), w))
     | Some n \<Rightarrow> (Inl (path_error ''open'' d ENOTDIR), w)
     | None \<Rightarrow> (Inl (path_error ''open'' d ENOENT), w))"

text \<open>The nanosecond clock; reading it takes a tick.\<close>

definition UnixNano :: "world \<Rightarrow> nat \<times> world" where
  "UnixNano w = (now w, tick w)"

section \<open>Files the calls leave alone\<close>

lemma syscall_cases:
  assumes "syscall op p ok w = (r, w')"
  obtains (Fault) e where "r = Inl (path_error op p e)" "w' = tick w"
  | (Ok) "ok (tick w) = (r, w')"
  using assms by (auto simp: syscall_def split: option.splits)

lemma os_Rename_cases:
  assumes "os_Rename a b w = (r, w')"
  obtains (Error) e where "r = Inl e" "w' = tick w"
  | (Same) "r = Inr ()" "a = b" "w' = tick w" "fs_get w a \<noteq> None"
  | (Moved) n where "r = Inr ()" "a \<noteq> b" "fs_get w a = Some n" "w' = fs_put b n (fs_del a (tick w))"
  using assms unfolding os_Rename_def
  by (auto elim!: syscall_cases split: option.splits if_splits)

lemma os_Remove_cases:
  assumes "os_Remove p w = (r, w')"
  obtains (Error) e where "r = Inl e" "w' = tick w"
  | (Removed) "r = Inr ()" "w' = fs_del p (tick w)"
  using assms unfolding os_Remove_def
  by (auto elim!: syscall_cases split: option.splits if_splits)

lemma os_Remove_frame: "os_Remove p w = (r, w') \<Longrightarrow> q \<noteq> p \<Longrightarrow> fs_get w' q = fs_get w q"
  by (auto elim!: os_Remove_cases)

lemma os_Rename_frame:
  "os_Rename a b w = (r, w') \<Longrightarrow> q \<noteq> a \<Longrightarrow> q \<noteq> b \<Longrightarrow> fs_get w' q = fs_get w q"
  by (auto elim!: os_Rename_cases)

lemma os_Lstat_frame: "os_Lstat p w = (r, w') \<Longrightarrow> fs_get w' q = fs_get w q"
  unfolding os_Lstat_def by (auto elim!: syscall_cases split: option.splits)

lemma os_Stat_frame: "os_Stat p w = (r, w') \<Longrightarrow> fs_get w' q = fs_get w q"
  unfolding os_Stat_def by (auto elim!: syscall_cases split: option.splits)

lemma os_ReadFile_frame: "os_ReadFile p w = (r, w') \<Longrightarrow> fs_get w' q = fs_get w q"
  unfolding os_ReadFile_def by (auto elim!: syscall_cases split: option.splits node.splits)

lemma os_ReadDir_frame: "os_ReadDir p w = (r, w') \<Longrightarrow> fs_get w' q = fs_get w q"
  unfolding os_ReadDir_def
  by (auto elim!: syscall_cases simp: Let_def split: option.splits node.splits)

lemma write_at_frame: "q \<noteq> p \<Longrightarrow> fs_get (write_at p d w) q = fs_get w q"
  by (simp add: write_at_def split: option.splits node.splits)

lemma fd_write_frame: "fd_write p d w = (r, w') \<Longrightarrow> q \<noteq> p \<Longrightarrow> fs_get w' q = fs_get w q"
  by (auto simp: fd_write_def write_at_frame split: option.splits)

text \<open>Opening a path that is not a symbolic link yields that path.\<close>

definition no_link :: "world \<Rightarrow> string \<Rightarrow> bool" where
  "no_link w p \<longleftrightarrow> (\<forall>t. fs_get w p \<noteq> Some (Symlink t))"

lemma no_link_code [code]:
  "no_link w p = (case fs_get w p of Some (Symlink t) \<Rightarrow> False | _ \<Rightarrow> True)"
  by (auto simp: no_link_def split: option.splits node.splits)

lemma resolve_no_link: "no_link w p \<Longrightarrow> resolve w p = p"
  by (auto simp: no_link_def resolve_def numeral_eq_Suc split: option.splits node.splits)

lemma no_link_tick [simp]: "no_link (tick w) p = no_link w p"
  by (simp add: no_link_def)

lemma os_open_write_frame:
  assumes "os_open_write tr p perm w = (r, w')" and "no_link w p" and "q \<noteq> p"
  shows "fs_get w' q = fs_get w q"
  using assms(1) unfolding os_open_write_def
  by (rule syscall_cases)
    (use assms(2,3) in \<open>auto simp: resolve_no_link Let_def split: option.splits node.splits if_splits\<close>)

lemma os_open_write_path:
  assumes "os_open_write tr p perm w = (Inr q, w')" and "no_link w p"
  shows "q = p \<and> (\<exists>c m t. fs_get w' p = Some (File c m t) \<and> (tr \<or> fs_get w p = None \<longrightarrow> c = []))"
  using assms(1) unfolding os_open_write_def
  by (rule syscall_cases)
    (use assms(2) in \<open>auto simp: resolve_no_link no_link_def Let_def split: option.splits node.splits if_splits\<close>)

section \<open>Subprocesses\<close>

definition exec_command :: "string list \<Rightarrow> world \<Rightarrow> proc_result \<times> world" where
  "exec_command argv w =
     (let r = w_exec w (w_tick w) argv (w_fs w) in
      (r, if pr_start r \<noteq> None then tick w
          else (tick w)\<lparr>w_fs := pr_store r, w_trace := w_trace w @ [argv]\<rparr>))"

text \<open>
  \<open>exec.LookPath\<close> of a name without a slash: some directory of the search path has a file
  of that name that is executable (the program runs as root, so any execute bit will do).
\<close>

definition executable :: "finfo \<Rightarrow> bool" where
  "executable i \<longleftrightarrow> \<not> fi_dir i \<and>
     (fi_mode i mod 2 = 1 \<or> fi_mode i div 8 mod 2 = 1 \<or> fi_mode i div 64 mod 2 = 1)"

fun look_path :: "string list \<Rightarrow> string \<Rightarrow> world \<Rightarrow> bool \<times> world" where
  "look_path [] name w = (False, w)"
| "look_path (d # ds) name w = (case os_Stat (path_join d name) w of
       (Inr i, w') \<Rightarrow> if executable i then (True, w') else look_path ds name w'
     | (Inl e, w') \<Rightarrow> look_path ds name w')"

definition exec_LookPath :: "string \<Rightarrow> world \<Rightarrow> bool \<times> world" where
  "exec_LookPath name w = look_path (w_path w) name w"

section \<open>A world to evaluate in\<close>

text \<open>The given files, a clock that advances by one, no faults, and commands that succeed silently.\<close>

definition mk_world :: "store \<Rightarrow> world" where
  "mk_world fs = \<lparr>w_fs = fs, w_tick = 0, w_fault = (\<lambda>t. None), w_clock = (\<lambda>t. t),
     w_exec = (\<lambda>t argv st. \<lparr>pr_start = None, pr_stdout = [], pr_stderr = [], pr_wait = None, pr_store = st\<rparr>),
     w_trace = [], w_log = [], w_path = [''/usr/bin'']\<rparr>"

end
