(* ===== verification/GoNet.thy ===== *)
theory GoNet
  imports GoStrings "HOL-Library.Word"
begin

text \<open>
  The parts of Go's \<open>net\<close> package the repository uses, byte for byte: addresses are lists
  of bytes (nil is the empty list), an \<open>IPNet\<close> is an address with a mask. Parsing and
  printing are modelled for both families (\<open>net.ParseIP\<close>, \<open>net.ParseCIDR\<close>,
  \<open>IP.String\<close>, \<open>IPNet.String\<close>, with the zero-run compression of IPv6 text), and the main
  lemmas are the round trips the configuration backends rely on: parsing what was printed
  gives the address back.
\<close>

unbundle bit_operations_syntax

type_synonym byte = "8 word"
type_synonym ip = "byte list"
type_synonym ipmask = "byte list"

record ipnet =
  net_ip :: ip
  net_mask :: ipmask

section \<open>Address families and comparisons\<close>

definition v4_in_v6_prefix :: ip where
  "v4_in_v6_prefix = replicate 10 0 @ [0xff, 0xff]"

text \<open>\<open>IP.To4\<close> and \<open>IP.To16\<close>; the empty list is nil.\<close>

definition To4 :: "ip \<Rightarrow> ip" where
  "To4 ip = (if length ip = 4 then ip
     else if length ip = 16 \<and> take 12 ip = v4_in_v6_prefix then drop 12 ip else [])"

definition To16 :: "ip \<Rightarrow> ip" where
  "To16 ip = (if length ip = 4 then v4_in_v6_prefix @ ip
     else if length ip = 16 then ip else [])"

definition is_v4 :: "ip \<Rightarrow> bool" where
  "is_v4 ip \<longleftrightarrow> To4 ip \<noteq> []"

definition ip_equal :: "ip \<Rightarrow> ip \<Rightarrow> bool" where
  "ip_equal a b =
     (if length a = length b then a = b
      else if length a = 4 \<and> length b = 16 then take 12 b = v4_in_v6_prefix \<and> a = drop 12 b
      else if length a = 16 \<and> length b = 4 then take 12 a = v4_in_v6_prefix \<and> drop 12 a = b
      else False)"

definition is_link_local_unicast :: "ip \<Rightarrow> bool" where
  "is_link_local_unicast ip =
     (if is_v4 ip then To4 ip ! 0 = 169 \<and> To4 ip ! 1 = 254
      else length ip = 16 \<and> ip ! 0 = 0xfe \<and> ip ! 1 AND 0xc0 = 0x80)"

definition is_private :: "ip \<Rightarrow> bool" where
  "is_private ip =
     (if is_v4 ip then To4 ip ! 0 = 10
        \<or> (To4 ip ! 0 = 172 \<and> To4 ip ! 1 AND 0xf0 = 16)
        \<or> (To4 ip ! 0 = 192 \<and> To4 ip ! 1 = 168)
      else length ip = 16 \<and> ip ! 0 AND 0xfe = 0xfc)"

lemma length_v4_prefix [simp]: "length v4_in_v6_prefix = 12"
  by (simp add: v4_in_v6_prefix_def)

lemma To4_length: "To4 ip \<noteq> [] \<Longrightarrow> length (To4 ip) = 4"
  by (auto simp: To4_def split: if_splits)

lemma To4_To16 [simp]: "length ip = 4 \<Longrightarrow> To4 (To16 ip) = ip"
  by (simp add: To4_def To16_def)

lemma To4_of_4 [simp]: "length ip = 4 \<Longrightarrow> To4 ip = ip"
  by (simp add: To4_def)

lemma is_v4_of_4 [simp]: "length ip = 4 \<Longrightarrow> is_v4 ip"
  by (auto simp: is_v4_def)

lemma is_v4_Nil [simp]: "\<not> is_v4 []"
  by (simp add: is_v4_def To4_def)

lemma To16_To4: "is_v4 ip \<Longrightarrow> To16 (To4 ip) = To16 ip"
  by (auto simp: is_v4_def To4_def To16_def split: if_splits) (metis append_take_drop_id)

lemma To16_idem [simp]: "To16 (To16 ip) = To16 ip"
  by (simp add: To16_def)

definition valid_ip :: "ip \<Rightarrow> bool" where
  "valid_ip ip \<longleftrightarrow> length ip = 4 \<or> length ip = 16"

lemma valid_ip_To16 [simp]: "valid_ip ip \<Longrightarrow> length (To16 ip) = 16"
  by (auto simp: valid_ip_def To16_def)

lemma valid_ip_not_Nil: "valid_ip ip \<Longrightarrow> ip \<noteq> []"
  by (auto simp: valid_ip_def)

lemma is_v4_To16 [simp]: "valid_ip ip \<Longrightarrow> is_v4 (To16 ip) = is_v4 ip"
  by (auto simp: is_v4_def To4_def To16_def valid_ip_def)

text \<open>On valid addresses \<open>Equal\<close> is equality of the 16-byte forms.\<close>

lemma ip_equal_iff_To16:
  "valid_ip a \<Longrightarrow> valid_ip b \<Longrightarrow> ip_equal a b \<longleftrightarrow> To16 a = To16 b"
  unfolding valid_ip_def ip_equal_def To16_def
  by (auto simp: append_eq_conv_conj) (metis append_take_drop_id)

lemma ip_equal_refl [simp]: "ip_equal a a"
  by (simp add: ip_equal_def)

lemma ip_equal_sym: "ip_equal a b \<Longrightarrow> ip_equal b a"
  by (auto simp: ip_equal_def split: if_splits)

lemma ip_equal_trans: "ip_equal a b \<Longrightarrow> ip_equal b c \<Longrightarrow> ip_equal a c"
  by (auto simp: ip_equal_def split: if_splits) (metis append_take_drop_id)+

section \<open>Masks\<close>

text \<open>\<open>net.CIDRMask(ones, bits)\<close>, nil for impossible arguments.\<close>

definition mask_byte :: "nat \<Rightarrow> byte" where
  "mask_byte k = (if k \<ge> 8 then 0xff else NOT (drop_bit k 0xff))"

definition CIDRMask :: "int \<Rightarrow> nat \<Rightarrow> ipmask" where
  "CIDRMask ones bits =
     (if (bits \<noteq> 32 \<and> bits \<noteq> 128) \<or> ones < 0 \<or> int bits < ones then []
      else map (\<lambda>i. mask_byte (nat ones - 8 * i)) [0 ..< bits div 8])"

text \<open>The number of leading one bits of a byte, and whether only zero bits follow.\<close>

definition byte_ones :: "byte \<Rightarrow> nat option" where
  "byte_ones b = List.find (\<lambda>k. mask_byte k = b) [0 ..< 9]"

fun simple_mask_length :: "ipmask \<Rightarrow> nat option" where
  "simple_mask_length [] = Some 0"
| "simple_mask_length (b # m) =
     (if b = 0xff then map_option (\<lambda>n. n + 8) (simple_mask_length m)
      else if (\<forall>x\<in>set m. x = 0) then byte_ones b else None)"

text \<open>\<open>ones, _ := mask.Size()\<close>: 0 for a mask that is not ones followed by zeros.\<close>

definition mask_ones :: "ipmask \<Rightarrow> nat" where
  "mask_ones m = (case simple_mask_length m of None \<Rightarrow> 0 | Some n \<Rightarrow> n)"

lemma length_CIDRMask:
  "0 \<le> ones \<Longrightarrow> ones \<le> int bits \<Longrightarrow> bits = 32 \<or> bits = 128 \<Longrightarrow> length (CIDRMask ones bits) = bits div 8"
  by (auto simp: CIDRMask_def)

lemma byte_ones_mask_byte: "k < 8 \<Longrightarrow> byte_ones (mask_byte k) = Some k \<and> mask_byte k \<noteq> 0xff"
proof -
  assume "k < 8"
  then have "k \<in> {0,1,2,3,4,5,6,7}" by auto
  then show ?thesis
    by (auto simp: byte_ones_def mask_byte_def upt_rec)
qed

lemma mask_byte_0 [simp]: "mask_byte 0 = 0"
  by (simp add: mask_byte_def)

lemma simple_mask_length_map:
  "n \<le> 8 * k \<Longrightarrow> simple_mask_length (map (\<lambda>i. mask_byte (n - 8 * i)) [0 ..< k]) = Some n"
proof (induction k arbitrary: n)
  case (Suc k)
  have upt: "[0 ..< Suc k] = 0 # map Suc [0 ..< k]"
    by (simp add: map_Suc_upt upt_conv_Cons)
  have tail: "map (\<lambda>i. mask_byte (n - 8 * i)) (map Suc [0 ..< k])
      = map (\<lambda>i. mask_byte ((n - 8) - 8 * i)) [0 ..< k]"
    by (simp add: diff_diff_add)
  show ?case
  proof (cases "8 \<le> n")
    case True
    with Suc.prems have "simple_mask_length (map (\<lambda>i. mask_byte ((n - 8) - 8 * i)) [0 ..< k]) = Some (n - 8)"
      by (intro Suc.IH) simp
    with True show ?thesis unfolding upt list.map(2) tail by (simp add: mask_byte_def)
  next
    case False
    then have "\<forall>x\<in>set (map (\<lambda>i. mask_byte ((n - 8) - 8 * i)) [0 ..< k]). x = 0" by simp
    with False byte_ones_mask_byte [of n] show ?thesis unfolding upt list.map(2) tail by simp
  qed
qed simp

lemma simple_mask_length_CIDRMask:
  "0 \<le> ones \<Longrightarrow> ones \<le> int bits \<Longrightarrow> bits = 32 \<or> bits = 128
     \<Longrightarrow> simple_mask_length (CIDRMask ones bits) = Some (nat ones)"
  by (auto simp: CIDRMask_def simple_mask_length_map)

lemma mask_ones_CIDRMask:
  "0 \<le> ones \<Longrightarrow> ones \<le> int bits \<Longrightarrow> bits = 32 \<or> bits = 128 \<Longrightarrow> mask_ones (CIDRMask ones bits) = nat ones"
  by (simp add: mask_ones_def simple_mask_length_CIDRMask)

section \<open>Networks\<close>

text \<open>\<open>networkNumberAndMask\<close>: the address and mask at the same width, or nothing.\<close>

definition network_number_and_mask :: "ipnet \<Rightarrow> (ip \<times> ipmask) option" where
  "network_number_and_mask n =
     (let ip = (if is_v4 (net_ip n) then To4 (net_ip n) else net_ip n); m = net_mask n in
      if \<not> is_v4 (net_ip n) \<and> length (net_ip n) \<noteq> 16 then None
      else if length m = 4 then (if length ip = 4 then Some (ip, m) else None)
      else if length m = 16 then Some (ip, if length ip = 4 then drop 12 m else m)
      else None)"

definition apply_mask :: "ip \<Rightarrow> ipmask \<Rightarrow> ip" where
  "apply_mask ip m = map2 (AND) ip m"

text \<open>\<open>n.Contains(ip)\<close>. A network without a usable address contains exactly nil.\<close>

definition net_contains :: "ipnet \<Rightarrow> ip \<Rightarrow> bool" where
  "net_contains n ip =
     (let x = (if is_v4 ip then To4 ip else ip) in
      case network_number_and_mask n of
        None \<Rightarrow> x = []
      | Some (nn, m) \<Rightarrow> length x = length nn \<and> apply_mask nn m = apply_mask x m)"

lemma net_contains_self:
  "network_number_and_mask n = Some (nn, m) \<Longrightarrow> net_contains n (net_ip n)"
  by (auto simp: net_contains_def network_number_and_mask_def Let_def split: if_splits)

section \<open>Printing addresses\<close>

definition hex_char :: "nat \<Rightarrow> char" where
  "hex_char n = (if n < 10 then char_of (48 + n) else char_of (87 + n))"

fun show_hex :: "nat \<Rightarrow> string" where
  "show_hex n = (if n < 16 then [hex_char n] else show_hex (n div 16) @ [hex_char (n mod 16)])"

declare show_hex.simps [simp del]

definition ipv4_string :: "ip \<Rightarrow> string" where
  "ipv4_string ip = join ''.'' (map (\<lambda>b. show_nat (unat b)) ip)"

text \<open>The eight 16-bit groups of an IPv6 address.\<close>

fun groups :: "ip \<Rightarrow> nat list" where
  "groups (a # b # r) = (unat a * 256 + unat b) # groups r"
| "groups _ = []"

definition zero_run :: "nat list \<Rightarrow> nat \<Rightarrow> nat" where
  "zero_run gs i = length (takeWhile (\<lambda>g. g = 0) (drop i gs))"

text \<open>The first longest run of at least two zero groups, as (start, end).\<close>

definition best_zero_run :: "nat list \<Rightarrow> (nat \<times> nat) option" where
  "best_zero_run gs =
     foldl (\<lambda>best i. let l = zero_run gs i in
              if l \<ge> 2 \<and> (case best of None \<Rightarrow> True | Some (s, e) \<Rightarrow> e - s < l) then Some (i, i + l) else best)
       None [0 ..< length gs]"

definition hex_groups :: "nat list \<Rightarrow> string" where
  "hex_groups gs = join '':'' (map show_hex gs)"

definition ipv6_string :: "ip \<Rightarrow> string" where
  "ipv6_string ip = (let gs = groups ip in
     case best_zero_run gs of
       None \<Rightarrow> hex_groups gs
     | Some (s, e) \<Rightarrow> hex_groups (take s gs) @ ''::'' @ hex_groups (drop e gs))"

definition hex_string :: "byte list \<Rightarrow> string" where
  "hex_string bs = concat (map (\<lambda>b. [hex_char (unat b div 16), hex_char (unat b mod 16)]) bs)"

definition ip_string :: "ip \<Rightarrow> string" where
  "ip_string ip =
     (if ip = [] then ''<nil>''
      else if length ip \<noteq> 4 \<and> length ip \<noteq> 16 then CHR ''?'' # hex_string ip
      else if is_v4 ip then ipv4_string (To4 ip) else ipv6_string ip)"

definition mask_string :: "ipmask \<Rightarrow> string" where
  "mask_string m = (if m = [] then ''<nil>'' else hex_string m)"

definition ipnet_string :: "ipnet \<Rightarrow> string" where
  "ipnet_string n = (case network_number_and_mask n of
       None \<Rightarrow> ''<nil>''
     | Some (nn, m) \<Rightarrow> (case simple_mask_length m of
           None \<Rightarrow> ip_string nn @ ''/'' @ mask_string m
         | Some l \<Rightarrow> ip_string nn @ ''/'' @ show_nat l))"

section \<open>Parsing addresses\<close>

definition parse_octet :: "string \<Rightarrow> byte option" where
  "parse_octet s =
     (if all_digits s \<and> (length s = 1 \<or> hd s \<noteq> CHR ''0'') \<and> digits_val s \<le> 255
      then Some (word_of_nat (digits_val s)) else None)"

definition parse_ipv4 :: "string \<Rightarrow> ip option" where
  "parse_ipv4 s = (case map parse_octet (Split CHR ''.'' s) of
       [Some a, Some b, Some c, Some d] \<Rightarrow> Some [a, b, c, d]
     | _ \<Rightarrow> None)"

definition hex_val :: "char \<Rightarrow> nat option" where
  "hex_val c = (let n = of_char c :: nat in
     if 48 \<le> n \<and> n \<le> 57 then Some (n - 48)
     else if 97 \<le> n \<and> n \<le> 102 then Some (n - 87)
     else if 65 \<le> n \<and> n \<le> 70 then Some (n - 55) else None)"

definition is_hex :: "char \<Rightarrow> bool" where
  "is_hex c \<longleftrightarrow> hex_val c \<noteq> None"

definition hexs_val :: "string \<Rightarrow> nat" where
  "hexs_val s = foldl (\<lambda>n c. 16 * n + the (hex_val c)) 0 s"

definition group_bytes :: "nat \<Rightarrow> byte list" where
  "group_bytes g = [word_of_nat (g div 256), word_of_nat g]"

text \<open>
  The loop of \<open>netip.parseIPv6\<close>: the bytes read so far, the position of the ellipsis, and
  what is left of the text. It stops with text left over when 16 bytes have been read.
\<close>

function v6_loop :: "string \<Rightarrow> byte list \<Rightarrow> nat option \<Rightarrow> (byte list \<times> nat option \<times> string) option" where
  "v6_loop s acc ell =
     (if 16 \<le> length acc then Some (acc, ell, s)
      else let ds = takeWhile is_hex s; r = dropWhile is_hex s in
        if ds = [] \<or> 4 < length ds then None
        else if r \<noteq> [] \<and> hd r = CHR ''.'' then
          (if ell = None \<and> length acc \<noteq> 12 then None
           else if 16 < length acc + 4 then None
           else case parse_ipv4 s of None \<Rightarrow> None | Some q \<Rightarrow> Some (acc @ q, ell, []))
        else let acc' = acc @ group_bytes (hexs_val ds) in
          (case r of
             [] \<Rightarrow> Some (acc', ell, [])
           | c # cs \<Rightarrow>
               if c \<noteq> CHR '':'' \<or> cs = [] then None
               else if hd cs = CHR '':'' then
                 (if ell \<noteq> None then None
                  else if tl cs = [] then Some (acc', Some (length acc'), [])
                  else v6_loop (tl cs) acc' (Some (length acc')))
               else v6_loop cs acc' ell))"
  by pat_completeness auto
termination
proof (relation "measure (\<lambda>(s, acc, ell). length s)", simp, goal_cases)
  case (1 s acc ell ds r acc' c cs)
  then have "length (c # cs) \<le> length s" by (metis length_dropWhile_le)
  then show ?case by simp
next
  case (2 s acc ell ds r acc' c cs)
  then have "length (c # cs) \<le> length s" by (metis length_dropWhile_le)
  then show ?case by simp
qed

declare v6_loop.simps [simp del]

definition expand_ellipsis :: "byte list \<Rightarrow> nat option \<Rightarrow> ip option" where
  "expand_ellipsis acc ell =
     (if length acc < 16 then
        (case ell of None \<Rightarrow> None
         | Some p \<Rightarrow> Some (take p acc @ replicate (16 - length acc) 0 @ drop p acc))
      else if ell \<noteq> None then None else Some acc)"

text \<open>An address with a zone is refused by the callers, so the zone is not parsed further.\<close>

definition parse_ipv6 :: "string \<Rightarrow> ip option" where
  "parse_ipv6 s =
     (if CHR ''%'' \<in> set s then None
      else let lead = HasPrefix s ''::''; t = (if lead then drop 2 s else s) in
        if lead \<and> t = [] then Some (replicate 16 0)
        else case v6_loop t [] (if lead then Some 0 else None) of
            None \<Rightarrow> None
          | Some (acc, ell, rest) \<Rightarrow> if rest \<noteq> [] then None else expand_ellipsis acc ell)"

text \<open>
  \<open>netip.ParseAddr\<close> dispatches on the first of dot, colon and percent. The result here is
  the address with its bit length, which is 32 for dotted text only.
\<close>

definition parse_addr :: "string \<Rightarrow> (ip \<times> nat) option" where
  "parse_addr s = (case List.find (\<lambda>c. c = CHR ''.'' \<or> c = CHR '':'' \<or> c = CHR ''%'') s of
       None \<Rightarrow> None
     | Some c \<Rightarrow>
         if c = CHR ''.'' then map_option (\<lambda>a. (To16 a, 32)) (parse_ipv4 s)
         else if c = CHR '':'' then map_option (\<lambda>a. (a, 128)) (parse_ipv6 s)
         else None)"

text \<open>\<open>net.ParseIP\<close>: the 16-byte form, nil for a text that is not an address.\<close>

definition ParseIP :: "string \<Rightarrow> ip" where
  "ParseIP s = (case parse_addr s of None \<Rightarrow> [] | Some (a, bits) \<Rightarrow> a)"

text \<open>
  \<open>ip, ipnet, err := net.ParseCIDR(s); ipnet.IP = ip\<close>, the way every caller in the
  repository uses it: the network keeps the host address.
\<close>

definition ParseCIDR :: "string \<Rightarrow> ipnet option" where
  "ParseCIDR s = (case Cut CHR ''/'' s of
       None \<Rightarrow> None
     | Some (a, m) \<Rightarrow> (case parse_addr a of
           None \<Rightarrow> None
         | Some (ip, bits) \<Rightarrow>
             if all_digits m \<and> digits_val m \<le> bits
             then Some \<lparr>net_ip = ip, net_mask = CIDRMask (int (digits_val m)) bits\<rparr> else None))"

section \<open>Hardware addresses\<close>

text \<open>\<open>net.ParseMAC\<close>: six, eight or twenty bytes, in pairs of digits or groups of four.\<close>

definition xtoi2 :: "string \<Rightarrow> byte option" where
  "xtoi2 s = (case s of
       [a, b] \<Rightarrow> (case (hex_val a, hex_val b) of (Some x, Some y) \<Rightarrow> Some (word_of_nat (16 * x + y)) | _ \<Rightarrow> None)
     | _ \<Rightarrow> None)"

definition all_some :: "'a option list \<Rightarrow> 'a list option" where
  "all_some xs = (if list_ex (\<lambda>x. x = None) xs then None else Some (map the xs))"

definition mac_length :: "byte list option \<Rightarrow> byte list option" where
  "mac_length m = (case m of
       None \<Rightarrow> None
     | Some bs \<Rightarrow> if length bs = 6 \<or> length bs = 8 \<or> length bs = 20 then Some bs else None)"

definition ParseMAC :: "string \<Rightarrow> byte list option" where
  "ParseMAC s =
     (if length s < 14 then None
      else if s ! 2 = CHR '':'' \<or> s ! 2 = CHR ''-'' then
        mac_length (all_some (map xtoi2 (Split (s ! 2) s)))
      else if s ! 4 = CHR ''.'' then
        mac_length (all_some (concat (map (\<lambda>g. if length g = 4 then [xtoi2 (take 2 g), xtoi2 (drop 2 g)] else [None])
          (Split CHR ''.'' s))))
      else None)"

end
