(* ===== verification/Utils.thy ===== *)
theory Utils
  imports OS GoNet
begin

text \<open>
  \<open>utils.go\<close>: values that are an integer or a string, address conversions, natural string
  order, subprocesses, reachability probes, file moves that survive a device boundary, and
  backup retention. Panics (a slice index out of range) are \<^term>\<open>None\<close>.
\<close>

section \<open>Integer-or-string values\<close>

datatype int_string = IsNil | IsInt int | IsString string

text \<open>
  What a YAML or JSON decoder offers a target: it can be decoded as an integer, as a
  string, or neither (with the two decoding errors). The decoders are libraries.
\<close>

record scalar_decoder =
  dec_int :: "int result"
  dec_string :: "string result"

definition unmarshal_int_string :: "scalar_decoder \<Rightarrow> int_string result" where
  "unmarshal_int_string d =
     (case dec_int d of
        Inr i \<Rightarrow> Inr (IsInt i)
      | Inl e \<Rightarrow> (case dec_string d of
            Inr s \<Rightarrow> Inr (IsString s)
          | Inl e \<Rightarrow> Inl (Errorf (''not valid as an int or a string: '' @ error_text e))))"

datatype scalar = ScNull | ScInt int | ScString string

fun marshal_int_string :: "int_string \<Rightarrow> scalar" where
  "marshal_int_string (IsInt i) = ScInt i"
| "marshal_int_string (IsString s) = ScString s"
| "marshal_int_string IsNil = ScNull"

section \<open>Directory listings\<close>

definition sortableDirEntries :: "dirent list \<Rightarrow> dirent list" where
  "sortableDirEntries es = sort_by (\<lambda>a b. de_name a < de_name b) es"

text \<open>The names of the regular entries with a suffix, as the backends select their files.\<close>

definition conf_names :: "string \<Rightarrow> dirent list \<Rightarrow> string list" where
  "conf_names suffix es = map de_name (filter (\<lambda>e. \<not> fi_dir (de_info e) \<and> HasSuffix (de_name e) suffix) es)"

section \<open>Addresses as integers\<close>

definition uint2IP :: "32 word \<Rightarrow> ip" where
  "uint2IP u = map (\<lambda>i. ucast (drop_bit (8 * i) u)) [0, 1, 2, 3]"

definition le32 :: "byte list \<Rightarrow> 32 word" where
  "le32 bs = foldr (\<lambda>b acc. ucast b OR push_bit 8 acc) bs 0"

definition ip2Uint :: "ip \<Rightarrow> 32 word option" where
  "ip2Uint ip = (let ip' = (if length ip = 16 then drop 12 ip else ip) in
     if length ip' < 4 then None else Some (le32 (take 4 ip')))"

section \<open>Natural order of names\<close>

text \<open>\<open>leadingDigits\<close>: the leading run of digits and the rest.\<close>

fun leadingDigits :: "string \<Rightarrow> string \<times> string" where
  "leadingDigits [] = ([], [])"
| "leadingDigits (c # s) =
     (if is_digit c then (let (d, r) = leadingDigits s in (c # d, r)) else ([], c # s))"

definition trim_zeros :: "string \<Rightarrow> string" where
  "trim_zeros s = dropWhile (\<lambda>c. c = CHR ''0'') s"

lemma leadingDigits_eq:
  "leadingDigits s = (takeWhile is_digit s, dropWhile is_digit s)"
  by (induction s) (auto split: prod.splits)

function naturalLess :: "string \<Rightarrow> string \<Rightarrow> bool" where
  "naturalLess a b =
     (case (a, b) of
        (ca # ra, cb # rb) \<Rightarrow>
          if is_digit ca \<and> is_digit cb then
            let (da, a') = leadingDigits a; (db, b') = leadingDigits b;
                na = trim_zeros da; nb = trim_zeros db in
            if length na \<noteq> length nb then length na < length nb
            else if na \<noteq> nb then na < nb
            else naturalLess a' b'
          else if ca \<noteq> cb then ca < cb
          else naturalLess ra rb
      | _ \<Rightarrow> length a < length b)"
  by pat_completeness auto
termination
proof (relation "measure (\<lambda>(a, b). length a)", simp, goal_cases)
  case (1 a b x y ca ra cb rb p da a' q db b' na nb)
  then have "a' = dropWhile is_digit (ca # ra)" "is_digit ca"
    by (auto simp: leadingDigits_eq)
  then have "length a' \<le> length ra" by (simp add: length_dropWhile_le)
  with 1 show ?case by (auto simp: le_imp_less_Suc)
qed auto

declare naturalLess.simps [simp del]

section \<open>Address lists and broadcast addresses\<close>

definition ipStrings :: "ip list \<Rightarrow> string list" where
  "ipStrings ips = map ip_string (filter (\<lambda>ip. ip \<noteq> []) ips)"

definition allFF :: "byte list \<Rightarrow> bool" where
  "allFF b = list_all (\<lambda>c. c = 0xff) b"

text \<open>\<open>getBroadcast\<close>; indexing a mask shorter than the address panics.\<close>

definition getBroadcast :: "ipnet \<Rightarrow> ip option" where
  "getBroadcast network =
     (let mask0 = net_mask network; ip0 = net_ip network;
          mask = (if length mask0 = 16 \<and> length ip0 = 4 \<and> allFF (take 12 mask0) then drop 12 mask0 else mask0);
          ip = (if length mask = 4 \<and> length ip0 = 16 \<and> take 12 ip0 = v4_in_v6_prefix then drop 12 ip0 else ip0)
      in if length mask < length ip then None
         else Some (map2 (\<lambda>x m. (x AND m) OR (m XOR 0xff)) ip mask))"

section \<open>Subprocesses\<close>

text \<open>
  \<open>runCommand\<close>: the lines of standard output, and an error that prefers what the command
  printed on standard error over its exit status. The readers collect standard output line
  by line and concatenate standard error.
\<close>

definition runCommand :: "string list \<Rightarrow> world \<Rightarrow> (string list \<times> goerror option) \<times> world" where
  "runCommand argv w =
     (case exec_command argv w of (r, w) \<Rightarrow>
        (case pr_start r of
           Some e \<Rightarrow> (([], Some e), w)
         | None \<Rightarrow>
            (let out = scan_lines (pr_stdout r); stderr = concat (scan_lines (pr_stderr r)) in
             case pr_wait r of
               None \<Rightarrow> ((out, None), w)
             | Some e \<Rightarrow>
                 if stderr \<noteq> []
                 then ((out, Some (Errorf (stderr @ '' (stdout '' @ join [newline] out @ '')''))), w)
                 else ((out, Some e), w))))"

text \<open>The same with the error in the result, for callers that return it at once.\<close>

definition run_or_fail :: "string list \<Rightarrow> world \<Rightarrow> string list result \<times> world" where
  "run_or_fail argv w = (case runCommand argv w of
       ((out, None), w) \<Rightarrow> (Inr out, w)
     | ((out, Some e), w) \<Rightarrow> (Inl e, w))"

section \<open>Reachability probes\<close>

text \<open>
  The ICMP prober is a library and the HTTP client talks to the network: both are
  parameters. Durations are nanoseconds.
\<close>

record prober =
  pb_new :: "string \<Rightarrow> bool"
  pb_run :: "string \<Rightarrow> int \<Rightarrow> int \<Rightarrow> nat option"  \<comment> \<open>packets received, or an error\<close>

definition second :: int where "second = 1000000000"

definition defaultConnectivityTimeout :: int where "defaultConnectivityTimeout = 10 * second"
definition defaultPingCount :: int where "defaultPingCount = 5"
definition defaultPingTimeout :: int where "defaultPingTimeout = 20 * second"

definition pingTest :: "prober \<Rightarrow> string \<Rightarrow> int \<Rightarrow> int \<Rightarrow> bool" where
  "pingTest pb dest cnt timeout =
     (if \<not> pb_new pb dest then False
      else let cnt' = (if cnt \<le> 0 then defaultPingCount else cnt);
               timeout' = (if timeout \<le> 0 then defaultPingTimeout else timeout) in
        case pb_run pb dest cnt' timeout' of
          None \<Rightarrow> False
        | Some received \<Rightarrow> received \<noteq> 0)"

text \<open>The answer and the lines logged. \<open>http\<close> gives the status of a GET, or an error.\<close>

definition testInternet :: "(string \<Rightarrow> int \<Rightarrow> (int \<times> string) result) \<Rightarrow> string \<Rightarrow> int \<Rightarrow> bool \<times> string list" where
  "testInternet http testAddress timeout =
     (if testAddress = ''test_success'' then (True, [])
      else if testAddress = ''test_fail'' then (False, [])
      else let timeout' = (if timeout \<le> 0 then defaultConnectivityTimeout else timeout) in
        case http testAddress timeout' of
          Inl e \<Rightarrow> (False, [''internet connectivity test failed: '' @ error_text e])
        | Inr (code, status) \<Rightarrow>
            if code < 200 \<or> code \<ge> 400
            then (False, [''internet connectivity test failed: status '' @ status])
            else (True, []))"

section \<open>Moving files\<close>

definition os_Open :: "string \<Rightarrow> world \<Rightarrow> string result \<times> world" where
  "os_Open p = syscall ''open'' p (\<lambda>w. case fs_get w (resolve w p) of
       None \<Rightarrow> (Inl (path_error ''open'' p ENOENT), w)
     | Some n \<Rightarrow> (Inr (resolve w p), w))"

definition io_Copy :: "string \<Rightarrow> string \<Rightarrow> world \<Rightarrow> unit result \<times> world" where
  "io_Copy dst src w = (case fs_get w src of
       Some (File c m t) \<Rightarrow> fd_write dst c w
     | _ \<Rightarrow> (Inl (path_error ''read'' src EISDIR), tick w))"

definition ignore :: "'a result \<times> world \<Rightarrow> world" where
  "ignore r = snd r"

text \<open>On error after the destination was created it is removed again.\<close>

definition or_remove :: "string \<Rightarrow> 'a result \<times> world \<Rightarrow> ('a \<Rightarrow> world \<Rightarrow> 'b result \<times> world) \<Rightarrow> 'b result \<times> world" where
  "or_remove dst r f = (case r of
       (Inl e, w) \<Rightarrow> (Inl e, ignore (os_Remove dst w))
     | (Inr a, w) \<Rightarrow> f a w)"

definition fileCopy :: "string \<Rightarrow> string \<Rightarrow> world \<Rightarrow> unit result \<times> world" where
  "fileCopy source destination w =
     try_io (os_Open source w) (\<lambda>src w.
     try_io (os_open_write True destination 438 w) (\<lambda>dst w.
     or_remove destination (io_Copy dst src w) (\<lambda>_ w.
     or_remove destination (os_Stat source w) (\<lambda>fi w.
     or_remove destination (os_Chmod destination (fi_mode fi) w) (\<lambda>_ w. (Inr (), w))))))"

definition fileMoveCopy :: "string \<Rightarrow> string \<Rightarrow> world \<Rightarrow> unit result \<times> world" where
  "fileMoveCopy source destination w =
     or_remove destination (fileCopy source destination w) (\<lambda>_ w.
     (Inr (), ignore (os_Remove source w)))"

definition fileMove :: "string \<Rightarrow> string \<Rightarrow> world \<Rightarrow> unit result \<times> world" where
  "fileMove source destination w = (case os_Rename source destination w of
       (Inl e, w) \<Rightarrow> if errors_is e EXDEV then fileMoveCopy source destination w else (Inl e, w)
     | (Inr u, w) \<Rightarrow> (Inr u, w))"

section \<open>Backup retention\<close>

definition collect_backup :: "string \<Rightarrow> (string \<Rightarrow> bool) \<Rightarrow> dirent \<Rightarrow> (string \<times> nat) list \<times> world \<Rightarrow> (string \<times> nat) list \<times> world" where
  "collect_backup dir matches e st = (case st of (backups, w) \<Rightarrow>
     if fi_dir (de_info e) then (backups, w)
     else if \<not> matches (de_name e) then (backups, w)
     else (case os_Lstat (dir @ ''/'' @ de_name e) w of
         (Inl er, w) \<Rightarrow> (backups, w)
       | (Inr info, w) \<Rightarrow> (backups @ [(de_name e, fi_mtime info)], w)))"

text \<open>Newest first, and by descending name among equal times.\<close>

definition backup_before :: "string \<times> nat \<Rightarrow> string \<times> nat \<Rightarrow> bool" where
  "backup_before a b = (if snd a \<noteq> snd b then snd b < snd a else fst b < fst a)"

definition remove_backup :: "string \<Rightarrow> string \<times> nat \<Rightarrow> world \<Rightarrow> world" where
  "remove_backup dir b w = (case os_Remove (path_join dir (fst b)) w of
       (Inl e, w) \<Rightarrow> log_print (''pruneBackups: remove '' @ fst b @ '': '' @ error_text e) w
     | (Inr u, w) \<Rightarrow> w)"

definition pruneBackups :: "string \<Rightarrow> (string \<Rightarrow> bool) \<Rightarrow> int \<Rightarrow> world \<Rightarrow> world" where
  "pruneBackups dir matches keep w =
     (if keep \<le> 0 then w
      else case os_ReadDir dir w of
          (Inl e, w) \<Rightarrow> w
        | (Inr entries, w) \<Rightarrow>
            (case fold (collect_backup dir matches) entries ([], w) of (backups, w) \<Rightarrow>
               if int (length backups) \<le> keep then w
               else fold (remove_backup dir) (drop (nat keep) (sort_by backup_before backups)) w))"

text \<open>The names the suffix-style backends give: backups and temporary files.\<close>

definition bak_suffix :: "nat \<Rightarrow> string" where
  "bak_suffix t = ''.bak.'' @ show_nat t"

definition tmp_suffix :: "nat \<Rightarrow> string" where
  "tmp_suffix t = ''.tmp.'' @ show_nat t"

definition suffixBackupMatcher :: "string \<Rightarrow> string \<Rightarrow> bool" where
  "suffixBackupMatcher base name = HasPrefix name (base @ ''.bak.'')"

definition prefixBackupMatcher :: "string \<Rightarrow> string \<Rightarrow> bool" where
  "prefixBackupMatcher base name \<longleftrightarrow> HasPrefix name ''.bak.'' \<and> HasSuffix name (''.'' @ base)"

section \<open>naturalLess is a strict weak order\<close>

text \<open>
  A name is read as a list of tokens: a digit run by its value (its digits without leading
  zeros, compared by length and then text), any other byte by itself. A run compares with
  a byte like a digit would.
\<close>

datatype token = Num string | Byte char

fun token_less :: "token \<Rightarrow> token \<Rightarrow> bool" where
  "token_less (Num a) (Num b) = (length a < length b \<or> (length a = length b \<and> a < b))"
| "token_less (Num a) (Byte c) = (CHR ''0'' < c)"
| "token_less (Byte c) (Num a) = (c < CHR ''0'')"
| "token_less (Byte c) (Byte d) = (c < d)"

function tokens :: "string \<Rightarrow> token list" where
  "tokens [] = []"
| "tokens (c # s) =
     (if is_digit c then Num (trim_zeros (takeWhile is_digit (c # s))) # tokens (dropWhile is_digit s)
      else Byte c # tokens s)"
  by pat_completeness auto
termination
  by (relation "measure length") (auto simp: length_dropWhile_le le_imp_less_Suc)

fun lex_less :: "token list \<Rightarrow> token list \<Rightarrow> bool" where
  "lex_less (x # xs) (y # ys) = (token_less x y \<or> (\<not> token_less y x \<and> lex_less xs ys))"
| "lex_less [] (y # ys) = True"
| "lex_less xs [] = False"

definition good_token :: "token \<Rightarrow> bool" where
  "good_token t = (case t of Num a \<Rightarrow> True | Byte c \<Rightarrow> \<not> is_digit c)"

lemma good_tokens: "\<forall>t\<in>set (tokens s). good_token t"
  by (induction s rule: tokens.induct) (auto simp: good_token_def)

lemma char_less_iff: "(c < d) = ((of_char c :: nat) < of_char d)"
  by (simp add: less_char_def)

lemma char_eq_iff: "(c = d) = ((of_char c :: nat) = of_char d)"
  by simp

lemma token_less_irrefl [simp]: "\<not> token_less t t"
  by (cases t) auto

lemma token_less_trans: "token_less x y \<Longrightarrow> token_less y z \<Longrightarrow> token_less x z"
  by (cases x; cases y; cases z) (auto)

lemma token_less_total:
  "good_token x \<Longrightarrow> good_token y \<Longrightarrow> token_less x y \<or> x = y \<or> token_less y x"
  by (cases x; cases y)
    (auto simp: good_token_def is_digit_def char_less_iff not_less dest: linorder_cases)

lemma digit_byte_less:
  "is_digit c \<Longrightarrow> \<not> is_digit d \<Longrightarrow> (c < d \<longleftrightarrow> CHR ''0'' < d) \<and> (d < c \<longleftrightarrow> d < CHR ''0'') \<and> c \<noteq> d"
  by (auto simp: is_digit_def char_less_iff)

lemma token_less_asym: "token_less x y \<Longrightarrow> \<not> token_less y x"
  using token_less_irrefl token_less_trans by blast

lemma naturalLess_tokens: "naturalLess a b = lex_less (tokens a) (tokens b)"
proof (induction a b rule: naturalLess.induct)
  case (1 a b)
  show ?case
  proof (cases "a = [] \<or> b = []")
    case True
    then show ?thesis
      by (cases a; cases b) (auto simp: naturalLess.simps [of "[]" _] naturalLess.simps [of _ "[]"])
  next
    case False
    then obtain ca ra cb rb where ab: "a = ca # ra" "b = cb # rb" by (cases a; cases b) auto
    let ?na = "trim_zeros (takeWhile is_digit a)" and ?nb = "trim_zeros (takeWhile is_digit b)"
    show ?thesis
    proof (cases "is_digit ca \<and> is_digit cb")
      case True
      have IH: "?na = ?nb \<Longrightarrow> naturalLess (dropWhile is_digit a) (dropWhile is_digit b)
          = lex_less (tokens (dropWhile is_digit a)) (tokens (dropWhile is_digit b))"
        by (rule "1.IH"(1) [OF refl ab True refl leadingDigits_eq [symmetric] refl
              leadingDigits_eq [symmetric] refl refl]) auto
      have "naturalLess a b = (if length ?na \<noteq> length ?nb then length ?na < length ?nb
          else if ?na \<noteq> ?nb then ?na < ?nb
          else naturalLess (dropWhile is_digit a) (dropWhile is_digit b))"
        using True ab by (simp add: naturalLess.simps [of "ca # ra" "cb # rb"] leadingDigits_eq Let_def)
      moreover have "tokens a = Num ?na # tokens (dropWhile is_digit a)"
          "tokens b = Num ?nb # tokens (dropWhile is_digit b)"
        using True ab by auto
      ultimately show ?thesis using IH by (auto simp: not_less_iff_gr_or_eq)
    next
      case nd: False
      have IH: "ca = cb \<Longrightarrow> naturalLess ra rb = lex_less (tokens ra) (tokens rb)"
        by (rule "1.IH"(2) [OF refl ab nd]) auto
      have "naturalLess a b = (if ca \<noteq> cb then ca < cb else naturalLess ra rb)"
        unfolding ab by (subst naturalLess.simps) (use nd in auto)
      then show ?thesis
        using nd ab IH digit_byte_less [of ca cb] digit_byte_less [of cb ca]
        by (auto simp: not_less_iff_gr_or_eq)
    qed
  qed
qed

lemma lex_less_irrefl: "\<not> lex_less xs xs"
  by (induction xs) auto

lemma lex_less_trans:
  "\<forall>t\<in>set xs \<union> set ys \<union> set zs. good_token t \<Longrightarrow> lex_less xs ys \<Longrightarrow> lex_less ys zs \<Longrightarrow> lex_less xs zs"
proof (induction xs zs arbitrary: ys rule: lex_less.induct)
  case (1 x xs z zs)
  then obtain y ys' where ys: "ys = y # ys'" by (cases ys) auto
  have g: "good_token x" "good_token y" "good_token z" using 1 ys by auto
  have IH: "lex_less xs ys' \<Longrightarrow> lex_less ys' zs \<Longrightarrow> \<not> token_less x z \<Longrightarrow> \<not> token_less z x \<Longrightarrow> lex_less xs zs"
    using "1.IH" [of ys'] "1.prems"(1) ys by auto
  have xy: "token_less x y \<or> (x = y \<and> lex_less xs ys')" and yz: "token_less y z \<or> (y = z \<and> lex_less ys' zs)"
    using "1.prems"(2,3) ys token_less_total [OF g(1,2)] token_less_total [OF g(2,3)] by auto
  show ?case
  proof (cases "token_less x z")
    case True
    then show ?thesis by simp
  next
    case False
    with xy yz have "x = y" "y = z" "lex_less xs ys'" "lex_less ys' zs"
      using token_less_trans by blast+
    with IH show ?thesis by simp
  qed
next
  case (2 y ys')
  then show ?case by simp
next
  case (3 xs)
  then show ?case by (cases ys) auto
qed

lemma lex_less_total:
  "\<forall>t\<in>set xs \<union> set ys. good_token t \<Longrightarrow> lex_less xs ys \<or> xs = ys \<or> lex_less ys xs"
proof (induction xs ys rule: lex_less.induct)
  case (1 x xs y ys)
  then show ?case using token_less_total [of x y] by auto
next
  case (3 xs)
  then show ?case by (cases xs) auto
qed simp

interpretation natural: strict_weak_order naturalLess
proof
  fix x y z
  have g: "\<forall>t\<in>set (tokens x) \<union> set (tokens y) \<union> set (tokens z). good_token t"
    using good_tokens by blast
  show "\<not> naturalLess x x" by (simp add: naturalLess_tokens lex_less_irrefl)
  show "naturalLess x y \<Longrightarrow> naturalLess y z \<Longrightarrow> naturalLess x z"
    using lex_less_trans [OF g] by (simp add: naturalLess_tokens)
  show "naturalLess x z \<Longrightarrow> naturalLess x y \<or> naturalLess y z"
    using lex_less_total [of "tokens x" "tokens y"] lex_less_trans [of "tokens y" "tokens x" "tokens z"] g
    by (auto simp: naturalLess_tokens Un_commute)
qed

text \<open>Two names are incomparable exactly when they have the same tokens.\<close>

lemma natural_incomparable:
  "(\<not> naturalLess a b \<and> \<not> naturalLess b a) \<longleftrightarrow> tokens a = tokens b"
  using lex_less_total [of "tokens a" "tokens b"] good_tokens lex_less_irrefl
  by (auto simp: naturalLess_tokens)

end
