(* ===== verification/UtilsLaws.thy ===== *)
theory UtilsLaws
  imports Utils
begin

text \<open>
  What \<open>utils.go\<close> promises: numbered names sort by their numbers, a file move never loses
  the file whatever system call fails, backups are pruned oldest first, and the address
  conversions are inverse to each other.
\<close>

section \<open>Moving a file never loses it\<close>

text \<open>
  \<open>keeps w0 d w\<close>: since \<open>w0\<close> only the file at \<open>d\<close> may have changed, and \<open>d\<close> is not a
  symbolic link. Every call of a copy to \<open>d\<close> keeps this, failing or not.
\<close>

definition keeps :: "world \<Rightarrow> string \<Rightarrow> world \<Rightarrow> bool" where
  "keeps w0 d w \<longleftrightarrow> no_link w d \<and> (\<forall>q. q \<noteq> d \<longrightarrow> fs_get w q = fs_get w0 q)"

lemma keeps_tick [simp]: "keeps w0 d (tick w) = keeps w0 d w"
  by (simp add: keeps_def)

lemma keeps_put [simp]: "keeps w0 d w \<Longrightarrow> keeps w0 d (fs_put d (File c m t) w)"
  by (simp add: keeps_def no_link_def)

lemma keeps_del [simp]: "keeps w0 d w \<Longrightarrow> keeps w0 d (fs_del d w)"
  by (simp add: keeps_def no_link_def)

lemma keeps_resolve: "keeps w0 d w \<Longrightarrow> resolve w d = d"
  by (simp add: keeps_def resolve_no_link)

lemma keeps_fs: "fs_get w' = fs_get w \<Longrightarrow> keeps w0 d w \<Longrightarrow> keeps w0 d w'"
  by (simp add: keeps_def no_link_def)

lemma os_Open_fs: "fs_get (snd (os_Open p w)) = fs_get w"
  by (auto simp: os_Open_def syscall_def split: option.splits)

lemma os_Stat_fs: "fs_get (snd (os_Stat p w)) = fs_get w"
  by (auto simp: os_Stat_def syscall_def split: option.splits)

lemma keeps_Open: "keeps w0 d w \<Longrightarrow> keeps w0 d (snd (os_Open p w))"
  by (rule keeps_fs [OF os_Open_fs])

lemma keeps_Stat: "keeps w0 d w \<Longrightarrow> keeps w0 d (snd (os_Stat p w))"
  by (rule keeps_fs [OF os_Stat_fs])

lemma keeps_open_write: "keeps w0 d w \<Longrightarrow> keeps w0 d (snd (os_open_write tr d perm w))"
  using keeps_resolve [of w0 d "tick w"]
  by (auto simp: os_open_write_def syscall_def Let_def split: option.splits node.splits)

lemma keeps_write_at: "keeps w0 d w \<Longrightarrow> keeps w0 d (write_at d c w)"
  by (simp add: write_at_def split: option.splits node.splits)

lemma keeps_io_Copy: "keeps w0 d w \<Longrightarrow> keeps w0 d (snd (io_Copy d s w))"
  by (simp add: io_Copy_def fd_write_def keeps_write_at split: option.splits node.splits)

lemma keeps_Chmod: "keeps w0 d w \<Longrightarrow> keeps w0 d (snd (os_Chmod d m w))"
  using keeps_resolve [of w0 d "tick w"]
  by (auto simp: os_Chmod_def syscall_def Let_def split: option.splits node.splits)

lemma keeps_Remove: "keeps w0 d w \<Longrightarrow> keeps w0 d (snd (os_Remove d w))"
  by (simp add: os_Remove_def syscall_def split: option.splits)

lemma keeps_or_remove:
  assumes "keeps w0 d (snd r)" and "\<And>a w. r = (Inr a, w) \<Longrightarrow> keeps w0 d w \<Longrightarrow> keeps w0 d (snd (f a w))"
  shows "keeps w0 d (snd (or_remove d r f))"
  using assms keeps_Remove [OF assms(1)]
  by (cases r; cases "fst r") (auto simp: or_remove_def ignore_def)

lemma os_open_write_keeps_path:
  "os_open_write tr d perm w = (Inr q, w') \<Longrightarrow> keeps w0 d w \<Longrightarrow> q = d"
  using os_open_write_path by (auto simp: keeps_def)

lemma fileCopy_keeps: "keeps w0 d w \<Longrightarrow> keeps w0 d (snd (fileCopy s d w))"
  unfolding fileCopy_def
  by (intro try_io_invariant [where P = "keeps w0 d"] keeps_Open keeps_open_write keeps_or_remove)
    (auto dest!: os_open_write_keeps_path simp: keeps_io_Copy keeps_Stat keeps_Chmod)

lemma fileMoveCopy_Inr:
  "fileMoveCopy s d w = (Inr u, w') \<Longrightarrow> \<exists>v. fileCopy s d w = (Inr (), v) \<and> w' = snd (os_Remove s v)"
  by (cases "fileCopy s d w"; cases "fst (fileCopy s d w)") (auto simp: fileMoveCopy_def or_remove_def ignore_def)

lemma fileMoveCopy_Inl:
  "fileMoveCopy s d w = (Inl e, w') \<Longrightarrow> \<exists>e v. fileCopy s d w = (Inl e, v) \<and> w' = snd (os_Remove d v)"
  by (cases "fileCopy s d w"; cases "fst (fileCopy s d w)") (auto simp: fileMoveCopy_def or_remove_def ignore_def)

text \<open>A copy that succeeds has the whole text.\<close>

lemma or_remove_Inr: "or_remove d r f = (Inr b, w') \<Longrightarrow> \<exists>a v. r = (Inr a, v) \<and> f a v = (Inr b, w')"
  by (auto simp: or_remove_def split: prod.splits sum.splits)

lemma os_Open_path: "os_Open p w = (Inr q, w') \<Longrightarrow> no_link w p \<Longrightarrow> q = p"
  unfolding os_Open_def by (auto elim!: syscall_cases simp: resolve_no_link split: option.splits)

lemma os_Chmod_content: "content_of (snd (os_Chmod p m w)) q = content_of w q"
  by (auto simp: os_Chmod_def syscall_def Let_def content_of_def split: option.splits node.splits)

lemma content_of_fs: "fs_get w' = fs_get w \<Longrightarrow> content_of w' q = content_of w q"
  by (simp add: content_of_def)

lemma content_of_SomeD: "content_of w p = Some c \<Longrightarrow> \<exists>m t. fs_get w p = Some (File c m t)"
  by (auto simp: content_of_def split: option.splits node.splits)

lemma fileCopy_content:
  assumes r: "fileCopy s d w = (Inr u, w')" and c: "content_of w s = Some c"
    and sd: "s \<noteq> d" and nl: "no_link w d"
  shows "content_of w' d = Some c"
proof -
  from r obtain src w1 dst w2 v3 fi v4 v5 where
    o: "os_Open s w = (Inr src, w1)" and cr: "os_open_write True d 438 w1 = (Inr dst, w2)"
    and cp: "io_Copy dst src w2 = (Inr (), v3)" and st: "os_Stat s v3 = (Inr fi, v4)"
    and ch: "os_Chmod d (fi_mode fi) v4 = (Inr (), v5)" and w': "w' = v5"
    unfolding fileCopy_def by (fastforce simp: try_io_Inr_iff dest!: or_remove_Inr)
  have nls: "no_link w s" using content_of_SomeD [OF c] by (auto simp: no_link_def)
  have src: "src = s" using os_Open_path [OF o nls] .
  have k1: "keeps w d w1" using keeps_Open [of w d w s] o nl by (simp add: keeps_def)
  then have dst: "dst = d" using os_open_write_keeps_path [OF cr] by simp
  have "keeps w d w2" using keeps_open_write [OF k1, of True 438] cr by simp
  with content_of_SomeD [OF c] sd obtain m t where s2: "fs_get w2 s = Some (File c m t)"
    by (auto simp: keeps_def)
  obtain m' t' where d2: "fs_get w2 d = Some (File [] m' t')"
    using os_open_write_path [OF cr] k1 by (auto simp: keeps_def)
  have "content_of v3 d = Some c"
    using cp s2 d2 by (auto simp: src dst io_Copy_def fd_write_def write_at_def overlay_def
        split: option.splits)
  then show ?thesis
    using os_Chmod_content [of d "fi_mode fi" v4 d] content_of_fs [OF os_Stat_fs, of s v3 d] st ch w' by simp
qed

lemma fileMove_content:
  assumes "content_of w s = Some c" and "s \<noteq> d" and "no_link w d"
    and "fileMove s d w = (r, w')"
  shows "(content_of w' s = Some c \<or> content_of w' d = Some c)
    \<and> (r = Inr () \<longrightarrow> content_of w' d = Some c)
    \<and> (\<forall>q. q \<noteq> s \<and> q \<noteq> d \<longrightarrow> fs_get w' q = fs_get w q)"
proof (cases "os_Rename s d w")
  case (Pair x w1)
  have copy: ?thesis if w1: "w1 = tick w" and m: "fileMoveCopy s d w1 = (r, w')"
  proof -
    have k: "keeps w d (snd (fileCopy s d w1))"
      using fileCopy_keeps [of w d w1 s] assms(3) w1 by (simp add: keeps_def)
    show ?thesis
    proof (cases r)
      case (Inl e)
      with m obtain e' v where v: "fileCopy s d w1 = (Inl e', v)" "w' = snd (os_Remove d v)"
        using fileMoveCopy_Inl by metis
      with k have "keeps w d w'" using keeps_Remove by simp
      then have "\<forall>q. q \<noteq> d \<longrightarrow> fs_get w' q = fs_get w q" by (simp add: keeps_def)
      with Inl assms(1,2) show ?thesis by (simp add: content_of_def)
    next
      case (Inr u)
      with m obtain v where v: "fileCopy s d w1 = (Inr (), v)" "w' = snd (os_Remove s v)"
        using fileMoveCopy_Inr by metis
      have "content_of v d = Some c"
        using fileCopy_content [OF v(1), of c] assms w1 by simp
      moreover have "\<forall>q. q \<noteq> s \<longrightarrow> fs_get w' q = fs_get v q"
        using os_Remove_frame v(2) by (metis prod.collapse)
      moreover have "\<forall>q. q \<noteq> d \<longrightarrow> fs_get v q = fs_get w q"
        using k v(1) by (simp add: keeps_def)
      ultimately show ?thesis using assms(2) by (simp add: content_of_def)
    qed
  qed
  from Pair show ?thesis
  proof (cases rule: os_Rename_cases)
    case (Error e)
    with Pair assms(4) copy show ?thesis using assms(1)
      by (auto simp: fileMove_def split: if_splits)
  next
    case (Moved n)
    with Pair assms show ?thesis
      by (auto simp: fileMove_def content_of_def split: if_splits)
  qed (use assms(2) in simp)
qed

lemma keeps_fd_write: "keeps w0 d w \<Longrightarrow> keeps w0 d (snd (fd_write d c w))"
  by (simp add: fd_write_def keeps_write_at split: option.splits)

lemma keeps_WriteFile: "keeps w0 d w \<Longrightarrow> keeps w0 d (snd (os_WriteFile d c perm w))"
  unfolding os_WriteFile_def
  by (intro try_io_invariant [where P = "keeps w0 d"] keeps_open_write)
    (auto dest!: os_open_write_keeps_path simp: keeps_fd_write)

lemma os_ReadFile_content:
  "os_ReadFile p w = (Inr c, w') \<Longrightarrow> no_link w p \<Longrightarrow> content_of w p = Some c \<and> fs_get w' = fs_get w"
  unfolding os_ReadFile_def
  by (auto elim!: syscall_cases simp: resolve_no_link content_of_def fun_eq_iff split: option.splits node.splits)

lemma os_ReadFile_fs: "fs_get (snd (os_ReadFile p w)) = fs_get w"
  by (auto simp: os_ReadFile_def syscall_def split: option.splits node.splits)

lemma os_WriteFile_content:
  assumes "os_WriteFile p c perm w = (Inr u, w')" and "no_link w p"
  shows "content_of w' p = Some c"
proof -
  obtain q v where o: "os_open_write True p perm w = (Inr q, v)" and f: "fd_write q c v = (Inr u, w')"
    using assms(1) by (auto simp: os_WriteFile_def try_io_Inr_iff)
  obtain m t where "q = p" "fs_get v p = Some (File [] m t)"
    using os_open_write_path [OF o assms(2)] by auto
  with f show ?thesis
    by (auto simp: fd_write_def write_at_def overlay_def content_of_def split: option.splits)
qed

text \<open>
  C1. \<open>fileMove\<close> never loses the file it moves: under every pattern of failing system
  calls the source's content is afterwards at the source or at the destination, a nil
  error means it is at the destination (also when the rename crosses devices and the file
  is copied), and no other file is touched.
\<close>

theorem fileMove_safe:
  assumes "content_of w s = Some c" and "s \<noteq> d" and "no_link w d"
    and "fileMove s d w = (r, w')"
  shows "(content_of w' s = Some c \<or> content_of w' d = Some c)
    \<and> (r = Inr () \<longrightarrow> content_of w' d = Some c)
    \<and> (\<forall>q. q \<noteq> s \<and> q \<noteq> d \<longrightarrow> fs_get w' q = fs_get w q)"
  by (rule fileMove_content [OF assms])

text \<open>The rename crosses a device and the copy's write fails after three bytes.\<close>

definition move_world :: world where
  "move_world = (mk_world [(''/a'', File ''hello'' 420 7)])\<lparr>w_fault := (\<lambda>t.
     if t = 0 then Some (EXDEV, 0) else if t = 3 then Some (ENOSPC, 3) else None)\<rparr>"

lemma fileMove_safe_witness:
  "content_of (snd (fileMove ''/a'' ''/b'' move_world)) ''/a'' = Some ''hello''
   \<and> content_of (snd (fileMove ''/a'' ''/b'' (move_world\<lparr>w_tick := 5\<rparr>))) ''/b'' = Some ''hello''"
proof
  have ne: "content_of (snd (fileMove ''/a'' ''/b'' move_world)) ''/b'' = None" by code_simp
  show "content_of (snd (fileMove ''/a'' ''/b'' move_world)) ''/a'' = Some ''hello''"
    using fileMove_safe [of move_world "''/a''" "''hello''" "''/b''", OF _ _ _ prod.collapse [symmetric]] ne
    by (auto simp: move_world_def mk_world_def content_of_def fs_get_def no_link_def)
  have ok: "fst (fileMove ''/a'' ''/b'' (move_world\<lparr>w_tick := 5\<rparr>)) = Inr ()" by code_simp
  show "content_of (snd (fileMove ''/a'' ''/b'' (move_world\<lparr>w_tick := 5\<rparr>))) ''/b'' = Some ''hello''"
    using fileMove_safe [of "move_world\<lparr>w_tick := 5\<rparr>" "''/a''" "''hello''" "''/b''", OF _ _ _ prod.collapse [symmetric]] ok
    by (auto simp: move_world_def mk_world_def content_of_def fs_get_def no_link_def)
qed

section \<open>Numbered names\<close>

lemma trim_zeros_show_nat: "trim_zeros (show_nat n) = (if n = 0 then [] else show_nat n)"
proof (cases "n = 0")
  case True
  then show ?thesis
    using of_char_digit_char [of 0] by (simp add: show_nat.simps [of 0] trim_zeros_def) code_simp
next
  case False
  then have "hd (show_nat n) \<noteq> CHR ''0''" using show_nat_no_leading_zero by simp
  with False show ?thesis by (cases "show_nat n") (auto simp: trim_zeros_def)
qed

lemma digit_char_less: "a < 10 \<Longrightarrow> b < 10 \<Longrightarrow> digit_char a < digit_char b \<longleftrightarrow> a < b"
  by (simp add: less_char_def)

lemma snoc_less:
  "length (xs :: 'a :: linorder list) = length ys \<Longrightarrow>
     xs @ [x] < ys @ [y] \<longleftrightarrow> xs < ys \<or> (xs = ys \<and> x < y)"
  by (induction xs ys rule: list_induct2) auto

definition shortlex :: "string \<Rightarrow> string \<Rightarrow> bool" where
  "shortlex a b \<longleftrightarrow> length a < length b \<or> (length a = length b \<and> a < b)"

lemma shortlex_show_nat: "shortlex (show_nat m) (show_nat n) \<longleftrightarrow> m < n"
proof (induction m arbitrary: n rule: show_nat.induct)
  case (1 m)
  have small: "k < 10 \<Longrightarrow> show_nat k = [digit_char k]" for k
    by (subst show_nat.simps) simp
  have big: "\<not> k < 10 \<Longrightarrow> 2 \<le> length (show_nat k)" for k
    using show_nat_not_Nil [of "k div 10"] by (subst show_nat.simps) (cases "show_nat (k div 10)"; simp)
  show ?case
  proof (cases "m < 10 \<or> n < 10")
    case True
    then show ?thesis
      using small [of m] small [of n] big [of m] big [of n]
      by (cases "m < 10"; cases "n < 10") (simp_all add: shortlex_def digit_char_less)
  next
    case False
    then have IH: "shortlex (show_nat (m div 10)) (show_nat (n div 10)) \<longleftrightarrow> m div 10 < n div 10"
      using "1.IH" by simp
    have eq: "show_nat (m div 10) = show_nat (n div 10) \<longleftrightarrow> m div 10 = n div 10" by simp
    have snoc: "shortlex (xs @ [digit_char a]) (ys @ [digit_char b])
        \<longleftrightarrow> shortlex xs ys \<or> (xs = ys \<and> a < b)" if "a < 10" "b < 10" for xs ys a b
      using that by (cases "length xs = length ys") (auto simp: shortlex_def snoc_less digit_char_less)
    have split: "\<not> k < 10 \<Longrightarrow> show_nat k = show_nat (k div 10) @ [digit_char (k mod 10)]" for k
      by (subst show_nat.simps) simp
    have m: "show_nat m = show_nat (m div 10) @ [digit_char (m mod 10)]"
      and n: "show_nat n = show_nat (n div 10) @ [digit_char (n mod 10)]"
      using False split by blast+
    have "shortlex (show_nat m) (show_nat n) \<longleftrightarrow>
        shortlex (show_nat (m div 10)) (show_nat (n div 10)) \<or>
        (show_nat (m div 10) = show_nat (n div 10) \<and> m mod 10 < n mod 10)"
      unfolding m n by (rule snoc) auto
    also have "\<dots> \<longleftrightarrow> m div 10 < n div 10 \<or> (m div 10 = n div 10 \<and> m mod 10 < n mod 10)"
      unfolding IH eq ..
    also have "\<dots> \<longleftrightarrow> m < n"
      using div_mult_mod_eq [of m 10] div_mult_mod_eq [of n 10] mod_less_divisor [of 10 m] mod_less_divisor [of 10 n]
      by linarith
    finally show ?thesis .
  qed
qed

lemma tokens_show_nat: "tokens (show_nat n) = [Num (trim_zeros (show_nat n))]"
proof -
  obtain c s where cs: "show_nat n = c # s" by (cases "show_nat n") auto
  have "is_digit c" "\<forall>d\<in>set s. is_digit d" using show_nat_digits [of n] cs by auto
  then show ?thesis by (simp add: cs takeWhile_all dropWhile_all)
qed

lemma tokens_append_number:
  assumes "p = [] \<or> \<not> is_digit (last p)"
  shows "tokens (p @ show_nat n) = tokens p @ tokens (show_nat n)"
  using assms
proof (induction p rule: tokens.induct)
  case (2 c s)
  show ?case
  proof (cases "is_digit c")
    case True
    with 2(3) have "s \<noteq> []" "\<not> is_digit (last s)" by (auto split: if_splits)
    then have ex: "\<exists>x\<in>set s. \<not> is_digit x" using last_in_set by blast
    have d: "takeWhile is_digit (s @ r) = takeWhile is_digit s"
        "dropWhile is_digit (s @ r) = dropWhile is_digit s @ r" for r
      using ex by (auto simp: takeWhile_append dropWhile_append)
    have "dropWhile is_digit s = [] \<or> \<not> is_digit (last (dropWhile is_digit s))"
      using \<open>\<not> is_digit (last s)\<close> ex
      by (metis dropWhile_eq_Nil_conv last_appendR takeWhile_dropWhile_id)
    with 2(1) True have "tokens (dropWhile is_digit s @ show_nat n) = tokens (dropWhile is_digit s) @ tokens (show_nat n)"
      by simp
    with True d show ?thesis by simp
  next
    case False
    with 2 show ?thesis by (auto split: if_splits)
  qed
qed simp

lemma lex_less_append: "lex_less (xs @ ys) (xs @ zs) = lex_less ys zs"
  by (induction xs) auto

text \<open>
  C18. \<open>naturalLess\<close> is a strict weak order, so the sorts that use it are well defined, and it
  compares two names as their lists of digit runs (by value) and other bytes.
\<close>

theorem naturalLess_order:
  "strict_weak_order naturalLess \<and> naturalLess a b = lex_less (tokens a) (tokens b)"
  using natural.strict_weak_order_axioms naturalLess_tokens by blast

text \<open>
  Names that differ in a trailing number are ordered by that number under
  \<open>naturalLess\<close>: eth2 comes before eth10.
\<close>

theorem naturalLess_numbered:
  assumes "p = [] \<or> \<not> is_digit (last p)"
  shows "naturalLess (p @ show_nat m) (p @ show_nat n) \<longleftrightarrow> m < n"
proof -
  have "naturalLess (p @ show_nat m) (p @ show_nat n)
      \<longleftrightarrow> shortlex (trim_zeros (show_nat m)) (trim_zeros (show_nat n))"
    by (simp add: naturalLess_tokens tokens_append_number [OF assms] lex_less_append tokens_show_nat
        shortlex_def)
  also have "\<dots> \<longleftrightarrow> m < n"
    using shortlex_show_nat [of m n] by (auto simp: trim_zeros_show_nat shortlex_def)
  finally show ?thesis .
qed

lemma naturalLess_numbered_witness: "naturalLess ''eth2'' ''eth10'' \<and> \<not> naturalLess ''eth10'' ''eth2''"
proof -
  have "''eth2'' = ''eth'' @ show_nat 2" "''eth10'' = ''eth'' @ show_nat 10" by code_simp+
  moreover have "''eth'' = [] \<or> \<not> is_digit (last ''eth'')" by code_simp
  ultimately show ?thesis
    using naturalLess_numbered [of "''eth''" 2 10] naturalLess_numbered [of "''eth''" 10 2] by simp
qed

section \<open>Addresses as integers\<close>

lemma le32_4: "le32 [a, b, c, d] =
    ucast a OR push_bit 8 (ucast b) OR push_bit 16 (ucast c) OR push_bit 24 (ucast d)"
  by (simp add: le32_def push_bit_or or.assoc)

text \<open>
  \<open>uint2IP\<close> and \<open>ip2Uint\<close> are inverse: an integer survives the trip through the
  four-byte address, so does a four-byte address through the integer, and a sixteen-byte
  address contributes its last four bytes.
\<close>

theorem ip2Uint_uint2IP:
  "ip2Uint (uint2IP u) = Some u
   \<and> (map_option uint2IP (ip2Uint [a, b, c, d]) = Some [a, b, c, d])
   \<and> ip2Uint (v4_in_v6_prefix @ [a, b, c, d]) = ip2Uint [a, b, c, d]"
proof (intro conjI)
  let ?v = "(ucast (ucast u :: byte) :: 32 word) OR push_bit 8 (ucast (ucast (drop_bit 8 u) :: byte)) OR
      push_bit 16 (ucast (ucast (drop_bit 16 u) :: byte)) OR
      push_bit 24 (ucast (ucast (drop_bit 24 u) :: byte))"
  have "?v = u"
  proof (rule bit_word_eqI)
    fix n assume "n < LENGTH(32)"
    then consider "n < 8" | "8 \<le> n" "n < 16" | "16 \<le> n" "n < 24" | "24 \<le> n" "n < 32" by force
    then show "bit ?v n = bit u n"
      by cases (auto simp: bit_simps)
  qed
  then show "ip2Uint (uint2IP u) = Some u"
    by (simp add: ip2Uint_def uint2IP_def le32_4)
  have "uint2IP (le32 [a, b, c, d]) = [a, b, c, d]"
    unfolding le32_4 uint2IP_def
    by (auto intro!: bit_word_eqI simp: bit_simps) (fastforce dest: bit_imp_le_length)+
  then show "map_option uint2IP (ip2Uint [a, b, c, d]) = Some [a, b, c, d]"
    by (simp add: ip2Uint_def)
  show "ip2Uint (v4_in_v6_prefix @ [a, b, c, d]) = ip2Uint [a, b, c, d]"
    by (simp add: ip2Uint_def v4_in_v6_prefix_def)
qed

section \<open>Broadcast addresses\<close>

lemma broadcast_byte:
  fixes x m :: byte
  shows "((x AND m) OR (m XOR 0xff)) AND m = x AND m" and "((x AND m) OR (m XOR 0xff)) OR m = 0xff"
proof -
  have ones: "0xff = (NOT 0 :: byte)" by simp
  show "((x AND m) OR (m XOR 0xff)) AND m = x AND m"
    unfolding ones by (rule bit_word_eqI) (auto simp: bit_simps)
  show "((x AND m) OR (m XOR 0xff)) OR m = 0xff"
    unfolding ones by (rule bit_word_eqI) (auto simp: bit_simps)
qed

text \<open>
  \<open>getBroadcast\<close> of a network whose mask has the address's length keeps the network
  bits and sets every host bit; a four-byte address gives the same result whether it or
  its mask is written in four or in sixteen bytes.
\<close>

theorem getBroadcast_bits:
  assumes "length ip = length msk"
  shows "\<exists>b. getBroadcast \<lparr>net_ip = ip, net_mask = msk\<rparr> = Some b \<and> length b = length ip
      \<and> (\<forall>i < length ip. b ! i AND msk ! i = ip ! i AND msk ! i \<and> b ! i OR msk ! i = 0xff)
      \<and> (length ip = 4 \<longrightarrow>
           getBroadcast \<lparr>net_ip = v4_in_v6_prefix @ ip, net_mask = msk\<rparr> = Some b
         \<and> getBroadcast \<lparr>net_ip = ip, net_mask = replicate 12 0xff @ msk\<rparr> = Some b)"
proof -
  let ?b = "map2 (\<lambda>x m. (x AND m) OR (m XOR 0xff)) ip msk"
  have "getBroadcast \<lparr>net_ip = ip, net_mask = msk\<rparr> = Some ?b"
    using assms by (auto simp: getBroadcast_def Let_def)
  moreover have "length ip = 4 \<Longrightarrow> getBroadcast \<lparr>net_ip = v4_in_v6_prefix @ ip, net_mask = msk\<rparr> = Some ?b"
    using assms by (simp add: getBroadcast_def Let_def v4_in_v6_prefix_def)
  moreover have "length ip = 4 \<Longrightarrow> getBroadcast \<lparr>net_ip = ip, net_mask = replicate 12 0xff @ msk\<rparr> = Some ?b"
    using assms by (simp add: getBroadcast_def Let_def allFF_def list_all_iff)
  moreover have "length ?b = length ip
      \<and> (\<forall>i < length ip. ?b ! i AND msk ! i = ip ! i AND msk ! i \<and> ?b ! i OR msk ! i = 0xff)"
    using assms by (auto simp: broadcast_byte)
  ultimately show ?thesis by (intro exI [of _ ?b] conjI impI) (assumption | blast)+
qed

lemma getBroadcast_bits_witness:
  "getBroadcast \<lparr>net_ip = [192, 168, 1, 77], net_mask = [255, 255, 255, 192]\<rparr> = Some [192, 168, 1, 127]
   \<and> getBroadcast \<lparr>net_ip = v4_in_v6_prefix @ [192, 168, 1, 77], net_mask = [255, 255, 255, 192]\<rparr>
       = Some [192, 168, 1, 127]"
proof -
  have "getBroadcast \<lparr>net_ip = [192, 168, 1, 77], net_mask = [255, 255, 255, 192]\<rparr> = Some [192, 168, 1, 127]"
    by code_simp
  then show ?thesis
    using getBroadcast_bits [of "[192, 168, 1, 77]" "[255, 255, 255, 192]"] by auto
qed

section \<open>Backups are pruned oldest first\<close>

text \<open>A file \<open>pruneBackups\<close> considers: not a directory, and its name matches.\<close>

definition is_backup :: "world \<Rightarrow> string \<Rightarrow> (string \<Rightarrow> bool) \<Rightarrow> string \<Rightarrow> bool" where
  "is_backup w dir matches n \<longleftrightarrow>
     file_name n \<and> matches n \<and> (\<exists>nd. fs_get w (dir @ ''/'' @ n) = Some nd \<and> nd \<noteq> Dir)"

definition mtime_at :: "world \<Rightarrow> string \<Rightarrow> nat" where
  "mtime_at w p = (case fs_get w p of Some nd \<Rightarrow> fi_mtime (node_info nd) | None \<Rightarrow> 0)"

lemma node_info_dir: "fi_dir (node_info nd) \<longleftrightarrow> nd = Dir"
  by (cases nd) (auto simp: node_info_def)

lemma HasPrefix_append_iff: "HasPrefix s p \<longleftrightarrow> (\<exists>r. s = p @ r)"
  by (induction s p rule: HasPrefix.induct) auto

lemma children_iff: "n \<in> set (children w d) \<longleftrightarrow> file_name n \<and> fs_get w (d @ ''/'' @ n) \<noteq> None"
proof -
  have "fs_get w p \<noteq> None \<longleftrightarrow> p \<in> fst ` set (w_fs w)" for p
    by (simp add: fs_get_def map_of_eq_None_iff)
  then show ?thesis
    by (fastforce simp: children_def HasPrefix_append_iff image_iff)
qed

lemma children_tick [simp]: "children (tick w) d = children w d"
  by (simp add: children_def tick_def)

lemma os_ReadDir_Inr:
  assumes "os_ReadDir d w = (Inr es, w')" and "no_link w d"
  shows "map de_name es = sort (remdups (children w d))
    \<and> (\<forall>e\<in>set es. de_info e = node_info (the (fs_get w (d @ ''/'' @ de_name e))))"
  using assms(1) unfolding os_ReadDir_def
  by (rule syscall_cases)
    (use resolve_no_link [of "tick w" d] assms(2) in
      \<open>auto simp: comp_def Let_def split: option.splits node.splits\<close>)

definition backups_ok :: "world \<Rightarrow> string \<Rightarrow> (string \<Rightarrow> bool) \<Rightarrow> (string \<times> nat) list \<Rightarrow> bool" where
  "backups_ok w dir matches bs \<longleftrightarrow> distinct (map fst bs) \<and>
     (\<forall>(n, t) \<in> set bs. is_backup w dir matches n \<and> t = mtime_at w (dir @ ''/'' @ n))"

lemma os_Lstat_fs: "fs_get (snd (os_Lstat p w)) = fs_get w"
  by (auto simp: os_Lstat_def syscall_def split: option.splits)

lemma os_Lstat_Inr: "os_Lstat p w = (Inr i, w') \<Longrightarrow> \<exists>nd. fs_get w p = Some nd \<and> i = node_info nd"
  by (auto simp: os_Lstat_def syscall_def split: option.splits)

lemma collect_backups_ok:
  assumes "distinct (map fst bs @ map de_name es)" and "fs_get v = fs_get w" and "backups_ok w dir matches bs"
    and "\<forall>e\<in>set es. file_name (de_name e) \<and> de_info e = node_info (the (fs_get w (dir @ ''/'' @ de_name e)))
        \<and> fs_get w (dir @ ''/'' @ de_name e) \<noteq> None"
    and "fold (collect_backup dir matches) es (bs, v) = (bs', v')"
  shows "fs_get v' = fs_get w \<and> backups_ok w dir matches bs'"
  using assms
proof (induction es arbitrary: bs v)
  case (Cons e es)
  let ?p = "dir @ ''/'' @ de_name e"
  show ?case
  proof (cases "fi_dir (de_info e) \<or> \<not> matches (de_name e)")
    case True
    then have "collect_backup dir matches e (bs, v) = (bs, v)" by (auto simp: collect_backup_def)
    with Cons show ?thesis by auto
  next
    case False
    obtain x v1 where l: "os_Lstat ?p v = (x, v1)" by fastforce
    have v1: "fs_get v1 = fs_get w" using os_Lstat_fs [of ?p v] l Cons.prems(2) by simp
    show ?thesis
    proof (cases x)
      case (Inl er)
      with False l have "collect_backup dir matches e (bs, v) = (bs, v1)" by (simp add: collect_backup_def)
      with Cons v1 show ?thesis by auto
    next
      case (Inr info)
      with False l have st: "collect_backup dir matches e (bs, v) = (bs @ [(de_name e, fi_mtime info)], v1)"
        by (simp add: collect_backup_def)
      obtain nd where nd: "fs_get w ?p = Some nd" "info = node_info nd"
        using os_Lstat_Inr [of ?p v info v1] l Inr Cons.prems(2) by auto
      with False Cons.prems(4) have "nd \<noteq> Dir" by (auto simp: node_info_dir)
      with nd False Cons.prems(1,3,4) have "backups_ok w dir matches (bs @ [(de_name e, fi_mtime info)])"
        by (auto simp: backups_ok_def is_backup_def mtime_at_def)
      from Cons.IH [OF _ v1 this] Cons.prems(1,4,5) st show ?thesis by simp
    qed
  qed
qed simp

lemma remove_backup_frame: "q \<noteq> path_join dir (fst b) \<Longrightarrow> fs_get (remove_backup dir b w) q = fs_get w q"
  using os_Remove_frame [of "path_join dir (fst b)" w _ _ q]
  by (auto simp: remove_backup_def split: prod.splits sum.splits)

lemma remove_backups_frame:
  "q \<notin> (path_join dir \<circ> fst) ` set bs \<Longrightarrow> fs_get (fold (remove_backup dir) bs w) q = fs_get w q"
  by (induction bs arbitrary: w) (auto simp: remove_backup_frame)

interpretation backup: strict_weak_order backup_before
  by unfold_locales (auto simp: backup_before_def split: if_splits)

lemma backup_before_total: "a \<noteq> b \<Longrightarrow> backup_before a b \<or> backup_before b a"
  by (auto simp: backup_before_def prod_eq_iff split: if_splits)

text \<open>In a sorted list of distinct names everything kept is before everything dropped.\<close>

lemma kept_before_dropped:
  assumes "distinct (map fst bs)" and "a \<in> set (take k (sort_by backup_before bs))"
    and "b \<in> set (drop k (sort_by backup_before bs))"
  shows "backup_before a b"
proof -
  let ?s = "sort_by backup_before bs"
  have d: "distinct ?s"
    using assms(1) by (metis distinct_map mset_sort_by mset_eq_imp_distinct_iff)
  have "sorted_wrt (\<lambda>a b. \<not> backup_before b a) (take k ?s @ drop k ?s)"
    using backup.sorted_sort_by [of bs] by simp
  then have "\<not> backup_before b a"
    using assms(2,3) unfolding sorted_wrt_append by blast
  moreover have "a \<noteq> b"
    using d assms(2,3) by (metis append_take_drop_id disjoint_iff distinct_append)
  ultimately show ?thesis using backup_before_total by blast
qed

lemma pruneBackups_changes:
  assumes "abs_dir dir" and "no_link w dir" and "w' = pruneBackups dir matches keep w"
    and "fs_get w' p \<noteq> fs_get w p"
  shows "\<exists>n. p = dir @ ''/'' @ n \<and> is_backup w dir matches n \<and> 0 < keep \<and>
     (\<exists>ms. distinct ms \<and> int (length ms) = keep \<and>
       (\<forall>m\<in>set ms. is_backup w dir matches m
          \<and> fs_get w' (dir @ ''/'' @ m) = fs_get w (dir @ ''/'' @ m)
          \<and> backup_before (m, mtime_at w (dir @ ''/'' @ m)) (n, mtime_at w (dir @ ''/'' @ n))))"
proof -
  have k: "0 < keep" using assms(3,4) by (auto simp: pruneBackups_def split: if_splits)
  obtain x w1 where rd: "os_ReadDir dir w = (x, w1)" by fastforce
  have w1: "fs_get w1 = fs_get w" using os_ReadDir_frame [OF rd] by blast
  obtain es where x: "x = Inr es"
    using assms(3,4) k rd w1 by (cases x) (auto simp: pruneBackups_def)
  have es: "map de_name es = sort (remdups (children w dir))"
      "\<forall>e\<in>set es. de_info e = node_info (the (fs_get w (dir @ ''/'' @ de_name e)))"
    using os_ReadDir_Inr [OF _ assms(2)] rd x by auto
  obtain bs w2 where bs: "fold (collect_backup dir matches) es ([], w1) = (bs, w2)" by fastforce
  have "distinct (map de_name es)" "\<forall>e\<in>set es. de_name e \<in> set (children w dir)"
    using es(1) by (simp, metis image_eqI list.set_map set_remdups set_sort)
  then have ok: "fs_get w2 = fs_get w \<and> backups_ok w dir matches bs"
    using es(2) by (intro collect_backups_ok [OF _ w1 _ _ bs]) (auto simp: backups_ok_def children_iff)
  let ?s = "sort_by backup_before bs"
  have long: "keep < int (length bs)" and w': "w' = fold (remove_backup dir) (drop (nat keep) ?s) w2"
    using assms(3,4) k rd x bs ok by (auto simp: pruneBackups_def split: if_splits)
  have dist: "distinct (map fst bs)" using ok by (simp add: backups_ok_def)
  have fn: "file_name (fst b)" "is_backup w dir matches (fst b)" "snd b = mtime_at w (dir @ ''/'' @ fst b)"
    if "b \<in> set ?s" for b
    using that ok by (auto simp: backups_ok_def is_backup_def)
  have "p \<in> (path_join dir \<circ> fst) ` set (drop (nat keep) ?s)"
    using assms(4) w' ok remove_backups_frame [of p dir "drop (nat keep) ?s" w2] by metis
  then obtain b where b: "b \<in> set (drop (nat keep) ?s)" "p = path_join dir (fst b)" by auto
  have bs': "b \<in> set ?s" using b(1) in_set_dropD by metis
  let ?ms = "map fst (take (nat keep) ?s)"
  have ds: "distinct (map fst ?s)"
    using dist by (metis mset_map mset_sort_by mset_eq_imp_distinct_iff)
  have "distinct ?ms" using ds by (metis distinct_take take_map)
  moreover have "int (length ?ms) = keep" using k long by simp
  moreover have "is_backup w dir matches (fst a)
      \<and> fs_get w' (dir @ ''/'' @ fst a) = fs_get w (dir @ ''/'' @ fst a)
      \<and> backup_before (fst a, mtime_at w (dir @ ''/'' @ fst a)) (fst b, mtime_at w (dir @ ''/'' @ fst b))"
    if a: "a \<in> set (take (nat keep) ?s)" for a
  proof -
    have as: "a \<in> set ?s" using a in_set_takeD by metis
    have "fst a \<notin> fst ` set (drop (nat keep) ?s)"
      using ds a by (metis append_take_drop_id disjoint_iff distinct_append imageI list.set_map map_append)
    moreover have "path_join dir (fst c) = dir @ ''/'' @ fst c" if "c \<in> set (drop (nat keep) ?s)" for c
      using that fn(1) in_set_dropD path_join_name [OF assms(1)] by metis
    ultimately have "dir @ ''/'' @ fst a \<notin> (path_join dir \<circ> fst) ` set (drop (nat keep) ?s)"
      by (auto simp: image_iff)
    then have same: "fs_get w' (dir @ ''/'' @ fst a) = fs_get w (dir @ ''/'' @ fst a)"
      using remove_backups_frame w' ok by metis
    have "backup_before (fst a, snd a) (fst b, snd b)"
      using kept_before_dropped [OF dist a b(1)] by simp
    then have "backup_before (fst a, mtime_at w (dir @ ''/'' @ fst a)) (fst b, mtime_at w (dir @ ''/'' @ fst b))"
      by (simp only: fn(3) [OF as] fn(3) [OF bs'])
    then show ?thesis using fn(2) [OF as] same by blast
  qed
  ultimately have "\<exists>ms. distinct ms \<and> int (length ms) = keep \<and> (\<forall>m\<in>set ms. is_backup w dir matches m
          \<and> fs_get w' (dir @ ''/'' @ m) = fs_get w (dir @ ''/'' @ m)
          \<and> backup_before (m, mtime_at w (dir @ ''/'' @ m)) (fst b, mtime_at w (dir @ ''/'' @ fst b)))"
    by (intro exI [of _ ?ms] conjI) auto
  moreover have "p = dir @ ''/'' @ fst b"
    using b(2) fn(1) [OF bs'] path_join_name [OF assms(1)] by simp
  ultimately show ?thesis using fn(2) [OF bs'] k by blast
qed

text \<open>
  C14. \<open>pruneBackups\<close>, under every pattern of failing system calls, changes nothing but
  matching backup files of the directory, and a backup is only removed when at least
  \<open>keep\<close> newer ones stay in place with their content.
\<close>

theorem pruneBackups_keeps_newest:
  assumes "abs_dir dir" and "no_link w dir" and "w' = pruneBackups dir matches keep w"
    and "fs_get w' p \<noteq> fs_get w p"
  shows "\<exists>n. p = dir @ ''/'' @ n \<and> is_backup w dir matches n \<and> 0 < keep \<and>
     (\<exists>ms. distinct ms \<and> int (length ms) = keep \<and>
       (\<forall>m\<in>set ms. is_backup w dir matches m
          \<and> fs_get w' (dir @ ''/'' @ m) = fs_get w (dir @ ''/'' @ m)
          \<and> backup_before (m, mtime_at w (dir @ ''/'' @ m)) (n, mtime_at w (dir @ ''/'' @ n))))"
  by (rule pruneBackups_changes [OF assms])

definition prune_world :: world where
  "prune_world = mk_world [(''/d'', Dir), (''/d/f'', File ''x'' 420 9), (''/d/f.bak.1'', File ''a'' 420 1),
     (''/d/f.bak.2'', File ''b'' 420 2)]"

lemma pruneBackups_keeps_newest_witness:
  "fs_get (pruneBackups ''/d'' (suffixBackupMatcher ''f'') 1 prune_world) ''/d/f.bak.1'' = None
   \<and> (\<exists>n. ''/d/f.bak.1'' = ''/d'' @ ''/'' @ n \<and> is_backup prune_world ''/d'' (suffixBackupMatcher ''f'') n)"
proof
  show gone: "fs_get (pruneBackups ''/d'' (suffixBackupMatcher ''f'') 1 prune_world) ''/d/f.bak.1'' = None"
    by code_simp
  have d: "abs_dir ''/d''" by code_simp
  have l: "no_link prune_world ''/d''" by code_simp
  have "fs_get prune_world ''/d/f.bak.1'' \<noteq> None" by code_simp
  with gone show "\<exists>n. ''/d/f.bak.1'' = ''/d'' @ ''/'' @ n \<and> is_backup prune_world ''/d'' (suffixBackupMatcher ''f'') n"
    using pruneBackups_keeps_newest [OF d l refl, of "suffixBackupMatcher ''f''" 1 "''/d/f.bak.1''"] by metis
qed

end
