(* ===== verification/NetConf.thy ===== *)
theory NetConf
  imports Utils "HOL-Library.Product_Lexorder"
begin

text \<open>
  \<open>networkConfigurator.go\<close>: interfaces and routes, the loops that push one change to every
  configuration backend and control panel, the merge of what the backends have persisted
  into the running interfaces, the order in which interfaces are offered, and the lookup of
  an interface by name.
\<close>

section \<open>Routes and interfaces\<close>

text \<open>A nil destination is \<^term>\<open>None\<close>; a nil address is the empty list.\<close>

record Route =
  rt_Destination :: "ipnet option"
  rt_Gateway :: ip
  rt_Metric :: int

definition dest_string :: "ipnet option \<Rightarrow> string" where
  "dest_string d = (case d of None \<Rightarrow> ''<nil>'' | Some n \<Rightarrow> ipnet_string n)"

definition Route_String :: "Route \<Rightarrow> string" where
  "Route_String i = dest_string (rt_Destination i) @ '' via '' @ ip_string (rt_Gateway i)
     @ '' metric '' @ Itoa (rt_Metric i)"

text \<open>\<open>if_Link\<close> is the platform's link object, here the kernel's interface index.\<close>

record Interface =
  if_Name :: string
  if_MAC :: "byte list"
  if_Addresses :: "ipnet list"
  if_Gateway4 :: ip
  if_Gateway6 :: ip
  if_Routes :: "Route list"
  if_DNS :: "ip list"
  if_Up :: bool
  if_Physical :: bool
  if_DHCP4 :: bool
  if_DHCP6 :: bool
  if_SearchDomains :: "string list"
  if_Link :: "nat option"

definition new_interface :: "string \<Rightarrow> Interface" where
  "new_interface n = \<lparr>if_Name = n, if_MAC = [], if_Addresses = [], if_Gateway4 = [], if_Gateway6 = [],
     if_Routes = [], if_DNS = [], if_Up = False, if_Physical = False, if_DHCP4 = False,
     if_DHCP6 = False, if_SearchDomains = [], if_Link = None\<rparr>"

definition mac_string :: "byte list \<Rightarrow> string" where
  "mac_string m = join '':'' (map (\<lambda>b. hex_string [b]) m)"

definition Interface_String :: "Interface \<Rightarrow> string" where
  "Interface_String i =
     ''Name: '' @ if_Name i @ '' MAC: '' @ mac_string (if_MAC i)
     @ '' Addresses: ['' @ join '' '' (map ipnet_string (if_Addresses i)) @ '']''
     @ '' Gateway4: '' @ ip_string (if_Gateway4 i) @ '' Gateway6: '' @ ip_string (if_Gateway6 i)
     @ '' Routes: ['' @ join '', '' (map Route_String (if_Routes i)) @ '']''"

section \<open>Backends and panels\<close>

text \<open>The file of the ifupdown backend, by which it is detected.\<close>

definition ifUpDownConfig :: string where "ifUpDownConfig = ''/etc/network/interfaces''"

text \<open>
  What the configurator calls on a file backend and on a panel. \<open>'b\<close> is the type of the
  backend objects, which carry state of their own; the context argument is left out, its
  cancellation being one of the ways a call can fail. The two optional capabilities are
  what the code's type assertions ask for.
\<close>

type_synonym 'b op = "'b \<times> world \<Rightarrow> unit result \<times> 'b \<times> world"

record 'b ifaceBackend =
  SetIfaceAddresses :: "string \<Rightarrow> ipnet list \<Rightarrow> ip \<Rightarrow> ip \<Rightarrow> 'b op"
  SetIfaceRoutes :: "string \<Rightarrow> Route list \<Rightarrow> 'b op"
  SetIfaceDNS :: "string \<Rightarrow> ip list \<Rightarrow> string list \<Rightarrow> 'b op"
  SetIfaceDHCP :: "string \<Rightarrow> bool \<Rightarrow> bool \<Rightarrow> 'b op"
  ifaceDNSReader :: "'b \<Rightarrow> ('b \<times> world \<Rightarrow> Interface list result \<times> 'b \<times> world) option"
  dhcpRenewer :: "'b \<Rightarrow> (string \<Rightarrow> 'b op) option"

record 'p panelBackend =
  panel_reload :: "'p op"
  panel_setMainIP :: "ip \<Rightarrow> 'p op"
  panel_removeIP :: "ip \<Rightarrow> 'p op"

type_synonym 'b named = "(string \<times> 'b) list"

text \<open>
  The loop all the pushing helpers share: each backend is called once, in order, and an
  error is logged and does not stop the loop. Also which calls succeeded, in order.
\<close>

fun for_backends ::
  "('b \<Rightarrow> 'b op option) \<Rightarrow> (string \<Rightarrow> goerror \<Rightarrow> string) \<Rightarrow> 'b named \<Rightarrow> world \<Rightarrow> bool list \<times> 'b named \<times> world" where
  "for_backends call msg [] w = ([], [], w)"
| "for_backends call msg ((n, b) # bs) w =
     (case call b of
        None \<Rightarrow> (case for_backends call msg bs w of (oks, bs', w') \<Rightarrow> (oks, (n, b) # bs', w'))
      | Some f \<Rightarrow>
         (case f (b, w) of (r, b', w1) \<Rightarrow>
          let w2 = (case r of Inl e \<Rightarrow> log_print (msg n e) w1 | Inr u \<Rightarrow> w1) in
          case for_backends call msg bs w2 of (oks, bs', w') \<Rightarrow> (succeeded r # oks, (n, b') # bs', w')))"

definition error_msg :: "string \<Rightarrow> goerror \<Rightarrow> string" where
  "error_msg n e = n @ '' error: '' @ error_text e"

definition applyIfaceAddresses ::
  "'b ifaceBackend \<Rightarrow> 'b named \<Rightarrow> string \<Rightarrow> ipnet list \<Rightarrow> ip \<Rightarrow> ip \<Rightarrow> world \<Rightarrow> 'b named \<times> world" where
  "applyIfaceAddresses ops backends iface addrs gateway4 gateway6 w =
     snd (for_backends (\<lambda>b. Some (SetIfaceAddresses ops iface addrs gateway4 gateway6)) error_msg backends w)"

definition applyIfaceRoutes ::
  "'b ifaceBackend \<Rightarrow> 'b named \<Rightarrow> string \<Rightarrow> Route list \<Rightarrow> world \<Rightarrow> 'b named \<times> world" where
  "applyIfaceRoutes ops backends iface routes w =
     snd (for_backends (\<lambda>b. Some (SetIfaceRoutes ops iface routes)) error_msg backends w)"

definition applyIfaceDHCP ::
  "'b ifaceBackend \<Rightarrow> 'b named \<Rightarrow> string \<Rightarrow> bool \<Rightarrow> bool \<Rightarrow> world \<Rightarrow> bool \<times> 'b named \<times> world" where
  "applyIfaceDHCP ops backends iface dhcp4 dhcp6 w =
     (case for_backends (\<lambda>b. Some (SetIfaceDHCP ops iface dhcp4 dhcp6)) error_msg backends w of
        (oks, bs, w') \<Rightarrow> (list_ex id oks, bs, w'))"

definition renewDHCPOnBackends ::
  "'b ifaceBackend \<Rightarrow> 'b named \<Rightarrow> string \<Rightarrow> world \<Rightarrow> 'b named \<times> world" where
  "renewDHCPOnBackends ops backends iface w =
     snd (for_backends (\<lambda>b. map_option (\<lambda>renew. renew iface) (dhcpRenewer ops b))
       (\<lambda>n e. n @ '': error renewing DHCP on '' @ iface @ '': '' @ error_text e) backends w)"

definition applyIfaceDNS ::
  "'b ifaceBackend \<Rightarrow> 'b named \<Rightarrow> string \<Rightarrow> ip list \<Rightarrow> string list \<Rightarrow> world \<Rightarrow> 'b named \<times> world" where
  "applyIfaceDNS ops backends iface servers searchDomains w =
     snd (for_backends (\<lambda>b. Some (SetIfaceDNS ops iface servers searchDomains)) error_msg backends w)"

definition reloadPanels :: "'p panelBackend \<Rightarrow> 'p named \<Rightarrow> world \<Rightarrow> 'p named \<times> world" where
  "reloadPanels ops panels w = snd (for_backends (\<lambda>p. Some (panel_reload ops)) error_msg panels w)"

definition setMainIPOnPanels :: "'p panelBackend \<Rightarrow> 'p named \<Rightarrow> ip \<Rightarrow> world \<Rightarrow> 'p named \<times> world" where
  "setMainIPOnPanels ops panels addr w =
     snd (for_backends (\<lambda>p. Some (panel_setMainIP ops addr)) error_msg panels w)"

definition removeIPFromPanels :: "'p panelBackend \<Rightarrow> 'p named \<Rightarrow> ip \<Rightarrow> world \<Rightarrow> 'p named \<times> world" where
  "removeIPFromPanels ops panels addr w =
     snd (for_backends (\<lambda>p. Some (panel_removeIP ops addr)) error_msg panels w)"

section \<open>Merging persisted state\<close>

definition ipIsIn :: "ip list \<Rightarrow> ip \<Rightarrow> bool" where
  "ipIsIn addrs a = list_ex (\<lambda>b. ip_equal b a) addrs"

definition stringInSlice :: "string list \<Rightarrow> string \<Rightarrow> bool" where
  "stringInSlice xs s = list_ex (\<lambda>v. v = s) xs"

definition add_dns :: "ip \<Rightarrow> ip list \<Rightarrow> ip list" where
  "add_dns a dns = (if a = [] \<or> ipIsIn dns a then dns else dns @ [a])"

definition add_domain :: "string \<Rightarrow> string list \<Rightarrow> string list" where
  "add_domain d ds = (if d = [] \<or> stringInSlice ds d then ds else ds @ [d])"

definition merge_into :: "Interface \<Rightarrow> Interface \<Rightarrow> Interface" where
  "merge_into bi target = target\<lparr>
     if_DHCP4 := if_DHCP4 target \<or> if_DHCP4 bi,
     if_DHCP6 := if_DHCP6 target \<or> if_DHCP6 bi,
     if_DNS := fold add_dns (if_DNS bi) (if_DNS target),
     if_SearchDomains := fold add_domain (if_SearchDomains bi) (if_SearchDomains target)\<rparr>"

text \<open>
  \<open>byName\<close> holds pointers into \<open>ifaces\<close>; of two interfaces of one name the last one is
  found. \<open>update_last\<close> changes the element such a pointer leads to.
\<close>

fun update_last :: "('a \<Rightarrow> bool) \<Rightarrow> ('a \<Rightarrow> 'a) \<Rightarrow> 'a list \<Rightarrow> 'a list" where
  "update_last P f [] = []"
| "update_last P f (x # xs) =
     (if list_ex P xs then x # update_last P f xs else if P x then f x # xs else x # xs)"

definition merge_by_name :: "Interface \<Rightarrow> Interface list \<Rightarrow> Interface list" where
  "merge_by_name bi ifaces = update_last (\<lambda>i. if_Name i = if_Name bi) (merge_into bi) ifaces"

fun mergeBackendState ::
  "'b ifaceBackend \<Rightarrow> 'b named \<Rightarrow> Interface list \<Rightarrow> world \<Rightarrow> Interface list \<times> 'b named \<times> world" where
  "mergeBackendState ops [] ifaces w = (ifaces, [], w)"
| "mergeBackendState ops ((n, b) # bs) ifaces w =
     (case ifaceDNSReader ops b of
        None \<Rightarrow> (case mergeBackendState ops bs ifaces w of (is, bs', w') \<Rightarrow> (is, (n, b) # bs', w'))
      | Some GetInterfaces \<Rightarrow>
         (case GetInterfaces (b, w) of
            (Inl e, b', w1) \<Rightarrow>
              (case mergeBackendState ops bs ifaces (log_print (n @ '': error reading DNS: '' @ error_text e) w1) of
                 (is, bs', w') \<Rightarrow> (is, (n, b') # bs', w'))
          | (Inr bis, b', w1) \<Rightarrow>
              (case mergeBackendState ops bs (fold merge_by_name bis ifaces) w1 of
                 (is, bs', w') \<Rightarrow> (is, (n, b') # bs', w'))))"

section \<open>The primary address\<close>

definition reorderPrimaryAddress :: "ipnet list \<Rightarrow> ipnet \<Rightarrow> ipnet list \<times> bool" where
  "reorderPrimaryAddress addrs target =
     (let found = list_ex (\<lambda>a. ip_equal (net_ip a) (net_ip target)) addrs;
          reordered = filter (\<lambda>a. \<not> ip_equal (net_ip a) (net_ip target)) addrs
      in if \<not> found then (addrs, False) else (target # reordered, True))"

section \<open>Ranking interfaces\<close>

definition gatewayRank :: "Interface \<Rightarrow> nat" where
  "gatewayRank i = (if if_Gateway4 i \<noteq> [] then 0 else if if_Gateway6 i \<noteq> [] then 1 else 2)"

definition wirelessNamePrefixes :: "string list" where
  "wirelessNamePrefixes = [''wl'', ''wifi'', ''wi-fi'']"

definition wiredNamePrefixes :: "string list" where
  "wiredNamePrefixes = [''eth'', ''en'', ''em'']"

definition ifaceNameRank :: "string \<Rightarrow> nat" where
  "ifaceNameRank name =
     (let lower = ToLower name in
      if list_ex (HasPrefix lower) wirelessNamePrefixes then 1
      else if list_ex (HasPrefix lower) wiredNamePrefixes then 0
      else 2)"

definition preferInterface :: "Interface \<Rightarrow> Interface \<Rightarrow> bool" where
  "preferInterface a b =
     (if if_Up a \<noteq> if_Up b then if_Up a
      else if gatewayRank a \<noteq> gatewayRank b then gatewayRank a < gatewayRank b
      else if ifaceNameRank (if_Name a) \<noteq> ifaceNameRank (if_Name b)
        then ifaceNameRank (if_Name a) < ifaceNameRank (if_Name b)
      else naturalLess (if_Name a) (if_Name b))"

definition FindPhysicalInterfaces :: "Interface list \<Rightarrow> Interface list" where
  "FindPhysicalInterfaces ifaces = sort_by preferInterface (filter if_Physical ifaces)"

definition Public :: string where "Public = ''public-internet''"
definition Public6 :: string where "Public6 = ''public-internet-6''"

definition FindInterfaceByName :: "string \<Rightarrow> Interface list \<Rightarrow> Interface option" where
  "FindInterfaceByName name ifaces =
     (if name = Public then List.find (\<lambda>i. if_Gateway4 i \<noteq> []) ifaces
      else if name = Public6 then List.find (\<lambda>i. if_Gateway6 i \<noteq> []) ifaces
      else List.find (\<lambda>i. if_Name i = name) ifaces)"

section \<open>Pushing a change to every backend\<close>

text \<open>
  \<open>calls_each call bs w bs'\<close>: there is a chain of worlds from \<open>w\<close> in which each backend is
  called exactly once, in order, whatever the earlier calls returned.
\<close>

inductive calls_each ::
  "('b \<Rightarrow> 'b op option) \<Rightarrow> (string \<Rightarrow> goerror \<Rightarrow> string) \<Rightarrow> 'b named \<Rightarrow> world \<Rightarrow> unit result list \<Rightarrow> 'b named \<Rightarrow> world \<Rightarrow> bool"
  for call msg where
  calls_done: "calls_each call msg [] w [] [] w"
| calls_skip: "call b = None \<Longrightarrow> calls_each call msg bs w rs bs' w' \<Longrightarrow>
     calls_each call msg ((n, b) # bs) w rs ((n, b) # bs') w'"
| calls_ok: "call b = Some f \<Longrightarrow> f (b, w) = (Inr u, b', w1) \<Longrightarrow> calls_each call msg bs w1 rs bs' w' \<Longrightarrow>
     calls_each call msg ((n, b) # bs) w (Inr u # rs) ((n, b') # bs') w'"
| calls_error: "call b = Some f \<Longrightarrow> f (b, w) = (Inl e, b', w1) \<Longrightarrow>
     calls_each call msg bs (log_print (msg n e) w1) rs bs' w' \<Longrightarrow>
     calls_each call msg ((n, b) # bs) w (Inl e # rs) ((n, b') # bs') w'"

inductive_cases calls_NilE [elim!]: "calls_each call msg [] w rs bs' w'"
inductive_cases calls_ConsE: "calls_each call msg ((n, b) # bs) w rs bs' w'"

lemma for_backends_calls:
  "for_backends call msg bs w = (oks, bs', w') \<longleftrightarrow>
     (\<exists>rs. calls_each call msg bs w rs bs' w' \<and> oks = map (\<lambda>r. succeeded r) rs)"
proof
  show "for_backends call msg bs w = (oks, bs', w') \<Longrightarrow>
     \<exists>rs. calls_each call msg bs w rs bs' w' \<and> oks = map (\<lambda>r. succeeded r) rs"
  proof (induction call msg bs w arbitrary: oks bs' w' rule: for_backends.induct)
    case (2 call msg n b bs w)
    show ?case
    proof (cases "call b")
      case None
      with 2 show ?thesis by (fastforce intro: calls_skip split: prod.splits)
    next
      case (Some f)
      obtain r b1 w1 where f: "f (b, w) = (r, b1, w1)" by (cases "f (b, w)") auto
      let ?w2 = "case r of Inl e \<Rightarrow> log_print (msg n e) w1 | Inr u \<Rightarrow> w1"
      obtain oks1 bs1 w3 where rec: "for_backends call msg bs ?w2 = (oks1, bs1, w3)"
        by (cases "for_backends call msg bs ?w2") auto
      from "2.IH"(2) [OF Some f [symmetric] refl refl rec]
      obtain rs where "calls_each call msg bs ?w2 rs bs1 w3" "oks1 = map succeeded rs" by blast
      then show ?thesis
        using "2.prems" Some f rec
        by (cases r) (auto intro!: exI [of _ "r # rs"] intro: calls_ok calls_error)
    qed
  qed (auto intro: calls_done)
next
  assume "\<exists>rs. calls_each call msg bs w rs bs' w' \<and> oks = map (\<lambda>r. succeeded r) rs"
  then obtain rs where c: "calls_each call msg bs w rs bs' w'" and "oks = map (\<lambda>r. succeeded r) rs" by blast
  then show "for_backends call msg bs w = (oks, bs', w')"
    by (induction arbitrary: oks rule: calls_each.induct) auto
qed

lemma for_backends_snd:
  "snd (for_backends call msg bs w) = (bs', w') \<longleftrightarrow> (\<exists>rs. calls_each call msg bs w rs bs' w')"
proof -
  obtain oks bs1 w1 where f: "for_backends call msg bs w = (oks, bs1, w1)"
    by (cases "for_backends call msg bs w") auto
  show ?thesis
  proof
    assume "snd (for_backends call msg bs w) = (bs', w')"
    then show "\<exists>rs. calls_each call msg bs w rs bs' w'"
      using f for_backends_calls [of call msg bs w oks bs' w'] by auto
  next
    assume "\<exists>rs. calls_each call msg bs w rs bs' w'"
    then obtain rs where "calls_each call msg bs w rs bs' w'" ..
    then show "snd (for_backends call msg bs w) = (bs', w')"
      using for_backends_calls [of call msg bs w "map (\<lambda>r. succeeded r) rs" bs' w'] by auto
  qed
qed

text \<open>
  Each helper that pushes a change calls every backend (or panel) exactly once, in
  order, whatever the earlier calls returned, and logs each failure before the next call;
  \<open>applyIfaceDHCP\<close> moreover reports whether at least one backend accepted the change.
\<close>

theorem apply_calls_every_backend:
  "(applyIfaceDHCP ops bs iface d4 d6 w = (ok, bs', w') \<longleftrightarrow>
     (\<exists>rs. calls_each (\<lambda>b. Some (SetIfaceDHCP ops iface d4 d6)) error_msg bs w rs bs' w'
        \<and> ok = (\<exists>r\<in>set rs. succeeded r)))
   \<and> (applyIfaceAddresses ops bs iface addrs g4 g6 w = (bs', w') \<longleftrightarrow>
     (\<exists>rs. calls_each (\<lambda>b. Some (SetIfaceAddresses ops iface addrs g4 g6)) error_msg bs w rs bs' w'))
   \<and> (applyIfaceRoutes ops bs iface routes w = (bs', w') \<longleftrightarrow>
     (\<exists>rs. calls_each (\<lambda>b. Some (SetIfaceRoutes ops iface routes)) error_msg bs w rs bs' w'))
   \<and> (applyIfaceDNS ops bs iface servers domains w = (bs', w') \<longleftrightarrow>
     (\<exists>rs. calls_each (\<lambda>b. Some (SetIfaceDNS ops iface servers domains)) error_msg bs w rs bs' w'))
   \<and> (reloadPanels pops ps w = (ps', w') \<longleftrightarrow>
     (\<exists>rs. calls_each (\<lambda>p. Some (panel_reload pops)) error_msg ps w rs ps' w'))
   \<and> (setMainIPOnPanels pops ps a w = (ps', w') \<longleftrightarrow>
     (\<exists>rs. calls_each (\<lambda>p. Some (panel_setMainIP pops a)) error_msg ps w rs ps' w'))
   \<and> (removeIPFromPanels pops ps a w = (ps', w') \<longleftrightarrow>
     (\<exists>rs. calls_each (\<lambda>p. Some (panel_removeIP pops a)) error_msg ps w rs ps' w'))"
proof (intro conjI)
  let ?c = "\<lambda>b. Some (SetIfaceDHCP ops iface d4 d6)"
  obtain oks bs1 w1 where f: "for_backends ?c error_msg bs w = (oks, bs1, w1)"
    by (cases "for_backends ?c error_msg bs w") auto
  then obtain rs where rs: "calls_each ?c error_msg bs w rs bs1 w1" "oks = map (\<lambda>r. succeeded r) rs"
    using for_backends_calls by metis
  have u: "calls_each ?c error_msg bs w rs' bs' w' \<Longrightarrow>
      map (\<lambda>r. succeeded r) rs' = oks \<and> bs' = bs1 \<and> w' = w1" for rs'
    using for_backends_calls [of ?c error_msg bs w "map (\<lambda>r. succeeded r) rs'" bs' w'] f by auto
  have ex: "list_ex id (map (\<lambda>r. succeeded r) rs') = (\<exists>r\<in>set rs'. succeeded r)" for rs' :: "unit result list"
    by (simp add: list_ex_iff)
  have def: "applyIfaceDHCP ops bs iface d4 d6 w = (list_ex id oks, bs1, w1)"
    using f by (simp add: applyIfaceDHCP_def)
  show "applyIfaceDHCP ops bs iface d4 d6 w = (ok, bs', w') \<longleftrightarrow>
      (\<exists>rs. calls_each ?c error_msg bs w rs bs' w' \<and> ok = (\<exists>r\<in>set rs. succeeded r))"
    (is "?l \<longleftrightarrow> ?r")
  proof
    assume ?l
    with def have "ok = list_ex id oks" "bs' = bs1" "w' = w1" by simp_all
    with rs ex show ?r by blast
  next
    assume ?r
    then obtain rs' where "calls_each ?c error_msg bs w rs' bs' w'" "ok = (\<exists>r\<in>set rs'. succeeded r)" by blast
    with u [of rs'] ex [of rs'] def show ?l by simp
  qed
qed (unfold applyIfaceAddresses_def applyIfaceRoutes_def applyIfaceDNS_def reloadPanels_def
    setMainIPOnPanels_def removeIPFromPanels_def, (rule for_backends_snd)+)

section \<open>Ranking is a strict weak order\<close>

definition rank_key :: "Interface \<Rightarrow> nat \<times> nat \<times> nat" where
  "rank_key i = (if if_Up i then 0 else 1, gatewayRank i, ifaceNameRank (if_Name i))"

lemma preferInterface_key:
  "preferInterface a b \<longleftrightarrow> rank_key a < rank_key b \<or> (rank_key a = rank_key b \<and> naturalLess (if_Name a) (if_Name b))"
  by (auto simp: preferInterface_def rank_key_def)

interpretation rank: strict_weak_order preferInterface
  by unfold_locales
    (auto simp: preferInterface_key natural.irrefl dest: natural.trans natural.neg_trans)

text \<open>
  C12. \<open>FindPhysicalInterfaces\<close> returns exactly the physical interfaces, ordered so that no
  later one is preferred to an earlier one, with interfaces of equal preference in their
  given order; the preference ranks running before not running, then by default gateway,
  then wired before wireless, then by natural name order.
\<close>

theorem FindPhysicalInterfaces_ranked:
  "mset (FindPhysicalInterfaces ifaces) = mset (filter if_Physical ifaces)
   \<and> sorted_wrt (\<lambda>a b. \<not> preferInterface b a) (FindPhysicalInterfaces ifaces)
   \<and> filter (\<lambda>i. \<not> preferInterface c i \<and> \<not> preferInterface i c) (FindPhysicalInterfaces ifaces)
     = filter (\<lambda>i. if_Physical i \<and> \<not> preferInterface c i \<and> \<not> preferInterface i c) ifaces
   \<and> (preferInterface a b \<longleftrightarrow> rank_key a < rank_key b
        \<or> (rank_key a = rank_key b \<and> naturalLess (if_Name a) (if_Name b)))"
  using rank.sorted_sort_by rank.stable_sort_by [of c "filter if_Physical ifaces"]
  by (simp add: FindPhysicalInterfaces_def preferInterface_key conj_commute conj_left_commute)

text \<open>
  \<open>reorderPrimaryAddress\<close> finds the target exactly when an address with its IP is
  present; then the target is first and every other address keeps its relative order, so
  each address family still lists the same addresses. Otherwise nothing changes.
\<close>

theorem reorderPrimaryAddress_correct:
  "reorderPrimaryAddress addrs target = (r, found) \<longleftrightarrow>
     (found = (\<exists>a\<in>set addrs. ip_equal (net_ip a) (net_ip target)))
   \<and> r = (if found then target # filter (\<lambda>a. \<not> ip_equal (net_ip a) (net_ip target)) addrs else addrs)"
  by (auto simp: reorderPrimaryAddress_def Let_def list_ex_iff)

section \<open>Merging\<close>

text \<open>Appending the new elements that are not yet there, up to \<open>eq\<close>.\<close>

definition merges :: "('a list \<Rightarrow> 'a list \<Rightarrow> bool) \<Rightarrow> 'a list list \<Rightarrow> 'a list list \<Rightarrow> 'a list list \<Rightarrow> bool" where
  "merges eq old new res \<longleftrightarrow> (\<exists>extra. res = old @ extra
     \<and> set extra \<subseteq> set new - {[]}
     \<and> (\<forall>a\<in>set new - {[]}. \<exists>b\<in>set res. eq b a)
     \<and> (\<forall>k<length extra. \<forall>b\<in>set (old @ take k extra). \<not> eq b (extra ! k)))"

lemma merges_fold:
  assumes refl: "\<And>a. eq a a"
    and add: "\<And>a xs. add a xs = (if a = [] \<or> (\<exists>b\<in>set xs. eq b a) then xs else xs @ [a])"
  shows "merges eq old new (fold add new old)"
proof (induction new rule: rev_induct)
  case Nil
  show ?case by (auto simp: merges_def)
next
  case (snoc a new)
  then obtain extra where e: "fold add new old = old @ extra" "set extra \<subseteq> set new - {[]}"
    "\<forall>a\<in>set new - {[]}. \<exists>b\<in>set (old @ extra). eq b a"
    "\<forall>k<length extra. \<forall>b\<in>set (old @ take k extra). \<not> eq b (extra ! k)"
    by (auto simp: merges_def)
  show ?case
  proof (cases "a = [] \<or> (\<exists>b\<in>set (old @ extra). eq b a)")
    case True
    then have "fold add (new @ [a]) old = old @ extra" using e(1) add by simp
    then show ?thesis using True e unfolding merges_def by (intro exI [of _ extra]) auto
  next
    case False
    then have "fold add (new @ [a]) old = old @ (extra @ [a])" using e(1) add by simp
    moreover have "\<forall>k<length (extra @ [a]). \<forall>b\<in>set (old @ take k (extra @ [a])). \<not> eq b ((extra @ [a]) ! k)"
      using False e(4) by (auto simp: less_Suc_eq nth_append)
    ultimately show ?thesis using False e refl unfolding merges_def
      by (intro exI [of _ "extra @ [a]"]) auto
  qed
qed

lemma merges_dns: "merges ip_equal old new (fold add_dns new old)"
  by (rule merges_fold) (auto simp: add_dns_def ipIsIn_def list_ex_iff ip_equal_refl)

lemma merges_domains: "merges (=) old new (fold add_domain new old)"
  by (rule merges_fold) (auto simp: add_domain_def stringInSlice_def list_ex_iff)

text \<open>The interfaces the readable backends report, in order.\<close>

fun persisted :: "'b ifaceBackend \<Rightarrow> 'b named \<Rightarrow> world \<Rightarrow> Interface list" where
  "persisted ops [] w = []"
| "persisted ops ((n, b) # bs) w =
     (case ifaceDNSReader ops b of
        None \<Rightarrow> persisted ops bs w
      | Some GetInterfaces \<Rightarrow>
         (case GetInterfaces (b, w) of
            (Inl e, b', w1) \<Rightarrow> persisted ops bs (log_print (n @ '': error reading DNS: '' @ error_text e) w1)
          | (Inr bis, b', w1) \<Rightarrow> bis @ persisted ops bs w1))"

lemma mergeBackendState_fold:
  "fst (mergeBackendState ops bs ifaces w) = fold merge_by_name (persisted ops bs w) ifaces"
proof (induction bs arbitrary: ifaces w)
  case (Cons nb bs)
  obtain n b where nb: "nb = (n, b)" by fastforce
  have fst_case: "fst (case x of (is, bs', w') \<Rightarrow> (is, g bs', w')) = fst x"
    for x :: "Interface list \<times> 'a named \<times> world" and g :: "'a named \<Rightarrow> 'a named"
    by (simp split: prod.splits)
  show ?case
    by (auto simp: nb fst_case Cons.IH split: option.splits sum.splits prod.splits)
qed simp

lemma update_last_unique:
  assumes "distinct (map f xs)"
  shows "update_last (\<lambda>x. f x = v) g xs = map (\<lambda>x. if f x = v then g x else x) xs"
  using assms by (induction xs) (auto simp: list_ex_iff image_iff map_idI)

lemma merge_into_name [simp]: "if_Name (merge_into p i) = if_Name i"
  by (simp add: merge_into_def)

lemma merge_by_name_unique:
  "distinct (map if_Name ifaces) \<Longrightarrow>
     merge_by_name p ifaces = map (\<lambda>i. if if_Name i = if_Name p then merge_into p i else i) ifaces"
  unfolding merge_by_name_def by (rule update_last_unique)

lemma fold_merge_by_name:
  "distinct (map if_Name ifaces) \<Longrightarrow>
     fold merge_by_name ps ifaces = map (\<lambda>i. fold merge_into (filter (\<lambda>p. if_Name p = if_Name i) ps) i) ifaces"
proof (induction ps arbitrary: ifaces)
  case (Cons p ps)
  let ?f = "\<lambda>i. if if_Name i = if_Name p then merge_into p i else i"
  have "map if_Name (map ?f ifaces) = map if_Name ifaces" by simp
  with Cons.prems have "distinct (map if_Name (map ?f ifaces))" by (simp only:)
  from Cons.IH [OF this] show ?case using Cons.prems by (auto simp: merge_by_name_unique)
qed simp

lemma fold_merge_into:
  "fold merge_into ps i = i\<lparr>
     if_DHCP4 := if_DHCP4 i \<or> (\<exists>p\<in>set ps. if_DHCP4 p),
     if_DHCP6 := if_DHCP6 i \<or> (\<exists>p\<in>set ps. if_DHCP6 p),
     if_DNS := fold add_dns (concat (map if_DNS ps)) (if_DNS i),
     if_SearchDomains := fold add_domain (concat (map if_SearchDomains ps)) (if_SearchDomains i)\<rparr>"
  by (induction ps arbitrary: i) (auto simp: merge_into_def)

text \<open>
  C11. For running interfaces of distinct names, \<open>mergeBackendState\<close> sets each interface's
  DHCP flags to the disjunction over its persisted descriptions, appends exactly the
  resolvers and search domains they mention that are not there yet, each once (resolvers
  compared as addresses), and changes no other field and no other interface.
\<close>

theorem mergeBackendState_correct:
  assumes "distinct (map if_Name ifaces)"
    and "ps = persisted ops bs w"
    and "mine = (\<lambda>i. filter (\<lambda>p. if_Name p = if_Name i) ps)"
  shows "\<exists>f. fst (mergeBackendState ops bs ifaces w) = map f ifaces \<and>
     (\<forall>i. if_DHCP4 (f i) = (if_DHCP4 i \<or> (\<exists>p\<in>set (mine i). if_DHCP4 p))
        \<and> if_DHCP6 (f i) = (if_DHCP6 i \<or> (\<exists>p\<in>set (mine i). if_DHCP6 p))
        \<and> merges ip_equal (if_DNS i) (concat (map if_DNS (mine i))) (if_DNS (f i))
        \<and> merges (=) (if_SearchDomains i) (concat (map if_SearchDomains (mine i))) (if_SearchDomains (f i))
        \<and> i\<lparr>if_DHCP4 := if_DHCP4 (f i), if_DHCP6 := if_DHCP6 (f i), if_DNS := if_DNS (f i),
            if_SearchDomains := if_SearchDomains (f i)\<rparr> = f i)"
proof (intro exI [of _ "\<lambda>i. fold merge_into (mine i) i"] conjI allI)
  show "fst (mergeBackendState ops bs ifaces w) = map (\<lambda>i. fold merge_into (mine i) i) ifaces"
    using fold_merge_by_name [OF assms(1)] by (simp add: mergeBackendState_fold assms(2,3))
qed (simp_all add: fold_merge_into merges_dns merges_domains)

definition reader_ops :: "Interface list ifaceBackend" where
  "reader_ops = \<lparr>SetIfaceAddresses = (\<lambda>i a g g' s. (Inr (), s)), SetIfaceRoutes = (\<lambda>i r s. (Inr (), s)),
     SetIfaceDNS = (\<lambda>i s d s. (Inr (), s)), SetIfaceDHCP = (\<lambda>i a b s. (Inr (), s)),
     ifaceDNSReader = (\<lambda>b. Some (\<lambda>s. (Inr b, s))), dhcpRenewer = (\<lambda>b. None)\<rparr>"

lemma mergeBackendState_correct_witness:
  "map if_DHCP4 (fst (mergeBackendState reader_ops
       [(''a'', [(new_interface ''eth0'')\<lparr>if_DNS := [[1, 1, 1, 1]]\<rparr>]),
        (''b'', [(new_interface ''eth0'')\<lparr>if_DHCP4 := True, if_DNS := [[1, 1, 1, 1]]\<rparr>])]
       [new_interface ''eth0'', new_interface ''eth1''] (mk_world []))) = [True, False]"
  (is "map _ (fst (mergeBackendState _ ?bs ?is ?w)) = _")
proof -
  have d: "distinct (map if_Name ?is)" by (simp add: new_interface_def)
  have p: "persisted reader_ops ?bs ?w = [(new_interface ''eth0'')\<lparr>if_DNS := [[1, 1, 1, 1]]\<rparr>,
      (new_interface ''eth0'')\<lparr>if_DHCP4 := True, if_DNS := [[1, 1, 1, 1]]\<rparr>]"
    by (simp add: reader_ops_def)
  show ?thesis
    using mergeBackendState_correct [OF d refl refl, of reader_ops ?bs ?w]
    unfolding p by (auto simp: new_interface_def)
qed

end
