(* ===== verification/Options.thy ===== *)
theory Options
  imports NetConf
begin

text \<open>
  \<open>options.go\<close>: the tunable settings and the functions that set them. Durations are
  nanoseconds. The log destination is the world's log, so \<open>SetLogger\<close> has no counterpart.
\<close>

definition defaultInternetTestAddress :: string where
  "defaultInternetTestAddress = ''http://clients3.google.com/generate_204''"

definition defaultBackupRetention :: int where "defaultBackupRetention = 5"
definition defaultServiceReadyTimeout :: int where "defaultServiceReadyTimeout = 60 * second"

record configOptions =
  testAddress :: string
  skipConnectivityCheck :: bool
  connectivityTimeout :: int
  pingCount :: int
  pingTimeout :: int
  backupRetention :: int
  allowPrimaryRemoval :: bool
  skipPanels :: bool
  allowNoBackends :: bool
  serviceReadyTimeout :: int

definition defaultConfigOptions :: configOptions where
  "defaultConfigOptions = \<lparr>
     testAddress = defaultInternetTestAddress,
     skipConnectivityCheck = False,
     connectivityTimeout = defaultConnectivityTimeout,
     pingCount = defaultPingCount,
     pingTimeout = defaultPingTimeout,
     backupRetention = defaultBackupRetention,
     allowPrimaryRemoval = False,
     skipPanels = False,
     allowNoBackends = False,
     serviceReadyTimeout = defaultServiceReadyTimeout\<rparr>"

text \<open>An option is a function on the settings; a nil option is skipped.\<close>

type_synonym Option = "configOptions \<Rightarrow> configOptions"

definition newConfigOptions :: "Option option list \<Rightarrow> configOptions" where
  "newConfigOptions opts = foldl (\<lambda>c opt. case opt of None \<Rightarrow> c | Some f \<Rightarrow> f c) defaultConfigOptions opts"

definition WithTestAddress :: "string \<Rightarrow> Option" where
  "WithTestAddress addr c = (if addr \<noteq> [] then c\<lparr>testAddress := addr\<rparr> else c)"

definition WithConnectivityCheck :: "bool \<Rightarrow> Option" where
  "WithConnectivityCheck enabled c = c\<lparr>skipConnectivityCheck := \<not> enabled\<rparr>"

definition WithSkipConnectivityCheck :: Option where
  "WithSkipConnectivityCheck = WithConnectivityCheck False"

definition WithConnectivityTimeout :: "int \<Rightarrow> Option" where
  "WithConnectivityTimeout d c = (if d > 0 then c\<lparr>connectivityTimeout := d\<rparr> else c)"

definition WithPingCount :: "int \<Rightarrow> Option" where
  "WithPingCount n c = (if n > 0 then c\<lparr>pingCount := n\<rparr> else c)"

definition WithPingTimeout :: "int \<Rightarrow> Option" where
  "WithPingTimeout d c = (if d > 0 then c\<lparr>pingTimeout := d\<rparr> else c)"

definition WithBackupRetention :: "int \<Rightarrow> Option" where
  "WithBackupRetention n c = c\<lparr>backupRetention := n\<rparr>"

definition WithAllowPrimaryRemoval :: "bool \<Rightarrow> Option" where
  "WithAllowPrimaryRemoval allowed c = c\<lparr>allowPrimaryRemoval := allowed\<rparr>"

definition WithSkipPanels :: "bool \<Rightarrow> Option" where
  "WithSkipPanels skip c = c\<lparr>skipPanels := skip\<rparr>"

definition WithAllowNoBackends :: "bool \<Rightarrow> Option" where
  "WithAllowNoBackends allowed c = c\<lparr>allowNoBackends := allowed\<rparr>"

definition WithServiceReadyTimeout :: "int \<Rightarrow> Option" where
  "WithServiceReadyTimeout t c = c\<lparr>serviceReadyTimeout := t\<rparr>"

lemmas option_defs = WithTestAddress_def WithConnectivityCheck_def WithSkipConnectivityCheck_def
  WithConnectivityTimeout_def WithPingCount_def WithPingTimeout_def WithBackupRetention_def
  WithAllowPrimaryRemoval_def WithSkipPanels_def WithAllowNoBackends_def WithServiceReadyTimeout_def

section \<open>What a caller of the exported options can build\<close>

inductive exported :: "Option \<Rightarrow> bool" where
  "exported (WithTestAddress a)"
| "exported (WithConnectivityCheck b)"
| "exported WithSkipConnectivityCheck"
| "exported (WithConnectivityTimeout d)"
| "exported (WithPingCount n)"
| "exported (WithPingTimeout d)"
| "exported (WithBackupRetention n)"
| "exported (WithAllowPrimaryRemoval b)"
| "exported (WithSkipPanels b)"
| "exported (WithAllowNoBackends b)"
| "exported (WithServiceReadyTimeout t)"

definition usable :: "configOptions \<Rightarrow> bool" where
  "usable c \<longleftrightarrow> testAddress c \<noteq> [] \<and> connectivityTimeout c > 0 \<and> pingCount c > 0 \<and> pingTimeout c > 0"

lemma exported_usable: "exported f \<Longrightarrow> usable c \<Longrightarrow> usable (f c)"
  by (induction f rule: exported.induct) (auto simp: option_defs usable_def)

lemma defaults_usable: "usable defaultConfigOptions"
  by (simp add: usable_def defaultConfigOptions_def defaultInternetTestAddress_def
      defaultConnectivityTimeout_def defaultPingCount_def defaultPingTimeout_def second_def)

lemma newConfigOptions_snoc:
  "newConfigOptions (opts @ [None]) = newConfigOptions opts"
  "newConfigOptions (opts @ [Some f]) = f (newConfigOptions opts)"
  by (simp_all add: newConfigOptions_def)

text \<open>
  Whatever exported options are given, in whatever order and with whatever arguments,
  the settings keep a non-empty test address and positive timeouts and probe count; the
  last option applied to a setting wins, and nil options are ignored.
\<close>

theorem newConfigOptions_usable:
  assumes "\<forall>f. Some f \<in> set opts \<longrightarrow> exported f"
  shows "usable (newConfigOptions opts)
    \<and> backupRetention (newConfigOptions (opts @ [None, Some (WithBackupRetention n)])) = n
    \<and> skipConnectivityCheck (newConfigOptions (opts @ [Some (WithConnectivityCheck b), Some WithSkipConnectivityCheck]))
    \<and> pingCount (newConfigOptions (opts @ [Some (WithPingCount (- 1))])) = pingCount (newConfigOptions opts)"
proof -
  have "usable (newConfigOptions opts)"
    using assms
  proof (induction opts rule: rev_induct)
    case Nil
    show ?case using defaults_usable by (simp add: newConfigOptions_def)
  next
    case (snoc opt opts)
    then show ?case by (cases opt) (auto simp: newConfigOptions_snoc intro: exported_usable)
  qed
  then show ?thesis by (simp add: newConfigOptions_def option_defs)
qed

lemma newConfigOptions_usable_witness:
  "usable (newConfigOptions [Some (WithPingCount 0), None, Some (WithTestAddress '''')])"
  by (rule newConfigOptions_usable [THEN conjunct1]) (auto intro: exported.intros)

end
