(* ===== verification/Services.thy ===== *)
theory Services
  imports Utils
begin

text \<open>
  \<open>services.go\<close> and \<open>services_linux.go\<close>: waiting for a daemon, and finding out from the init
  system which network managers own this host. D-Bus is a library: what systemd answers
  is a parameter.
\<close>

section \<open>Waiting for a service\<close>

text \<open>\<open>Duration.String\<close> of a number of nanoseconds.\<close>

definition pad_left :: "nat \<Rightarrow> string \<Rightarrow> string" where
  "pad_left k s = replicate (k - length s) CHR ''0'' @ s"

definition fraction :: "nat \<Rightarrow> nat \<Rightarrow> string" where
  "fraction v prec =
     (let ds = rev (dropWhile (\<lambda>c. c = CHR ''0'') (rev (pad_left prec (show_nat v)))) in
      if ds = [] then [] else ''.'' @ ds)"

definition duration_string :: "int \<Rightarrow> string" where
  "duration_string d =
     (if d = 0 then ''0s'' else
      let u = nat \<bar>d\<bar>;
          body = (if u < 1000 then show_nat u @ ''ns''
            else if u < 1000000 then show_nat (u div 1000) @ fraction (u mod 1000) 3 @ [CHR 0xC2, CHR 0xB5] @ ''s''
            else if u < 1000000000 then show_nat (u div 1000000) @ fraction (u mod 1000000) 6 @ ''ms''
            else let s = u div 1000000000; m = s div 60; h = m div 60 in
              (if h > 0 then show_nat h @ ''h'' else []) @
              (if m > 0 then show_nat (m mod 60) @ ''m'' else []) @
              show_nat (s mod 60) @ fraction (u mod 1000000000) 9 @ ''s'')
      in (if d < 0 then ''-'' else []) @ body)"

text \<open>
  The environment of a wait: what the \<open>n\<close>-th probe reports, and whether the \<open>n\<close>-th select
  takes the cancelled context (with its error) or the ticker.
\<close>

record wait_env =
  we_probe :: "nat \<Rightarrow> bool \<times> goerror option"
  we_done :: "nat \<Rightarrow> goerror option"

text \<open>The loop may run for ever if neither happens; then the result is \<^term>\<open>None\<close>.\<close>

partial_function (option) wait_loop ::
  "wait_env \<Rightarrow> string \<Rightarrow> int \<Rightarrow> nat \<Rightarrow> bool \<Rightarrow> world \<Rightarrow> (unit result \<times> world) option" where
  "wait_loop env name timeout n waited w =
     (let (ready, probeErr) = we_probe env n in
      if ready then Some (Inr (), if waited then log_print (name @ '': became ready'') w else w)
      else if timeout \<le> 0 then
        Some (Inl (case probeErr of
                Some e \<Rightarrow> Wrap (name @ '' is not ready'') e
              | None \<Rightarrow> Errorf (name @ '' is not ready'')), w)
      else
        let w = (if waited then w else log_print (name @ '': waiting up to '' @ duration_string timeout
                   @ '' for the service to become ready'') w) in
        case we_done env n of
          Some ctxErr \<Rightarrow>
            Some (Inl (Wrap (''timed out waiting for '' @ name)
              (case probeErr of Some e \<Rightarrow> e | None \<Rightarrow> ctxErr)), w)
        | None \<Rightarrow> wait_loop env name timeout (Suc n) True w)"

definition waitForServiceReady :: "wait_env \<Rightarrow> string \<Rightarrow> int \<Rightarrow> world \<Rightarrow> (unit result \<times> world) option" where
  "waitForServiceReady env name timeout w = wait_loop env name timeout 0 False w"

declare wait_loop.simps [simp del]

section \<open>Init systems\<close>

definition rcRunlevels :: "string list" where
  "rcRunlevels = [''2'', ''3'', ''4'', ''5'']"

definition path_exists :: "string \<Rightarrow> world \<Rightarrow> bool \<times> world" where
  "path_exists p w = (case os_Stat p w of (r, w') \<Rightarrow> (succeeded r, w'))"

definition systemdActive :: "world \<Rightarrow> bool \<times> world" where
  "systemdActive w = path_exists ''/run/systemd/system'' w"

definition commandExists :: "string \<Rightarrow> world \<Rightarrow> bool \<times> world" where
  "commandExists name w = exec_LookPath name w"

definition status_on :: "string \<Rightarrow> bool" where
  "status_on f = (case Cut CHR '':'' f of Some (b, status) \<Rightarrow> status = ''on'' | None \<Rightarrow> False)"

definition chkconfig_line :: "string \<Rightarrow> string \<Rightarrow> bool" where
  "chkconfig_line name line = (case Fields line of
       [] \<Rightarrow> False
     | f # fs \<Rightarrow> f = name \<and> list_ex status_on fs)"

definition chkconfigOn :: "string \<Rightarrow> world \<Rightarrow> bool \<times> world" where
  "chkconfigOn name w =
     (case commandExists ''chkconfig'' w of
        (False, w) \<Rightarrow> (False, w)
      | (True, w) \<Rightarrow> (case runCommand [''chkconfig'', ''--list'', name] w of
            ((results, Some e), w) \<Rightarrow> (False, w)
          | ((results, None), w) \<Rightarrow> (list_ex (chkconfig_line name) results, w)))"

definition rcRunlevelDirs :: "string \<Rightarrow> string list" where
  "rcRunlevelDirs root = concat (map (\<lambda>rl.
     [path_joins [root, ''etc'', ''rc'' @ rl @ ''.d''],
      path_joins [root, ''etc'', ''rc.d'', ''rc'' @ rl @ ''.d'']]) rcRunlevels)"

text \<open>
  \<open>filepath.Glob\<close> of \<open>dir/S*name\<close> where neither has pattern characters: the entries of the
  directory with that shape, or none if it cannot be read.
\<close>

definition glob_start :: "string \<Rightarrow> string \<Rightarrow> world \<Rightarrow> string list \<times> world" where
  "glob_start dir name w =
     (case os_Stat dir w of
        (Inl e, w) \<Rightarrow> ([], w)
      | (Inr i, w) \<Rightarrow>
          if \<not> fi_dir i then ([], w)
          else (case os_ReadDir dir w of
              (Inl e, w) \<Rightarrow> ([], w)
            | (Inr es, w) \<Rightarrow>
                (filter (\<lambda>n. HasPrefix n ''S'' \<and> HasSuffix (tl n) name) (map de_name es), w)))"

fun any_start :: "string list \<Rightarrow> string \<Rightarrow> world \<Rightarrow> bool \<times> world" where
  "any_start [] name w = (False, w)"
| "any_start (d # ds) name w = (case glob_start d name w of
       (ms, w') \<Rightarrow> if ms \<noteq> [] then (True, w') else any_start ds name w')"

definition rcSymlinksOnIn :: "string \<Rightarrow> string \<Rightarrow> world \<Rightarrow> bool \<times> world" where
  "rcSymlinksOnIn root name w = any_start (rcRunlevelDirs root) name w"

definition rcSymlinksOn :: "string \<Rightarrow> world \<Rightarrow> bool \<times> world" where
  "rcSymlinksOn name w = rcSymlinksOnIn ''/'' name w"

fun any_lstat :: "string list \<Rightarrow> world \<Rightarrow> bool \<times> world" where
  "any_lstat [] w = (False, w)"
| "any_lstat (p # ps) w = (case os_Lstat p w of
       (Inr i, w') \<Rightarrow> (True, w')
     | (Inl e, w') \<Rightarrow> any_lstat ps w')"

definition openrcOnIn :: "string \<Rightarrow> string \<Rightarrow> world \<Rightarrow> bool \<times> world" where
  "openrcOnIn root name w =
     any_lstat (map (\<lambda>rl. path_joins [root, ''etc'', ''runlevels'', rl, name]) [''default'', ''boot'']) w"

definition openrcOn :: "string \<Rightarrow> world \<Rightarrow> bool \<times> world" where
  "openrcOn name w = openrcOnIn ''/'' name w"

text \<open>Go's short-circuit disjunction of two questions that touch the system.\<close>

definition or_else :: "bool \<times> world \<Rightarrow> (world \<Rightarrow> bool \<times> world) \<Rightarrow> bool \<times> world" where
  "or_else r f = (case r of (True, w) \<Rightarrow> (True, w) | (False, w) \<Rightarrow> f w)"

definition sysvServiceEnabled :: "string \<Rightarrow> world \<Rightarrow> bool \<times> world" where
  "sysvServiceEnabled name w =
     or_else (or_else (chkconfigOn name w) (rcSymlinksOn name)) (openrcOn name)"

fun any_stat :: "string list \<Rightarrow> world \<Rightarrow> bool \<times> world" where
  "any_stat [] w = (False, w)"
| "any_stat (p # ps) w = or_else (path_exists p w) (any_stat ps)"

definition initSystemDiscoverable :: "world \<Rightarrow> bool \<times> world" where
  "initSystemDiscoverable w =
     or_else (or_else (or_else (systemdActive w) (commandExists ''chkconfig''))
       (any_stat (rcRunlevelDirs ''/'')))
       (path_exists ''/etc/runlevels'')"

definition networkServiceUnits :: "string list" where
  "networkServiceUnits = [''systemd-networkd'', ''NetworkManager'', ''network'', ''networking'']"

section \<open>The systemd snapshot\<close>

text \<open>
  systemd over D-Bus: connecting may fail; the running units as (name, active state); the
  unit files as (path, state), for given patterns or all of them.
\<close>

record systemd_bus =
  sb_connect :: "goerror option"
  sb_units :: "(string \<times> string) list result"
  sb_files_by_patterns :: "string list \<Rightarrow> (string \<times> string) list result"
  sb_files :: "(string \<times> string) list result"

record initState =
  is_active :: "string list"
  is_unitFiles :: "(string \<times> string) list"  \<comment> \<open>a map, a later entry for a key replacing it\<close>

definition falling_back :: "string \<Rightarrow> goerror \<Rightarrow> string" where
  "falling_back what e = ''unable to '' @ what @ '', falling back to init-script detection: '' @ error_text e"

definition newInitState :: "systemd_bus \<Rightarrow> world \<Rightarrow> initState \<times> world" where
  "newInitState bus w =
     (let s = \<lparr>is_active = [], is_unitFiles = []\<rparr> in
      case systemdActive w of
        (False, w) \<Rightarrow> (s, w)
      | (True, w) \<Rightarrow>
         (case sb_connect bus of
            Some e \<Rightarrow> (s, log_print (falling_back ''connect to systemd'' e) w)
          | None \<Rightarrow>
             (let (units, w) = (case sb_units bus of
                    Inl e \<Rightarrow> ([], log_print (falling_back ''list systemd units'' e) w)
                  | Inr us \<Rightarrow> (us, w));
                  s = s\<lparr>is_active := map fst (filter (\<lambda>u. snd u = ''active'') units)\<rparr>;
                  patterns = map (\<lambda>n. n @ ''.service'') networkServiceUnits;
                  files = (case sb_files_by_patterns bus patterns of Inl e \<Rightarrow> sb_files bus | Inr fs \<Rightarrow> Inr fs)
              in case files of
                   Inl e \<Rightarrow> (s, log_print (falling_back ''list systemd unit files'' e) w)
                 | Inr fs \<Rightarrow>
                     (s\<lparr>is_unitFiles := fold (\<lambda>(p, t) m. AList.update (path_base p) t m) fs []\<rparr>, w))))"

definition running :: "initState \<Rightarrow> string \<Rightarrow> bool" where
  "running s name \<longleftrightarrow> name @ ''.service'' \<in> set (is_active s)"

definition enabled :: "initState \<Rightarrow> string \<Rightarrow> world \<Rightarrow> bool \<times> world" where
  "enabled s name w =
     (case map_of (is_unitFiles s) (name @ ''.service'') of
        Some state \<Rightarrow>
          if state \<noteq> ''generated'' then (state = ''enabled'' \<or> state = ''enabled-runtime'', w)
          else sysvServiceEnabled name w
      | None \<Rightarrow> sysvServiceEnabled name w)"

definition detected :: "initState \<Rightarrow> string \<Rightarrow> world \<Rightarrow> bool \<times> world" where
  "detected s name w = or_else (running s name, w) (enabled s name)"

definition networkManagerRunning :: "world \<Rightarrow> bool \<times> world" where
  "networkManagerRunning w =
     any_stat [''/var/run/NetworkManager/NetworkManager.pid'', ''/run/NetworkManager/NetworkManager.pid''] w"

section \<open>The wait ends as soon as it can\<close>

definition settled :: "wait_env \<Rightarrow> nat \<Rightarrow> bool" where
  "settled env n \<longleftrightarrow> fst (we_probe env n) \<or> we_done env n \<noteq> None"

lemma wait_once:
  "timeout \<le> 0 \<Longrightarrow> wait_loop env name timeout n waited w =
     Some (if fst (we_probe env n) then (Inr (), if waited then log_print (name @ '': became ready'') w else w)
       else (Inl (case snd (we_probe env n) of
             Some e \<Rightarrow> Wrap (name @ '' is not ready'') e
           | None \<Rightarrow> Errorf (name @ '' is not ready'')), w))"
  by (subst wait_loop.simps, cases "we_probe env n") simp

definition wait_result :: "wait_env \<Rightarrow> string \<Rightarrow> nat \<Rightarrow> unit result" where
  "wait_result env name k = (if fst (we_probe env k) then Inr ()
     else Inl (Wrap (''timed out waiting for '' @ name)
       (case snd (we_probe env k) of Some e \<Rightarrow> e | None \<Rightarrow> the (we_done env k))))"

lemma wait_settled:
  assumes "0 < timeout" and "settled env n"
  shows "\<exists>w'. wait_loop env name timeout n waited w = Some (wait_result env name n, w')"
proof (cases "fst (we_probe env n)")
  case True
  then show ?thesis
    by (subst wait_loop.simps, cases "we_probe env n") (simp add: wait_result_def)
next
  case False
  with assms(2) obtain e where "we_done env n = Some e" by (auto simp: settled_def)
  with False assms(1) show ?thesis
    by (subst wait_loop.simps, cases "we_probe env n") (simp add: wait_result_def split: option.splits)
qed

lemma wait_next:
  "0 < timeout \<Longrightarrow> \<not> settled env n \<Longrightarrow>
     \<exists>w'. wait_loop env name timeout n waited w = wait_loop env name timeout (Suc n) True w'"
  by (subst wait_loop.simps, cases "we_probe env n") (simp add: settled_def Let_def, blast)

lemma wait_loop_first:
  assumes "settled env k" and "\<forall>i<k. n \<le> i \<longrightarrow> \<not> settled env i" and "n \<le> k" and "0 < timeout"
  shows "\<exists>w'. wait_loop env name timeout n waited w = Some (wait_result env name k, w')"
  using assms
proof (induction "k - n" arbitrary: n waited w)
  case 0
  then have "n = k" by simp
  with 0 wait_settled show ?case by simp
next
  case (Suc d)
  then have "\<not> settled env n" by simp
  with Suc.prems(4) obtain w1 where
    "wait_loop env name timeout n waited w = wait_loop env name timeout (Suc n) True w1"
    using wait_next by blast
  moreover have "d = k - Suc n" "Suc n \<le> k" using Suc by simp_all
  ultimately show ?case
    using Suc.hyps(1) [of "Suc n" True w1] Suc.prems by simp
qed

lemma wait_loop_settles:
  assumes "wait_loop env name timeout n waited w = Some r"
  shows "timeout \<le> 0 \<or> (\<exists>k. settled env k)"
proof (rule wait_loop.raw_induct [where P = "\<lambda>env name timeout n waited w r. timeout \<le> 0 \<or> (\<exists>k. settled env k)",
      OF _ assms])
  fix loop env name and timeout :: int and n waited w x
  assume IH: "\<And>env name timeout n waited w y. loop env name timeout n waited w = Some y \<Longrightarrow>
      timeout \<le> 0 \<or> (\<exists>k. settled env k)"
    and body: "(let (ready, probeErr) = we_probe env n
      in if ready then Some (Inr (), if waited then log_print (name @ '': became ready'') w else w)
      else if timeout \<le> 0 then
        Some (Inl (case probeErr of
                Some e \<Rightarrow> Wrap (name @ '' is not ready'') e
              | None \<Rightarrow> Errorf (name @ '' is not ready'')), w)
      else
        let w = (if waited then w else log_print (name @ '': waiting up to '' @ duration_string timeout
                   @ '' for the service to become ready'') w) in
        case we_done env n of
          Some ctxErr \<Rightarrow>
            Some (Inl (Wrap (''timed out waiting for '' @ name)
              (case probeErr of Some e \<Rightarrow> e | None \<Rightarrow> ctxErr)), w)
        | None \<Rightarrow> loop env name timeout (Suc n) True w) = Some x"
  show "timeout \<le> 0 \<or> (\<exists>k. settled env k)"
  proof (cases "timeout \<le> 0 \<or> settled env n")
    case False
    then obtain w1 where "loop env name timeout (Suc n) True w1 = Some x"
      using body by (cases "we_probe env n") (simp add: settled_def Let_def)
    then show ?thesis using IH by blast
  qed blast
qed

lemma wait_returns_iff: "waitForServiceReady env name timeout w \<noteq> None \<longleftrightarrow> timeout \<le> 0 \<or> (\<exists>k. settled env k)"
proof
  assume "waitForServiceReady env name timeout w \<noteq> None"
  then show "timeout \<le> 0 \<or> (\<exists>k. settled env k)"
    using wait_loop_settles unfolding waitForServiceReady_def by blast
next
  assume a: "timeout \<le> 0 \<or> (\<exists>k. settled env k)"
  show "waitForServiceReady env name timeout w \<noteq> None"
  proof (cases "timeout \<le> 0")
    case True
    then show ?thesis unfolding waitForServiceReady_def by (simp add: wait_once)
  next
    case False
    with a obtain k where "settled env k" by blast
    then have "settled env (LEAST k. settled env k)" "\<forall>i<(LEAST k. settled env k). \<not> settled env i"
      by (auto intro: LeastI dest: not_less_Least)
    with False show ?thesis
      unfolding waitForServiceReady_def
      using wait_loop_first [of env "LEAST k. settled env k" 0 timeout name False w]
      by (metis not_le option.distinct(1) zero_le)
  qed
qed

text \<open>
  C17. \<open>waitForServiceReady\<close> with a timeout returns at the first probe that reports the
  service ready or the first select that sees the context done: nil in the first case, in
  the second an error that carries the last probe's own error when it had one. Without a
  timeout it probes once. It returns exactly when one of these happens.
\<close>

theorem waitForServiceReady_returns:
  "(0 < timeout \<and> settled env k \<and> list_all (\<lambda>i. \<not> settled env i) [0..<k] \<longrightarrow>
     (\<exists>w'. waitForServiceReady env name timeout w = Some (wait_result env name k, w')))
   \<and> (timeout \<le> 0 \<longrightarrow> waitForServiceReady env name timeout w =
       Some (if fst (we_probe env 0) then Inr ()
         else Inl (case snd (we_probe env 0) of
             Some e \<Rightarrow> Wrap (name @ '' is not ready'') e
           | None \<Rightarrow> Errorf (name @ '' is not ready'')), w))
   \<and> (waitForServiceReady env name timeout w \<noteq> None \<longleftrightarrow> timeout \<le> 0 \<or> (\<exists>k. settled env k))"
proof (intro conjI impI)
  assume "0 < timeout \<and> settled env k \<and> list_all (\<lambda>i. \<not> settled env i) [0..<k]"
  then show "\<exists>w'. waitForServiceReady env name timeout w = Some (wait_result env name k, w')"
    unfolding waitForServiceReady_def by (intro wait_loop_first) (auto simp: list_all_iff)
next
  assume "timeout \<le> 0"
  then show "waitForServiceReady env name timeout w =
       Some (if fst (we_probe env 0) then Inr ()
         else Inl (case snd (we_probe env 0) of
             Some e \<Rightarrow> Wrap (name @ '' is not ready'') e
           | None \<Rightarrow> Errorf (name @ '' is not ready'')), w)"
    unfolding waitForServiceReady_def by (simp add: wait_once)
qed (rule wait_returns_iff)

text \<open>The service comes up at the third probe.\<close>

definition slow_service :: wait_env where
  "slow_service = \<lparr>we_probe = (\<lambda>n. (n = 2, None)), we_done = (\<lambda>n. None)\<rparr>"

lemma waitForServiceReady_returns_witness:
  "\<exists>w'. waitForServiceReady slow_service ''NetworkManager'' 60 (mk_world []) = Some (Inr (), w')"
proof -
  have "settled slow_service 2" "list_all (\<lambda>i. \<not> settled slow_service i) [0..<2]"
    by (simp_all add: settled_def slow_service_def list_all_iff)
  then show ?thesis
    using waitForServiceReady_returns [of 60 slow_service 2 "''NetworkManager''" "mk_world []"]
    by (auto simp: wait_result_def slow_service_def)
qed

text \<open>
  systemd's unit file state decides whether a unit is enabled, without touching the
  system, unless systemd does not know the unit or reports it as generated from an init
  script, where the init system's own registration (chkconfig, start links, OpenRC, in
  that order) decides; a service is detected when it runs now or is enabled.
\<close>

theorem enabled_authority:
  "enabled s name w =
     (if name @ ''.service'' \<in> fst ` set (is_unitFiles s)
         \<and> the (map_of (is_unitFiles s) (name @ ''.service'')) \<noteq> ''generated''
      then (the (map_of (is_unitFiles s) (name @ ''.service'')) \<in> {''enabled'', ''enabled-runtime''}, w)
      else sysvServiceEnabled name w)
   \<and> fst (detected s name w) = (running s name \<or> fst (enabled s name w))
   \<and> fst (sysvServiceEnabled name w) =
       (let (c, w1) = chkconfigOn name w; (r, w2) = rcSymlinksOn name w1 in
        c \<or> r \<or> fst (openrcOn name w2))"
proof (intro conjI)
  show "enabled s name w =
     (if name @ ''.service'' \<in> fst ` set (is_unitFiles s)
         \<and> the (map_of (is_unitFiles s) (name @ ''.service'')) \<noteq> ''generated''
      then (the (map_of (is_unitFiles s) (name @ ''.service'')) \<in> {''enabled'', ''enabled-runtime''}, w)
      else sysvServiceEnabled name w)"
  proof (cases "map_of (is_unitFiles s) (name @ ''.service'')")
    case None
    then have "name @ ''.service'' \<notin> fst ` set (is_unitFiles s)" by (metis map_of_eq_None_iff)
    with None show ?thesis by (simp add: enabled_def)
  next
    case (Some st)
    then have "name @ ''.service'' \<in> fst ` set (is_unitFiles s)"
      by (metis map_of_eq_None_iff option.distinct(1))
    with Some show ?thesis by (simp add: enabled_def)
  qed
  show "fst (detected s name w) = (running s name \<or> fst (enabled s name w))"
    by (cases "running s name") (simp_all add: detected_def or_else_def)
  show "fst (sysvServiceEnabled name w) =
       (let (c, w1) = chkconfigOn name w; (r, w2) = rcSymlinksOn name w1 in
        c \<or> r \<or> fst (openrcOn name w2))"
    by (simp add: sysvServiceEnabled_def or_else_def split: prod.splits bool.splits)
qed

end
