(* ===== verification/Dns.thy ===== *)
theory Dns
  imports UtilsLaws
begin

text \<open>
  \<open>dns_linux.go\<close>: applying DNS servers to the running resolver, through \<open>resolvectl\<close> or by
  rewriting \<open>/etc/resolv.conf\<close>.
\<close>

definition resolvectlBin :: string where "resolvectlBin = ''resolvectl''"
definition resolvConf :: string where "resolvConf = ''/etc/resolv.conf''"
definition resolvTmp :: string where "resolvTmp = ''/etc/resolv.conf.tmp''"

definition applyResolvectlDNS :: "string \<Rightarrow> string list \<Rightarrow> string list \<Rightarrow> world \<Rightarrow> bool \<times> world" where
  "applyResolvectlDNS iface servers searchDomains w =
     (if servers = [] \<and> searchDomains = [] then
        (case runCommand [resolvectlBin, ''revert'', iface] w of
           ((out, Some e), w) \<Rightarrow> (False, log_print (''live DNS: resolvectl revert: '' @ error_text e) w)
         | ((out, None), w) \<Rightarrow> (True, w))
      else
        let dnsArgs = [''dns'', iface] @ (if servers \<noteq> [] then servers else [[]]);
            (ok1, w) = (case runCommand (resolvectlBin # dnsArgs) w of
               ((out, Some e), w) \<Rightarrow> (False, log_print (''live DNS: resolvectl dns: '' @ error_text e) w)
             | ((out, None), w) \<Rightarrow> (True, w));
            domainArgs = [''domain'', iface] @ (if searchDomains \<noteq> [] then searchDomains else [[]]);
            (ok2, w) = (case runCommand (resolvectlBin # domainArgs) w of
               ((out, Some e), w) \<Rightarrow> (False, log_print (''live DNS: resolvectl domain: '' @ error_text e) w)
             | ((out, None), w) \<Rightarrow> (ok1, w))
        in (ok2, w))"

text \<open>A line that states a server or the search list, which the new file replaces.\<close>

definition resolver_line :: "string \<Rightarrow> bool" where
  "resolver_line l = (case Fields l of [] \<Rightarrow> False | f # fs \<Rightarrow> f = ''nameserver'' \<or> f = ''search'')"

definition resolv_text :: "string list \<Rightarrow> string list \<Rightarrow> string \<Rightarrow> string" where
  "resolv_text servers searchDomains old =
     unlines (filter (\<lambda>l. \<not> resolver_line l) (scan_lines old)
       @ (if searchDomains \<noteq> [] then [''search '' @ join '' '' searchDomains] else [])
       @ map (\<lambda>s. ''nameserver '' @ s) servers)"

definition wrap_err :: "string \<Rightarrow> 'a result \<times> world \<Rightarrow> 'a result \<times> world" where
  "wrap_err s r = (case r of (Inl e, w) \<Rightarrow> (Inl (Wrap s e), w) | (Inr a, w) \<Rightarrow> (Inr a, w))"

definition writeResolvConf :: "string list \<Rightarrow> string list \<Rightarrow> world \<Rightarrow> unit result \<times> world" where
  "writeResolvConf servers searchDomains w =
     try_io (wrap_err (''stat '' @ resolvConf) (os_Lstat resolvConf w)) (\<lambda>fi w.
     if fi_link fi then (Inr (), w)
     else try_io (wrap_err (''read '' @ resolvConf) (os_ReadFile resolvConf w)) (\<lambda>data w.
     case scan_error data of
       Some e \<Rightarrow> (Inl (Wrap (''scan '' @ resolvConf) e), w)
     | None \<Rightarrow>
     try_io (wrap_err (''write '' @ resolvTmp)
       (os_WriteFile resolvTmp (resolv_text servers searchDomains data) (fi_mode fi) w)) (\<lambda>_ w.
     case fileMove resolvTmp resolvConf w of
       (Inl e, w) \<Rightarrow> (Inl (Wrap (''commit '' @ resolvConf) e), ignore (os_Remove resolvTmp w))
     | (Inr _, w) \<Rightarrow> (Inr (), w))))"

definition applyLiveDNS :: "string \<Rightarrow> ip list \<Rightarrow> string list \<Rightarrow> world \<Rightarrow> world" where
  "applyLiveDNS iface servers searchDomains w =
     (let serverStrs = ipStrings servers;
          fallback = (\<lambda>w. if serverStrs = [] then w
            else case writeResolvConf serverStrs searchDomains w of
                (Inl e, w) \<Rightarrow> log_print (''live DNS: '' @ error_text e) w
              | (Inr u, w) \<Rightarrow> w)
      in case exec_LookPath resolvectlBin w of
           (False, w) \<Rightarrow> fallback w
         | (True, w) \<Rightarrow>
             (case applyResolvectlDNS iface serverStrs searchDomains w of
                (True, w) \<Rightarrow> w
              | (False, w) \<Rightarrow>
                  fallback (log_print ''live DNS: resolvectl failed, falling back to /etc/resolv.conf'' w)))"

section \<open>Replacing resolv.conf\<close>

lemma resolv_paths: "resolvTmp \<noteq> resolvConf"
  by (simp add: resolvTmp_def resolvConf_def)

lemma wrap_err_Inr [simp]: "wrap_err s r = (Inr a, w) \<longleftrightarrow> r = (Inr a, w)"
  by (auto simp: wrap_err_def split: prod.splits sum.splits)

lemma wrap_err_snd [simp]: "snd (wrap_err s r) = snd r"
  by (auto simp: wrap_err_def split: prod.splits sum.splits)

lemma wrap_err_Inl: "wrap_err s r = (Inl e, w) \<longleftrightarrow> (\<exists>e'. r = (Inl e', w) \<and> e = Wrap s e')"
  by (auto simp: wrap_err_def split: prod.splits sum.splits)

definition no_exdev :: "world \<Rightarrow> bool" where
  "no_exdev w \<longleftrightarrow> (\<forall>t k. w_fault w t \<noteq> Some (EXDEV, k))"

lemma os_Rename_no_exdev:
  "no_exdev w \<Longrightarrow> os_Rename a b w = (Inl e, w') \<Longrightarrow> \<not> errors_is e EXDEV"
  unfolding os_Rename_def
  by (auto simp: syscall_def fault_def no_exdev_def split: option.splits if_splits)

lemma fileMove_no_exdev:
  assumes "no_exdev w" and "fileMove s d w = (r, w')" and "s \<noteq> d"
  shows "(\<exists>e. r = Inl e \<and> fs_get w' = fs_get w) \<or> (\<exists>n. r = Inr () \<and> fs_get w s = Some n \<and>
     fs_get w' = (\<lambda>q. if q = d then Some n else if q = s then None else fs_get w q))"
proof (cases "os_Rename s d w")
  case (Pair x v)
  from Pair show ?thesis
  proof (cases rule: os_Rename_cases)
    case (Error e)
    with Pair assms os_Rename_no_exdev [of w s d e v] show ?thesis by (auto simp: fileMove_def fun_eq_iff)
  next
    case (Moved n)
    with Pair assms show ?thesis by (auto simp: fileMove_def fun_eq_iff)
  qed (use assms(3) in simp)
qed

lemma os_ReadFile_fault: "w_fault (snd (os_ReadFile p w)) = w_fault w"
  by (auto simp: os_ReadFile_def syscall_def split: option.splits node.splits)

lemma os_Lstat_fault: "w_fault (snd (os_Lstat p w)) = w_fault w"
  by (auto simp: os_Lstat_def syscall_def split: option.splits node.splits)

lemma os_WriteFile_fault: "w_fault (snd (os_WriteFile p c m w)) = w_fault w"
  unfolding os_WriteFile_def
  by (rule try_io_invariant)
    (auto simp: os_open_write_def fd_write_def write_at_def syscall_def Let_def split: option.splits node.splits)


definition resolv_world :: world where
  "resolv_world = mk_world [(''/etc'', Dir), (''/etc/resolv.conf'',
     File (unlines [''# comment'', ''nameserver 9.9.9.9'', ''options edns0'']) 420 0)]"


text \<open>
  The exception is real: when the rename crosses devices and the copy then fails,
  \<open>fileMove\<close> removes the destination and \<open>writeResolvConf\<close> removes the temporary copy, so
  the host is left without any resolver configuration.
\<close>

theorem writeResolvConf_loses_on_failed_copy:
  "\<exists>w. content_of w resolvConf \<noteq> None \<and> isl (fst (writeResolvConf [''1.1.1.1''] [] w))
     \<and> fs_get (snd (writeResolvConf [''1.1.1.1''] [] w)) resolvConf = None
     \<and> fs_get (snd (writeResolvConf [''1.1.1.1''] [] w)) resolvTmp = None"
proof (rule exI [of _ "resolv_world\<lparr>w_fault := (\<lambda>t. if t = 4 then Some (EXDEV, 0)
    else if t = 7 then Some (ENOSPC, 3) else None)\<rparr>"])
  let ?w = "resolv_world\<lparr>w_fault := (\<lambda>t. if t = 4 then Some (EXDEV, 0)
    else if t = 7 then Some (ENOSPC, 3) else None)\<rparr>"
  have "content_of ?w resolvConf \<noteq> None" by code_simp
  moreover have "isl (fst (writeResolvConf [''1.1.1.1''] [] ?w))" by code_simp
  moreover have "fs_get (snd (writeResolvConf [''1.1.1.1''] [] ?w)) resolvConf = None" by code_simp
  moreover have "fs_get (snd (writeResolvConf [''1.1.1.1''] [] ?w)) resolvTmp = None" by code_simp
  ultimately show "content_of ?w resolvConf \<noteq> None \<and> isl (fst (writeResolvConf [''1.1.1.1''] [] ?w))
     \<and> fs_get (snd (writeResolvConf [''1.1.1.1''] [] ?w)) resolvConf = None
     \<and> fs_get (snd (writeResolvConf [''1.1.1.1''] [] ?w)) resolvTmp = None" by blast
qed

end
