(* ===== verification/KeyValueFile.thy ===== *)
theory KeyValueFile
  imports NetConf UtilsLaws
begin

text \<open>
  The \<open>KEY=value\<close> files of \<open>networkScripts.go\<close>: \<open>parseKeyValueFile\<close>, and the text \<open>Save\<close> writes.
  A configuration is an association list with one entry per key.
\<close>

type_synonym kv = "(string \<times> string) list"

definition kv_get :: "kv \<Rightarrow> string \<Rightarrow> string" where
  "kv_get cfg k = (case map_of cfg k of Some v \<Rightarrow> v | None \<Rightarrow> [])"

section \<open>Parsing\<close>

text \<open>The variables that live across lines.\<close>

record kv_state =
  kv_builder :: string
  kv_readKey :: bool
  kv_single :: bool
  kv_double :: bool
  kv_key :: string
  kv_resp :: kv

text \<open>How the loop over a line's bytes ends: at its end, by skipping the rest of the work for this line, or in an error.\<close>

datatype line_end = LineRead kv_state | LineSkip kv_state | LineBad

definition add_byte :: "char \<Rightarrow> kv_state \<Rightarrow> kv_state" where
  "add_byte b st = st\<lparr>kv_builder := kv_builder st @ [b]\<rparr>"

fun readLoop :: "string \<Rightarrow> kv_state \<Rightarrow> line_end" where
  "readLoop [] st = LineRead st"
| "readLoop (b # r) st =
     (if b = CHR 0x27 \<and> \<not> kv_double st then readLoop r (st\<lparr>kv_single := \<not> kv_single st\<rparr>)
      else if b = CHR 0x22 \<and> \<not> kv_single st then readLoop r (st\<lparr>kv_double := \<not> kv_double st\<rparr>)
      else if b = CHR 0x5C \<and> r = [] then LineSkip st
      else if b = CHR 0x5C \<and> kv_double st \<and> hd r = CHR 0x22 then readLoop (tl r) (add_byte CHR 0x22 st)
      else if b = CHR ''='' \<and> \<not> kv_double st \<and> \<not> kv_single st then
        (if kv_readKey st then LineBad
         else readLoop r (st\<lparr>kv_key := kv_builder st, kv_builder := [], kv_readKey := True\<rparr>))
      else if is_space_rune b \<and> \<not> kv_double st \<and> \<not> kv_single st then
        (case dropWhile is_space_rune r of
           [] \<Rightarrow> LineRead st
         | c # t \<Rightarrow> if c = CHR ''#'' then LineRead st else LineBad)
      else readLoop r (add_byte b st))"

definition lineLoop :: "string \<Rightarrow> kv_state \<Rightarrow> kv_state option" where
  "lineLoop text st =
     (let line = TrimSpace text in
      if line = [] then Some st
      else if hd line = CHR ''#'' then Some st
      else case readLoop line st of
          LineBad \<Rightarrow> None
        | LineSkip st \<Rightarrow> Some st
        | LineRead st \<Rightarrow>
            if kv_double st \<or> kv_single st then Some st
            else if \<not> kv_readKey st then None
            else Some (st\<lparr>kv_resp := AList.update (kv_key st) (kv_builder st) (kv_resp st),
                          kv_builder := [], kv_readKey := False\<rparr>))"

fun lineLoops :: "string list \<Rightarrow> kv_state \<Rightarrow> kv_state option" where
  "lineLoops [] st = Some st"
| "lineLoops (l # ls) st = (case lineLoop l st of None \<Rightarrow> None | Some st' \<Rightarrow> lineLoops ls st')"

definition kv_start :: kv_state where
  "kv_start = \<lparr>kv_builder = [], kv_readKey = False, kv_single = False, kv_double = False,
     kv_key = [], kv_resp = []\<rparr>"

text \<open>The parse of a whole text; \<open>name\<close> is the file's name for the error.\<close>

definition parse_kv_text :: "string \<Rightarrow> string \<Rightarrow> kv result" where
  "parse_kv_text name text = (case lineLoops (scan_lines text) kv_start of
       None \<Rightarrow> Inl (Errorf (''invalid file syntax in '' @ name))
     | Some st \<Rightarrow> Inr (kv_resp st))"

definition parseKeyValueFile :: "string \<Rightarrow> string \<Rightarrow> world \<Rightarrow> kv result \<times> world" where
  "parseKeyValueFile name fd w = (case fd_read fd w of (text, w') \<Rightarrow> (parse_kv_text name text, w'))"

section \<open>Writing\<close>

definition kv_line :: "string \<times> string \<Rightarrow> string" where
  "kv_line kv = (case kv of (key, val) \<Rightarrow>
     if list_ex is_space val then key @ ''='' @ [CHR 0x22] @ val @ [CHR 0x22, newline]
     else key @ ''='' @ val @ [newline])"

text \<open>The lines \<open>Save\<close> prints, in the order of the sorted keys.\<close>

definition kv_lines :: "kv \<Rightarrow> string list" where
  "kv_lines config = map (\<lambda>key. kv_line (key, kv_get config key)) (sort (map fst config))"

section \<open>What is written is read back\<close>

text \<open>
  Keys and values for which writing is faithful: quotes, backslashes and line ends never
  survive, and an equals sign only in a value that is quoted because it has a space.
\<close>

definition plain_char :: "char \<Rightarrow> bool" where
  "plain_char c \<longleftrightarrow> c \<noteq> CHR 0x27 \<and> c \<noteq> CHR 0x22 \<and> c \<noteq> CHR 0x5C \<and> c \<noteq> CHR ''=''
     \<and> \<not> is_space_rune c"

definition quotable_char :: "char \<Rightarrow> bool" where
  "quotable_char c \<longleftrightarrow> c \<noteq> CHR 0x22 \<and> c \<noteq> CHR 0x5C \<and> c \<noteq> newline"

definition good_key :: "string \<Rightarrow> bool" where
  "good_key k \<longleftrightarrow> k \<noteq> [] \<and> hd k \<noteq> CHR ''#'' \<and> (\<forall>c\<in>set k. plain_char c)"

definition good_val :: "string \<Rightarrow> bool" where
  "good_val v \<longleftrightarrow>
     (if list_ex is_space v then (\<forall>c\<in>set v. quotable_char c) else (\<forall>c\<in>set v. plain_char c))"

definition good_config :: "kv \<Rightarrow> bool" where
  "good_config cfg \<longleftrightarrow> distinct (map fst cfg) \<and>
     (\<forall>(k, v) \<in> set cfg. good_key k \<and> good_val v \<and> length k + length v + 3 < max_token)"

lemma readLoop_plain:
  "\<forall>c\<in>set s. plain_char c \<Longrightarrow> \<not> kv_double st \<Longrightarrow> \<not> kv_single st \<Longrightarrow>
     readLoop (s @ r) st = readLoop r (st\<lparr>kv_builder := kv_builder st @ s\<rparr>)"
  by (induction s arbitrary: st) (auto simp: plain_char_def add_byte_def)

lemma readLoop_quoted:
  "\<forall>c\<in>set s. quotable_char c \<Longrightarrow> kv_double st \<Longrightarrow> \<not> kv_single st \<Longrightarrow>
     readLoop (s @ CHR 0x22 # r) st = readLoop (CHR 0x22 # r) (st\<lparr>kv_builder := kv_builder st @ s\<rparr>)"
  by (induction s arbitrary: st) (auto simp: quotable_char_def add_byte_def is_space_rune_def)

definition kv_body :: "string \<times> string \<Rightarrow> string" where
  "kv_body kv = butlast (kv_line kv)"

lemma kv_body_eq:
  "kv_body (k, v) = (if list_ex is_space v then k @ ''='' @ [CHR 0x22] @ v @ [CHR 0x22] else k @ ''='' @ v)"
  by (simp add: kv_body_def kv_line_def butlast_append)

lemma kv_line_body: "kv_line kv = kv_body kv @ [newline]"
  by (cases kv) (simp add: kv_line_def kv_body_eq)

lemma plain_not_space: "plain_char c \<Longrightarrow> \<not> is_space c"
  by (simp add: plain_char_def is_space_rune_def)

lemma TrimSpace_id:
  assumes "s \<noteq> [] \<Longrightarrow> \<not> is_space (hd s)" and "s \<noteq> [] \<Longrightarrow> \<not> is_space (last s)"
  shows "TrimSpace s = s"
proof (cases s)
  case (Cons c t)
  then have "dropWhile is_space s = s" using assms(1) by simp
  moreover have "dropWhile is_space (rev s) = rev s"
    using assms(2) Cons hd_rev [of s] by (cases "rev s") auto
  ultimately show ?thesis by (simp add: TrimSpace_def)
qed (simp add: TrimSpace_def)

lemma kv_body_trim:
  assumes "good_key k" and "good_val v"
  shows "TrimSpace (kv_body (k, v)) = kv_body (k, v) \<and> kv_body (k, v) \<noteq> [] \<and> hd (kv_body (k, v)) = hd k"
proof -
  have k: "k \<noteq> []" "\<not> is_space (hd k)"
    using assms(1) plain_not_space by (auto simp: good_key_def)
  then have hd: "hd (kv_body (k, v)) = hd k" and ne: "kv_body (k, v) \<noteq> []"
    by (auto simp: kv_body_eq)
  have eq: "\<not> is_space CHR ''=''" "\<not> is_space CHR 0x22" by (simp_all add: is_space_def)
  have "\<not> is_space (last (kv_body (k, v)))"
    using assms(2) plain_not_space eq last_in_set [of v]
    by (cases "v = []") (auto simp: kv_body_eq good_val_def)
  then show ?thesis using TrimSpace_id hd ne k by simp
qed

lemma readLoop_body:
  assumes "good_key k" and "good_val v"
    and "\<not> kv_double st" "\<not> kv_single st" "\<not> kv_readKey st" "kv_builder st = []"
  shows "readLoop (kv_body (k, v)) st = LineRead (st\<lparr>kv_key := k, kv_builder := v, kv_readKey := True\<rparr>)"
proof -
  have k: "\<forall>c\<in>set k. plain_char c" using assms(1) by (simp add: good_key_def)
  let ?st = "st\<lparr>kv_key := k, kv_builder := [], kv_readKey := True\<rparr>"
  have key: "readLoop (k @ CHR ''='' # r) st = readLoop r ?st" for r
    using readLoop_plain [OF k assms(3,4), of "CHR ''='' # r"] assms(3-6) by simp
  show ?thesis
  proof (cases "list_ex is_space v")
    case True
    then have v: "\<forall>c\<in>set v. quotable_char c" using assms(2) by (simp add: good_val_def)
    let ?q = "?st\<lparr>kv_double := True\<rparr>"
    have "readLoop (kv_body (k, v)) st = readLoop (v @ [CHR 0x22]) ?q"
      using True assms(3,4) key by (simp add: kv_body_eq)
    also have "\<dots> = LineRead (?q\<lparr>kv_builder := v, kv_double := False\<rparr>)"
      using readLoop_quoted [OF v, of ?q "[]"] assms(4) by simp
    finally show ?thesis using assms(3) by simp
  next
    case False
    then have v: "\<forall>c\<in>set v. plain_char c" using assms(2) by (simp add: good_val_def)
    show ?thesis
      using False key readLoop_plain [OF v, of ?st "[]"] assms(3,4) by (simp add: kv_body_eq)
  qed
qed

lemma lineLoop_body:
  assumes "good_key k" and "good_val v"
    and "\<not> kv_double st" "\<not> kv_single st" "\<not> kv_readKey st" "kv_builder st = []"
  shows "lineLoop (kv_body (k, v)) st = Some (st\<lparr>kv_key := k, kv_resp := AList.update k v (kv_resp st)\<rparr>)"
  using kv_body_trim [OF assms(1,2)] readLoop_body [OF assms] assms
  by (simp add: lineLoop_def good_key_def)

lemma lineLoops_bodies:
  assumes "\<forall>(k, v) \<in> set kvs. good_key k \<and> good_val v"
    and "\<not> kv_double st" "\<not> kv_single st" "\<not> kv_readKey st" "kv_builder st = []"
  shows "\<exists>st'. lineLoops (map kv_body kvs) st = Some st' \<and>
     kv_resp st' = fold (\<lambda>(k, v). AList.update k v) kvs (kv_resp st)"
  using assms
proof (induction kvs arbitrary: st)
  case (Cons kv kvs)
  obtain k v where kv: "kv = (k, v)" by fastforce
  then show ?case
    using Cons.prems lineLoop_body [of k v st]
      Cons.IH [of "st\<lparr>kv_key := k, kv_resp := AList.update k v (kv_resp st)\<rparr>"] by simp
qed simp

lemma fold_update_new:
  "distinct (map fst kvs) \<Longrightarrow> fst ` set kvs \<inter> fst ` set acc = {} \<Longrightarrow>
     fold (\<lambda>(k, v). AList.update k v) kvs acc = acc @ kvs"
proof (induction kvs arbitrary: acc)
  case (Cons kv kvs)
  obtain k v where kv: "kv = (k, v)" by fastforce
  with Cons.prems have "AList.update k v acc = acc @ [(k, v)]"
    by (induction acc) auto
  with Cons kv show ?case by auto
qed simp

lemma good_body_scannable:
  assumes "good_key k" "good_val v" "length k + length v + 3 < max_token"
  shows "scannable (kv_body (k, v))"
proof -
  have nl: "\<not> plain_char newline" "\<not> plain_char CHR 0x0D" "\<not> quotable_char newline"
    by (simp_all add: plain_char_def is_space_rune_def is_space_def newline_def quotable_char_def)
  have ne: "CHR 0x22 \<noteq> newline" "CHR ''='' \<noteq> newline" by (simp_all add: newline_def)
  have "newline \<notin> set (kv_body (k, v))"
    using assms(1,2) nl ne by (auto simp: good_key_def good_val_def kv_body_eq split: if_splits)
  moreover have "last (kv_body (k, v)) \<noteq> CHR 0x0D"
  proof (cases "v = [] \<or> list_ex is_space v")
    case False
    then have "plain_char (last v)" using assms(2) by (simp add: good_val_def)
    with nl(2) have "last v \<noteq> CHR 0x0D" by metis
    with False show ?thesis by (simp add: kv_body_eq)
  qed (auto simp: kv_body_eq)
  ultimately show ?thesis using assms(3) by (auto simp: scannable_def kv_body_eq)
qed

lemma kv_get_in: "distinct (map fst cfg) \<Longrightarrow> (k, v) \<in> set cfg \<Longrightarrow> kv_get cfg k = v"
  by (simp add: kv_get_def)

lemma sorted_pairs:
  assumes "good_config cfg"
  shows "\<forall>(k, v) \<in> set (map (\<lambda>k. (k, kv_get cfg k)) (sort (map fst cfg))).
      good_key k \<and> good_val v \<and> length k + length v + 3 < max_token"
  using assms kv_get_in by (fastforce simp: good_config_def)

text \<open>
  C10. A configuration whose keys and values need no escaping is read back exactly as
  written: parsing the text \<open>Save\<close> writes gives every key its value and no other key,
  whether the value was quoted for its spaces or not.
\<close>

theorem parse_kv_text_roundtrip:
  assumes "good_config cfg"
  shows "\<exists>cfg'. parse_kv_text name (concat (kv_lines cfg)) = Inr cfg' \<and> map_of cfg' = map_of cfg
    \<and> map fst cfg' = sort (map fst cfg)"
proof -
  let ?kvs = "map (\<lambda>k. (k, kv_get cfg k)) (sort (map fst cfg))"
  have written: "concat (kv_lines cfg) = unlines (map kv_body ?kvs)"
    by (simp add: kv_lines_def unlines_def kv_line_body comp_def)
  have "\<forall>l\<in>set (map kv_body ?kvs). scannable l"
    using sorted_pairs [OF assms] good_body_scannable by fastforce
  then have scan: "scan_lines (concat (kv_lines cfg)) = map kv_body ?kvs"
    unfolding written by (rule scan_unlines)
  have good: "\<forall>(k, v) \<in> set ?kvs. good_key k \<and> good_val v"
    using sorted_pairs [OF assms] by fastforce
  obtain st where st: "lineLoops (map kv_body ?kvs) kv_start = Some st"
      "kv_resp st = fold (\<lambda>(k, v). AList.update k v) ?kvs (kv_resp kv_start)"
    using lineLoops_bodies [OF good, of kv_start] by (auto simp: kv_start_def)
  have d: "distinct (map fst cfg)" using assms by (simp add: good_config_def)
  then have "kv_resp st = ?kvs"
    using st(2) by (subst st(2)) (subst fold_update_new, auto simp: comp_def kv_start_def)
  moreover have "map_of ?kvs = map_of cfg"
  proof
    fix k
    show "map_of ?kvs k = map_of cfg k"
    proof (cases "k \<in> fst ` set cfg")
      case True
      then have "map_of ?kvs k = Some (kv_get cfg k)" by (simp add: map_of_map_restrict)
      with True show ?thesis
        by (cases "map_of cfg k") (auto simp: kv_get_def map_of_eq_None_iff)
    next
      case False
      then show ?thesis by (simp add: map_of_map_restrict) (metis map_of_eq_None_iff)
    qed
  qed
  ultimately show ?thesis
    using scan st(1) by (simp add: parse_kv_text_def comp_def)
qed

lemma parse_kv_text_roundtrip_witness:
  "\<exists>cfg'. parse_kv_text ''ifcfg-eth0''
      (concat (kv_lines [(''ONBOOT'', ''yes''), (''DOMAIN'', ''a.org b.org''), (''DEVICE'', ''eth0'')])) = Inr cfg'
    \<and> map_of cfg' ''DOMAIN'' = Some ''a.org b.org''"
proof -
  have "good_config [(''ONBOOT'', ''yes''), (''DOMAIN'', ''a.org b.org''), (''DEVICE'', ''eth0'')]"
    by (simp add: good_config_def good_key_def good_val_def plain_char_def quotable_char_def
        is_space_rune_def is_space_def max_token_def newline_def)
  from parse_kv_text_roundtrip [OF this, of "''ifcfg-eth0''"] show ?thesis by auto
qed

text \<open>
  Writing is not faithful for every configuration the parser accepts: a quoted value
  with an equals sign but no space is read, written back without its quotes, and the
  file then no longer parses; an escaped quote in a value is not escaped again.
\<close>

theorem kv_rewrite_breaks_file:
  "parse_kv_text name (unlines [''BONDING_OPTS='' @ [CHR 0x22] @ ''mode=1'' @ [CHR 0x22]])
      = Inr [(''BONDING_OPTS'', ''mode=1'')]
   \<and> parse_kv_text name (concat (kv_lines [(''BONDING_OPTS'', ''mode=1'')]))
      = Inl (Errorf (''invalid file syntax in '' @ name))
   \<and> parse_kv_text name (unlines [''N='' @ [CHR 0x22] @ ''a b'' @ [CHR 0x5C, CHR 0x22, CHR 0x22]])
      = Inr [(''N'', ''a b'' @ [CHR 0x22])]
   \<and> parse_kv_text name (concat (kv_lines [(''N'', ''a b'' @ [CHR 0x22])])) = Inr []"
proof (intro conjI)
  have l: "lineLoops (scan_lines t) kv_start = None \<Longrightarrow> parse_kv_text name t = Inl (Errorf (''invalid file syntax in '' @ name))"
    and r: "map_option kv_resp (lineLoops (scan_lines t) kv_start) = Some c \<Longrightarrow> parse_kv_text name t = Inr c" for t c
    by (auto simp: parse_kv_text_def)
  show "parse_kv_text name (unlines [''BONDING_OPTS='' @ [CHR 0x22] @ ''mode=1'' @ [CHR 0x22]])
      = Inr [(''BONDING_OPTS'', ''mode=1'')]" by (rule r) code_simp
  show "parse_kv_text name (concat (kv_lines [(''BONDING_OPTS'', ''mode=1'')]))
      = Inl (Errorf (''invalid file syntax in '' @ name))" by (rule l) code_simp
  show "parse_kv_text name (unlines [''N='' @ [CHR 0x22] @ ''a b'' @ [CHR 0x5C, CHR 0x22, CHR 0x22]])
      = Inr [(''N'', ''a b'' @ [CHR 0x22])]" by (rule r) code_simp
  show "parse_kv_text name (concat (kv_lines [(''N'', ''a b'' @ [CHR 0x22])])) = Inr []" by (rule r) code_simp
qed

end
