(* ===== verification/GoNetRoundtrip.thy ===== *)
theory GoNetRoundtrip
  imports GoNet
begin

text \<open>
  Round trips of the address texts: \<open>ParseIP (ip.String()) = ip.To16()\<close> for every 4- and
  16-byte address, and \<open>ParseCIDR (n.String())\<close> gives the network back whenever its mask is
  a prefix mask. The configuration backends write addresses with the printers and read them
  with the parsers, so their own round trips rest on these lemmas.
\<close>

section \<open>IPv4\<close>

lemma show_nat_no_dot: "CHR ''.'' \<notin> set (show_nat n)"
  using show_nat_digits digit_not_special by blast

lemma show_nat_not_zero_led:
  "length (show_nat n) = Suc 0 \<or> hd (show_nat n) \<noteq> CHR ''0''"
proof (cases "n = 0")
  case False
  then show ?thesis using show_nat_no_leading_zero by blast
qed (simp add: show_nat.simps)

lemma parse_octet_show: "parse_octet (show_nat (unat (b :: byte))) = Some b"
proof -
  have "unat b \<le> 255" using unsigned_less [where ?'a = nat, of b] by simp
  then show ?thesis
    using show_nat_not_zero_led [of "unat b"] by (simp add: parse_octet_def)
qed

lemma Split_ipv4_string:
  "ip \<noteq> [] \<Longrightarrow> Split CHR ''.'' (ipv4_string ip) = map (\<lambda>b. show_nat (unat b)) ip"
  unfolding ipv4_string_def by (rule Split_join) (auto simp: show_nat_no_dot)

lemma parse_ipv4_string: "length ip = 4 \<Longrightarrow> parse_ipv4 (ipv4_string ip) = Some ip"
proof -
  assume "length ip = 4"
  then obtain a b c d where ip: "ip = [a, b, c, d]"
    by (auto simp: numeral_eq_Suc length_Suc_conv)
  have "map parse_octet (Split CHR ''.'' (ipv4_string ip)) = map Some ip"
    unfolding ip by (subst Split_ipv4_string) (simp_all add: parse_octet_show)
  then show ?thesis by (simp add: parse_ipv4_def ip)
qed

lemma ipv4_string_chars:
  "c \<in> set (ipv4_string ip) \<Longrightarrow> is_digit c \<or> c = CHR ''.''"
proof (induction ip)
  case (Cons b ip)
  then show ?case using show_nat_digits
    by (cases ip) (auto simp: ipv4_string_def)
qed (simp add: ipv4_string_def)

lemma dot_not_space: "\<not> is_space CHR ''.''"
  by (simp add: is_space_def)

lemma ipv4_string_word: "length ip = 4 \<Longrightarrow> is_word (ipv4_string ip)"
proof -
  assume "length ip = 4"
  then have "ipv4_string ip \<noteq> []"
    by (cases ip; cases "tl ip") (auto simp: ipv4_string_def)
  then show ?thesis
    using ipv4_string_chars [of _ ip] digit_not_space dot_not_space by (auto simp: is_word_def)
qed

lemma parse_addr_ipv4: "length ip = 4 \<Longrightarrow> parse_addr (ipv4_string ip) = Some (To16 ip, 32)"
proof -
  assume ip: "length ip = 4"
  then obtain a b ip' where ab: "ip = a # b # ip'" by (cases ip; cases "tl ip") auto
  then have dot: "CHR ''.'' \<in> set (ipv4_string ip)" by (simp add: ipv4_string_def join_Cons)
  have "List.find (\<lambda>c. c = CHR ''.'' \<or> c = CHR '':'' \<or> c = CHR ''%'') (ipv4_string ip) = Some CHR ''.''"
  proof -
    let ?P = "\<lambda>c. c = CHR ''.'' \<or> c = CHR '':'' \<or> c = CHR ''%''"
    obtain c where c: "List.find ?P (ipv4_string ip) = Some c"
      using dot by (cases "List.find ?P (ipv4_string ip)") (auto simp: find_None_iff)
    then have "?P c" "c \<in> set (ipv4_string ip)" by (auto dest: find_Some_iff2)
    then have "c = CHR ''.''" using ipv4_string_chars digit_not_special by blast
    with c show ?thesis by simp
  qed
  then show ?thesis using parse_ipv4_string [OF ip] by (simp add: parse_addr_def)
qed

section \<open>IPv6\<close>

lemma of_char_hex_char [simp]:
  "n < 16 \<Longrightarrow> of_char (hex_char n) = (if n < 10 then 48 + n else 87 + n :: nat)"
  by (simp add: hex_char_def)

lemma hex_val_hex_char [simp]: "n < 16 \<Longrightarrow> hex_val (hex_char n) = Some n"
  by (auto simp: hex_val_def Let_def)

lemma is_hex_hex_char [simp]: "n < 16 \<Longrightarrow> is_hex (hex_char n)"
  by (simp add: is_hex_def)

lemma show_hex_is_hex: "\<forall>c\<in>set (show_hex n). is_hex c"
proof (induction n rule: show_hex.induct)
  case (1 n)
  then show ?case by (cases "n < 16") (auto simp: show_hex.simps [of n])
qed

lemma show_hex_not_Nil [simp]: "show_hex n \<noteq> []"
  by (simp add: show_hex.simps [of n])

lemma hexs_val_show_hex [simp]: "hexs_val (show_hex n) = n"
proof (induction n rule: show_hex.induct)
  case (1 n)
  then show ?case
    by (cases "n < 16") (simp_all add: show_hex.simps [of n], simp_all add: hexs_val_def)
qed

lemma length_show_hex: "n < 16 ^ k \<Longrightarrow> 0 < k \<Longrightarrow> length (show_hex n) \<le> k"
proof (induction k arbitrary: n)
  case (Suc k)
  show ?case
  proof (cases "n < 16")
    case False
    with Suc.prems have "0 < k" "n div 16 < 16 ^ k" by (cases k; auto)+
    then have "length (show_hex (n div 16)) \<le> k" using Suc.IH by simp
    with False show ?thesis by (simp add: show_hex.simps [of n])
  qed (simp add: show_hex.simps [of n])
qed simp

lemma is_hex_not_special: "is_hex c \<Longrightarrow> c \<noteq> CHR ''.'' \<and> c \<noteq> CHR '':'' \<and> c \<noteq> CHR ''%'' \<and> c \<noteq> CHR ''/''"
  by (auto simp: is_hex_def hex_val_def)

lemma is_hex_not_space: "is_hex c \<Longrightarrow> \<not> is_space c"
  by (auto simp: is_hex_def hex_val_def is_space_def Let_def split: if_splits)

lemma show_hex_span:
  "r = [] \<or> \<not> is_hex (hd r) \<Longrightarrow> takeWhile is_hex (show_hex n @ r) = show_hex n \<and> dropWhile is_hex (show_hex n @ r) = r"
  by (cases r) (simp_all add: takeWhile_all dropWhile_all takeWhile_append_stop dropWhile_append_stop show_hex_is_hex)

lemma hd_show_hex: "hd (show_hex n) \<noteq> CHR '':''"
proof -
  have "is_hex (hd (show_hex n))" using show_hex_is_hex hd_in_set [OF show_hex_not_Nil] by blast
  then show ?thesis using is_hex_not_special by blast
qed

lemma hex_groups_head: "\<exists>c cs. hex_groups (h # hs) = c # cs \<and> c \<noteq> CHR '':''"
proof -
  obtain c cs where c: "show_hex h = c # cs" using show_hex_not_Nil by (metis list.exhaust)
  then have "c \<noteq> CHR '':''" using hd_show_hex [of h] by simp
  with c show ?thesis by (cases hs) (simp_all add: hex_groups_def)
qed

definition gbytes :: "nat list \<Rightarrow> byte list" where
  "gbytes gs = concat (map group_bytes gs)"

lemma gbytes_simps [simp]: "gbytes [] = []" "gbytes (g # gs) = group_bytes g @ gbytes gs"
  by (simp_all add: gbytes_def)

lemma length_gbytes [simp]: "length (gbytes gs) = 2 * length gs"
  by (induction gs) (auto simp: group_bytes_def)

text \<open>One group followed by the end of the text, by a colon and more, or by an ellipsis.\<close>

lemma v6_loop_step:
  assumes "length acc < 16" and "g < 65536" and "r = [] \<or> hd r = CHR '':''"
  shows "v6_loop (show_hex g @ r) acc ell =
    (let acc' = acc @ group_bytes g in
      case r of [] \<Rightarrow> Some (acc', ell, [])
      | c # cs \<Rightarrow> if cs = [] then None
          else if hd cs = CHR '':'' then
            (if ell \<noteq> None then None
             else if tl cs = [] then Some (acc', Some (length acc'), [])
             else v6_loop (tl cs) acc' (Some (length acc')))
          else v6_loop cs acc' ell)"
proof -
  have r: "r = [] \<or> \<not> is_hex (hd r)" using assms(3) is_hex_not_special by auto
  have "length (show_hex g) \<le> 4" using length_show_hex [of g 4] assms(2) by simp
  with assms show_hex_span [OF r, of g] show ?thesis
    by (subst v6_loop.simps) (cases r; simp add: Let_def takeWhile_all dropWhile_all show_hex_is_hex)
qed

lemma v6_loop_groups:
  assumes "gs \<noteq> []" and "\<forall>g\<in>set gs. g < 65536" and "length acc + 2 * length gs \<le> 16"
  shows "v6_loop (hex_groups gs) acc ell = Some (acc @ gbytes gs, ell, [])"
  using assms
proof (induction gs arbitrary: acc)
  case (Cons g gs)
  show ?case
  proof (cases gs)
    case Nil
    with Cons.prems v6_loop_step [of acc g "[]" ell] show ?thesis by (simp add: hex_groups_def)
  next
    case (Cons h hs)
    then obtain c cs where cs: "hex_groups gs = c # cs" "c \<noteq> CHR '':''"
      using hex_groups_head by blast
    have "v6_loop (hex_groups gs) (acc @ group_bytes g) ell = Some ((acc @ group_bytes g) @ gbytes gs, ell, [])"
      using Cons.IH [of "acc @ group_bytes g"] Cons.prems Cons by (simp add: group_bytes_def)
    moreover have "hex_groups (g # gs) = show_hex g @ CHR '':'' # hex_groups gs"
      using Cons by (simp add: hex_groups_def)
    ultimately show ?thesis
      using Cons.prems cs v6_loop_step [of acc g "CHR '':'' # hex_groups gs" ell] by simp
  qed
qed simp

text \<open>Groups, the ellipsis, and the groups after it.\<close>

lemma v6_loop_ellipsis:
  assumes "pre \<noteq> []" and "\<forall>g\<in>set pre. g < 65536" and "\<forall>g\<in>set post. g < 65536"
    and "length acc + 2 * length pre + 2 * length post \<le> 16"
  shows "v6_loop (hex_groups pre @ ''::'' @ hex_groups post) acc None
    = Some (acc @ gbytes pre @ gbytes post, Some (length acc + 2 * length pre), [])"
  using assms
proof (induction pre arbitrary: acc)
  case (Cons g gs)
  show ?case
  proof (cases gs)
    case Nil
    have post: "post \<noteq> [] \<Longrightarrow> hex_groups post \<noteq> []"
      by (cases post; cases "tl post") (auto simp: hex_groups_def)
    have "v6_loop (hex_groups post) (acc @ group_bytes g) (Some (length acc + 2))
        = Some ((acc @ group_bytes g) @ gbytes post, Some (length acc + 2), [])" if "post \<noteq> []"
      using v6_loop_groups [OF that] Cons.prems Nil by (simp add: group_bytes_def)
    with Nil post Cons.prems v6_loop_step [of acc g "''::'' @ hex_groups post" None]
    show ?thesis by (cases "post = []") (simp_all add: hex_groups_def group_bytes_def)
  next
    case (Cons h hs)
    then obtain c cs where cs: "hex_groups gs @ ''::'' @ hex_groups post = c # cs" "c \<noteq> CHR '':''"
      using hex_groups_head [of h hs] by auto
    have "v6_loop (hex_groups gs @ ''::'' @ hex_groups post) (acc @ group_bytes g) None
        = Some ((acc @ group_bytes g) @ gbytes gs @ gbytes post, Some (length acc + 2 + 2 * length gs), [])"
      using Cons.IH [of "acc @ group_bytes g"] Cons.prems Cons by (simp add: group_bytes_def)
    moreover have "hex_groups (g # gs) = show_hex g @ CHR '':'' # hex_groups gs"
      using Cons by (simp add: hex_groups_def)
    ultimately show ?thesis
      using Cons.prems cs v6_loop_step [of acc g "CHR '':'' # (hex_groups gs @ ''::'' @ hex_groups post)" None]
      by simp
  qed
qed simp

lemma unat_byte_less: "unat (b :: byte) < 256"
  using unsigned_less [where ?'a = nat, of b] by simp

lemma group_bytes_groups: "group_bytes (unat (a :: byte) * 256 + unat (b :: byte)) = [a, b]"
proof -
  have "(of_nat (unat a * 256 + unat b) :: byte) = of_nat (unat a) * of_nat 256 + of_nat (unat b)"
    by (simp only: of_nat_add of_nat_mult)
  also have "(of_nat 256 :: byte) = 0" by simp
  finally have "(of_nat (unat a * 256 + unat b) :: byte) = b" by simp
  then show ?thesis using unat_byte_less [of b] by (simp add: group_bytes_def)
qed

lemma gbytes_groups: "even (length ip) \<Longrightarrow> gbytes (groups ip) = ip"
  by (induction ip rule: groups.induct) (auto simp: group_bytes_groups)

lemma length_groups: "length (groups ip) = length ip div 2"
  by (induction ip rule: groups.induct) auto

lemma groups_bound: "\<forall>g\<in>set (groups ip). g < 65536"
proof (induction ip rule: groups.induct)
  case (1 a b r)
  then show ?case using unat_byte_less [of a] unat_byte_less [of b] by auto
qed auto

definition zero_range :: "nat list \<Rightarrow> nat \<times> nat \<Rightarrow> bool" where
  "zero_range gs p \<longleftrightarrow> fst p + 2 \<le> snd p \<and> snd p \<le> length gs
     \<and> take (snd p - fst p) (drop (fst p) gs) = replicate (snd p - fst p) 0"

lemma zero_run_range:
  assumes "zero_run gs i \<ge> 2"
  shows "zero_range gs (i, i + zero_run gs i)"
proof -
  let ?t = "takeWhile (\<lambda>g. g = 0) (drop i gs)"
  have "?t = replicate (length ?t) 0"
    by (metis (mono_tags, lifting) replicate_eqI set_takeWhileD)
  moreover have "take (length ?t) (drop i gs) = ?t"
    by (metis takeWhile_eq_take)
  moreover have "length ?t \<le> length gs - i"
    by (metis length_drop length_takeWhile_le)
  ultimately show ?thesis using assms by (simp add: zero_range_def zero_run_def)
qed

lemma best_zero_run_range: "best_zero_run gs = Some p \<Longrightarrow> zero_range gs p"
proof -
  let ?f = "\<lambda>best i. let l = zero_run gs i in
              if l \<ge> 2 \<and> (case best of None \<Rightarrow> True | Some (s, e) \<Rightarrow> e - s < l) then Some (i, i + l) else best"
  have "(\<forall>p. init = Some p \<longrightarrow> zero_range gs p) \<Longrightarrow> foldl ?f init is = Some p \<Longrightarrow> zero_range gs p" for init "is"
  proof (induction "is" arbitrary: init)
    case (Cons i "is")
    have "\<forall>p. ?f init i = Some p \<longrightarrow> zero_range gs p"
      using Cons.prems(1) zero_run_range [of gs i] by (auto simp: Let_def)
    with Cons.IH Cons.prems(2) show ?case by simp
  qed (cases p, simp)
  then show "best_zero_run gs = Some p \<Longrightarrow> zero_range gs p"
    unfolding best_zero_run_def by blast
qed

lemma hex_groups_chars: "c \<in> set (hex_groups gs) \<Longrightarrow> is_hex c \<or> c = CHR '':''"
proof (induction gs)
  case (Cons g gs)
  then show ?case using show_hex_is_hex by (cases gs) (auto simp: hex_groups_def)
qed (simp add: hex_groups_def)

lemma ipv6_string_chars: "c \<in> set (ipv6_string ip) \<Longrightarrow> is_hex c \<or> c = CHR '':''"
  by (auto simp: ipv6_string_def Let_def dest: hex_groups_chars split: option.splits)

lemma gbytes_append: "gbytes (xs @ ys) = gbytes xs @ gbytes ys"
  by (simp add: gbytes_def)

lemma gbytes_zeros: "gbytes (replicate n 0) = replicate (2 * n) 0"
  by (induction n) (simp_all add: group_bytes_def)

text \<open>The groups around a zero run, put back together.\<close>

lemma zero_range_split:
  assumes "zero_range gs (s, e)"
  shows "gs = take s gs @ replicate (e - s) 0 @ drop e gs"
proof -
  have "gs = take s gs @ take (e - s) (drop s gs) @ drop (e - s) (drop s gs)"
    by (metis append_take_drop_id)
  with assms show ?thesis by (simp add: zero_range_def)
qed

lemma parse_ipv6_compressed:
  assumes zr: "zero_range gs (s, e)" and len: "length gs = 8" and bnd: "\<forall>g\<in>set gs. g < 65536"
  shows "parse_ipv6 (hex_groups (take s gs) @ ''::'' @ hex_groups (drop e gs)) = Some (gbytes gs)"
proof -
  let ?pre = "take s gs" and ?post = "drop e gs"
  have s: "s + 2 \<le> e" "e \<le> 8" using zr len by (auto simp: zero_range_def)
  have pb: "\<forall>g\<in>set ?pre. g < 65536" "\<forall>g\<in>set ?post. g < 65536"
    using bnd by (auto dest: in_set_takeD in_set_dropD)
  have bytes: "gbytes gs = gbytes ?pre @ replicate (2 * (e - s)) 0 @ gbytes ?post"
    by (subst zero_range_split [OF zr]) (simp only: gbytes_append gbytes_zeros)
  have np: "CHR ''%'' \<notin> set (hex_groups ?pre @ ''::'' @ hex_groups ?post)"
    using hex_groups_chars [of "CHR ''%''"] is_hex_not_special [of "CHR ''%''"] by auto
  have exp: "expand_ellipsis (gbytes ?pre @ gbytes ?post) (Some (2 * length ?pre)) = Some (gbytes gs)"
  proof -
    have "16 - (2 * s + 2 * (8 - e)) = 2 * (e - s)" "2 * s + 2 * (8 - e) < 16" using s by arith+
    then show ?thesis using s len bytes by (simp add: expand_ellipsis_def)
  qed
  show ?thesis
  proof (cases "s = 0")
    case True
    show ?thesis
    proof (cases "e = 8")
      case True
      with \<open>s = 0\<close> bytes len show ?thesis by (simp add: parse_ipv6_def hex_groups_def)
    next
      case False
      then have post: "?post \<noteq> []" using s len by simp
      have "hex_groups ?post \<noteq> []"
        using post by (cases ?post; cases "tl ?post") (auto simp: hex_groups_def)
      moreover have "v6_loop (hex_groups ?post) [] (Some 0) = Some (gbytes ?post, Some 0, [])"
        using v6_loop_groups [OF post pb(2), of "[]" "Some 0"] len by simp
      ultimately show ?thesis
        using np exp \<open>s = 0\<close> by (simp add: parse_ipv6_def hex_groups_def)
    qed
  next
    case False
    then obtain h hs where pre: "?pre = h # hs" using len by (cases ?pre) auto
    have nolead: "\<not> HasPrefix (hex_groups ?pre @ ''::'' @ hex_groups ?post) ''::''"
      using hex_groups_head [of h hs] unfolding pre by auto
    have "v6_loop (hex_groups ?pre @ ''::'' @ hex_groups ?post) [] None
        = Some ([] @ gbytes ?pre @ gbytes ?post, Some (length ([] :: byte list) + 2 * length ?pre), [])"
    proof (rule v6_loop_ellipsis)
      show "length ([] :: byte list) + 2 * length ?pre + 2 * length ?post \<le> 16" using s len by simp
    qed (use pre pb in auto)
    then show ?thesis using np exp nolead by (simp add: parse_ipv6_def)
  qed
qed

lemma parse_ipv6_string:
  assumes "length ip = 16"
  shows "parse_ipv6 (ipv6_string ip) = Some ip"
proof (cases "best_zero_run (groups ip)")
  case None
  let ?gs = "groups ip"
  have len: "length ?gs = 8" using assms by (simp add: length_groups)
  then obtain h hs where gs: "?gs = h # hs" by (cases ?gs) auto
  have np: "CHR ''%'' \<notin> set (hex_groups ?gs)"
    using hex_groups_chars [of "CHR ''%''"] is_hex_not_special [of "CHR ''%''"] by auto
  have "v6_loop (hex_groups ?gs) [] None = Some ([] @ gbytes ?gs, None, [])"
    by (rule v6_loop_groups) (use gs len groups_bound [of ip] in auto)
  moreover have "\<not> HasPrefix (hex_groups ?gs) ''::''"
    using hex_groups_head [of h hs] unfolding gs by auto
  ultimately show ?thesis
    using None np assms by (simp add: parse_ipv6_def ipv6_string_def gbytes_groups expand_ellipsis_def)
next
  case (Some p)
  obtain s e where p: "p = (s, e)" by (cases p)
  have "zero_range (groups ip) (s, e)" using Some p best_zero_run_range by blast
  then have "parse_ipv6 (ipv6_string ip) = Some (gbytes (groups ip))"
    using Some p assms parse_ipv6_compressed [of "groups ip" s e] groups_bound [of ip]
    by (simp add: ipv6_string_def length_groups Let_def)
  then show ?thesis using assms by (simp add: gbytes_groups)
qed

lemma ipv6_string_colon: "length ip = 16 \<Longrightarrow> CHR '':'' \<in> set (ipv6_string ip)"
proof (cases "best_zero_run (groups ip)")
  case None
  assume "length ip = 16"
  then have "length (groups ip) = 8" by (simp add: length_groups)
  then obtain g h gs where "groups ip = g # h # gs" by (cases "groups ip"; cases "tl (groups ip)") auto
  with None show ?thesis by (simp add: ipv6_string_def hex_groups_def)
qed (auto simp: ipv6_string_def Let_def)

lemma parse_addr_ipv6:
  assumes "length ip = 16"
  shows "parse_addr (ipv6_string ip) = Some (ip, 128)"
proof -
  let ?P = "\<lambda>c. c = CHR ''.'' \<or> c = CHR '':'' \<or> c = CHR ''%''"
  obtain c where c: "List.find ?P (ipv6_string ip) = Some c"
    using ipv6_string_colon [OF assms] by (cases "List.find ?P (ipv6_string ip)") (auto simp: find_None_iff)
  then have "?P c" "c \<in> set (ipv6_string ip)" by (auto dest: find_Some_iff2)
  then have "c = CHR '':''" using ipv6_string_chars is_hex_not_special by blast
  with c parse_ipv6_string [OF assms] show ?thesis by (simp add: parse_addr_def)
qed

section \<open>Both families\<close>

lemma ip_string_cases:
  "valid_ip ip \<Longrightarrow> ip_string ip = (if is_v4 ip then ipv4_string (To4 ip) else ipv6_string ip)"
  using valid_ip_not_Nil [of ip] by (auto simp: ip_string_def valid_ip_def)

lemma parse_addr_ip_string:
  assumes "valid_ip ip"
  shows "parse_addr (ip_string ip) = Some (To16 ip, if is_v4 ip then 32 else 128)"
proof (cases "is_v4 ip")
  case True
  then have "length (To4 ip) = 4" by (simp add: is_v4_def To4_length)
  with True assms show ?thesis by (simp add: ip_string_cases parse_addr_ipv4 To16_To4)
next
  case False
  then have "length ip = 16" using assms by (auto simp: valid_ip_def)
  with False assms show ?thesis by (simp add: ip_string_cases parse_addr_ipv6 To16_def)
qed

lemma ParseIP_ip_string: "valid_ip ip \<Longrightarrow> ParseIP (ip_string ip) = To16 ip"
  by (simp add: ParseIP_def parse_addr_ip_string)

lemma ip_string_chars:
  "valid_ip ip \<Longrightarrow> c \<in> set (ip_string ip) \<Longrightarrow> is_hex c \<or> c = CHR '':'' \<or> c = CHR ''.''"
proof -
  assume "valid_ip ip" "c \<in> set (ip_string ip)"
  moreover have "is_digit c \<Longrightarrow> is_hex c" by (auto simp: is_digit_def is_hex_def hex_val_def Let_def)
  ultimately show ?thesis
    using ipv4_string_chars [of c "To4 ip"] ipv6_string_chars [of c ip]
    by (auto simp: ip_string_cases split: if_splits)
qed

lemma ip_string_word: "valid_ip ip \<Longrightarrow> is_word (ip_string ip)"
proof -
  assume v: "valid_ip ip"
  have "ip_string ip \<noteq> []"
    using parse_addr_ip_string [OF v] by (auto simp: parse_addr_def)
  moreover have "\<not> is_space CHR '':''" by (simp add: is_space_def)
  ultimately show ?thesis
    using ip_string_chars [OF v] is_hex_not_space dot_not_space by (auto simp: is_word_def)
qed

lemma ip_string_no_slash: "valid_ip ip \<Longrightarrow> CHR ''/'' \<notin> set (ip_string ip)"
  using ip_string_chars [of ip "CHR ''/''"] is_hex_not_special by auto

section \<open>Networks\<close>

text \<open>
  A host address as the backends hold it: a valid address and a prefix mask of its
  family, at the width \<open>net.ParseCIDR\<close> gives it.
\<close>

definition prefix_len :: "ipnet \<Rightarrow> nat" where
  "prefix_len n = mask_ones (net_mask n)"

definition family_bits :: "ipnet \<Rightarrow> nat" where
  "family_bits n = (if is_v4 (net_ip n) then 32 else 128)"

definition valid_net :: "ipnet \<Rightarrow> bool" where
  "valid_net n \<longleftrightarrow> valid_ip (net_ip n) \<and> prefix_len n \<le> family_bits n
     \<and> net_mask n = CIDRMask (int (prefix_len n)) (family_bits n)"

definition norm_net :: "ipnet \<Rightarrow> ipnet" where
  "norm_net n = n\<lparr>net_ip := To16 (net_ip n)\<rparr>"

lemma valid_net_mask_len:
  assumes "valid_net n"
  shows "length (net_mask n) = family_bits n div 8"
proof -
  have "length (CIDRMask (int (prefix_len n)) (family_bits n)) = family_bits n div 8"
    by (rule length_CIDRMask) (use assms in \<open>auto simp: valid_net_def family_bits_def\<close>)
  then show ?thesis using assms by (simp add: valid_net_def)
qed

lemma valid_net_mask_length:
  assumes "valid_net n"
  shows "simple_mask_length (net_mask n) = Some (prefix_len n)"
proof -
  have "simple_mask_length (CIDRMask (int (prefix_len n)) (family_bits n)) = Some (nat (int (prefix_len n)))"
    by (rule simple_mask_length_CIDRMask) (use assms in \<open>auto simp: valid_net_def family_bits_def\<close>)
  then show ?thesis using assms by (simp add: valid_net_def)
qed

lemma valid_net_number:
  assumes "valid_net n"
  shows "network_number_and_mask n
    = Some (if is_v4 (net_ip n) then To4 (net_ip n) else net_ip n, net_mask n)"
proof -
  have v: "valid_ip (net_ip n)" using assms by (simp add: valid_net_def)
  show ?thesis
    using v valid_net_mask_len [OF assms] To4_length [of "net_ip n"]
    by (auto simp: network_number_and_mask_def family_bits_def is_v4_def valid_ip_def)
qed

lemma ipnet_string_valid:
  assumes "valid_net n"
  shows "ipnet_string n = ip_string (net_ip n) @ ''/'' @ show_nat (prefix_len n)"
proof -
  have v: "valid_ip (net_ip n)" using assms by (simp add: valid_net_def)
  have "ip_string (To4 (net_ip n)) = ip_string (net_ip n)" if "is_v4 (net_ip n)"
  proof -
    have l: "length (To4 (net_ip n)) = 4" using that by (simp add: is_v4_def To4_length)
    then have "valid_ip (To4 (net_ip n))" by (simp add: valid_ip_def)
    with l that v show ?thesis by (simp add: ip_string_cases)
  qed
  then show ?thesis
    using assms by (auto simp: ipnet_string_def valid_net_number valid_net_mask_length)
qed

lemma ParseCIDR_ipnet_string:
  assumes "valid_net n"
  shows "ParseCIDR (ipnet_string n) = Some (norm_net n)"
proof -
  have v: "valid_ip (net_ip n)" and m: "net_mask n = CIDRMask (int (prefix_len n)) (family_bits n)"
    and le: "prefix_len n \<le> family_bits n"
    using assms by (auto simp: valid_net_def)
  have "Cut CHR ''/'' (ip_string (net_ip n) @ CHR ''/'' # show_nat (prefix_len n))
      = Some (ip_string (net_ip n), show_nat (prefix_len n))"
    by (rule Cut_append) (rule ip_string_no_slash [OF v])
  then show ?thesis
    using m le unfolding ipnet_string_valid [OF assms] ParseCIDR_def
    by (simp add: parse_addr_ip_string [OF v] norm_net_def family_bits_def)
qed

lemma norm_net_fields [simp]:
  "net_ip (norm_net n) = To16 (net_ip n)" "net_mask (norm_net n) = net_mask n"
  by (simp_all add: norm_net_def)

lemma ipnet_string_word: "valid_net n \<Longrightarrow> is_word (ipnet_string n)"
proof -
  assume a: "valid_net n"
  then have "is_word (ip_string (net_ip n))" by (simp add: valid_net_def ip_string_word)
  moreover have "\<not> is_space CHR ''/''" by (simp add: is_space_def)
  ultimately show ?thesis
    using is_word_show_nat [of "prefix_len n"] by (auto simp: ipnet_string_valid [OF a] is_word_def)
qed

end
