(* ===== verification/Netlink.thy ===== *)
theory Netlink
  imports NetConf
begin

text \<open>
  The kernel's network configuration as the program sees it through the netlink library.
  The library is not part of the repository: its calls are the fields of a record over an
  abstract kernel state \<open>'k\<close>, which also stands for the network the probes go through. A
  call may fail and every call, even a query, may find the state changed.
\<close>

datatype family = FAMILY_ALL | FAMILY_V4 | FAMILY_V6

datatype operState = OperUnknown | OperUp | OperOther

text \<open>A link: what its attributes say, and the kind of device.\<close>

record link =
  lk_name :: string
  lk_mac :: "byte list"
  lk_index :: nat
  lk_operState :: operState
  lk_flagUp :: bool
  lk_type :: string

text \<open>
  An address and a route; \<open>ad_attrs\<close> and \<open>nr_attrs\<close> stand for the attributes the program
  only carries along. Listed addresses have a network and listed routes a destination.
\<close>

record addr =
  ad_IPNet :: ipnet
  ad_attrs :: nat

record nroute =
  nr_Family :: family
  nr_LinkIndex :: nat
  nr_Dst :: ipnet
  nr_Gw :: ip
  nr_Priority :: int
  nr_attrs :: nat

text \<open>
  The calls. Replacing takes an optional address: \<^term>\<open>None\<close> is the zero value, which has
  no network. Pinging and fetching a page are here because their answer depends on the
  same state.
\<close>

record 'k netlink =
  nl_NewHandle :: "'k \<Rightarrow> unit result \<times> 'k"
  nl_LinkList :: "'k \<Rightarrow> link list result \<times> 'k"
  nl_LinkByName :: "string \<Rightarrow> 'k \<Rightarrow> link result \<times> 'k"
  nl_LinkSetUp :: "link \<Rightarrow> 'k \<Rightarrow> unit result \<times> 'k"
  nl_LinkSetDown :: "link \<Rightarrow> 'k \<Rightarrow> unit result \<times> 'k"
  nl_AddrList :: "link \<Rightarrow> family \<Rightarrow> 'k \<Rightarrow> addr list result \<times> 'k"
  nl_AddrAdd :: "link \<Rightarrow> addr \<Rightarrow> 'k \<Rightarrow> unit result \<times> 'k"
  nl_AddrReplace :: "link \<Rightarrow> addr option \<Rightarrow> 'k \<Rightarrow> unit result \<times> 'k"
  nl_AddrDel :: "link \<Rightarrow> addr \<Rightarrow> 'k \<Rightarrow> unit result \<times> 'k"
  nl_RouteList :: "link \<Rightarrow> family \<Rightarrow> 'k \<Rightarrow> nroute list result \<times> 'k"
  nl_RouteAdd :: "nroute \<Rightarrow> 'k \<Rightarrow> unit result \<times> 'k"
  nl_RouteDel :: "nroute \<Rightarrow> 'k \<Rightarrow> unit result \<times> 'k"
  nl_RouteChange :: "nroute \<Rightarrow> 'k \<Rightarrow> unit result \<times> 'k"
  nl_RouteReplace :: "nroute \<Rightarrow> 'k \<Rightarrow> unit result \<times> 'k"
  nl_ping :: "'k \<Rightarrow> prober \<times> 'k"
  nl_http :: "string \<Rightarrow> int \<Rightarrow> 'k \<Rightarrow> (int \<times> string) result \<times> 'k"

end
