(* ===== verification/NetworkScripts.thy ===== *)
theory NetworkScripts
  imports KeyValueFile GoNetRoundtrip Netlink
begin

text \<open>
  \<open>networkScripts.go\<close>: the RHEL-family backend over \<open>/etc/sysconfig/network-scripts\<close>. The
  struct merge library \<open>mergo\<close>, the kernel's link list and its interface list are parameters.
\<close>

section \<open>State\<close>

definition networkScriptsPath :: string where
  "networkScriptsPath = ''/etc/sysconfig/network-scripts''"

record nsFile =
  nsf_Name :: string
  nsf_Config :: kv

record nsRouteFile =
  nsr_Name :: string
  nsr_Routes :: "string list list"

record nsInterface =
  nsi_Name :: string
  nsi_IFFiles :: "nsFile list"
  nsi_Route4File :: nsRouteFile
  nsi_Route6File :: nsRouteFile

record networkScripts =
  ns_Interfaces :: "nsInterface list"
  ns_ConfigDir :: string
  ns_backupRetention :: int

definition no_routes :: nsRouteFile where
  "no_routes = \<lparr>nsr_Name = [], nsr_Routes = []\<rparr>"

definition kv_set :: "string \<Rightarrow> string \<Rightarrow> kv \<Rightarrow> kv" where
  "kv_set k v cfg = AList.update k v cfg"

definition kv_del :: "string \<Rightarrow> kv \<Rightarrow> kv" where
  "kv_del k cfg = AList.delete k cfg"

section \<open>DHCP keys\<close>

definition nsDHCPState :: "kv \<Rightarrow> bool \<times> bool" where
  "nsDHCPState config =
     (ToLower (kv_get config ''BOOTPROTO'') \<in> {''dhcp'', ''bootp''},
      ToLower (kv_get config ''DHCPV6C'') \<in> {''yes'', ''true'', ''1''})"

definition nsSetDHCP :: "bool \<Rightarrow> bool \<Rightarrow> kv \<Rightarrow> kv" where
  "nsSetDHCP dhcp4 dhcp6 config =
     (let config = (if dhcp4 then kv_set ''BOOTPROTO'' ''dhcp'' config
            else kv_del ''PERSISTENT_DHCLIENT'' (kv_set ''BOOTPROTO'' ''none'' config))
      in if dhcp6 then kv_set ''DHCPV6C'' ''yes'' (kv_set ''IPV6INIT'' ''yes'' config)
         else kv_del ''DHCPV6C'' config)"

section \<open>Interfaces by name\<close>

text \<open>
  \<open>EnsureInterface\<close> returns a pointer to the interface; here the interface itself and the
  state that has it. \<open>put_interface\<close> writes back what was done through the pointer.
\<close>

definition new_nsInterface :: "string \<Rightarrow> nsInterface" where
  "new_nsInterface name = \<lparr>nsi_Name = name, nsi_IFFiles = [], nsi_Route4File = no_routes, nsi_Route6File = no_routes\<rparr>"

definition EnsureInterface :: "string \<Rightarrow> networkScripts \<Rightarrow> nsInterface \<times> networkScripts" where
  "EnsureInterface name ns = (case List.find (\<lambda>i. nsi_Name i = name) (ns_Interfaces ns) of
       Some i \<Rightarrow> (i, ns)
     | None \<Rightarrow> (new_nsInterface name, ns\<lparr>ns_Interfaces := ns_Interfaces ns @ [new_nsInterface name]\<rparr>))"

fun replace_first :: "('a \<Rightarrow> bool) \<Rightarrow> 'a \<Rightarrow> 'a list \<Rightarrow> 'a list" where
  "replace_first P y [] = []"
| "replace_first P y (x # xs) = (if P x then y # xs else x # replace_first P y xs)"

definition put_interface :: "nsInterface \<Rightarrow> networkScripts \<Rightarrow> networkScripts" where
  "put_interface i ns = ns\<lparr>ns_Interfaces := replace_first (\<lambda>j. nsi_Name j = nsi_Name i) i (ns_Interfaces ns)\<rparr>"

section \<open>Route lines\<close>

text \<open>The fields after the destination; \<^term>\<open>None\<close> skips the route.\<close>

fun route_fields :: "string list \<Rightarrow> ip \<Rightarrow> int \<Rightarrow> (ip \<times> int) option" where
  "route_fields (f # g # r) gw metric =
     (if f = ''via'' then
        (let gw' = ParseIP g in if gw' = [] then None else route_fields r gw' metric)
      else if f = ''metric'' then
        route_fields r gw (case Atoi g of None \<Rightarrow> 256 | Some m \<Rightarrow> if m = 0 then 256 else m)
      else route_fields (g # r) gw metric)"
| "route_fields [f] gw metric = Some (gw, metric)"
| "route_fields [] gw metric = Some (gw, metric)"

definition parse_route :: "string list \<Rightarrow> Route option" where
  "parse_route route = (case route of
       [] \<Rightarrow> None
     | d # fs \<Rightarrow> (case ParseCIDR d of
           None \<Rightarrow> None
         | Some network \<Rightarrow> map_option
             (\<lambda>(gw, m). \<lparr>rt_Destination = Some network, rt_Gateway = gw, rt_Metric = m\<rparr>)
             (route_fields fs [] 256)))"

definition parseIPRoutes :: "string list list \<Rightarrow> Route list" where
  "parseIPRoutes routes = List.map_filter parse_route routes"

section \<open>Reading the directory\<close>

definition name_missing :: "string \<Rightarrow> goerror" where
  "name_missing configFile = Errorf (''unable to find interface name in '' @ configFile)"

definition device_by_mac :: "(string \<times> byte list) list result \<Rightarrow> string \<Rightarrow> kv \<Rightarrow> string result" where
  "device_by_mac net_ifaces configFile resp =
     (case map_of resp ''HWADDR'' of
        None \<Rightarrow> Inl (name_missing configFile)
      | Some hw \<Rightarrow> (case ParseMAC hw of
            None \<Rightarrow> Inl (name_missing configFile)
          | Some mac \<Rightarrow> try_res net_ifaces (\<lambda>ifs. case List.find (\<lambda>(n, m). m = mac) ifs of
                Some (n, m) \<Rightarrow> if n = [] then Inl (name_missing configFile) else Inr n
              | None \<Rightarrow> Inl (name_missing configFile))))"

definition add_iffile :: "string \<Rightarrow> nsFile \<Rightarrow> networkScripts \<Rightarrow> networkScripts" where
  "add_iffile dev f ns = (case EnsureInterface dev ns of (i, ns) \<Rightarrow>
     put_interface (i\<lparr>nsi_IFFiles := nsi_IFFiles i @ [f]\<rparr>) ns)"

definition read_ifcfg ::
  "(string \<times> byte list) list result \<Rightarrow> string \<Rightarrow> networkScripts \<Rightarrow> world \<Rightarrow> networkScripts result \<times> world" where
  "read_ifcfg net_ifaces name ns w =
     (let configFile = path_join (ns_ConfigDir ns) name in
      try_io (os_Open configFile w) (\<lambda>fd w.
      try_io (parseKeyValueFile configFile fd w) (\<lambda>resp w.
      let dev0 = (case map_of resp ''DEVICE'' of
            Some d \<Rightarrow> if d = [] then drop 6 name else d
          | None \<Rightarrow> drop 6 name);
          dev = before CHR '':'' dev0 in
      try_io (if dev = [] then device_by_mac net_ifaces configFile resp else Inr dev, w) (\<lambda>dev w.
      (Inr (add_iffile dev \<lparr>nsf_Name = name, nsf_Config = resp\<rparr> ns), w)))))"

text \<open>The regular expression \<open>^\s*ADDRESS[0-9]+=\<close>.\<close>

definition routeRe :: "string \<Rightarrow> bool" where
  "routeRe line =
     (let l = dropWhile (\<lambda>c. c \<in> {CHR 0x09, CHR 0x0A, CHR 0x0C, CHR 0x0D, CHR '' ''}) line;
          d = drop 7 l; r = dropWhile is_digit d
      in HasPrefix l ''ADDRESS'' \<and> d \<noteq> [] \<and> is_digit (hd d) \<and> r \<noteq> [] \<and> hd r = CHR ''='')"

text \<open>The numbered routes, counted from 0 until an address is missing.\<close>

fun numbered_routes :: "kv \<Rightarrow> string \<Rightarrow> string \<Rightarrow> nat list \<Rightarrow> string list list result" where
  "numbered_routes resp configFile dev [] = Inr []"
| "numbered_routes resp configFile dev (i # is) =
     (case map_of resp (''ADDRESS'' @ show_nat i) of
        None \<Rightarrow> Inr []
      | Some addr \<Rightarrow> (case map_of resp (''NETMASK'' @ show_nat i) of
            None \<Rightarrow> Inl (Errorf (''invalid file format, missing netmask '' @ configFile))
          | Some netmask \<Rightarrow> (case map_of resp (''GATEWAY'' @ show_nat i) of
                None \<Rightarrow> Inl (Errorf (''invalid file format, missing gateway '' @ configFile))
              | Some gateway \<Rightarrow>
                 (let ipMask = To4 (ParseIP netmask) in
                  if ipMask = [] then Inl (Errorf (''invalid file format '' @ configFile))
                  else try_res (numbered_routes resp configFile dev is) (\<lambda>rs.
                    Inr ([addr @ ''/'' @ show_nat (mask_ones ipMask), ''via'', gateway, ''dev'', dev] # rs))))))"

definition command_routes :: "string \<Rightarrow> string list list" where
  "command_routes text = map Fields (filter (\<lambda>l. l \<noteq> [] \<and> hd l \<noteq> CHR ''#'') (map TrimSpace (scan_lines text)))"

definition read_route :: "string \<Rightarrow> networkScripts \<Rightarrow> world \<Rightarrow> networkScripts result \<times> world" where
  "read_route name ns w =
     (let dev = drop 6 name in
      if dev = [] then (Inl (Errorf ''invalid route file name''), w)
      else let configFile = path_join (ns_ConfigDir ns) name in
      try_io (os_Open configFile w) (\<lambda>fd w.
      case fd_read fd w of (first, w) \<Rightarrow>
      try_io (if list_ex routeRe (scan_lines first) then
          try_io (parseKeyValueFile configFile fd w) (\<lambda>resp w.
            (numbered_routes resp configFile dev [0 ..< Suc (length resp)], w))
        else (case fd_read fd w of (content, w) \<Rightarrow> (Inr (command_routes content), w))) (\<lambda>routes w.
      case EnsureInterface dev ns of (i, ns) \<Rightarrow>
        (Inr (put_interface (i\<lparr>nsi_Route4File := \<lparr>nsr_Name = name, nsr_Routes = routes\<rparr>\<rparr>) ns), w))))"

definition read_route6 :: "string \<Rightarrow> networkScripts \<Rightarrow> world \<Rightarrow> networkScripts result \<times> world" where
  "read_route6 name ns w =
     (let dev = drop 7 name in
      if dev = [] then (Inl (Errorf ''invalid route file name''), w)
      else let configFile = path_join (ns_ConfigDir ns) name in
      try_io (os_Open configFile w) (\<lambda>fd w.
      case fd_read fd w of (content, w) \<Rightarrow>
      case EnsureInterface dev ns of (i, ns) \<Rightarrow>
        (Inr (put_interface (i\<lparr>nsi_Route6File := \<lparr>nsr_Name = name, nsr_Routes = command_routes content\<rparr>\<rparr>) ns), w)))"

definition when_prefix ::
  "string \<Rightarrow> string \<Rightarrow> ('s \<Rightarrow> world \<Rightarrow> 's result \<times> world) \<Rightarrow> 's \<Rightarrow> world \<Rightarrow> 's result \<times> world" where
  "when_prefix name pre f s w = (if HasPrefix name pre then f s w else (Inr s, w))"

fun read_entries ::
  "(string \<times> byte list) list result \<Rightarrow> dirent list \<Rightarrow> networkScripts \<Rightarrow> world \<Rightarrow> networkScripts result \<times> world" where
  "read_entries net_ifaces [] ns w = (Inr ns, w)"
| "read_entries net_ifaces (e # es) ns w =
     (if fi_dir (de_info e) then read_entries net_ifaces es ns w
      else let name = de_name e in
      try_io (when_prefix name ''ifcfg-'' (read_ifcfg net_ifaces name) ns w) (\<lambda>ns w.
      try_io (when_prefix name ''route-'' (read_route name) ns w) (\<lambda>ns w.
      try_io (when_prefix name ''route6-'' (read_route6 name) ns w) (\<lambda>ns w.
      read_entries net_ifaces es ns w))))"

definition newNetworkScriptsWithConfig ::
  "(string \<times> byte list) list result \<Rightarrow> string \<Rightarrow> world \<Rightarrow> networkScripts result \<times> world" where
  "newNetworkScriptsWithConfig net_ifaces configPath w =
     try_io (os_ReadDir configPath w) (\<lambda>entries w.
       read_entries net_ifaces (sortableDirEntries entries)
         \<lparr>ns_Interfaces = [], ns_ConfigDir = configPath, ns_backupRetention = 0\<rparr> w)"

definition newNetworkScripts ::
  "(string \<times> byte list) list result \<Rightarrow> int \<Rightarrow> world \<Rightarrow> networkScripts result \<times> world" where
  "newNetworkScripts net_ifaces retention w =
     try_io (newNetworkScriptsWithConfig net_ifaces networkScriptsPath w) (\<lambda>ns w.
       (Inr (ns\<lparr>ns_backupRetention := retention\<rparr>), w))"

section \<open>Reading interfaces\<close>

definition ns_ParseIP :: "kv \<Rightarrow> string \<Rightarrow> ipnet option" where
  "ns_ParseIP cfg idx =
     (let addr = kv_get cfg (''IPADDR'' @ idx) in
      if addr = [] then None
      else
        let prefix = kv_get cfg (''PREFIX'' @ idx);
            netmask = kv_get cfg (''NETMASK'' @ idx);
            prefix = (if prefix = [] then
                (let ipMask = To4 (ParseIP netmask) in
                 if ipMask \<noteq> [] then show_nat (mask_ones ipMask) else ''16'')
              else prefix)
        in ParseCIDR (addr @ ''/'' @ prefix))"

fun indexed_addrs :: "kv \<Rightarrow> nat list \<Rightarrow> ipnet list" where
  "indexed_addrs cfg [] = []"
| "indexed_addrs cfg (idx # is) = (case ns_ParseIP cfg (show_nat idx) of
       Some a \<Rightarrow> a # indexed_addrs cfg is
     | None \<Rightarrow> if idx \<ge> 2 then [] else indexed_addrs cfg is)"

fun numbered_dns :: "kv \<Rightarrow> nat list \<Rightarrow> ip list" where
  "numbered_dns cfg [] = []"
| "numbered_dns cfg (idx # is) = (case map_of cfg (''DNS'' @ show_nat idx) of
       None \<Rightarrow> []
     | Some s \<Rightarrow> (let a = ParseIP s in if a \<noteq> [] then a # numbered_dns cfg is else numbered_dns cfg is))"

definition opt_list :: "'a option \<Rightarrow> 'a list" where
  "opt_list x = (case x of None \<Rightarrow> [] | Some a \<Rightarrow> [a])"

definition file_v4 :: "kv \<Rightarrow> ipnet list" where
  "file_v4 cfg = opt_list (ns_ParseIP cfg []) @ indexed_addrs cfg [0 ..< 256]"

definition file_v6 :: "kv \<Rightarrow> ipnet list" where
  "file_v6 cfg =
     (let addr = kv_get cfg ''IPV6ADDR'' in
      (if addr \<noteq> [] then opt_list (ParseCIDR addr) else [])
      @ List.map_filter ParseCIDR (Fields (kv_get cfg ''IPV6ADDR_SECONDARIES'')))"

definition read_file :: "nsFile \<Rightarrow> Interface \<Rightarrow> Interface" where
  "read_file f i =
     (let cfg = nsf_Config f; (dhcp4, dhcp6) = nsDHCPState cfg;
          gateway4 = kv_get cfg ''GATEWAY''; gateway6 = kv_get cfg ''IPV6_DEFAULTGW'';
          domain = kv_get cfg ''DOMAIN'' in
      i\<lparr>if_DHCP4 := if_DHCP4 i \<or> dhcp4,
        if_DHCP6 := if_DHCP6 i \<or> dhcp6,
        if_Addresses := if_Addresses i @ file_v4 cfg @ file_v6 cfg,
        if_Gateway4 := (if gateway4 \<noteq> [] then ParseIP gateway4 else if_Gateway4 i),
        if_Gateway6 := (if gateway6 \<noteq> [] then ParseIP gateway6 else if_Gateway6 i),
        if_DNS := if_DNS i @ numbered_dns cfg [1 ..< length cfg + 2],
        if_SearchDomains := if_SearchDomains i @ (if domain \<noteq> [] then Fields domain else [])\<rparr>)"

definition match_link :: "link \<Rightarrow> Interface \<Rightarrow> Interface" where
  "match_link l i = (if lk_name l = if_Name i then i\<lparr>if_MAC := lk_mac l, if_Link := Some (lk_index l)\<rparr> else i)"

definition read_interface :: "link list \<Rightarrow> nsInterface \<Rightarrow> Interface" where
  "read_interface links nsi =
     (let i = fold read_file (nsi_IFFiles nsi) (fold match_link links (new_interface (nsi_Name nsi))) in
      i\<lparr>if_Routes := parseIPRoutes (nsr_Routes (nsi_Route4File nsi)) @ parseIPRoutes (nsr_Routes (nsi_Route6File nsi))\<rparr>)"

definition ns_GetInterfaces :: "link list result \<Rightarrow> networkScripts \<Rightarrow> Interface list result" where
  "ns_GetInterfaces links ns = try_res links (\<lambda>ls. Inr (map (read_interface ls) (ns_Interfaces ns)))"

section \<open>Saving\<close>

definition backup_prefix :: "nat \<Rightarrow> string" where
  "backup_prefix t = ''.bak.'' @ show_nat t @ ''.''"

definition tmp_name :: "nat \<Rightarrow> string \<Rightarrow> string" where
  "tmp_name t name = ''.tmp.'' @ show_nat t @ ''.'' @ name"

text \<open>The temporary file, written without looking at the errors of the writes.\<close>

definition write_tmp :: "string \<Rightarrow> string list \<Rightarrow> world \<Rightarrow> unit result \<times> world" where
  "write_tmp tmpPath chunks w =
     try_io (os_open_write False tmpPath 420 w) (\<lambda>fd w. (Inr (), fd_prints fd 0 chunks w))"

fun backup_files :: "string \<Rightarrow> string \<Rightarrow> string list \<Rightarrow> world \<Rightarrow> unit result \<times> world" where
  "backup_files configDir prefix [] w = (Inr (), w)"
| "backup_files configDir prefix (n # ns) w =
     try_io (fileMove (path_join configDir n) (path_join configDir (prefix @ n)) w)
       (\<lambda>_ w. backup_files configDir prefix ns w)"

definition Save :: "kv \<Rightarrow> string \<Rightarrow> int \<Rightarrow> nsInterface \<Rightarrow> world \<Rightarrow> (unit result \<times> nsInterface) \<times> world" where
  "Save config configDir retention n w =
     (let configName = ''ifcfg-'' @ nsi_Name n;
          configPath = path_join configDir configName in
      case UnixNano w of (t, w) \<Rightarrow>
      let tmpPath = path_join configDir (tmp_name t configName) in
      case write_tmp tmpPath (kv_lines config) w of
        (Inl e, w) \<Rightarrow> ((Inl e, n), w)
      | (Inr _, w) \<Rightarrow>
      (case UnixNano w of (t, w) \<Rightarrow>
      (case backup_files configDir (backup_prefix t) (map nsf_Name (nsi_IFFiles n)) w of
        (Inl e, w) \<Rightarrow> ((Inl e, n), w)
      | (Inr _, w) \<Rightarrow>
      (case fileMove tmpPath configPath w of
        (Inl e, w) \<Rightarrow> ((Inl e, n), w)
      | (Inr _, w) \<Rightarrow>
          ((Inr (), n\<lparr>nsi_IFFiles := [\<lparr>nsf_Name = configName, nsf_Config = config\<rparr>]\<rparr>),
           pruneBackups configDir (prefixBackupMatcher configName) retention w)))))"

definition when_nonempty :: "'a list \<Rightarrow> (world \<Rightarrow> unit result \<times> world) \<Rightarrow> world \<Rightarrow> unit result \<times> world" where
  "when_nonempty xs f w = (if xs \<noteq> [] then f w else (Inr (), w))"

definition route_file :: "string \<Rightarrow> string list \<Rightarrow> nsRouteFile" where
  "route_file name routes =
     (if routes = [] then no_routes else \<lparr>nsr_Name = name, nsr_Routes = map Fields routes\<rparr>)"

definition SaveRouteFiles ::
  "string list \<Rightarrow> string list \<Rightarrow> string \<Rightarrow> int \<Rightarrow> nsInterface \<Rightarrow> world \<Rightarrow> (unit result \<times> nsInterface) \<times> world" where
  "SaveRouteFiles routes4 routes6 configDir retention n w =
     (let name4 = ''route-'' @ nsi_Name n; name6 = ''route6-'' @ nsi_Name n;
          old4 = nsr_Name (nsi_Route4File n); old6 = nsr_Name (nsi_Route6File n) in
      case UnixNano w of (t4, w) \<Rightarrow>
      let tmp4 = path_join configDir (tmp_name t4 name4) in
      case try_io (when_nonempty routes4 (write_tmp tmp4 (map (\<lambda>r. r @ [newline]) routes4)) w) (\<lambda>_ w.
      case UnixNano w of (t6, w) \<Rightarrow>
      let tmp6 = path_join configDir (tmp_name t6 name6) in
      try_io (when_nonempty routes6 (write_tmp tmp6 (map (\<lambda>r. r @ [newline]) routes6)) w) (\<lambda>_ w.
      case UnixNano w of (t, w) \<Rightarrow>
      try_io (when_nonempty old4 (backup_files configDir (backup_prefix t) [old4]) w) (\<lambda>_ w.
      try_io (when_nonempty old6 (backup_files configDir (backup_prefix t) [old6]) w) (\<lambda>_ w.
      try_io (when_nonempty routes4 (fileMove tmp4 (path_join configDir name4)) w) (\<lambda>_ w.
      when_nonempty routes6 (fileMove tmp6 (path_join configDir name6)) w))))) of
        (Inl e, w) \<Rightarrow> ((Inl e, n), w)
      | (Inr _, w) \<Rightarrow>
         (let w = (if routes4 \<noteq> [] then pruneBackups configDir (prefixBackupMatcher name4) retention w else w);
              w = (if routes6 \<noteq> [] then pruneBackups configDir (prefixBackupMatcher name6) retention w else w)
          in ((Inr (), n\<lparr>nsi_Route4File := route_file name4 routes4, nsi_Route6File := route_file name6 routes6\<rparr>), w)))"

section \<open>Changing an interface\<close>

text \<open>The configurations of an interface's files merged into an empty one, in order.\<close>

fun merge_files :: "(kv \<Rightarrow> kv \<Rightarrow> kv result) \<Rightarrow> nsFile list \<Rightarrow> kv \<Rightarrow> kv result" where
  "merge_files mergo [] config = Inr config"
| "merge_files mergo (f # fs) config = try_res (mergo config (nsf_Config f)) (merge_files mergo fs)"

text \<open>The shape of every setter: get the interface, work out the new configuration, save it.\<close>

definition with_interface ::
  "string \<Rightarrow> (nsInterface \<Rightarrow> networkScripts \<Rightarrow> world \<Rightarrow> (unit result \<times> nsInterface) \<times> world)
     \<Rightarrow> networkScripts op" where
  "with_interface iface f s = (case s of (ns, w) \<Rightarrow>
     (case EnsureInterface iface ns of (ifc, ns) \<Rightarrow>
     (case f ifc ns w of ((r, ifc'), w) \<Rightarrow> (r, put_interface ifc' ns, w))))"

definition save_config ::
  "kv result \<Rightarrow> nsInterface \<Rightarrow> networkScripts \<Rightarrow> world \<Rightarrow> (unit result \<times> nsInterface) \<times> world" where
  "save_config config ifc ns w = (case config of
       Inl e \<Rightarrow> ((Inl e, ifc), w)
     | Inr c \<Rightarrow> Save c (ns_ConfigDir ns) (ns_backupRetention ns) ifc w)"

definition address_keys :: "string list" where
  "address_keys = [''IPADDR'', ''PREFIX'', ''NETMASK'', ''BROADCAST'', ''ARPCHECK'', ''ARPUPDATE'']"

definition delete_addresses :: "kv \<Rightarrow> kv" where
  "delete_addresses config =
     (let config = fold kv_del [''IPADDR6'', ''IPV6ADDR'', ''IPV6ADDR_SECONDARIES'', ''IPV6_DEFAULTGW'', ''GATEWAY''] config;
          configMap = [] # map show_nat [0 ..< 256]
      in fold (\<lambda>idx config. fold (\<lambda>k. kv_del (k @ idx)) address_keys config) configMap config)"

text \<open>An address whose mask is shorter than it makes \<open>getBroadcast\<close> panic.\<close>

fun add_addrs4 :: "nat \<Rightarrow> ipnet list \<Rightarrow> kv \<Rightarrow> kv result" where
  "add_addrs4 idx [] config = Inr config"
| "add_addrs4 idx (a # as) config =
     (case getBroadcast a of
        None \<Rightarrow> Inl (Panic ''index out of range'')
      | Some b \<Rightarrow> add_addrs4 (Suc idx) as
          (kv_set (''BROADCAST'' @ show_nat idx) (ip_string b)
          (kv_set (''NETMASK'' @ show_nat idx) (ip_string (net_mask a))
          (kv_set (''PREFIX'' @ show_nat idx) (show_nat (mask_ones (net_mask a)))
          (kv_set (''IPADDR'' @ show_nat idx) (ip_string (net_ip a)) config)))))"

definition add_addrs6 :: "string list \<Rightarrow> kv \<Rightarrow> kv" where
  "add_addrs6 addrs6 config = (case addrs6 of
       [] \<Rightarrow> config
     | a # as \<Rightarrow>
        (let config = kv_set ''IPV6ADDR'' a config in
         if as \<noteq> [] then kv_set ''IPV6ADDR_SECONDARIES'' (join '' '' as) config else config))"

definition set_gateway :: "string \<Rightarrow> ip \<Rightarrow> kv \<Rightarrow> kv" where
  "set_gateway k gw config = (if gw \<noteq> [] then kv_set k (ip_string gw) config else config)"

definition address_config :: "ipnet list \<Rightarrow> ip \<Rightarrow> ip \<Rightarrow> kv \<Rightarrow> kv result" where
  "address_config addrs gateway4 gateway6 config =
     (let addrs4 = filter (\<lambda>a. To4 (net_ip a) \<noteq> []) addrs;
          addrs6 = map ipnet_string (filter (\<lambda>a. To4 (net_ip a) = []) addrs)
      in try_res (add_addrs4 0 addrs4 (delete_addresses config)) (\<lambda>config.
         Inr (set_gateway ''IPV6_DEFAULTGW'' gateway6 (set_gateway ''GATEWAY'' gateway4
           (add_addrs6 addrs6 config)))))"

definition ns_SetIfaceAddresses ::
  "(kv \<Rightarrow> kv \<Rightarrow> kv result) \<Rightarrow> string \<Rightarrow> ipnet list \<Rightarrow> ip \<Rightarrow> ip \<Rightarrow> networkScripts op" where
  "ns_SetIfaceAddresses mergo iface addrs gateway4 gateway6 =
     with_interface iface (\<lambda>ifc. save_config
       (try_res (merge_files mergo (nsi_IFFiles ifc) []) (address_config addrs gateway4 gateway6)) ifc)"

definition ns_SetIfaceDHCP :: "(kv \<Rightarrow> kv \<Rightarrow> kv result) \<Rightarrow> string \<Rightarrow> bool \<Rightarrow> bool \<Rightarrow> networkScripts op" where
  "ns_SetIfaceDHCP mergo iface dhcp4 dhcp6 =
     with_interface iface (\<lambda>ifc. save_config
       (try_res (merge_files mergo (nsi_IFFiles ifc) []) (\<lambda>config. Inr (nsSetDHCP dhcp4 dhcp6 config))) ifc)"

definition ns_renewDHCP :: "string \<Rightarrow> networkScripts op" where
  "ns_renewDHCP iface s = (case s of (ns, w) \<Rightarrow>
     (case run_or_fail [''ifdown'', iface] w of (_, w) \<Rightarrow>
     (case run_or_fail [''ifup'', iface] w of
        (Inl e, w) \<Rightarrow> (Inl e, ns, w)
      | (Inr out, w) \<Rightarrow> (Inr (), ns, w))))"

text \<open>A route without a destination makes the setter panic.\<close>

definition route_line :: "Route \<Rightarrow> string" where
  "route_line r = dest_string (rt_Destination r) @ '' via '' @ ip_string (rt_Gateway r)
     @ '' metric '' @ Itoa (rt_Metric r)"

definition route_is6 :: "Route \<Rightarrow> bool" where
  "route_is6 r = (case rt_Destination r of None \<Rightarrow> False | Some n \<Rightarrow> To4 (net_ip n) = [])"

definition ns_SetIfaceRoutes :: "string \<Rightarrow> Route list \<Rightarrow> networkScripts op" where
  "ns_SetIfaceRoutes iface routes s =
     (if list_ex (\<lambda>r. rt_Destination r = None) routes
      then (Inl (Panic ''invalid memory address or nil pointer dereference''), s)
      else with_interface iface (\<lambda>ifc ns. SaveRouteFiles
        (map route_line (filter (\<lambda>r. \<not> route_is6 r) routes))
        (map route_line (filter route_is6 routes)) (ns_ConfigDir ns) (ns_backupRetention ns) ifc) s)"

fun add_servers :: "nat \<Rightarrow> ip list \<Rightarrow> kv \<Rightarrow> kv" where
  "add_servers idx [] config = config"
| "add_servers idx (a # as) config =
     (if a = [] then add_servers idx as config
      else add_servers (Suc idx) as (kv_set (''DNS'' @ show_nat idx) (ip_string a) config))"

definition dns_config :: "ip list \<Rightarrow> string list \<Rightarrow> kv \<Rightarrow> kv" where
  "dns_config servers searchDomains config =
     (let config = filter (\<lambda>(k, v). \<not> HasPrefix k ''DNS'') config;
          config = kv_del ''PEERDNS'' (kv_del ''DOMAIN'' config);
          config = add_servers 1 servers config;
          config = (if list_ex (\<lambda>a. a \<noteq> []) servers then kv_set ''PEERDNS'' ''no'' config else config)
      in if searchDomains \<noteq> [] then kv_set ''DOMAIN'' (join '' '' searchDomains) config else config)"

definition ns_SetIfaceDNS ::
  "(kv \<Rightarrow> kv \<Rightarrow> kv result) \<Rightarrow> string \<Rightarrow> ip list \<Rightarrow> string list \<Rightarrow> networkScripts op" where
  "ns_SetIfaceDNS mergo iface servers searchDomains =
     with_interface iface (\<lambda>ifc. save_config
       (try_res (merge_files mergo (nsi_IFFiles ifc) []) (\<lambda>config. Inr (dns_config servers searchDomains config))) ifc)"

end
