(* ===== verification/Contracts.thy ===== *)
theory Contracts
  imports NetConf
begin

text \<open>
  What the configurator expects of every backend, as interfaces: a place that keeps the DHCP
  state of an interface, and a configuration of named interfaces. Each backend interprets
  them on its own definitions.
\<close>

section \<open>DHCP state\<close>

text \<open>A sequence of requests to a place that may refuse some of them and is then unchanged.\<close>

fun run_requests :: "(bool \<Rightarrow> bool \<Rightarrow> 'c \<Rightarrow> 'c result) \<Rightarrow> (bool \<times> bool) list \<Rightarrow> 'c \<Rightarrow> 'c" where
  "run_requests put [] c = c"
| "run_requests put ((d4, d6) # rs) c = run_requests put rs (case put d4 d6 c of Inl e \<Rightarrow> c | Inr c' \<Rightarrow> c')"

fun accepted :: "(bool \<Rightarrow> bool \<Rightarrow> 'c \<Rightarrow> 'c result) \<Rightarrow> (bool \<times> bool) list \<Rightarrow> 'c \<Rightarrow> (bool \<times> bool) list" where
  "accepted put [] c = []"
| "accepted put ((d4, d6) # rs) c = (case put d4 d6 c of
      Inl e \<Rightarrow> accepted put rs c
    | Inr c' \<Rightarrow> (d4, d6) # accepted put rs c')"

locale dhcp_store =
  fixes get :: "'c \<Rightarrow> bool \<times> bool"
    and put :: "bool \<Rightarrow> bool \<Rightarrow> 'c \<Rightarrow> 'c result"
    and ok :: "'c \<Rightarrow> bool"
  assumes put_get: "ok c \<Longrightarrow> put d4 d6 c = Inr c' \<Longrightarrow> get c' = (d4, d6)"
    and put_ok: "ok c \<Longrightarrow> put d4 d6 c = Inr c' \<Longrightarrow> ok c'"
begin

lemma run_ok: "ok c \<Longrightarrow> ok (run_requests put rs c)"
proof (induction rs arbitrary: c)
  case (Cons r rs)
  obtain d4 d6 where r: "r = (d4, d6)" by fastforce
  show ?case
  proof (cases "put d4 d6 c")
    case (Inr c')
    then show ?thesis using Cons put_ok by (simp add: r)
  qed (use Cons in \<open>simp add: r\<close>)
qed simp

lemma last_accepted: "ok c \<Longrightarrow> get (run_requests put rs c) = last (get c # accepted put rs c)"
proof (induction rs arbitrary: c)
  case (Cons r rs)
  obtain d4 d6 where r: "r = (d4, d6)" by fastforce
  show ?case
  proof (cases "put d4 d6 c")
    case (Inl e)
    then show ?thesis using Cons by (simp add: r)
  next
    case (Inr c')
    then show ?thesis using Cons.IH [OF put_ok [OF Cons.prems Inr]] put_get [OF Cons.prems Inr] by (simp add: r)
  qed
qed simp

end

section \<open>Named interfaces\<close>

text \<open>An update of the reported interfaces of one name.\<close>

definition on_named :: "string \<Rightarrow> (Interface \<Rightarrow> Interface) \<Rightarrow> Interface list \<Rightarrow> Interface list" where
  "on_named iface g is = map (\<lambda>i. if if_Name i = iface then g i else i) is"

definition keeps_name :: "(Interface \<Rightarrow> Interface) \<Rightarrow> bool" where
  "keeps_name g \<longleftrightarrow> (\<forall>i. if_Name (g i) = if_Name i)"

lemma on_named_simps [simp]: "on_named n g [] = []" "on_named n g (is @ js) = on_named n g is @ on_named n g js"
  by (simp_all add: on_named_def)

lemma on_named_twice: "keeps_name g \<Longrightarrow> on_named n h (on_named n g is) = on_named n (h \<circ> g) is"
  by (auto simp: on_named_def keeps_name_def)

lemma on_named_commute:
  "keeps_name g \<Longrightarrow> keeps_name h \<Longrightarrow> n \<noteq> m \<Longrightarrow> on_named n g (on_named m h is) = on_named m h (on_named n g is)"
  by (auto simp: on_named_def keeps_name_def)

text \<open>
  \<open>change n f\<close> is what an operation does to the configuration of the interfaces named \<open>n\<close>, and
  \<open>effect f g\<close> says that it shows in what is reported as \<open>g\<close>.
\<close>

locale named_store =
  fixes view :: "'s \<Rightarrow> Interface list"
    and change :: "string \<Rightarrow> 'f \<Rightarrow> 's \<Rightarrow> 's"
    and effect :: "'f \<Rightarrow> (Interface \<Rightarrow> Interface) \<Rightarrow> bool"
  assumes view_change: "effect f g \<Longrightarrow> view (change n f s) = on_named n g (view s)"
    and effect_name: "effect f g \<Longrightarrow> keeps_name g"
begin

lemma names_kept: "effect f g \<Longrightarrow> map if_Name (view (change n f s)) = map if_Name (view s)"
  using effect_name by (auto simp: view_change on_named_def keeps_name_def)

lemma overwrite:
  "effect f g \<Longrightarrow> effect h k \<Longrightarrow> k \<circ> g = k \<Longrightarrow> view (change n h (change n f s)) = view (change n h s)"
  using effect_name by (simp add: view_change on_named_twice)

lemma independent:
  "effect f g \<Longrightarrow> effect h k \<Longrightarrow> n \<noteq> m \<Longrightarrow>
     view (change n f (change m h s)) = view (change m h (change n f s))"
  using effect_name by (simp add: view_change on_named_commute)

end

end
