(* ===== verification/NetworkScriptsLaws.thy ===== *)
theory NetworkScriptsLaws
  imports NetworkScripts Contracts
begin

text \<open>
  What the network-scripts backend promises: addresses, DHCP clients and resolvers are read
  back as they were set, other keys and other interfaces are untouched, and a save never
  loses an existing file.
\<close>

section \<open>Keys\<close>

lemma map_of_kv_set [simp]: "map_of (kv_set k v c) = (map_of c)(k \<mapsto> v)"
  by (simp add: kv_set_def update_conv')

lemma map_of_kv_del [simp]: "map_of (kv_del k c) = (map_of c)(k := None)"
  by (simp add: kv_del_def delete_conv')

lemma kv_get_set [simp]: "kv_get (kv_set k v c) l = (if l = k then v else kv_get c l)"
  by (simp add: kv_get_def)

lemma kv_get_del [simp]: "kv_get (kv_del k c) l = (if l = k then [] else kv_get c l)"
  by (simp add: kv_get_def)

lemma map_of_fold_del:
  "map_of (fold (\<lambda>k. kv_del (f k)) ks c) l = (if l \<in> f ` set ks then None else map_of c l)"
  by (induction ks arbitrary: c) auto

lemma distinct_kv_set: "distinct (map fst c) \<Longrightarrow> distinct (map fst (kv_set k v c))"
  by (simp add: kv_set_def distinct_update)

lemma distinct_kv_del: "distinct (map fst c) \<Longrightarrow> distinct (map fst (kv_del k c))"
  by (simp add: kv_del_def distinct_delete)

section \<open>DHCP clients\<close>

text \<open>
  The DHCP state set in an ifcfg configuration is the state read from it, whatever the
  configuration held before; only BOOTPROTO, PERSISTENT_DHCLIENT, DHCPV6C and IPV6INIT
  change, and turning the IPv6 client off leaves IPV6INIT alone.
\<close>

theorem nsSetDHCP_roundtrip:
  "nsDHCPState (nsSetDHCP d4 d6 cfg) = (d4, d6)
   \<and> map_of (nsSetDHCP d4 d6 cfg) = (map_of cfg)
       (''BOOTPROTO'' \<mapsto> (if d4 then ''dhcp'' else ''none''),
        ''PERSISTENT_DHCLIENT'' := (if d4 then map_of cfg ''PERSISTENT_DHCLIENT'' else None),
        ''IPV6INIT'' := (if d6 then Some ''yes'' else map_of cfg ''IPV6INIT''),
        ''DHCPV6C'' := (if d6 then Some ''yes'' else None))"
proof
  have l: "ToLower ''dhcp'' = ''dhcp''" "ToLower ''none'' = ''none''" "ToLower ''yes'' = ''yes''" "ToLower [] = []"
    by code_simp+
  show "nsDHCPState (nsSetDHCP d4 d6 cfg) = (d4, d6)"
    by (simp add: nsDHCPState_def nsSetDHCP_def Let_def l)
  show "map_of (nsSetDHCP d4 d6 cfg) = (map_of cfg)
       (''BOOTPROTO'' \<mapsto> (if d4 then ''dhcp'' else ''none''),
        ''PERSISTENT_DHCLIENT'' := (if d4 then map_of cfg ''PERSISTENT_DHCLIENT'' else None),
        ''IPV6INIT'' := (if d6 then Some ''yes'' else map_of cfg ''IPV6INIT''),
        ''DHCPV6C'' := (if d6 then Some ''yes'' else None))"
    by (rule ext) (simp add: nsSetDHCP_def Let_def)
qed

interpretation ns_dhcp: dhcp_store nsDHCPState "\<lambda>d4 d6 cfg. Inr (nsSetDHCP d4 d6 cfg)" "\<lambda>_. True"
  by unfold_locales (auto simp: nsSetDHCP_roundtrip)


section \<open>Addresses\<close>

text \<open>The keys the address setter owns.\<close>

definition address_key :: "string \<Rightarrow> bool" where
  "address_key k \<longleftrightarrow>
     k \<in> {''IPADDR6'', ''IPV6ADDR'', ''IPV6ADDR_SECONDARIES'', ''IPV6_DEFAULTGW'', ''GATEWAY''}
     \<or> k \<in> set address_keys \<or> (\<exists>a\<in>set address_keys. \<exists>i<256. k = a @ show_nat i)"

lemma fold_fold_del:
  "map_of (fold (\<lambda>idx c. fold (\<lambda>k. kv_del (k @ idx)) ks c) is c) l
     = (if \<exists>k\<in>set ks. \<exists>i\<in>set is. l = k @ i then None else map_of c l)"
proof (induction "is" arbitrary: c)
  case (Cons i "is")
  show ?case using Cons.IH by (auto simp: map_of_fold_del)
qed simp

lemma ex_upt: "(\<exists>i\<in>set ([] # map f [0 ..< n]). P i) \<longleftrightarrow> P [] \<or> (\<exists>i<n. P (f i))"
  by auto

lemma map_of_delete_addresses:
  "map_of (delete_addresses c) k = (if address_key k then None else map_of c k)"
proof -
  let ?ks = "[''IPADDR6'', ''IPV6ADDR'', ''IPV6ADDR_SECONDARIES'', ''IPV6_DEFAULTGW'', ''GATEWAY'']"
  have ex: "(\<exists>a\<in>set address_keys. \<exists>i\<in>set ([] # map show_nat [0 ..< 256]). k = a @ i)
      \<longleftrightarrow> k \<in> set address_keys \<or> (\<exists>a\<in>set address_keys. \<exists>i<256. k = a @ show_nat i)"
    unfolding ex_upt by auto
  have d: "map_of (fold kv_del ?ks c) k = (if k \<in> set ?ks then None else map_of c k)"
    using map_of_fold_del [of "\<lambda>k. k" ?ks c k] by simp
  show ?thesis
    unfolding delete_addresses_def Let_def fold_fold_del ex d address_key_def
    by (simp only: list.set insert_iff empty_iff simp_thms) argo
qed

definition v4_key :: "nat \<Rightarrow> nat \<Rightarrow> string \<Rightarrow> bool" where
  "v4_key i n k \<longleftrightarrow> (\<exists>a\<in>{''IPADDR'', ''PREFIX'', ''NETMASK'', ''BROADCAST''}. \<exists>j. i \<le> j \<and> j < i + n \<and> k = a @ show_nat j)"

lemma add_addrs4_correct:
  "add_addrs4 i as c = Inr c' \<Longrightarrow>
     (\<forall>j<length as. kv_get c' (''IPADDR'' @ show_nat (i + j)) = ip_string (net_ip (as ! j))
        \<and> kv_get c' (''PREFIX'' @ show_nat (i + j)) = show_nat (mask_ones (net_mask (as ! j))))
     \<and> (\<forall>k. \<not> v4_key i (length as) k \<longrightarrow> map_of c' k = map_of c k)"
proof (induction as arbitrary: i c)
  case (Cons a as)
  then obtain b where b: "getBroadcast a = Some b" by (cases "getBroadcast a") auto
  let ?c = "kv_set (''BROADCAST'' @ show_nat i) (ip_string b)
          (kv_set (''NETMASK'' @ show_nat i) (ip_string (net_mask a))
          (kv_set (''PREFIX'' @ show_nat i) (show_nat (mask_ones (net_mask a)))
          (kv_set (''IPADDR'' @ show_nat i) (ip_string (net_ip a)) c)))"
  have IH: "\<forall>j<length as. kv_get c' (''IPADDR'' @ show_nat (Suc i + j)) = ip_string (net_ip (as ! j))
        \<and> kv_get c' (''PREFIX'' @ show_nat (Suc i + j)) = show_nat (mask_ones (net_mask (as ! j)))"
    and frame: "\<And>k. \<not> v4_key (Suc i) (length as) k \<Longrightarrow> map_of c' k = map_of ?c k"
    using Cons.IH [of "Suc i" ?c] Cons.prems b by simp_all
  have own: "map_of c' (''IPADDR'' @ show_nat i) = Some (ip_string (net_ip a))"
      "map_of c' (''PREFIX'' @ show_nat i) = Some (show_nat (mask_ones (net_mask a)))"
    by (subst frame, (simp add: v4_key_def)+)+
  have "map_of c' k = map_of c k" if nk: "\<not> v4_key i (length (a # as)) k" for k
  proof -
    have "\<not> v4_key (Suc i) (length as) k" using nk by (auto simp: v4_key_def)
    moreover have "k \<notin> {''BROADCAST'' @ show_nat i, ''NETMASK'' @ show_nat i, ''PREFIX'' @ show_nat i, ''IPADDR'' @ show_nat i}"
      using nk unfolding v4_key_def by (metis insert_iff length_Cons less_add_same_cancel1 order_refl zero_less_Suc singletonD)
    ultimately show ?thesis using frame by simp
  qed
  moreover have "kv_get c' (''IPADDR'' @ show_nat (i + j)) = ip_string (net_ip ((a # as) ! j))
        \<and> kv_get c' (''PREFIX'' @ show_nat (i + j)) = show_nat (mask_ones (net_mask ((a # as) ! j)))"
    if "j < length (a # as)" for j
    using that IH own by (cases j) (auto simp: kv_get_def)
  ultimately show ?case by blast
qed simp

lemma indexed_addrs_exact:
  assumes "\<forall>j<length ns. ns_ParseIP c (show_nat (i + j)) = Some (ns ! j)"
    and "\<forall>j. i + length ns \<le> j \<longrightarrow> j < m \<longrightarrow> ns_ParseIP c (show_nat j) = None"
    and "i + length ns \<le> m"
  shows "indexed_addrs c [i ..< m] = ns"
  using assms
proof (induction "m - i" arbitrary: i ns)
  case 0
  then have "m \<le> i" by simp
  with "0.prems"(3) have "length ns = 0" by linarith
  with \<open>m \<le> i\<close> show ?case by simp
next
  case (Suc d)
  then have u: "[i ..< m] = i # [Suc i ..< m]" by (simp add: upt_conv_Cons)
  show ?case
  proof (cases ns)
    case Nil
    have "indexed_addrs c [Suc i ..< m] = []"
      using Suc.hyps(1) [of "Suc i" "[]"] Suc.prems Suc.hyps(2) Nil by simp
    then show ?thesis using Suc.prems(2) Nil Suc.hyps(2) u by auto
  next
    case (Cons n ns')
    have "ns_ParseIP c (show_nat i) = Some n" using Suc.prems(1) Cons by force
    moreover have "indexed_addrs c [Suc i ..< m] = ns'"
    proof (rule Suc.hyps(1))
      show "d = m - Suc i" using Suc.hyps(2) by simp
      show "\<forall>j<length ns'. ns_ParseIP c (show_nat (Suc i + j)) = Some (ns' ! j)"
        using Suc.prems(1) Cons by (metis Suc_less_eq add_Suc_shift length_Cons nth_Cons_Suc)
      show "\<forall>j. Suc i + length ns' \<le> j \<longrightarrow> j < m \<longrightarrow> ns_ParseIP c (show_nat j) = None"
        and "Suc i + length ns' \<le> m" using Suc.prems(2,3) Cons by auto
    qed
    ultimately show ?thesis using u Cons by simp
  qed
qed

lemma map_filter_nets:
  "\<forall>a\<in>set as. valid_net a \<Longrightarrow> List.map_filter ParseCIDR (map ipnet_string as) = map norm_net as"
  by (induction as) (auto simp: map_filter_simps ParseCIDR_ipnet_string)

lemma To4_is_v4: "To4 a = [] \<longleftrightarrow> \<not> is_v4 a"
  by (auto simp: is_v4_def)

lemma ns_ParseIP_written:
  assumes "valid_net a" and "kv_get c (''IPADDR'' @ k) = ip_string (net_ip a)"
    and "kv_get c (''PREFIX'' @ k) = show_nat (mask_ones (net_mask a))"
  shows "ns_ParseIP c k = Some (norm_net a)"
proof -
  have "ip_string (net_ip a) \<noteq> []"
    using assms(1) ip_string_word by (fastforce simp: valid_net_def is_word_def)
  then show ?thesis
    using assms ParseCIDR_ipnet_string [OF assms(1)] ipnet_string_valid [OF assms(1)]
    by (simp add: ns_ParseIP_def prefix_len_def)
qed

text \<open>The keys the other parts of the setter write are not numbered address keys.\<close>

lemma other_keys_not_v4:
  "\<not> v4_key 0 n ''IPV6ADDR''" "\<not> v4_key 0 n ''IPV6ADDR_SECONDARIES''" "\<not> v4_key 0 n ''GATEWAY''"
  "\<not> v4_key 0 n ''IPV6_DEFAULTGW''" "\<not> v4_key 0 n ''IPADDR''"
  by (auto simp: v4_key_def)

lemma v4_key_address_key: "v4_key 0 n k \<Longrightarrow> n \<le> 256 \<Longrightarrow> address_key k"
  unfolding v4_key_def address_key_def address_keys_def by fastforce

definition v4s :: "ipnet list \<Rightarrow> ipnet list" where
  "v4s addrs = filter (\<lambda>a. is_v4 (net_ip a)) addrs"

definition v6s :: "ipnet list \<Rightarrow> ipnet list" where
  "v6s addrs = filter (\<lambda>a. \<not> is_v4 (net_ip a)) addrs"

lemma map_of_rest:
  "map_of (set_gateway ''IPV6_DEFAULTGW'' g6 (set_gateway ''GATEWAY'' g4 (add_addrs6 as c))) k =
     (if k = ''IPV6_DEFAULTGW'' \<and> g6 \<noteq> [] then Some (ip_string g6)
      else if k = ''GATEWAY'' \<and> g4 \<noteq> [] then Some (ip_string g4)
      else if k = ''IPV6ADDR'' \<and> as \<noteq> [] then Some (hd as)
      else if k = ''IPV6ADDR_SECONDARIES'' \<and> tl as \<noteq> [] then Some (join '' '' (tl as))
      else map_of c k)"
  by (cases as) (auto simp: set_gateway_def add_addrs6_def Let_def)

lemma getBroadcast_valid:
  assumes "valid_net a"
  shows "getBroadcast a \<noteq> None"
proof -
  have l: "length (net_mask a) = family_bits a div 8" using valid_net_mask_len [OF assms] .
  have v: "valid_ip (net_ip a)" using assms by (simp add: valid_net_def)
  then have "is_v4 (net_ip a) \<Longrightarrow> length (net_ip a) = 4 \<or> (length (net_ip a) = 16 \<and> take 12 (net_ip a) = v4_in_v6_prefix)"
    by (auto simp: is_v4_def To4_def valid_ip_def split: if_splits)
  moreover have "length (net_ip a) = 4 \<Longrightarrow> is_v4 (net_ip a)" by (auto simp: is_v4_def To4_def)
  ultimately show ?thesis
    using l v by (auto simp: getBroadcast_def Let_def family_bits_def valid_ip_def split: if_splits)
qed

lemma add_addrs4_defined: "\<forall>a\<in>set as. valid_net a \<Longrightarrow> \<exists>c'. add_addrs4 i as c = Inr c'"
  using getBroadcast_valid by (induction as arbitrary: i c) (auto split: option.splits)

text \<open>
  C3. Address round trip: for valid addresses, at most 256 of them IPv4, the setter does
  not panic and the configuration it computes is read back as exactly those addresses of each family in order (in
  the sixteen-byte form every parsed address has) and the two gateways; nothing of the
  earlier addresses is left, and no key outside the address keys changes.
\<close>

theorem address_config_roundtrip:
  assumes "\<forall>a\<in>set addrs. valid_net a" and "length (v4s addrs) \<le> 256"
    and "g4 = [] \<or> valid_ip g4" and "g6 = [] \<or> valid_ip g6"
  shows "\<exists>c'. address_config addrs g4 g6 c = Inr c' \<and> file_v4 c' = map norm_net (v4s addrs) \<and> file_v6 c' = map norm_net (v6s addrs)
    \<and> ParseIP (kv_get c' ''GATEWAY'') = To16 g4 \<and> ParseIP (kv_get c' ''IPV6_DEFAULTGW'') = To16 g6
    \<and> (\<forall>k. \<not> address_key k \<longrightarrow> map_of c' k = map_of c k)"
proof -
  let ?n = "length (v4s addrs)"
  have "\<forall>a\<in>set (v4s addrs). valid_net a" using assms(1) by (simp add: v4s_def)
  then obtain c1 where c1: "add_addrs4 0 (v4s addrs) (delete_addresses c) = Inr c1"
    using add_addrs4_defined by blast
  obtain c' where ac: "address_config addrs g4 g6 c = Inr c'" and c': "c' = set_gateway ''IPV6_DEFAULTGW'' g6 (set_gateway ''GATEWAY'' g4 (add_addrs6 (map ipnet_string (v6s addrs)) c1))"
    using c1 by (simp add: address_config_def Let_def To4_is_v4 v4s_def v6s_def)
  note m = map_of_rest [of g6 g4 "map ipnet_string (v6s addrs)" c1, folded c']
  have addrs: "\<forall>j<?n. kv_get c1 (''IPADDR'' @ show_nat j) = ip_string (net_ip (v4s addrs ! j))
        \<and> kv_get c1 (''PREFIX'' @ show_nat j) = show_nat (mask_ones (net_mask (v4s addrs ! j)))"
    and frame: "\<And>k. \<not> v4_key 0 ?n k \<Longrightarrow> map_of c1 k = (if address_key k then None else map_of c k)"
    using add_addrs4_correct [OF c1] by (simp_all add: map_of_delete_addresses)
  have val4: "valid_net (v4s addrs ! j)" if "j < ?n" for j
    using nth_mem [OF that] assms(1) by (simp add: v4s_def)
  have same: "kv_get c' (a @ k) = kv_get c1 (a @ k)" if "a \<in> {''IPADDR'', ''PREFIX'', ''NETMASK''}" for a k
    using that by (auto simp: kv_get_def m)
  have in4: "ns_ParseIP c' (show_nat (0 + j)) = Some (map norm_net (v4s addrs) ! j)" if "j < ?n" for j
    using ns_ParseIP_written [OF val4 [OF that], of c' "show_nat j"] addrs that
      same [of "''IPADDR''" "show_nat j"] same [of "''PREFIX''" "show_nat j"] by simp
  have out4: "ns_ParseIP c' (show_nat j) = None" if "?n \<le> j" "j < 256" for j
  proof -
    have nk: "\<not> v4_key 0 ?n (''IPADDR'' @ show_nat j)" using that by (auto simp: v4_key_def)
    have "address_key (''IPADDR'' @ show_nat j)"
      using that unfolding address_key_def address_keys_def by auto
    with frame [OF nk] same [of "''IPADDR''" "show_nat j"] have "kv_get c' (''IPADDR'' @ show_nat j) = []"
      by (simp add: kv_get_def)
    then show ?thesis by (simp add: ns_ParseIP_def)
  qed
  have plain: "ns_ParseIP c' [] = None"
  proof -
    have "address_key ''IPADDR''" by (simp add: address_key_def address_keys_def)
    then have "map_of c1 ''IPADDR'' = None" using frame other_keys_not_v4 by simp
    then have "kv_get c' ''IPADDR'' = []" by (simp add: kv_get_def m)
    then show ?thesis by (simp add: ns_ParseIP_def)
  qed
  have "indexed_addrs c' [0 ..< 256] = map norm_net (v4s addrs)"
    by (rule indexed_addrs_exact) (use in4 out4 assms(2) in auto)
  then have v4: "file_v4 c' = map norm_net (v4s addrs)"
    by (simp add: file_v4_def plain opt_list_def)
  have gone: "map_of c1 k = None" if "k \<in> {''IPV6ADDR'', ''IPV6ADDR_SECONDARIES'', ''GATEWAY'', ''IPV6_DEFAULTGW''}" for k
    using that frame other_keys_not_v4 by (auto simp: address_key_def)
  have val6: "\<forall>a\<in>set (v6s addrs). valid_net a" using assms(1) by (simp add: v6s_def)
  have v6: "file_v6 c' = map norm_net (v6s addrs)"
  proof (cases "v6s addrs")
    case Nil
    then show ?thesis using gone by (simp add: file_v6_def kv_get_def m map_filter_simps)
  next
    case (Cons a as)
    have "ipnet_string a \<noteq> []"
      using val6 Cons ipnet_string_word [of a] by (auto simp: is_word_def)
    moreover have "ParseCIDR (ipnet_string a) = Some (norm_net a)"
      using val6 Cons by (simp add: ParseCIDR_ipnet_string)
    moreover have "Fields (kv_get c' ''IPV6ADDR_SECONDARIES'') = map ipnet_string as"
    proof (cases "as = []")
      case True
      then show ?thesis using Cons gone by (simp add: kv_get_def m)
    next
      case False
      have "\<forall>w\<in>set (map ipnet_string as). is_word w"
        using val6 Cons ipnet_string_word by auto
      then show ?thesis using Cons False Fields_join by (simp add: kv_get_def m)
    qed
    moreover have "List.map_filter ParseCIDR (map ipnet_string as) = map norm_net as"
      using val6 Cons by (intro map_filter_nets) simp
    ultimately show ?thesis using Cons by (simp add: file_v6_def kv_get_def m opt_list_def)
  qed
  have nil: "ParseIP [] = To16 []" by code_simp
  have "kv_get c' ''GATEWAY'' = (if g4 = [] then [] else ip_string g4)"
      "kv_get c' ''IPV6_DEFAULTGW'' = (if g6 = [] then [] else ip_string g6)"
    using gone by (simp_all add: kv_get_def m)
  then have g: "ParseIP (kv_get c' ''GATEWAY'') = To16 g4" "ParseIP (kv_get c' ''IPV6_DEFAULTGW'') = To16 g6"
    using assms(3,4) nil by (metis ParseIP_ip_string)+
  have "map_of c' k = map_of c k" if "\<not> address_key k" for k
  proof -
    have "\<not> v4_key 0 ?n k" using v4_key_address_key [OF _ assms(2)] that by blast
    with frame that have "map_of c1 k = map_of c k" by simp
    moreover have "k \<noteq> ''IPV6ADDR''" "k \<noteq> ''IPV6ADDR_SECONDARIES''" "k \<noteq> ''GATEWAY''" "k \<noteq> ''IPV6_DEFAULTGW''"
      using that by (simp_all add: address_key_def)
    ultimately show ?thesis by (simp add: m)
  qed
  with ac v4 v6 g show ?thesis by blast
qed

definition two_nets :: "ipnet list" where
  "two_nets = [\<lparr>net_ip = [192, 0, 2, 5], net_mask = [255, 255, 255, 0]\<rparr>,
     \<lparr>net_ip = [10, 0, 0, 7], net_mask = [255, 0, 0, 0]\<rparr>]"

lemma address_config_roundtrip_witness:
  "\<exists>c'. address_config two_nets [192, 0, 2, 1] [] [(''DEVICE'', ''eth0''), (''IPADDR'', ''1.2.3.4'')] = Inr c'
     \<and> file_v4 c' = map norm_net two_nets \<and> map_of c' ''DEVICE'' = Some ''eth0''"
proof -
  let ?c = "[(''DEVICE'', ''eth0''), (''IPADDR'', ''1.2.3.4'')]"
  have v: "\<forall>a\<in>set two_nets. valid_net a" by code_simp
  have l: "length (v4s two_nets) \<le> 256" "v4s two_nets = two_nets" by code_simp+
  have g: "([192, 0, 2, 1] :: ip) = [] \<or> valid_ip [192, 0, 2, 1]" "([] :: ip) = [] \<or> valid_ip []"
    by (simp_all add: valid_ip_def)
  have "\<not> address_key ''DEVICE''" by (auto simp: address_key_def address_keys_def)
  moreover obtain c' where "address_config two_nets [192, 0, 2, 1] [] ?c = Inr c'"
      "file_v4 c' = map norm_net (v4s two_nets)" "\<forall>k. \<not> address_key k \<longrightarrow> map_of c' k = map_of ?c k"
    using address_config_roundtrip [OF v l(1) g, of ?c] by blast
  moreover have "map_of ?c ''DEVICE'' = Some ''eth0''" by simp
  ultimately show ?thesis using l(2) by metis
qed

section \<open>Resolvers\<close>

lemma numbered_bound:
  assumes "\<forall>j. i \<le> j \<longrightarrow> j < i + n \<longrightarrow> map_of c (p @ show_nat j) \<noteq> None"
  shows "n \<le> length c"
proof -
  let ?f = "\<lambda>j. p @ show_nat j"
  have "?f ` {i ..< i + n} \<subseteq> fst ` set c"
    using assms by (auto simp: map_of_eq_None_iff)
  moreover have "inj_on ?f {i ..< i + n}" by (auto simp: inj_on_def)
  ultimately have "card {i ..< i + n} \<le> card (fst ` set c)"
    by (metis card_image card_mono finite_imageI finite_set)
  also have "\<dots> \<le> length c" by (metis card_image_le card_length finite_set le_trans)
  finally show ?thesis by simp
qed

lemma add_servers_correct:
  "(\<forall>j<length (filter (\<lambda>a. a \<noteq> []) ss).
       map_of (add_servers i ss c) (''DNS'' @ show_nat (i + j)) = Some (ip_string (filter (\<lambda>a. a \<noteq> []) ss ! j)))
   \<and> (\<forall>k. (\<forall>j. i \<le> j \<longrightarrow> j < i + length (filter (\<lambda>a. a \<noteq> []) ss) \<longrightarrow> k \<noteq> ''DNS'' @ show_nat j) \<longrightarrow>
       map_of (add_servers i ss c) k = map_of c k)"
proof (induction ss arbitrary: i c)
  case (Cons a ss)
  show ?case
  proof (cases "a = []")
    case True
    then show ?thesis using Cons.IH [of i c] by simp
  next
    case False
    let ?c = "kv_set (''DNS'' @ show_nat i) (ip_string a) c"
    let ?fs = "filter (\<lambda>a. a \<noteq> []) ss"
    have IH: "\<forall>j<length ?fs. map_of (add_servers (Suc i) ss ?c) (''DNS'' @ show_nat (Suc i + j)) = Some (ip_string (?fs ! j))"
      and fr: "\<And>k. (\<forall>j. Suc i \<le> j \<longrightarrow> j < Suc i + length ?fs \<longrightarrow> k \<noteq> ''DNS'' @ show_nat j) \<Longrightarrow>
        map_of (add_servers (Suc i) ss ?c) k = map_of ?c k"
      using Cons.IH [of "Suc i" ?c] by blast+
    have "map_of (add_servers (Suc i) ss ?c) (''DNS'' @ show_nat i) = Some (ip_string a)"
      by (subst fr) auto
    then have "map_of (add_servers i (a # ss) c) (''DNS'' @ show_nat (i + j)) = Some (ip_string ((a # ?fs) ! j))"
      if "j < Suc (length ?fs)" for j
      using that IH False by (cases j) auto
    moreover have "map_of (add_servers i (a # ss) c) k = map_of c k"
      if "\<forall>j. i \<le> j \<longrightarrow> j < i + Suc (length ?fs) \<longrightarrow> k \<noteq> ''DNS'' @ show_nat j" for k
    proof -
      have "k \<noteq> ''DNS'' @ show_nat i" using that by simp
      moreover have "map_of (add_servers (Suc i) ss ?c) k = map_of ?c k" by (rule fr) (use that in simp)
      ultimately show ?thesis using False by simp
    qed
    ultimately show ?thesis using False by simp
  qed
qed simp

lemma numbered_dns_exact:
  assumes "\<forall>j<length as. map_of c (''DNS'' @ show_nat (i + j)) = Some (ip_string (as ! j))"
    and "map_of c (''DNS'' @ show_nat (i + length as)) = None"
    and "\<forall>a\<in>set as. valid_ip a" and "i + length as \<le> m"
  shows "numbered_dns c [i ..< m] = map To16 as"
  using assms
proof (induction as arbitrary: i)
  case Nil
  then show ?case by (cases "i < m") (simp_all add: upt_conv_Cons)
next
  case (Cons a as)
  then have u: "[i ..< m] = i # [Suc i ..< m]" by (simp add: upt_conv_Cons)
  have v: "valid_ip a" using Cons.prems(3) by simp
  then have "To16 a \<noteq> []" by (auto simp: To16_def valid_ip_def v4_in_v6_prefix_def)
  moreover have "map_of c (''DNS'' @ show_nat i) = Some (ip_string a)" using Cons.prems(1) by force
  moreover have "numbered_dns c [Suc i ..< m] = map To16 as"
    using Cons.prems by (intro Cons.IH) (auto simp: nth_Cons' dest: spec [of _ "Suc _"])
  ultimately show ?case using u v by (simp add: ParseIP_ip_string)
qed

text \<open>
  Resolver round trip: the servers and search domains set in an ifcfg configuration
  are the ones read from it, nil servers skipped and old DNS keys gone; PEERDNS is "no"
  exactly when a server is set; every other key is unchanged.
\<close>

theorem dns_config_roundtrip:
  assumes "\<forall>a\<in>set servers. a = [] \<or> valid_ip a" and "\<forall>d\<in>set domains. is_word d"
    and "c' = dns_config servers domains c"
  shows "numbered_dns c' [1 ..< length c' + 2] = map To16 (filter (\<lambda>a. a \<noteq> []) servers)
    \<and> Fields (kv_get c' ''DOMAIN'') = domains
    \<and> map_of c' ''PEERDNS'' = (if \<exists>a\<in>set servers. a \<noteq> [] then Some ''no'' else None)
    \<and> (\<forall>k. \<not> HasPrefix k ''DNS'' \<and> k \<noteq> ''DOMAIN'' \<and> k \<noteq> ''PEERDNS'' \<longrightarrow> map_of c' k = map_of c k)"
proof -
  let ?fs = "filter (\<lambda>a. a \<noteq> []) servers"
  let ?c0 = "kv_del ''PEERDNS'' (kv_del ''DOMAIN'' (filter (\<lambda>(k, v). \<not> HasPrefix k ''DNS'') c))"
  let ?c1 = "add_servers 1 servers ?c0"
  have c': "map_of c' k = (if k = ''DOMAIN'' \<and> domains \<noteq> [] then Some (join '' '' domains)
      else if k = ''PEERDNS'' \<and> ?fs \<noteq> [] then Some ''no'' else map_of ?c1 k)" for k
    by (auto simp: assms(3) dns_config_def Let_def list_ex_iff filter_empty_conv)
  have mf: "map_of (filter (\<lambda>(k, v). P k) xs) k = (if P k then map_of xs k else None)" for P k and xs :: kv
    by (induction xs) auto
  have c0: "map_of ?c0 k = (if k = ''DOMAIN'' \<or> k = ''PEERDNS'' \<or> HasPrefix k ''DNS'' then None else map_of c k)" for k
    by (simp add: mf)
  have pre: "HasPrefix (''DNS'' @ s) ''DNS''" for s by simp
  have dns: "\<forall>j<length ?fs. map_of c' (''DNS'' @ show_nat (1 + j)) = Some (ip_string (?fs ! j))"
    using add_servers_correct [of servers 1 ?c0] by (simp add: c')
  have other: "map_of ?c1 k = map_of ?c0 k"
    if "\<forall>j. 1 \<le> j \<longrightarrow> j < 1 + length ?fs \<longrightarrow> k \<noteq> ''DNS'' @ show_nat j" for k
    using add_servers_correct [of servers 1 ?c0] that by blast
  have "map_of c' (''DNS'' @ show_nat (1 + length ?fs)) = None"
    using other [of "''DNS'' @ show_nat (1 + length ?fs)"] by (simp add: c' mf)
  moreover have "length ?fs \<le> length c'"
  proof (rule numbered_bound [of 1 _ _ "''DNS''"], intro allI impI)
    fix j :: nat assume "1 \<le> j" "j < 1 + length ?fs"
    then show "map_of c' (''DNS'' @ show_nat j) \<noteq> None" using dns [rule_format, of "j - 1"] by simp
  qed
  ultimately have "numbered_dns c' [1 ..< length c' + 2] = map To16 ?fs"
    using dns assms(1) by (intro numbered_dns_exact) auto
  moreover have nd: "map_of ?c1 k = map_of ?c0 k" if "\<not> HasPrefix k ''DNS''" for k
    using other that pre by metis
  moreover have "Fields (kv_get c' ''DOMAIN'') = domains"
    using assms(2) nd [of "''DOMAIN''"] c0 Fields_join by (auto simp: kv_get_def c')
  moreover have "map_of c' ''PEERDNS'' = (if \<exists>a\<in>set servers. a \<noteq> [] then Some ''no'' else None)"
    using nd [of "''PEERDNS''"] c0 by (auto simp: c' filter_empty_conv)
  moreover have "\<forall>k. \<not> HasPrefix k ''DNS'' \<and> k \<noteq> ''DOMAIN'' \<and> k \<noteq> ''PEERDNS'' \<longrightarrow> map_of c' k = map_of c k"
    using nd c0 by (auto simp: c')
  ultimately show ?thesis by blast
qed

lemma dns_config_roundtrip_witness:
  "Fields (kv_get (dns_config [[9, 9, 9, 9], []] [''a.org'', ''b.org''] [(''DNS1'', ''1.1.1.1''), (''DNS2'', ''2.2.2.2'')]) ''DOMAIN'')
     = [''a.org'', ''b.org'']
   \<and> map_of (dns_config [[9, 9, 9, 9], []] [''a.org'', ''b.org''] [(''DNS1'', ''1.1.1.1''), (''DNS2'', ''2.2.2.2'')]) ''PEERDNS''
     = Some ''no''"
proof -
  have s: "\<forall>a\<in>set [[9, 9, 9, 9], []]. a = [] \<or> valid_ip a" by (simp add: valid_ip_def)
  have d: "\<forall>d\<in>set [''a.org'', ''b.org'']. is_word d" by (simp add: is_word_def is_space_def)
  show ?thesis using dns_config_roundtrip [OF s d refl] by simp
qed

end
