(* ===== verification/SaveLaws.thy ===== *)
theory SaveLaws
  imports UtilsLaws
begin

text \<open>
  What saving a configuration rests on: moves that keep the content of files, and the names
  of the new file, its temporary file and the backups.
\<close>

section \<open>Moves in a store without symbolic links\<close>

definition no_links :: "world \<Rightarrow> bool" where
  "no_links w \<longleftrightarrow> (\<forall>p. no_link w p)"

definition calm :: "world \<Rightarrow> bool" where
  "calm w \<longleftrightarrow> (\<forall>t. w_fault w t = None)"

lemma calm_fault [simp]: "calm w \<Longrightarrow> fault w = None"
  by (simp add: calm_def fault_def)

lemma calm_simps [simp]:
  "calm (tick w) = calm w" "calm (fs_put p n w) = calm w" "calm (fs_del p w) = calm w" "calm (log_print s w) = calm w"
  by (simp_all add: calm_def)

lemma keeps_no_links: "keeps w0 d w \<Longrightarrow> no_links w0 \<Longrightarrow> no_links w"
  by (fastforce simp: keeps_def no_links_def no_link_def)

lemma fileMove_frame:
  assumes "fileMove s d w = (r, w')" and "no_link w d" and "q \<noteq> s" and "q \<noteq> d"
  shows "fs_get w' q = fs_get w q"
proof (cases "os_Rename s d w")
  case (Pair x v)
  from Pair show ?thesis
  proof (cases rule: os_Rename_cases)
    case (Error e)
    have k: "keeps w d (snd (fileCopy s d (tick w)))"
      by (rule fileCopy_keeps) (simp add: keeps_def assms(2))
    have "fs_get w' q = fs_get w q" if m: "fileMoveCopy s d (tick w) = (r, w')"
    proof (cases r)
      case (Inl e)
      with m obtain e' v1 where v1: "fileCopy s d (tick w) = (Inl e', v1)" "w' = snd (os_Remove d v1)"
        using fileMoveCopy_Inl by metis
      with k have "keeps w d w'" using keeps_Remove by simp
      with assms(4) show ?thesis by (simp add: keeps_def)
    next
      case (Inr u)
      with m obtain v1 where v1: "fileCopy s d (tick w) = (Inr (), v1)" "w' = snd (os_Remove s v1)"
        using fileMoveCopy_Inr by metis
      have "fs_get w' q = fs_get v1 q" using os_Remove_frame assms(3) v1(2) by (metis prod.collapse)
      with k v1(1) assms(4) show ?thesis by (simp add: keeps_def)
    qed
    with Error Pair assms(1) show ?thesis by (auto simp: fileMove_def split: if_splits)
  qed (use Pair assms in \<open>auto simp: fileMove_def\<close>)
qed

lemma os_Remove_no_links: "no_links w \<Longrightarrow> no_links (snd (os_Remove p w))"
  by (auto simp: os_Remove_def syscall_def no_links_def no_link_def split: option.splits)

lemma fileMove_no_links:
  assumes "no_links w"
  shows "no_links (snd (fileMove s d w))"
proof -
  obtain x v where r: "os_Rename s d w = (x, v)" by fastforce
  have cp: "no_links (snd (fileCopy s d (tick w)))"
    using assms by (intro keeps_no_links [OF fileCopy_keeps [of w d]]) (simp_all add: keeps_def no_links_def)
  have mc: "no_links (snd (fileMoveCopy s d (tick w)))"
  proof (cases "fileCopy s d (tick w)")
    case (Pair y v)
    then show ?thesis
      using os_Remove_no_links cp by (cases y) (auto simp: fileMoveCopy_def or_remove_def ignore_def)
  qed
  from r show ?thesis
  proof (cases rule: os_Rename_cases)
    case (Error e)
    then show ?thesis using r mc assms by (simp add: fileMove_def no_links_def)
  next
    case Same
    then show ?thesis using r assms by (simp add: fileMove_def no_links_def)
  next
    case (Moved n)
    then show ?thesis using r assms by (auto simp: fileMove_def no_links_def no_link_def)
  qed
qed

section \<open>Names in the directory\<close>

lemma path_join_neq:
  "abs_dir d \<Longrightarrow> file_name a \<Longrightarrow> file_name b \<Longrightarrow> a \<noteq> b \<Longrightarrow> path_join d a \<noteq> path_join d b"
  by (simp add: path_join_inj)

lemma show_nat_no_slash: "CHR ''/'' \<notin> set (show_nat n)"
  using show_nat_digits [of n] digit_not_special by blast

lemma fd_prints_keeps: "keeps w0 d w \<Longrightarrow> keeps w0 d (fd_prints d pos ds w)"
proof (induction d pos ds w rule: fd_prints.induct)
  case (2 q pos d ds w)
  have k: "keeps w0 q (write_from q n t (tick w))" for n t
    using 2(3) by (simp add: write_from_def split: option.splits node.splits)
  show ?case using 2 k by (auto split: option.splits)
qed simp

lemma UnixNano_fs [simp]: "snd (UnixNano w) = tick w"
  by (simp add: UnixNano_def)

lemma prune_off: "retention \<le> 0 \<Longrightarrow> pruneBackups d m retention w = w"
  by (simp add: pruneBackups_def)


section \<open>A sequence of moves\<close>

fun moves :: "(string \<times> string) list \<Rightarrow> world \<Rightarrow> unit result \<times> world" where
  "moves [] w = (Inr (), w)"
| "moves ((s, d) # ps) w = try_io (fileMove s d w) (\<lambda>_ w. moves ps w)"

lemma moves_append: "moves (ps @ qs) w = try_io (moves ps w) (\<lambda>_ w. moves qs w)"
proof (induction ps w rule: moves.induct)
  case (2 s d ps w)
  then show ?case by (cases "fileMove s d w"; cases "fst (fileMove s d w)") auto
qed simp

text \<open>
  Moves between different places lose nothing: what was at a source is at its destination,
  or still at the source when the sequence was cut short by an error.
\<close>

lemma moves_safe:
  assumes "moves ps w = (r, w')" and "no_links w" and "distinct (map fst ps @ map snd ps)"
  shows "(\<forall>(s, d)\<in>set ps. \<forall>c. content_of w s = Some c \<longrightarrow>
       content_of w' d = Some c \<or> (r \<noteq> Inr () \<and> content_of w' s = Some c))
    \<and> (\<forall>q. q \<notin> fst ` set ps \<and> q \<notin> snd ` set ps \<longrightarrow> fs_get w' q = fs_get w q)
    \<and> no_links w'"
  using assms
proof (induction ps arbitrary: w)
  case (Cons p ps)
  obtain s d where p: "p = (s, d)" by fastforce
  obtain x v where mv: "fileMove s d w = (x, v)" by fastforce
  have sd: "s \<noteq> d" "s \<notin> fst ` set ps" "s \<notin> snd ` set ps" "d \<notin> fst ` set ps" "d \<notin> snd ` set ps"
    using Cons.prems(3) by (auto simp: p)
  have nld: "no_link w d" using Cons.prems(2) by (simp add: no_links_def)
  have v: "no_links v" using fileMove_no_links [OF Cons.prems(2), of s d] mv by simp
  have fr: "fs_get v q = fs_get w q" if "q \<noteq> s" "q \<noteq> d" for q
    using fileMove_frame [OF mv nld that] .
  have safe: "content_of w s = Some c \<Longrightarrow>
      (content_of v s = Some c \<or> content_of v d = Some c) \<and> (x = Inr () \<longrightarrow> content_of v d = Some c)" for c
    using fileMove_content [OF _ sd(1) nld mv] by blast
  have same: "content_of v q = content_of w q" if "q \<noteq> s" "q \<noteq> d" for q
    using fr [OF that] by (simp add: content_of_def)
  show ?case
  proof (cases x)
    case (Inl e)
    then have r: "r = Inl e" "w' = v" using Cons.prems(1) mv by (simp_all add: p)
    have "content_of w' b = Some c \<or> (r \<noteq> Inr () \<and> content_of w' a = Some c)"
      if "(a, b) \<in> set ps" "content_of w a = Some c" for a b c
    proof -
      have "a \<noteq> s" "a \<noteq> d" using sd that(1) by force+
      then show ?thesis using r that(2) same by simp
    qed
    then show ?thesis using safe fr v r by (auto simp: p)
  next
    case (Inr u)
    then have rest: "moves ps v = (r, w')" using Cons.prems(1) mv by (simp add: p)
    note IH = Cons.IH [OF rest v]
    have d: "distinct (map fst ps @ map snd ps)" using Cons.prems(3) by (auto simp: p)
    have "fs_get w' d = fs_get v d" using IH [OF d] sd by blast
    then have "content_of w s = Some c \<Longrightarrow> content_of w' d = Some c" for c
      using safe Inr by (simp add: content_of_def)
    moreover have "content_of w' b = Some c \<or> (r \<noteq> Inr () \<and> content_of w' a = Some c)"
      if "(a, b) \<in> set ps" "content_of w a = Some c" for a b c
    proof -
      have "a \<noteq> s" "a \<noteq> d" using sd that(1) by force+
      then show ?thesis using IH [OF d] that same by auto
    qed
    moreover have "fs_get w' q = fs_get w q" if "q \<notin> fst ` set (p # ps)" "q \<notin> snd ` set (p # ps)" for q
      using IH [OF d] that fr by (auto simp: p)
    ultimately show ?thesis using IH [OF d] by (auto simp: p)
  qed
qed simp

lemma path_joins_distinct:
  "abs_dir d \<Longrightarrow> \<forall>n\<in>set ns. file_name n \<Longrightarrow> distinct ns \<Longrightarrow> distinct (map (path_join d) ns)"
  by (auto simp: distinct_map inj_on_def path_join_inj)

lemma moves_no_links: "no_links w \<Longrightarrow> no_links (snd (moves ps w))"
proof (induction ps w rule: moves.induct)
  case (2 s d ps w)
  then show ?case
    using fileMove_no_links [OF 2(2), of s d] by (cases "fileMove s d w"; cases "fst (fileMove s d w)") auto
qed simp

text \<open>A move of something that is not there fails.\<close>

lemma fileMove_missing:
  assumes "fs_get w s = None"
  shows "\<exists>e w'. fileMove s d w = (Inl e, w')"
proof (cases "os_Rename s d w")
  case (Pair x v)
  from Pair show ?thesis
  proof (cases rule: os_Rename_cases)
    case (Error e)
    have "no_link (tick w) s" using assms by (simp add: no_link_def)
    then have "fst (fileCopy s d (tick w)) \<noteq> Inr ()"
      using assms by (auto simp: fileCopy_def os_Open_def syscall_def resolve_no_link split: option.splits)
    then have "\<exists>e w'. fileMoveCopy s d (tick w) = (Inl e, w')"
      by (cases "fileCopy s d (tick w)"; cases "fst (fileCopy s d (tick w))")
        (auto simp: fileMoveCopy_def or_remove_def)
    with Error Pair show ?thesis by (auto simp: fileMove_def)
  qed (use Pair assms in \<open>auto simp: fileMove_def\<close>)
qed

section \<open>Names with a suffix\<close>

text \<open>Names as \<open>conf_names\<close> selects them.\<close>

definition unit_name :: "string \<Rightarrow> bool" where
  "unit_name f \<longleftrightarrow> file_name f \<and> (HasSuffix f ''.network'' \<or> HasSuffix f ''.conf'' \<or> HasSuffix f ''.yaml'' \<or> HasSuffix f ''.cfg'')"

lemma last_show_nat: "is_digit (last (show_nat n))"
  using show_nat_digits [of n] last_in_set [OF show_nat_not_Nil] by blast

lemma unit_name_no_suffix:
  assumes "unit_name f"
  shows "f \<noteq> g @ tmp_suffix t" "f \<noteq> g @ bak_suffix t"
proof -
  have "last f = CHR ''k'' \<or> last f = CHR ''f'' \<or> last f = CHR ''l'' \<or> last f = CHR ''g''"
    using assms by (auto simp: unit_name_def HasSuffix_iff)
  moreover have "is_digit (last (g @ tmp_suffix t))" "is_digit (last (g @ bak_suffix t))"
    using last_show_nat by (simp_all add: tmp_suffix_def bak_suffix_def)
  moreover have "\<not> is_digit CHR ''k''" "\<not> is_digit CHR ''f''" "\<not> is_digit CHR ''l''" "\<not> is_digit CHR ''g''"
    by (simp_all add: is_digit_def)
  ultimately show "f \<noteq> g @ tmp_suffix t" "f \<noteq> g @ bak_suffix t" by metis+
qed

lemma strip_number: "dropWhile is_digit (rev (p @ CHR ''.'' # show_nat n)) = CHR ''.'' # rev p"
proof -
  have "\<forall>c\<in>set (rev (show_nat n)). is_digit c" using show_nat_digits by simp
  then have "dropWhile is_digit (rev (show_nat n) @ CHR ''.'' # rev p) = dropWhile is_digit (CHR ''.'' # rev p)"
    by (intro dropWhile_append2) simp
  then show ?thesis by (simp add: is_digit_def)
qed

lemma suffixes_distinct: "f @ bak_suffix t \<noteq> g @ tmp_suffix u"
proof
  assume "f @ bak_suffix t = g @ tmp_suffix u"
  then have "(f @ ''.bak'') @ CHR ''.'' # show_nat t = (g @ ''.tmp'') @ CHR ''.'' # show_nat u"
    by (simp add: bak_suffix_def tmp_suffix_def)
  then have "CHR ''.'' # rev (f @ ''.bak'') = CHR ''.'' # rev (g @ ''.tmp'')"
    using strip_number by metis
  then show False by simp
qed

lemma file_name_suffix: "file_name f \<Longrightarrow> file_name (f @ bak_suffix t)" "file_name f \<Longrightarrow> file_name (f @ tmp_suffix t)"
  by (auto simp: file_name_def bak_suffix_def tmp_suffix_def show_nat_no_slash)

lemma bak_suffix_inj: "f @ bak_suffix t = g @ bak_suffix u \<Longrightarrow> f = g"
proof -
  assume "f @ bak_suffix t = g @ bak_suffix u"
  then have "(f @ ''.bak'') @ CHR ''.'' # show_nat t = (g @ ''.bak'') @ CHR ''.'' # show_nat u"
    by (simp add: bak_suffix_def)
  then have "CHR ''.'' # rev (f @ ''.bak'') = CHR ''.'' # rev (g @ ''.bak'')"
    using strip_number by metis
  then show ?thesis by simp
qed

section \<open>Replacing files\<close>

text \<open>
  A path whose temporary and backup names cannot be the path of another configuration file,
  and what is written when it is saved.
\<close>

definition plain :: "string \<Rightarrow> bool" where
  "plain p \<longleftrightarrow> p \<noteq> [] \<and> \<not> is_digit (last p)"

lemma unit_path_plain: "abs_dir d \<Longrightarrow> unit_name f \<Longrightarrow> plain (path_join d f)"
proof -
  assume d: "abs_dir d" and u: "unit_name f"
  then have "file_name f" "f \<noteq> []" by (auto simp: unit_name_def file_name_def)
  moreover have "last f = CHR ''k'' \<or> last f = CHR ''f'' \<or> last f = CHR ''l'' \<or> last f = CHR ''g''"
    using u by (auto simp: unit_name_def HasSuffix_iff)
  ultimately show ?thesis using d by (auto simp: plain_def path_join_name is_digit_def)
qed

definition own :: "string \<Rightarrow> string set" where
  "own p = {p} \<union> range (\<lambda>t. p @ tmp_suffix t) \<union> range (\<lambda>t. p @ bak_suffix t)"

lemma plain_no_suffix: "plain p \<Longrightarrow> p \<noteq> g @ tmp_suffix t" "plain p \<Longrightarrow> p \<noteq> g @ bak_suffix t"
proof -
  have "is_digit (last (g @ tmp_suffix t))" "is_digit (last (g @ bak_suffix t))"
    using last_show_nat by (simp_all add: tmp_suffix_def bak_suffix_def)
  then show "plain p \<Longrightarrow> p \<noteq> g @ tmp_suffix t" "plain p \<Longrightarrow> p \<noteq> g @ bak_suffix t"
    unfolding plain_def by metis+
qed

lemma tmp_suffix_inj: "f @ tmp_suffix t = g @ tmp_suffix u \<Longrightarrow> f = g"
proof -
  assume "f @ tmp_suffix t = g @ tmp_suffix u"
  then have "(f @ ''.tmp'') @ CHR ''.'' # show_nat t = (g @ ''.tmp'') @ CHR ''.'' # show_nat u"
    by (simp add: tmp_suffix_def)
  then have "CHR ''.'' # rev (f @ ''.tmp'') = CHR ''.'' # rev (g @ ''.tmp'')"
    using strip_number by metis
  then show ?thesis by simp
qed

lemma own_disjoint: "plain p \<Longrightarrow> plain q \<Longrightarrow> p \<noteq> q \<Longrightarrow> own p \<inter> own q = {}"
proof -
  assume p: "plain p" and q: "plain q" and ne: "p \<noteq> q"
  have "x \<notin> own q" if own: "x \<in> own p" for x
  proof -
    consider "x = p" | t where "x = p @ tmp_suffix t" | t where "x = p @ bak_suffix t" using own unfolding own_def by blast
    then show ?thesis
    proof cases
      case 1
      then show ?thesis unfolding own_def using ne plain_no_suffix [OF p] by blast
    next
      case 2
      have "p @ tmp_suffix t \<noteq> q" "p @ tmp_suffix t \<noteq> q @ tmp_suffix u" "p @ tmp_suffix t \<noteq> q @ bak_suffix u" for u
        using ne plain_no_suffix(1) [OF q, symmetric] tmp_suffix_inj suffixes_distinct by metis+
      then show ?thesis unfolding own_def 2 by blast
    next
      case 3
      have "p @ bak_suffix t \<noteq> q" "p @ bak_suffix t \<noteq> q @ tmp_suffix u" "p @ bak_suffix t \<noteq> q @ bak_suffix u" for u
        using ne plain_no_suffix(2) [OF q, symmetric] bak_suffix_inj suffixes_distinct by metis+
      then show ?thesis unfolding own_def 3 by blast
    qed
  qed
  then show ?thesis by blast
qed

text \<open>What a step that saves one file promises.\<close>

definition saves :: "string \<Rightarrow> world \<Rightarrow> world \<Rightarrow> bool" where
  "saves p w w' \<longleftrightarrow> no_links w' \<and> (\<forall>q. q \<notin> own p \<longrightarrow> fs_get w' q = fs_get w q)
    \<and> (\<forall>c. content_of w p = Some c \<longrightarrow> content_of w' p = Some c \<or> (\<exists>t. content_of w' (p @ bak_suffix t) = Some c))"

lemma saves_refl: "no_links w \<Longrightarrow> saves p w w"
  by (simp add: saves_def)

text \<open>The old file under its backup name, or still in place.\<close>

definition replace_file :: "string \<Rightarrow> string \<Rightarrow> string \<Rightarrow> string \<Rightarrow> world \<Rightarrow> unit result \<times> world" where
  "replace_file tmp p bak data w = try_io (os_WriteFile tmp data 420 w) (\<lambda>_ w.
     try_io (fileMove p bak w) (\<lambda>_ w. fileMove tmp p w))"

lemma move_saves:
  assumes "plain p" and "no_links w"
  shows "saves p w (snd (fileMove p (p @ bak_suffix t) w))"
proof -
  obtain r w' where m: "fileMove p (p @ bak_suffix t) w = (r, w')" by fastforce
  have n: "p \<noteq> p @ bak_suffix t" by (rule plain_no_suffix(2) [OF assms(1)])
  have l: "no_link w (p @ bak_suffix t)" using assms by (simp add: no_links_def)
  have "fs_get w' q = fs_get w q" if "q \<notin> own p" for q
    using fileMove_frame [OF m l] that by (auto simp: own_def)
  moreover have "content_of w' p = Some c \<or> content_of w' (p @ bak_suffix t) = Some c" if "content_of w p = Some c" for c
    using fileMove_content [OF that n l m] by blast
  moreover have "no_links w'" using fileMove_no_links [OF assms(2)] m by (metis snd_conv)
  ultimately show ?thesis unfolding m snd_conv saves_def by blast
qed

lemma replace_file_saves:
  assumes "replace_file (p @ tmp_suffix t) p (p @ bak_suffix u) data w = (r, w')" and "plain p" and "no_links w"
  shows "saves p w w'" and "r = Inr () \<Longrightarrow> content_of w' p = Some data"
proof -
  let ?tmp = "p @ tmp_suffix t" and ?bak = "p @ bak_suffix u"
  obtain x w1 where wr: "os_WriteFile ?tmp data 420 w = (x, w1)" by fastforce
  have nl: "no_link w ?tmp" using assms(3) by (simp add: no_links_def)
  have k: "keeps w ?tmp w1"
    using keeps_WriteFile [of w ?tmp w data 420] wr nl by (simp add: keeps_def)
  then have n1: "no_links w1" and f1: "fs_get w1 q = fs_get w q" if "q \<noteq> ?tmp" for q
    using keeps_no_links assms(3) that by (auto simp: keeps_def)
  have n1: "no_links w1" using k keeps_no_links assms(3) by blast
  have ne: "p \<noteq> ?tmp" "p \<noteq> ?bak" "?bak \<noteq> ?tmp" using plain_no_suffix [OF assms(2)] suffixes_distinct by blast+
  have s1: "saves p w w1" using n1 f1 ne by (auto simp: saves_def own_def content_of_def)
  have goal: "saves p w w' \<and> (r = Inr () \<longrightarrow> content_of w' p = Some data)"
  proof (cases x)
    case (Inl e)
    then show ?thesis using assms(1) wr s1 by (auto simp: replace_file_def)
  next
    case (Inr v)
    have d1: "content_of w1 ?tmp = Some data" using os_WriteFile_content wr Inr nl by blast
    obtain y w2 where mv: "fileMove p ?bak w1 = (y, w2)" by fastforce
    have s2: "saves p w1 w2" using move_saves [OF assms(2) n1, of u] mv by simp
    have s12: "saves p w w2" using s1 s2 f1 ne by (auto simp: saves_def content_of_def)
    show ?thesis
    proof (cases y)
      case Inl2: (Inl e)
      then show ?thesis using assms(1) wr Inr mv s12 by (auto simp: replace_file_def)
    next
      case Inr2: (Inr v)
      then have mv2: "fileMove ?tmp p w2 = (r, w')" using assms(1) wr Inr mv by (simp add: replace_file_def)
      have n2: "no_links w2" using s12 by (simp add: saves_def)
      then have lp: "no_link w2 p" by (simp add: no_links_def)
      have "fs_get w2 ?tmp = fs_get w1 ?tmp"
        using fileMove_frame [OF mv, of ?tmp] n1 ne by (simp add: no_links_def)
      then have d2: "content_of w2 ?tmp = Some data" using d1 by (simp add: content_of_def)
      have f2: "fs_get w' q = fs_get w2 q" if "q \<noteq> ?tmp" "q \<noteq> p" for q
        using fileMove_frame [OF mv2 lp that] .
      have n3: "no_links w'" using fileMove_no_links [OF n2] mv2 by (metis snd_conv)
      have "content_of w' ?bak = Some c" if "content_of w p = Some c" for c
      proof -
        have "content_of w1 p = Some c" using that f1 ne by (simp add: content_of_def)
        then have "content_of w2 ?bak = Some c"
          using fileMove_content [OF _ ne(2) _ mv] n1 Inr2 by (simp add: no_links_def)
        then show ?thesis using f2 [of ?bak] ne by (simp add: content_of_def)
      qed
      moreover have "r = Inr () \<longrightarrow> content_of w' p = Some data"
        using fileMove_content [OF d2 ne(1) [symmetric] lp mv2] by blast
      moreover have "fs_get w' q = fs_get w q" if q: "q \<notin> own p" for q
      proof -
        have "q \<noteq> ?tmp" "q \<noteq> p" using q by (auto simp: own_def)
        then have "fs_get w' q = fs_get w2 q" by (rule f2)
        then show ?thesis using s12 q by (simp add: saves_def)
      qed
      ultimately show ?thesis using n3 by (auto simp: saves_def)
    qed
  qed
  then show "saves p w w'" and "r = Inr () \<Longrightarrow> content_of w' p = Some data" by simp_all
qed

text \<open>Files saved one after the other, none of them twice, are all saved.\<close>

definition all_saved :: "string list \<Rightarrow> world \<Rightarrow> world \<Rightarrow> bool" where
  "all_saved ps w w' \<longleftrightarrow> no_links w' \<and> (\<forall>q. (\<forall>p\<in>set ps. q \<notin> own p) \<longrightarrow> fs_get w' q = fs_get w q)
    \<and> (\<forall>p\<in>set ps. \<forall>c. content_of w p = Some c \<longrightarrow>
         content_of w' p = Some c \<or> (\<exists>t. content_of w' (p @ bak_suffix t) = Some c))"

lemma all_saved_Nil: "no_links w \<Longrightarrow> all_saved ps w w"
  by (simp add: all_saved_def)

lemma all_saved_Cons:
  assumes "saves p w v" and "all_saved ps v w'" and "plain p" and "\<forall>q\<in>set ps. plain q" and "p \<notin> set ps"
  shows "all_saved (p # ps) w w'"
proof -
  have dis: "own p \<inter> own q = {}" if "q \<in> set ps" for q using own_disjoint assms(3-5) that by metis
  have a: "fs_get w' q = fs_get v q" if "q \<in> own p" for q
    using assms(2) dis that unfolding all_saved_def by blast
  have b: "fs_get v q = fs_get w q" if "q \<in> own x" "x \<in> set ps" for q x
    using assms(1) dis that unfolding saves_def by blast
  have "content_of w' p = content_of v p" "content_of w' (p @ bak_suffix t) = content_of v (p @ bak_suffix t)" for t
    using a by (simp_all add: own_def content_of_def)
  moreover have "content_of v q = content_of w q" if "q \<in> set ps" for q
    using b [OF _ that, of q] by (simp add: own_def content_of_def)
  ultimately show ?thesis using assms(1,2) by (simp add: saves_def all_saved_def)
qed

end
