(* ===== verification/NetworkScriptsSave.thy ===== *)
theory NetworkScriptsSave
  imports NetworkScriptsLaws SaveLaws
begin

text \<open>
  Saving an ifcfg file: what survives when any system call fails, what is on disk when none
  does, and the one failure the code does not notice.
\<close>

section \<open>Names in the directory\<close>

lemma file_name_backup: "file_name f \<Longrightarrow> file_name (backup_prefix t @ f)"
  by (auto simp: file_name_def backup_prefix_def show_nat_no_slash)

lemma file_name_tmp: "file_name f \<Longrightarrow> file_name (tmp_name t f)"
  by (auto simp: file_name_def tmp_name_def show_nat_no_slash)

text \<open>Names of configuration files: they cannot be confused with backups or temporary files.\<close>

definition config_name :: "string \<Rightarrow> bool" where
  "config_name f \<longleftrightarrow> file_name f \<and> hd f \<noteq> CHR ''.''"

lemma config_name_distinct:
  assumes "config_name f"
  shows "f \<noteq> backup_prefix t @ g" "f \<noteq> tmp_name t g" "backup_prefix t @ f \<noteq> tmp_name u g"
  using assms by (auto simp: config_name_def backup_prefix_def tmp_name_def)

section \<open>Backing up the old files\<close>

definition backup_moves :: "string \<Rightarrow> nat \<Rightarrow> string list \<Rightarrow> (string \<times> string) list" where
  "backup_moves d t fs = map (\<lambda>f. (path_join d f, path_join d (backup_prefix t @ f))) fs"

lemma backup_files_moves: "backup_files d (backup_prefix t) fs w = moves (backup_moves d t fs) w"
  by (induction fs arbitrary: w) (simp_all add: backup_moves_def try_io_def split: prod.splits sum.splits)

lemma backup_moves_distinct:
  assumes "abs_dir d" and "\<forall>f\<in>set fs. config_name f" and "distinct fs"
  shows "distinct (map fst (backup_moves d t fs) @ map snd (backup_moves d t fs))"
proof -
  have e: "map fst (backup_moves d t fs) @ map snd (backup_moves d t fs)
      = map (path_join d) (fs @ map (\<lambda>f. backup_prefix t @ f) fs)"
    by (simp add: backup_moves_def o_def)
  have f: "\<forall>n\<in>set (fs @ map (\<lambda>f. backup_prefix t @ f) fs). file_name n"
    using assms(2) file_name_backup by (auto simp: config_name_def)
  have "distinct (map (\<lambda>f. backup_prefix t @ f) fs)" using assms(3) by (simp add: distinct_map inj_on_def)
  moreover have "set fs \<inter> set (map (\<lambda>f. backup_prefix t @ f) fs) = {}"
    using assms(2) config_name_distinct(1) by fastforce
  ultimately have "distinct (fs @ map (\<lambda>f. backup_prefix t @ f) fs)" using assms(3) by simp
  then show ?thesis unfolding e by (rule path_joins_distinct [OF assms(1) f])
qed

lemma backup_files_safe:
  assumes "backup_files d (backup_prefix t) fs w = (r, w')" and "abs_dir d" and "no_links w"
    and "\<forall>f\<in>set fs. config_name f" and "distinct fs"
  shows "(\<forall>f\<in>set fs. \<forall>c. content_of w (path_join d f) = Some c \<longrightarrow>
       content_of w' (path_join d (backup_prefix t @ f)) = Some c
       \<or> (r \<noteq> Inr () \<and> content_of w' (path_join d f) = Some c))
    \<and> no_links w'"
  using moves_safe [OF assms(1) [unfolded backup_files_moves] assms(3) backup_moves_distinct [OF assms(2,4,5)]]
  by (simp add: backup_moves_def)

lemma write_tmp_keeps: "keeps w0 p w \<Longrightarrow> keeps w0 p (snd (write_tmp p ds w))"
  unfolding write_tmp_def
  by (intro try_io_invariant [where P = "keeps w0 p"] keeps_open_write)
    (auto dest!: os_open_write_keeps_path simp: fd_prints_keeps)


definition eth0 :: nsInterface where
  "eth0 = (new_nsInterface ''eth0'')\<lparr>nsi_IFFiles := [\<lparr>nsf_Name = ''ifcfg-eth0'', nsf_Config = []\<rparr>]\<rparr>"

definition ns_world :: world where
  "ns_world = mk_world [(''/d'', Dir), (''/d/ifcfg-eth0'', File ''A=1'' 420 0)]"

text \<open>The move of the new file into place fails.\<close>

definition ns_world_fault :: world where
  "ns_world_fault = ns_world\<lparr>w_fault := (\<lambda>t. if t = 5 then Some (EIO, 0) else None)\<rparr>"


section \<open>What is on disk when nothing fails\<close>

lemma write_from_end:
  assumes "fs_get w q = Some (File c m t)"
  shows "fs_get (write_from q (length c) d w) q = Some (File (c @ d) m (now w))"
  using assms by (simp add: write_from_def overlay_def)

lemma write_from_calm [simp]: "calm (write_from q n d w) = calm w"
  by (simp add: write_from_def split: option.splits node.splits)

lemma fd_prints_calm:
  "calm w \<Longrightarrow> fs_get w q = Some (File c m t) \<Longrightarrow>
     calm (fd_prints q (length c) ds w) \<and> (\<exists>t'. fs_get (fd_prints q (length c) ds w) q = Some (File (c @ concat ds) m t'))"
proof (induction ds arbitrary: c t w)
  case (Cons d ds)
  have "fs_get (write_from q (length c) d (tick w)) q = Some (File (c @ d) m (now (tick w)))"
    using write_from_end Cons.prems(2) by simp
  from Cons.IH [OF _ this] Cons.prems show ?case by simp
qed auto

lemma write_tmp_calm:
  assumes "calm w" and "fs_get w p = None"
  shows "\<exists>w' m t. write_tmp p ds w = (Inr (), w') \<and> calm w' \<and> fs_get w' p = Some (File (concat ds) m t)"
proof -
  have "no_link (tick w) p" using assms(2) by (simp add: no_link_def)
  then have "os_open_write False p 420 w = (Inr p, fs_put p (File [] 420 (now (tick w))) (tick w))"
    using assms by (simp add: os_open_write_def syscall_def resolve_no_link)
  then show ?thesis
    using fd_prints_calm [of "fs_put p (File [] 420 (now (tick w))) (tick w)" p "[]" 420 _ ds] assms
    by (auto simp: write_tmp_def)
qed

lemma fileMove_calm:
  assumes "calm w" and "fs_get w s = Some n" and "s \<noteq> d" and "fs_get w d \<noteq> Some Dir"
  shows "\<exists>w'. fileMove s d w = (Inr (), w') \<and> calm w' \<and> fs_get w' d = Some n \<and> fs_get w' s = None \<and>
    (\<forall>q. q \<noteq> s \<and> q \<noteq> d \<longrightarrow> fs_get w' q = fs_get w q)"
  using assms by (simp add: fileMove_def os_Rename_def syscall_def)

lemma backup_files_calm:
  assumes "calm w" and "abs_dir d" and "\<forall>f\<in>set fs. config_name f \<and> fs_get w (path_join d f) \<noteq> None
      \<and> fs_get w (path_join d f) \<noteq> Some Dir \<and> fs_get w (path_join d (backup_prefix t @ f)) \<noteq> Some Dir"
    and "distinct fs"
  shows "\<exists>w'. backup_files d (backup_prefix t) fs w = (Inr (), w') \<and> calm w' \<and>
    (\<forall>q. fs_get w q \<noteq> Some Dir \<longrightarrow> fs_get w' q \<noteq> Some Dir) \<and>
    (\<forall>q. (\<forall>f\<in>set fs. q \<noteq> path_join d f \<and> q \<noteq> path_join d (backup_prefix t @ f)) \<longrightarrow> fs_get w' q = fs_get w q)"
  using assms
proof (induction fs arbitrary: w)
  case (Cons f fs)
  let ?s = "path_join d f" and ?b = "path_join d (backup_prefix t @ f)"
  have fn: "file_name f" "file_name (backup_prefix t @ f)"
    using Cons.prems(3) file_name_backup by (auto simp: config_name_def)
  have sb: "?s \<noteq> ?b"
    by (rule path_join_neq [OF Cons.prems(2) fn config_name_distinct(1)]) (use Cons.prems(3) in simp)
  obtain nd where nd: "fs_get w ?s = Some nd" "nd \<noteq> Dir" using Cons.prems(3) by auto
  then obtain v where v: "fileMove ?s ?b w = (Inr (), v)" "calm v" "\<And>q. q \<noteq> ?s \<Longrightarrow> q \<noteq> ?b \<Longrightarrow> fs_get v q = fs_get w q"
    and vs: "fs_get v ?s = None" "fs_get v ?b = Some nd"
    using fileMove_calm [OF Cons.prems(1) nd(1) sb] Cons.prems(3) by auto
  have vd: "fs_get w q \<noteq> Some Dir \<Longrightarrow> fs_get v q \<noteq> Some Dir" for q
    using v(3) [of q] vs nd(2) by (cases "q = ?s"; cases "q = ?b") auto
  have same: "fs_get v (path_join d g) = fs_get w (path_join d g)"
      "fs_get v (path_join d (backup_prefix t @ g)) = fs_get w (path_join d (backup_prefix t @ g))" if g: "g \<in> set fs" for g
  proof -
    have "g \<noteq> f" "config_name g" "config_name f" using Cons.prems(3,4) g by auto
    then show "fs_get v (path_join d g) = fs_get w (path_join d g)"
      "fs_get v (path_join d (backup_prefix t @ g)) = fs_get w (path_join d (backup_prefix t @ g))"
      using path_join_inj [OF Cons.prems(2)] fn file_name_backup [of g t] config_name_distinct(1) [of f t g]
        config_name_distinct(1) [of g t f]
      by (simp_all add: v(3) config_name_def)
  qed
  have "\<forall>g\<in>set fs. config_name g \<and> fs_get v (path_join d g) \<noteq> None \<and> fs_get v (path_join d g) \<noteq> Some Dir
      \<and> fs_get v (path_join d (backup_prefix t @ g)) \<noteq> Some Dir"
    using Cons.prems(3) same by simp
  from Cons.IH [OF v(2) Cons.prems(2) this] Cons.prems(4) v vd show ?case by auto
qed simp

lemma os_ReadDir_calm: "calm w \<Longrightarrow> calm (snd (os_ReadDir d w))"
  by (simp add: os_ReadDir_def syscall_def Let_def split: option.splits node.splits)

lemma config_not_backup: "config_name f \<Longrightarrow> \<not> prefixBackupMatcher base f"
  by (auto simp: config_name_def prefixBackupMatcher_def HasPrefix_append_iff)

text \<open>
  When no call fails and the files it is to back up are there, a save succeeds: the
  interface's configuration file holds the rendered configuration, and the interface
  remembers that file and that configuration.
\<close>

theorem Save_writes_config:
  assumes "calm w" and "abs_dir d" and "no_links w" and "config_name (''ifcfg-'' @ nsi_Name n)"
    and "\<forall>f\<in>set (nsi_IFFiles n). config_name (nsf_Name f) \<and> fs_get w (path_join d (nsf_Name f)) \<noteq> None"
    and "distinct (map nsf_Name (nsi_IFFiles n))" and "\<forall>p. file_name p \<longrightarrow> fs_get w (path_join d p) \<noteq> Some Dir"
    and "fs_get w (path_join d (tmp_name (now w) (''ifcfg-'' @ nsi_Name n))) = None"
  shows "\<exists>w'. Save config d retention n w =
      ((Inr (), n\<lparr>nsi_IFFiles := [\<lparr>nsf_Name = ''ifcfg-'' @ nsi_Name n, nsf_Config = config\<rparr>]\<rparr>), w')
    \<and> content_of w' (path_join d (''ifcfg-'' @ nsi_Name n)) = Some (concat (kv_lines config))"
proof -
  let ?cn = "''ifcfg-'' @ nsi_Name n" and ?fs = "map nsf_Name (nsi_IFFiles n)"
  let ?tmp = "path_join d (tmp_name (now w) ?cn)" and ?cp = "path_join d ?cn"
  have fn: "file_name ?cn" using assms(4) by (simp add: config_name_def)
  have tn: "file_name (tmp_name (now w) ?cn)" using file_name_tmp fn by blast
  obtain w1 m t where wt: "write_tmp ?tmp (kv_lines config) (tick w) = (Inr (), w1)" and c1: "calm w1"
    and t1: "fs_get w1 ?tmp = Some (File (concat (kv_lines config)) m t)"
    using write_tmp_calm [of "tick w" ?tmp "kv_lines config"] assms(1,8) by auto
  have k1: "\<And>q. q \<noteq> ?tmp \<Longrightarrow> fs_get w1 q = fs_get w q"
    using write_tmp_keeps [of w ?tmp "tick w" "kv_lines config"] wt assms(3)
    by (simp add: keeps_def no_links_def)
  have nodir: "fs_get w1 (path_join d p) \<noteq> Some Dir" if "file_name p" for p
    using that assms(7) k1 t1 by (cases "path_join d p = ?tmp") auto
  let ?t = "now w1"
  have "fs_get w1 (path_join d f) \<noteq> None" if "f \<in> set ?fs" for f
    using that assms(5) k1 t1 by (cases "path_join d f = ?tmp") auto
  then have "\<forall>f\<in>set ?fs. config_name f \<and> fs_get (tick w1) (path_join d f) \<noteq> None
      \<and> fs_get (tick w1) (path_join d f) \<noteq> Some Dir
      \<and> fs_get (tick w1) (path_join d (backup_prefix ?t @ f)) \<noteq> Some Dir"
    using assms(5) nodir file_name_backup by (auto simp: config_name_def)
  from backup_files_calm [OF _ assms(2) this assms(6)] c1
  obtain w2 where bk: "backup_files d (backup_prefix ?t) ?fs (tick w1) = (Inr (), w2)" and c2: "calm w2"
    and d2: "\<And>q. fs_get w1 q \<noteq> Some Dir \<Longrightarrow> fs_get w2 q \<noteq> Some Dir"
    and k2: "\<And>q. (\<forall>f\<in>set ?fs. q \<noteq> path_join d f \<and> q \<noteq> path_join d (backup_prefix ?t @ f)) \<Longrightarrow> fs_get w2 q = fs_get w1 q"
    by auto
  have far: "?tmp \<noteq> path_join d f \<and> ?tmp \<noteq> path_join d (backup_prefix ?t @ f)" if "f \<in> set ?fs" for f
  proof -
    have f: "config_name f" "file_name f" using assms(5) that by (auto simp: config_name_def)
    show ?thesis
      using path_join_inj [OF assms(2) tn] f file_name_backup [OF f(2)] config_name_distinct [OF f(1)] by metis
  qed
  have t2: "fs_get w2 ?tmp = Some (File (concat (kv_lines config)) m t)" using k2 far t1 by simp
  have ne: "?tmp \<noteq> ?cp" using path_join_neq [OF assms(2) tn fn] config_name_distinct(2) [OF assms(4)] by metis
  from fileMove_calm [OF c2 t2 ne d2 [OF nodir [OF fn]]] obtain w3 where
    mv: "fileMove ?tmp ?cp w2 = (Inr (), w3)" and cp: "fs_get w3 ?cp = Some (File (concat (kv_lines config)) m t)" by blast
  let ?w = "pruneBackups d (prefixBackupMatcher ?cn) retention w3"
  have sv: "Save config d retention n w = ((Inr (), n\<lparr>nsi_IFFiles := [\<lparr>nsf_Name = ?cn, nsf_Config = config\<rparr>]\<rparr>), ?w)"
    using wt bk mv by (simp add: Save_def UnixNano_def Let_def)
  have nl3: "no_link w3 d"
  proof -
    have "no_links w1" using keeps_no_links [OF _ assms(3), of ?tmp w1]
        write_tmp_keeps [of w ?tmp "tick w" "kv_lines config"] wt assms(3) by (simp add: keeps_def no_links_def)
    then have "no_links (tick w1)" by (simp add: no_links_def)
    then have "no_links w2" using backup_files_safe [OF bk assms(2) _ _ assms(6)] assms(5) by auto
    then have "no_links w3" using fileMove_no_links mv by (metis snd_conv)
    then show ?thesis by (simp add: no_links_def)
  qed
  have "fs_get ?w ?cp = fs_get w3 ?cp"
  proof (rule ccontr)
    assume "fs_get ?w ?cp \<noteq> fs_get w3 ?cp"
    from pruneBackups_changes [OF assms(2) nl3 refl this] obtain b where
      b: "?cp = d @ ''/'' @ b" "is_backup w3 d (prefixBackupMatcher ?cn) b" by blast
    then have "b = ?cn" using path_join_name [OF assms(2) fn] by simp
    with b(2) config_not_backup [OF assms(4)] show False by (simp add: is_backup_def)
  qed
  with sv cp show ?thesis by (simp add: content_of_def)
qed

lemma Save_writes_config_witness:
  "content_of (snd (Save [(''B'', ''2 3''), (''A'', ''1'')] ''/d'' 5 eth0 ns_world)) (path_join ''/d'' (''ifcfg-'' @ nsi_Name eth0))
     = Some (''A=1'' @ [newline] @ ''B='' @ [CHR 0x22] @ ''2 3'' @ [CHR 0x22, newline])"
proof -
  have c: "calm ns_world" by (simp add: calm_def ns_world_def mk_world_def)
  have d: "abs_dir ''/d''" by code_simp
  have get: "fs_get ns_world p = (if p = ''/d'' then Some Dir else if p = ''/d/ifcfg-eth0'' then Some (File ''A=1'' 420 0) else None)" for p
    by (simp add: ns_world_def mk_world_def fs_get_def)
  have l: "no_links ns_world" by (auto simp: no_links_def no_link_def get split: if_splits)
  have n: "config_name (''ifcfg-'' @ nsi_Name eth0)" by code_simp
  have p: "path_join ''/d'' ''ifcfg-eth0'' = ''/d/ifcfg-eth0''" by code_simp
  have f: "\<forall>f\<in>set (nsi_IFFiles eth0). config_name (nsf_Name f) \<and> fs_get ns_world (path_join ''/d'' (nsf_Name f)) \<noteq> None"
    using n by (simp add: eth0_def get p new_nsInterface_def)
  have dis: "distinct (map nsf_Name (nsi_IFFiles eth0))" by code_simp
  have nd: "\<forall>p. file_name p \<longrightarrow> fs_get ns_world (path_join ''/d'' p) \<noteq> Some Dir"
    using path_join_name [OF d] by (auto simp: get file_name_def)
  have t: "fs_get ns_world (path_join ''/d'' (tmp_name (now ns_world) (''ifcfg-'' @ nsi_Name eth0))) = None" by code_simp
  have written: "concat (kv_lines [(''B'', ''2 3''), (''A'', ''1'')])
      = ''A=1'' @ [newline] @ ''B='' @ [CHR 0x22] @ ''2 3'' @ [CHR 0x22, newline]" by code_simp
  show ?thesis
    using Save_writes_config [OF c d l n f dis nd t, of "[(''B'', ''2 3''), (''A'', ''1'')]" 5] unfolding written by auto
qed

text \<open>
  One failure goes unnoticed: the writes of the new file are not checked, so when the
  disk is full a save reports success although the file it put in place is cut short.
\<close>

theorem Save_ignores_write_errors:
  "\<exists>w. fst (fst (Save [(''DEVICE'', ''eth0'')] ''/d'' 0 eth0 w)) = Inr ()
     \<and> content_of w ''/d/ifcfg-eth0'' = Some ''A=1''
     \<and> content_of (snd (Save [(''DEVICE'', ''eth0'')] ''/d'' 0 eth0 w)) ''/d/ifcfg-eth0'' = Some ''DEV''"
proof (rule exI [of _ "ns_world\<lparr>w_fault := (\<lambda>t. if t = 2 then Some (ENOSPC, 3) else None)\<rparr>"], intro conjI)
  let ?w = "ns_world\<lparr>w_fault := (\<lambda>t. if t = 2 then Some (ENOSPC, 3) else None)\<rparr>"
  show "fst (fst (Save [(''DEVICE'', ''eth0'')] ''/d'' 0 eth0 ?w)) = Inr ()" by code_simp
  show "content_of ?w ''/d/ifcfg-eth0'' = Some ''A=1''" by code_simp
  show "content_of (snd (Save [(''DEVICE'', ''eth0'')] ''/d'' 0 eth0 ?w)) ''/d/ifcfg-eth0'' = Some ''DEV''" by code_simp
qed

end
