(* ===== verification/CPanel.thy ===== *)
theory CPanel
  imports Utils
begin

text \<open>
  \<open>cpanel.go\<close>: the cPanel control panel, driven through \<open>whmapi1\<close> and its configuration
  file. The JSON decoder is a parameter.
\<close>

definition cpanelBin :: string where "cpanelBin = ''/usr/local/cpanel/bin/whmapi1''"
definition cpanelJSON :: string where "cpanelJSON = ''--output=json''"
definition cpanelWWWAcctConf :: string where "cpanelWWWAcctConf = ''/etc/wwwacct.conf''"
definition cpanelMainIP :: string where "cpanelMainIP = ''/var/cpanel/mainip''"
definition cpanelMainIPCheck :: string where "cpanelMainIPCheck = ''/scripts/mainipcheck''"
definition cpanelFixEtcHosts :: string where "cpanelFixEtcHosts = ''/scripts/fixetchosts''"

record cpanelMetadata =
  cpm_Command :: string
  cpm_Reason :: string
  cpm_Result :: int

record cpanelIPInfo =
  cpi_Active :: int
  cpi_Dedicated :: int
  cpi_IP :: string
  cpi_MainIP :: int
  cpi_PublicIP :: string
  cpi_Removable :: int
  cpi_Used :: int

record cpanelAccountInfo =
  cpa_User :: string
  cpa_Domain :: string
  cpa_IP :: string
  cpa_IPv6 :: "string list"

text \<open>The JSON decoder at the types the code decodes into.\<close>

record cpanel_json =
  pj_accounts :: "string \<Rightarrow> (cpanelAccountInfo list \<times> cpanelMetadata) result"
  pj_ips :: "string \<Rightarrow> (cpanelIPInfo list \<times> cpanelMetadata) result"
  pj_base :: "string \<Rightarrow> cpanelMetadata result"

definition parseJSON :: "(string \<Rightarrow> 'a result) \<Rightarrow> string list \<Rightarrow> 'a result" where
  "parseJSON decode out = (case out of [l] \<Rightarrow> decode l | _ \<Rightarrow> Inl (Errorf ''no json output.''))"

text \<open>A call of the API with its decoded answer.\<close>

definition whmapi :: "(string \<Rightarrow> 'a result) \<Rightarrow> string list \<Rightarrow> world \<Rightarrow> 'a result \<times> world" where
  "whmapi decode args w = try_io (run_or_fail ([cpanelBin, cpanelJSON] @ args) w) (\<lambda>out w. (parseJSON decode out, w))"

definition whmapi_list ::
  "(string \<Rightarrow> ('a list \<times> cpanelMetadata) result) \<Rightarrow> string list \<Rightarrow> world \<Rightarrow> 'a list result \<times> world" where
  "whmapi_list decode args w = try_io (whmapi decode args w) (\<lambda>(xs, m) w.
     if cpm_Result m \<noteq> 1 then (Inl (Errorf (cpm_Reason m)), w) else (Inr xs, w))"

section \<open>Moving sites\<close>

fun cp_move_accounts :: "cpanel_json \<Rightarrow> ip \<Rightarrow> ip \<Rightarrow> cpanelAccountInfo list \<Rightarrow> world \<Rightarrow> unit result \<times> world" where
  "cp_move_accounts json oldAddr newAddr [] w = (Inr (), w)"
| "cp_move_accounts json oldAddr newAddr (a # as) w =
     (if \<not> ip_equal (ParseIP (cpa_IP a)) oldAddr then cp_move_accounts json oldAddr newAddr as w
      else try_io (whmapi (pj_base json) [''setsiteip'', ''ip='' @ ip_string newAddr, ''user='' @ cpa_User a] w) (\<lambda>m w.
        cp_move_accounts json oldAddr newAddr as (log_print (''cPanel site move response: '' @ cpm_Reason m) w)))"

definition cp_search :: "cpanel_json \<Rightarrow> ip \<Rightarrow> string \<Rightarrow> world \<Rightarrow> cpanelAccountInfo list result \<times> world" where
  "cp_search json addr searchtype w =
     whmapi_list (pj_accounts json) [''listaccts'', ''search='' @ ip_string addr, ''searchtype='' @ searchtype] w"

definition cp_moveSites :: "cpanel_json \<Rightarrow> ip \<Rightarrow> ip \<Rightarrow> world \<Rightarrow> unit result \<times> world" where
  "cp_moveSites json oldAddr newAddr w =
     try_io (cp_search json oldAddr ''ip'' w) (\<lambda>accounts w. cp_move_accounts json oldAddr newAddr accounts w)"

section \<open>Removing an IPv4 address\<close>

record cp_pool =
  pl_mainIP :: ip
  pl_isMainIP :: bool
  pl_public :: "ip list"
  pl_private :: "ip list"

definition cp_classify :: "ip \<Rightarrow> cpanelIPInfo \<Rightarrow> cp_pool \<Rightarrow> cp_pool" where
  "cp_classify addr info p =
     (let i = ParseIP (cpi_IP info) in
      if ip_equal i addr then p\<lparr>pl_isMainIP := cpi_MainIP info = 1 \<and> pl_mainIP p = []\<rparr>
      else if cpi_MainIP info = 1 then p\<lparr>pl_mainIP := i, pl_isMainIP := False\<rparr>
      else if \<not> is_private i then p\<lparr>pl_public := pl_public p @ [i]\<rparr>
      else let pub = ParseIP (cpi_PublicIP info) in
        if pub \<noteq> [] \<and> \<not> is_private pub then p\<lparr>pl_public := pl_public p @ [i]\<rparr>
        else p\<lparr>pl_private := pl_private p @ [i]\<rparr>)"

definition cp_pool_of :: "ip \<Rightarrow> cpanelIPInfo list \<Rightarrow> cp_pool" where
  "cp_pool_of addr infos = fold (cp_classify addr) infos \<lparr>pl_mainIP = [], pl_isMainIP = False, pl_public = [], pl_private = []\<rparr>"

definition cp_target :: "cp_pool \<Rightarrow> ip result" where
  "cp_target p = (if pl_mainIP p \<noteq> [] then Inr (pl_mainIP p)
     else if pl_public p \<noteq> [] then Inr (hd (pl_public p))
     else if pl_private p \<noteq> [] then Inr (hd (pl_private p))
     else Inl (Errorf ''unable to find the main IP to move ip addresses to''))"

definition cp_reload :: "world \<Rightarrow> unit result \<times> world" where
  "cp_reload w = try_io (run_or_fail [''/scripts/rebuildippool''] w) (\<lambda>out w.
     (Inr (), log_print (''cPanel IP pool output: '' @ join [newline] out) w))"

definition cp_delip :: "string list \<Rightarrow> ip \<Rightarrow> world \<Rightarrow> world" where
  "cp_delip extra addr w = snd (runCommand ([cpanelBin, cpanelJSON, ''delip'', ''ip='' @ ip_string addr] @ extra) w)"

definition cp_mainipcheck :: "world \<Rightarrow> unit result \<times> world" where
  "cp_mainipcheck w = try_io (run_or_fail [cpanelMainIPCheck] w) (\<lambda>out w.
     (Inr (), log_print (''cPanel main IP output: '' @ join [newline] out) w))"

definition removeIPv4 :: "cpanel_json \<Rightarrow> ip \<Rightarrow> world \<Rightarrow> unit result \<times> world" where
  "removeIPv4 json addr w =
     try_io (cp_search json addr ''ip'' w) (\<lambda>_ w.
     try_io (whmapi_list (pj_ips json) [''listips''] w) (\<lambda>infos w.
     let pool = cp_pool_of addr infos in
     try_io (cp_target pool, w) (\<lambda>mainIP w.
     try_io (cp_moveSites json addr mainIP w) (\<lambda>_ w.
     try_io (cp_reload (cp_delip [] addr w)) (\<lambda>_ w.
     if pl_isMainIP pool \<or> pl_mainIP pool = [] then cp_mainipcheck w else (Inr (), w))))))"

section \<open>Removing an IPv6 address\<close>

definition cp_replacement :: "ip \<Rightarrow> cpanelAccountInfo list \<Rightarrow> ip" where
  "cp_replacement addr accounts =
     (case find (\<lambda>i. \<not> (i = [] \<or> To4 i \<noteq> [] \<or> ip_equal i addr)) (map ParseIP (concat (map cpa_IPv6 accounts))) of
        None \<Rightarrow> [] | Some i \<Rightarrow> i)"

definition new_ipv6 :: "ip \<Rightarrow> ip \<Rightarrow> string list \<Rightarrow> string list" where
  "new_ipv6 oldAddr newAddr ips = concat (map (\<lambda>s.
     if ip_equal (ParseIP s) oldAddr then (if newAddr \<noteq> [] then [ip_string newAddr] else []) else [s]) ips)"

fun moveIPv6Sites :: "cpanel_json \<Rightarrow> ip \<Rightarrow> ip \<Rightarrow> cpanelAccountInfo list \<Rightarrow> world \<Rightarrow> unit result \<times> world" where
  "moveIPv6Sites json oldAddr newAddr [] w = (Inr (), w)"
| "moveIPv6Sites json oldAddr newAddr (a # as) w =
     (if \<not> list_ex (\<lambda>s. ip_equal (ParseIP s) oldAddr) (cpa_IPv6 a) then moveIPv6Sites json oldAddr newAddr as w
      else try_io (whmapi (pj_base json) [''setsiteip'', ''ip='' @ cpa_IP a, ''user='' @ cpa_User a,
             ''ipv6='' @ join '','' (new_ipv6 oldAddr newAddr (cpa_IPv6 a))] w) (\<lambda>m w.
        moveIPv6Sites json oldAddr newAddr as (log_print (''cPanel IPv6 site move response: '' @ cpm_Reason m) w)))"

definition removeIPv6 :: "cpanel_json \<Rightarrow> ip \<Rightarrow> world \<Rightarrow> unit result \<times> world" where
  "removeIPv6 json addr w =
     try_io (cp_search json addr ''ipv6'' w) (\<lambda>accounts w.
     try_io (moveIPv6Sites json addr (cp_replacement addr accounts) accounts w) (\<lambda>_ w.
     cp_reload (cp_delip [''ipv6=1''] addr w)))"

definition cp_removeIP :: "cpanel_json \<Rightarrow> ip \<Rightarrow> world \<Rightarrow> unit result \<times> world" where
  "cp_removeIP json addr w = (if To4 addr = [] then removeIPv6 json addr w else removeIPv4 json addr w)"

section \<open>The main address\<close>

definition is_directive :: "string \<Rightarrow> string \<Rightarrow> bool" where
  "is_directive directive line \<longleftrightarrow> (case Fields line of [] \<Rightarrow> False | f # fs \<Rightarrow> f = directive)"

definition set_directive :: "string \<Rightarrow> string \<Rightarrow> string list \<Rightarrow> string list" where
  "set_directive directive ip ls =
     (let new = directive @ '' '' @ ip in
      if list_ex (is_directive directive) ls then map (\<lambda>l. if is_directive directive l then new else l) ls
      else if ls \<noteq> [] \<and> last ls = [] then butlast ls @ [new, []] else ls @ [new])"

definition setWWWAcctAddr :: "string \<Rightarrow> string \<Rightarrow> string \<Rightarrow> world \<Rightarrow> unit result \<times> world" where
  "setWWWAcctAddr path directive ip w =
     try_io (os_Stat path w) (\<lambda>info w.
     try_io (os_ReadFile path w) (\<lambda>data w.
     os_WriteFile path (join [newline] (set_directive directive ip (Split newline data))) (fi_mode info) w))"

definition cp_setMainIP :: "ip \<Rightarrow> world \<Rightarrow> unit result \<times> world" where
  "cp_setMainIP addr w =
     try_io (setWWWAcctAddr cpanelWWWAcctConf (if To4 addr = [] then ''ADDR6'' else ''ADDR'') (ip_string addr) w) (\<lambda>_ w.
     try_io (if To4 addr \<noteq> [] then os_WriteFile cpanelMainIP (ip_string addr) 420 w else (Inr (), w)) (\<lambda>_ w.
     try_io (cp_mainipcheck w) (\<lambda>_ w.
     (Inr (), snd (runCommand [cpanelFixEtcHosts] w)))))"

end
