(* ===== verification/Plesk.thy ===== *)
theory Plesk
  imports Utils
begin

text \<open>\<open>plesk_linux.go\<close>: the Plesk control panel, driven through its command line.\<close>

definition pleskBin :: string where "pleskBin = ''/usr/sbin/plesk''"

definition parsePleskIPField :: "string \<Rightarrow> ip" where
  "parsePleskIPField s =
     (let s = before CHR ''/'' s; i = ParseIP s in
      if i \<noteq> [] then i
      else case Cut CHR '':'' s of
          None \<Rightarrow> []
        | Some (_, r) \<Rightarrow> ParseIP (if HasPrefix r '':'' then '':'' @ r else r))"

section \<open>Moving sites\<close>

text \<open>
  The regular expression \<open>^([^:]+):\s*([^$]+)$\<close> on a line, with both groups trimmed. It matches
  when there is something on both sides of the first colon and no dollar sign after it.
\<close>

definition domain_info :: "string \<Rightarrow> (string \<times> string) option" where
  "domain_info line = (case Cut CHR '':'' line of
       None \<Rightarrow> None
     | Some (k, v) \<Rightarrow> if k \<noteq> [] \<and> v \<noteq> [] \<and> CHR ''$'' \<notin> set v then Some (TrimSpace k, TrimSpace v) else None)"

text \<open>\<open>strings.Split(s, ", ")\<close>.\<close>

fun split_list :: "string \<Rightarrow> string list" where
  "split_list [] = [[]]"
| "split_list [c] = [[c]]"
| "split_list (c # d # s) =
     (if c = CHR '','' \<and> d = CHR '' '' then [] # split_list s
      else case split_list (d # s) of [] \<Rightarrow> [[c]] | w # ws \<Rightarrow> (c # w) # ws)"

definition domain_addrs :: "string list \<Rightarrow> ip list" where
  "domain_addrs out = concat (map (\<lambda>line. case domain_info line of
       None \<Rightarrow> []
     | Some (key, value) \<Rightarrow> if key = ''IP Address'' then map ParseIP (split_list value) else []) out)"

text \<open>
  The loop that removes the old address while it ranges over the list. The range evaluates
  the slice once: it visits every index of the original length and reads the backing
  array, whose elements each removal moves down, leaving the last one where it was; the
  slice itself gets shorter, and slicing it past its length panics.
\<close>

record cut_state =
  cl_array :: "ip list"
  cl_len :: nat
  cl_found :: bool

definition cut_at :: "nat \<Rightarrow> cut_state \<Rightarrow> cut_state result" where
  "cut_at i s =
     (if Suc i > cl_len s then Inl (Panic ''slice bounds out of range'')
      else let a = cl_array s in
        Inr (s\<lparr>cl_array := take i a @ drop (Suc i) (take (cl_len s) a) @ drop (cl_len s - 1) a,
               cl_len := cl_len s - 1, cl_found := True\<rparr>))"

fun cut_loop :: "ip \<Rightarrow> nat list \<Rightarrow> cut_state \<Rightarrow> cut_state result" where
  "cut_loop old [] s = Inr s"
| "cut_loop old (i # is) s =
     (if ip_equal (cl_array s ! i) old then try_res (cut_at i s) (cut_loop old is) else cut_loop old is s)"

definition replace_old :: "ip \<Rightarrow> ip \<Rightarrow> ip list \<Rightarrow> (bool \<times> ip list) result" where
  "replace_old old new addrs =
     try_res (cut_loop old [0..<length addrs] \<lparr>cl_array = addrs, cl_len = length addrs, cl_found = False\<rparr>) (\<lambda>s.
       Inr (cl_found s, if cl_found s \<and> cl_len s = 0 then [new] else take (cl_len s) (cl_array s)))"

definition new_domain_addrs :: "ip \<Rightarrow> ip \<Rightarrow> ip list \<Rightarrow> ip list option result" where
  "new_domain_addrs old new addrs =
     (let v4 = filter (\<lambda>i. To4 i \<noteq> []) addrs; v6 = filter (\<lambda>i. To4 i = []) addrs in
      if To4 old = []
      then try_res (replace_old old new v6) (\<lambda>(found, v6). Inr (if found then Some (v4 @ v6) else None))
      else try_res (replace_old old new v4) (\<lambda>(found, v4). Inr (if found then Some (v4 @ v6) else None)))"

fun plesk_move_domains :: "ip \<Rightarrow> ip \<Rightarrow> string list \<Rightarrow> world \<Rightarrow> unit result \<times> world" where
  "plesk_move_domains old new [] w = (Inr (), w)"
| "plesk_move_domains old new (d # ds) w =
     try_io (run_or_fail [pleskBin, ''bin'', ''domain'', ''--info'', d] w) (\<lambda>out w.
     try_io (new_domain_addrs old new (domain_addrs out), w) (\<lambda>addrs w.
     case addrs of
       None \<Rightarrow> plesk_move_domains old new ds w
     | Some as \<Rightarrow>
         try_io (run_or_fail [pleskBin, ''bin'', ''domain'', ''--update'', d, ''-ip'', join '','' (map ip_string as)] w) (\<lambda>out w.
           plesk_move_domains old new ds (log_print (''Plesk domain output: '' @ join [newline] out) w))))"

definition plesk_moveSites :: "ip \<Rightarrow> ip \<Rightarrow> world \<Rightarrow> unit result \<times> world" where
  "plesk_moveSites old new w =
     try_io (run_or_fail [pleskBin, ''bin'', ''domain'', ''--list''] w) (\<lambda>domains w. plesk_move_domains old new domains w)"

section \<open>Removing an address\<close>

text \<open>The value of \<open>strconv.Atoi\<close> when its error is ignored: 0 for a text that is no number, a bound for one out of range.\<close>

definition Atoi_value :: "string \<Rightarrow> int" where
  "Atoi_value s = (case Atoi s of
       Some n \<Rightarrow> n
     | None \<Rightarrow> (case s of
           [] \<Rightarrow> 0
         | c # t \<Rightarrow> if c = CHR ''-'' then (if all_digits t then - (2 ^ 63) else 0)
             else if c = CHR ''+'' then (if all_digits t then 2 ^ 63 - 1 else 0)
             else if all_digits s then 2 ^ 63 - 1 else 0))"

record plesk_pool =
  pp_hosting :: int
  pp_shared :: ip
  pp_public :: "ip list"
  pp_private :: "ip list"

definition plesk_classify :: "ip \<Rightarrow> string \<Rightarrow> plesk_pool \<Rightarrow> plesk_pool" where
  "plesk_classify addr line p =
     (let fs = Fields line in
      if length fs < 5 \<or> fs ! 2 = ''IP'' then p
      else let i = parsePleskIPField (fs ! 2) in
      if i = [] \<or> is_v4 i \<noteq> is_v4 addr then p
      else if ip_equal i addr then p\<lparr>pp_hosting := Atoi_value (fs ! 4)\<rparr>
      else if fs ! 1 = ''S'' then p\<lparr>pp_shared := i\<rparr>
      else if \<not> is_private i \<or> (length fs = 6 \<and> ParseIP (fs ! 5) \<noteq> []) then p\<lparr>pp_public := pp_public p @ [i]\<rparr>
      else p\<lparr>pp_private := pp_private p @ [i]\<rparr>)"

definition plesk_pool_of :: "ip \<Rightarrow> string list \<Rightarrow> plesk_pool" where
  "plesk_pool_of addr out = fold (plesk_classify addr) out \<lparr>pp_hosting = 0, pp_shared = [], pp_public = [], pp_private = []\<rparr>"

definition plesk_target :: "plesk_pool \<Rightarrow> ip result" where
  "plesk_target p = (if pp_shared p \<noteq> [] then Inr (pp_shared p)
     else if pp_public p \<noteq> [] then Inr (hd (pp_public p))
     else if pp_private p \<noteq> [] then Inr (hd (pp_private p))
     else if pp_hosting p \<noteq> 0 then Inl (Errorf ''unable to find a shared IP to move ip addresses to'')
     else Inr [])"

definition plesk_removeIP :: "ip \<Rightarrow> world \<Rightarrow> unit result \<times> world" where
  "plesk_removeIP addr w =
     try_io (run_or_fail [pleskBin, ''bin'', ''ipmanage'', ''--ip_list''] w) (\<lambda>out w.
     let pool = plesk_pool_of addr out in
     try_io (plesk_target pool, w) (\<lambda>shared w.
     try_io (if pp_hosting pool \<noteq> 0 then plesk_moveSites addr shared w else (Inr (), w)) (\<lambda>_ w.
     try_io (run_or_fail [pleskBin, ''bin'', ''ipmanage'', ''--remove'', ip_string addr] w) (\<lambda>out w.
     (Inr (), log_print (''Plesk output: '' @ join [newline] out) w)))))"

section \<open>The main address\<close>

definition plesk_queries :: "ip \<Rightarrow> string list" where
  "plesk_queries addr =
     [''UPDATE IP_Addresses SET main='' @ [CHR 39] @ ''true'' @ [CHR 39] @ '' WHERE ip_address='' @ [CHR 39] @ ip_string addr @ [CHR 39],
      ''UPDATE IP_Addresses SET main='' @ [CHR 39] @ ''false'' @ [CHR 39] @ '' WHERE ip_address<>'' @ [CHR 39] @ ip_string addr @ [CHR 39]]"

fun plesk_db :: "string list \<Rightarrow> world \<Rightarrow> unit result \<times> world" where
  "plesk_db [] w = (Inr (), w)"
| "plesk_db (q # qs) w =
     try_io (run_or_fail [pleskBin, ''db'', q] w) (\<lambda>out w.
       plesk_db qs (if out \<noteq> [] then log_print (''Plesk db output: '' @ join [newline] out) w else w))"

definition plesk_setMainIP :: "ip \<Rightarrow> world \<Rightarrow> unit result \<times> world" where
  "plesk_setMainIP addr w = plesk_db (plesk_queries addr) w"

definition plesk_reload :: "world \<Rightarrow> unit result \<times> world" where
  "plesk_reload w = try_io (run_or_fail [pleskBin, ''bin'', ''ipmanage'', ''--reread''] w) (\<lambda>out w.
     (Inr (), log_print (''Plesk output: '' @ join [newline] out) w))"

end
