(* ===== verification/Interworx.thy ===== *)
theory Interworx
  imports Utils
begin

text \<open>
  \<open>interworx.go\<close>: the InterWorx control panel, driven through its command line and an
  interactive migration script whose questions are answered as they are printed.
\<close>

definition nodeworxBin :: string where "nodeworxBin = ''/usr/bin/nodeworx''"

section \<open>The migration script\<close>

text \<open>\<open>MatchString\<close> of a pattern without operators, whatever the case of letters.\<close>

fun contains_fold :: "string \<Rightarrow> string \<Rightarrow> bool" where
  "contains_fold pat [] \<longleftrightarrow> pat = []"
| "contains_fold pat (c # s) \<longleftrightarrow> HasPrefix (ToLower (c # s)) (ToLower pat) \<or> contains_fold pat s"

record migration =
  mg_line :: string            \<comment> \<open>what was printed since the last line break\<close>
  mg_answers :: "string list"  \<comment> \<open>the lines sent to standard input\<close>
  mg_log :: "string list"

definition mg_answer :: "ip \<Rightarrow> ip \<Rightarrow> char \<Rightarrow> string \<Rightarrow> string list" where
  "mg_answer old new c line =
     (if c = CHR '']'' then (if contains_fold ''[y/N]'' line then [''y''] else [])
      else if c = CHR '':'' then
        (if contains_fold ''OLD IP Address'' line then [ip_string old]
         else if contains_fold ''NEW IP Address'' line then [ip_string new] else [])
      else [])"

text \<open>One byte of standard output.\<close>

definition mg_byte :: "ip \<Rightarrow> ip \<Rightarrow> char \<Rightarrow> migration \<Rightarrow> migration" where
  "mg_byte old new c m =
     (if c = newline \<or> c = CHR 0x0D
      then m\<lparr>mg_log := mg_log m @ [''Interworx migrate <stdout>: '' @ mg_line m], mg_line := []\<rparr>
      else let line = mg_line m @ [c] in
        m\<lparr>mg_line := line, mg_answers := mg_answers m @ mg_answer old new c line\<rparr>)"

definition mg_read :: "ip \<Rightarrow> ip \<Rightarrow> string \<Rightarrow> migration" where
  "mg_read old new out = fold (mg_byte old new) out \<lparr>mg_line = [], mg_answers = [], mg_log = []\<rparr>"

text \<open>
  The process is run by the world; what it prints may depend on the answers, whose lines are
  also returned. The two readers log concurrently; the log keeps the order of each.
\<close>

definition iw_moveSites :: "ip \<Rightarrow> ip \<Rightarrow> world \<Rightarrow> (unit result \<times> string list) \<times> world" where
  "iw_moveSites old new w =
     (case exec_command [''/usr/local/interworx/bin/php'', ''/usr/local/interworx/bin/migrate-ip.php''] w of (r, w) \<Rightarrow>
      case pr_start r of
        Some e \<Rightarrow> ((Inl e, []), w)
      | None \<Rightarrow>
         let m = mg_read old new (pr_stdout r);
             w = fold log_print (mg_log m) w;
             w = fold (\<lambda>l. log_print (''Interworx migrate <stderr>: '' @ l)) (scan_lines (pr_stderr r)) w in
         ((case pr_wait r of Some e \<Rightarrow> Inl e | None \<Rightarrow> Inr (), mg_answers m), w))"

section \<open>Removing an address\<close>

record iw_pool =
  ip_shared :: ip
  ip_public :: "ip list"
  ip_private :: "ip list"

definition iw_classify :: "ip \<Rightarrow> string \<Rightarrow> iw_pool \<Rightarrow> iw_pool" where
  "iw_classify addr line p =
     (let fs = Fields line in
      if length fs < 4 then p
      else let i = ParseIP (fs ! 0) in
      if is_v4 i \<noteq> is_v4 addr then p
      else if ip_equal i addr then p
      else if fs ! 3 = ''shared'' \<and> \<not> is_private i then p\<lparr>ip_shared := i\<rparr>
      else if \<not> is_private i then p\<lparr>ip_public := ip_public p @ [i]\<rparr>
      else let pub = ParseIP (fs ! 1) in
        if pub \<noteq> [] \<and> \<not> is_private pub then p\<lparr>ip_public := ip_public p @ [i]\<rparr>
        else p\<lparr>ip_private := ip_private p @ [i]\<rparr>)"

definition iw_pool_of :: "ip \<Rightarrow> string list \<Rightarrow> iw_pool" where
  "iw_pool_of addr out = fold (iw_classify addr) out \<lparr>ip_shared = [], ip_public = [], ip_private = []\<rparr>"

definition iw_target :: "iw_pool \<Rightarrow> ip result" where
  "iw_target p = (if ip_shared p \<noteq> [] then Inr (ip_shared p)
     else if ip_public p \<noteq> [] then Inr (hd (ip_public p))
     else if ip_private p \<noteq> [] then Inr (hd (ip_private p))
     else Inl (Errorf ''unable to find a shared IP to move ip addresses to''))"

text \<open>The wait of half a minute can only fail because its context ended.\<close>

definition wait_briefly :: "world \<Rightarrow> unit result \<times> world" where
  "wait_briefly w = (case fault w of
       None \<Rightarrow> (Inr (), tick w)
     | Some _ \<Rightarrow> (Inl (Errorf ''context canceled''), tick w))"

definition log_output :: "string \<Rightarrow> string list \<Rightarrow> world \<Rightarrow> world" where
  "log_output prefix out w = (if out \<noteq> [] then log_print (prefix @ join [newline] out) w else w)"

definition iw_removeIP :: "ip \<Rightarrow> world \<Rightarrow> unit result \<times> world" where
  "iw_removeIP addr w =
     try_io (run_or_fail [nodeworxBin, ''-u'', ''-n'', ''-c'', ''Ip'', ''-a'', ''listIpAddresses''] w) (\<lambda>out w.
     try_io (iw_target (iw_pool_of addr out), w) (\<lambda>shared w.
     try_io (case iw_moveSites addr shared w of ((r, _), w) \<Rightarrow> (r, w)) (\<lambda>_ w.
     try_io (wait_briefly w) (\<lambda>_ w.
     try_io (run_or_fail [nodeworxBin, ''-u'', ''-n'', ''-c'', ''Ip'', ''-a'', ''delete'', ''--confirm_action'', ''all'', ''--ip'', ip_string addr] w) (\<lambda>out w.
     (Inr (), log_output ''Interworx output: '' out w))))))"

section \<open>The main address\<close>

definition iw_setMainIP :: "ip \<Rightarrow> world \<Rightarrow> unit result \<times> world" where
  "iw_setMainIP addr w = (Inr (), w)"

definition iw_reload :: "world \<Rightarrow> unit result \<times> world" where
  "iw_reload w = try_io (run_or_fail [nodeworxBin, ''-u'', ''-n'', ''-c'', ''Ip'', ''-a'', ''import'', ''--ip'', ''all''] w) (\<lambda>out w.
     (Inr (), log_output ''Interworx output: '' out w))"

end
