(* ===== verification/LinuxConfigurator.thy ===== *)
theory LinuxConfigurator
  imports Netlink Options Services Dns CPanel Plesk Interworx
begin

text \<open>
  \<open>configurator_linux.go\<close>: backend detection and the operations that change the running
  system through netlink, verify connectivity, roll back, and only then persist.
\<close>

section \<open>State\<close>

text \<open>
  The configurator and all it acts on: its backends and panels (objects with state), its
  options, the kernel, and the operating system.
\<close>

record ('k, 'b, 'p) host =
  ho_kernel :: 'k
  ho_world :: world
  ho_ifaceBackends :: "'b named"
  ho_panelBackends :: "'p named"
  ho_options :: configOptions

record ('k, 'b, 'p) ops =
  op_netlink :: "'k netlink"
  op_iface :: "'b ifaceBackend"
  op_panel :: "'p panelBackend"

type_synonym ('k, 'b, 'p, 'a) act = "('k, 'b, 'p) host \<Rightarrow> 'a result \<times> ('k, 'b, 'p) host"

definition on_kernel :: "('k \<Rightarrow> 'a \<times> 'k) \<Rightarrow> ('k, 'b, 'p) host \<Rightarrow> 'a \<times> ('k, 'b, 'p) host" where
  "on_kernel f s = (case f (ho_kernel s) of (r, k) \<Rightarrow> (r, s\<lparr>ho_kernel := k\<rparr>))"

definition on_world :: "(world \<Rightarrow> world) \<Rightarrow> ('k, 'b, 'p) host \<Rightarrow> ('k, 'b, 'p) host" where
  "on_world f s = s\<lparr>ho_world := f (ho_world s)\<rparr>"

definition log_lines :: "string list \<Rightarrow> ('k, 'b, 'p) host \<Rightarrow> ('k, 'b, 'p) host" where
  "log_lines ls s = on_world (fold log_print ls) s"

section \<open>Probes\<close>

definition ping :: "('k, 'b, 'p) ops \<Rightarrow> ip \<Rightarrow> ('k, 'b, 'p) host \<Rightarrow> bool \<times> ('k, 'b, 'p) host" where
  "ping ops dest s = (case on_kernel (nl_ping (op_netlink ops)) s of (pb, s) \<Rightarrow>
     (pingTest pb (ip_string dest) (pingCount (ho_options s)) (pingTimeout (ho_options s)), s))"

text \<open>The page is only fetched when \<open>testInternet\<close> gets that far.\<close>

definition internet :: "('k, 'b, 'p) ops \<Rightarrow> ('k, 'b, 'p) host \<Rightarrow> bool \<times> ('k, 'b, 'p) host" where
  "internet ops s =
     (let a = testAddress (ho_options s); t = connectivityTimeout (ho_options s) in
      if a = ''test_success'' \<or> a = ''test_fail'' then (fst (testInternet (\<lambda>a t. Inl (Errorf [])) a t), s)
      else
        let t' = (if t \<le> 0 then defaultConnectivityTimeout else t) in
        case on_kernel (nl_http (op_netlink ops) a t') s of (r, s) \<Rightarrow>
        case testInternet (\<lambda>a t. r) a t of (ok, ls) \<Rightarrow> (ok, log_lines ls s))"

section \<open>Links\<close>

definition linkIsUp :: "link \<Rightarrow> bool" where
  "linkIsUp l = (if lk_operState l = OperUnknown then lk_flagUp l else lk_operState l = OperUp)"

definition ensureLinkUp :: "('k, 'b, 'p) ops \<Rightarrow> link \<Rightarrow> ('k, 'b, 'p, bool) act" where
  "ensureLinkUp ops l s =
     (if lk_flagUp l then (Inr False, s)
      else case on_kernel (nl_LinkSetUp (op_netlink ops) l) s of
          (Inl e, s) \<Rightarrow> (Inl (Wrap (''failed to bring up interface '' @ lk_name l) e), s)
        | (Inr u, s) \<Rightarrow> (Inr True, s))"

definition linkIsPhysical :: "link \<Rightarrow> bool" where
  "linkIsPhysical l \<longleftrightarrow> lk_type l = ''device''"

text \<open>A handle on netlink and the named link, which every operation starts with.\<close>

definition open_link :: "('k, 'b, 'p) ops \<Rightarrow> string \<Rightarrow> ('k, 'b, 'p, link) act" where
  "open_link ops iface s =
     try_io (on_kernel (nl_NewHandle (op_netlink ops)) s) (\<lambda>_ s.
     on_kernel (nl_LinkByName (op_netlink ops) iface) s)"

section \<open>Reading interfaces\<close>

definition route_ones :: "nroute \<Rightarrow> nat" where
  "route_ones r = mask_ones (net_mask (nr_Dst r))"

text \<open>A route to one of the interface's own networks.\<close>

definition own_network :: "addr list \<Rightarrow> nroute \<Rightarrow> bool" where
  "own_network addrs r = list_ex (\<lambda>a. net_contains (nr_Dst r) (net_ip (ad_IPNet a))
     \<and> net_mask (nr_Dst r) = net_mask (ad_IPNet a)) addrs"

definition static_route :: "nroute \<Rightarrow> Route" where
  "static_route r = \<lparr>rt_Destination = Some (nr_Dst r), rt_Gateway = nr_Gw r, rt_Metric = nr_Priority r\<rparr>"

definition add_route_info :: "addr list \<Rightarrow> nroute \<Rightarrow> Interface \<Rightarrow> Interface" where
  "add_route_info addrs r i =
     (if nr_Gw r = [] then i
      else if route_ones r = 0 then
        (if To4 (nr_Gw r) = [] then i\<lparr>if_Gateway6 := nr_Gw r\<rparr> else i\<lparr>if_Gateway4 := nr_Gw r\<rparr>)
      else if own_network addrs r then i
      else i\<lparr>if_Routes := if_Routes i @ [static_route r]\<rparr>)"

definition not_link_local :: "addr \<Rightarrow> bool" where
  "not_link_local a \<longleftrightarrow> \<not> is_link_local_unicast (net_ip (ad_IPNet a))"

definition link_interface :: "link \<Rightarrow> addr list \<Rightarrow> nroute list \<Rightarrow> Interface" where
  "link_interface l addrs routes =
     fold (add_route_info addrs) routes
       ((new_interface (lk_name l))\<lparr>if_MAC := lk_mac l, if_Link := Some (lk_index l),
          if_Up := linkIsUp l, if_Physical := linkIsPhysical l,
          if_Addresses := map ad_IPNet (filter not_link_local addrs)\<rparr>)"

fun read_links :: "('k, 'b, 'p) ops \<Rightarrow> link list \<Rightarrow> ('k, 'b, 'p, Interface list) act" where
  "read_links ops [] s = (Inr [], s)"
| "read_links ops (l # ls) s =
     (if lk_name l = ''lo'' then read_links ops ls s
      else try_io (on_kernel (nl_AddrList (op_netlink ops) l FAMILY_ALL) s) (\<lambda>addrs s.
        try_io (on_kernel (nl_RouteList (op_netlink ops) l FAMILY_ALL) s) (\<lambda>routes s.
        try_io (read_links ops ls s) (\<lambda>is s. (Inr (link_interface l addrs routes # is), s)))))"

definition GetInterfaces :: "('k, 'b, 'p) ops \<Rightarrow> ('k, 'b, 'p, Interface list) act" where
  "GetInterfaces ops s =
     try_io (on_kernel (nl_NewHandle (op_netlink ops)) s) (\<lambda>_ s.
     try_io (on_kernel (nl_LinkList (op_netlink ops)) s) (\<lambda>links s.
     try_io (read_links ops links s) (\<lambda>is s.
     case mergeBackendState (op_iface ops) (ho_ifaceBackends s) is (ho_world s) of (is, bs, w) \<Rightarrow>
       (Inr is, s\<lparr>ho_ifaceBackends := bs, ho_world := w\<rparr>))))"

section \<open>Persisting\<close>

definition persist_addresses ::
  "('k, 'b, 'p) ops \<Rightarrow> string \<Rightarrow> ipnet list \<Rightarrow> ip \<Rightarrow> ip \<Rightarrow> ('k, 'b, 'p) host \<Rightarrow> ('k, 'b, 'p) host" where
  "persist_addresses ops iface addresses gateway4 gateway6 s =
     (case applyIfaceAddresses (op_iface ops) (ho_ifaceBackends s) iface addresses gateway4 gateway6 (ho_world s) of
        (bs, w) \<Rightarrow> s\<lparr>ho_ifaceBackends := bs, ho_world := w\<rparr>)"

definition on_panels ::
  "('p named \<Rightarrow> world \<Rightarrow> 'p named \<times> world) \<Rightarrow> ('k, 'b, 'p) host \<Rightarrow> ('k, 'b, 'p) host" where
  "on_panels f s =
     (if skipPanels (ho_options s) then s
      else case f (ho_panelBackends s) (ho_world s) of (ps, w) \<Rightarrow> s\<lparr>ho_panelBackends := ps, ho_world := w\<rparr>)"

section \<open>AddAddress\<close>

definition IPv4zero :: ip where "IPv4zero = v4_in_v6_prefix @ [0, 0, 0, 0]"
definition IPv6zero :: ip where "IPv6zero = replicate 16 0"

definition family_of :: "ip \<Rightarrow> family" where
  "family_of a = (if To4 a = [] then FAMILY_V6 else FAMILY_V4)"

definition zero_of :: "ip \<Rightarrow> ip" where
  "zero_of a = (if To4 a = [] then IPv6zero else IPv4zero)"

definition gateway_ok :: "ipnet \<Rightarrow> ip \<Rightarrow> bool" where
  "gateway_ok a gateway \<longleftrightarrow> gateway = [] \<or> ip_equal gateway (zero_of (net_ip a))
     \<or> net_contains a gateway \<or> is_link_local_unicast gateway"

definition plain_addr :: "ipnet \<Rightarrow> addr" where
  "plain_addr n = \<lparr>ad_IPNet = n, ad_attrs = 0\<rparr>"

text \<open>
  The loop over the present addresses: whether the address is among them (its mask is
  then updated), the addresses to persist, and the snapshot for the rollback.
\<close>

fun scan_addresses ::
  "('k, 'b, 'p) ops \<Rightarrow> link \<Rightarrow> ipnet \<Rightarrow> addr list \<Rightarrow> ('k, 'b, 'p, bool \<times> ipnet list \<times> ipnet list) act" where
  "scan_addresses ops l a [] s = (Inr (False, [], []), s)"
| "scan_addresses ops l a (x # xs) s =
     (let here = ip_equal (net_ip (ad_IPNet x)) (net_ip a);
          x' = (if here then x\<lparr>ad_IPNet := (ad_IPNet x)\<lparr>net_mask := net_mask a\<rparr>\<rparr> else x) in
      try_io (if here then on_kernel (nl_AddrReplace (op_netlink ops) l (Some x')) s else (Inr (), s)) (\<lambda>_ s.
      try_io (scan_addresses ops l a xs s) (\<lambda>(exists, addresses, orig) s.
        (Inr (here \<or> exists,
          (if not_link_local x then [ad_IPNet x'] else []) @ addresses,
          (if not_link_local x then [ad_IPNet x] else []) @ orig), s))))"

definition add_new_address ::
  "('k, 'b, 'p) ops \<Rightarrow> link \<Rightarrow> ipnet \<Rightarrow> bool \<Rightarrow> ipnet list \<Rightarrow> ('k, 'b, 'p, ipnet list) act" where
  "add_new_address ops l a exists addresses s =
     (if exists then (Inr addresses, s)
      else case ping ops (net_ip a) s of
          (True, s) \<Rightarrow> (Inl (Errorf ''the ip we are adding is responding to ping''), s)
        | (False, s) \<Rightarrow>
            try_io (on_kernel (nl_AddrAdd (op_netlink ops) l (plain_addr a)) s) (\<lambda>_ s.
              (Inr (addresses @ [a]), s)))"

text \<open>What the loop over the routes has found so far.\<close>

record gateways =
  gw_orig :: "nroute option"  \<comment> \<open>the family's default route before the change\<close>
  gw_gateway :: ip            \<comment> \<open>the gateway asked for, or the present one\<close>
  gw_4 :: ip
  gw_6 :: ip
  gw_seen4 :: bool
  gw_seen6 :: bool

definition start_gateways :: "ip \<Rightarrow> gateways" where
  "start_gateways gateway = \<lparr>gw_orig = None, gw_gateway = gateway, gw_4 = [], gw_6 = [], gw_seen4 = False, gw_seen6 = False\<rparr>"

definition capture :: "nroute \<Rightarrow> gateways \<Rightarrow> gateways" where
  "capture r g =
     (if nr_Family r = FAMILY_V4 then g\<lparr>gw_4 := nr_Gw r, gw_seen4 := True\<rparr>
      else if nr_Family r = FAMILY_V6 then g\<lparr>gw_6 := nr_Gw r, gw_seen6 := True\<rparr>
      else g)"

definition change_default ::
  "('k, 'b, 'p) ops \<Rightarrow> ip \<Rightarrow> nroute \<Rightarrow> gateways \<Rightarrow> ('k, 'b, 'p, nroute \<times> gateways) act" where
  "change_default ops zeroIP r g s =
     (let g = g\<lparr>gw_orig := Some r\<rparr>; gateway = gw_gateway g in
      if gateway = [] then (Inr (r, g\<lparr>gw_gateway := nr_Gw r\<rparr>), s)
      else if ip_equal gateway zeroIP then
        try_io (on_kernel (nl_RouteDel (op_netlink ops) r) s) (\<lambda>_ s. (Inr (r\<lparr>nr_Gw := []\<rparr>, g), s))
      else
        let r' = r\<lparr>nr_Gw := gateway\<rparr> in
        try_io (on_kernel (nl_RouteChange (op_netlink ops) r') s) (\<lambda>_ s. (Inr (r', g), s)))"

fun scan_routes ::
  "('k, 'b, 'p) ops \<Rightarrow> family \<Rightarrow> ip \<Rightarrow> nroute list \<Rightarrow> gateways \<Rightarrow> ('k, 'b, 'p, gateways) act" where
  "scan_routes ops family zeroIP [] g s = (Inr g, s)"
| "scan_routes ops family zeroIP (r # rs) g s =
     (if route_ones r \<noteq> 0
         \<or> (nr_Family r = FAMILY_V4 \<and> gw_seen4 g) \<or> (nr_Family r = FAMILY_V6 \<and> gw_seen6 g)
      then scan_routes ops family zeroIP rs g s
      else try_io (if nr_Family r = family then change_default ops zeroIP r g s else (Inr (r, g), s)) (\<lambda>(r, g) s.
        let g = capture r g in
        if gw_seen4 g \<and> gw_seen6 g then (Inr g, s) else scan_routes ops family zeroIP rs g s))"

definition default_route :: "family \<Rightarrow> link \<Rightarrow> ip \<Rightarrow> nroute" where
  "default_route family l gateway = \<lparr>nr_Family = family, nr_LinkIndex = lk_index l,
     nr_Dst = (if family = FAMILY_V4 then \<lparr>net_ip = IPv4zero, net_mask = CIDRMask 0 32\<rparr>
       else \<lparr>net_ip = IPv6zero, net_mask = CIDRMask 0 128\<rparr>),
     nr_Gw = gateway, nr_Priority = 0, nr_attrs = 0\<rparr>"

text \<open>Adding the gateway when the family has no default route; the route added, if any.\<close>

definition add_gateway ::
  "('k, 'b, 'p) ops \<Rightarrow> family \<Rightarrow> link \<Rightarrow> ip \<Rightarrow> gateways \<Rightarrow> ('k, 'b, 'p, gateways \<times> nroute option) act" where
  "add_gateway ops family l gateway g s =
     (let r = default_route family l gateway in
      if family = FAMILY_V4 \<and> gw_4 g = [] then
        (case on_kernel (nl_RouteAdd (op_netlink ops) r) s of
           (Inl e, s) \<Rightarrow> (Inl (Errorf (''failed to add gateway4 '' @ ip_string gateway @ '': '' @ error_text e)), s)
         | (Inr u, s) \<Rightarrow> (Inr (g\<lparr>gw_4 := gateway\<rparr>, Some r), s))
      else if family = FAMILY_V6 \<and> gw_6 g = [] then
        (case on_kernel (nl_RouteAdd (op_netlink ops) r) s of
           (Inl e, s) \<Rightarrow> (Inl (Errorf (''failed to add gateway6 '' @ ip_string gateway @ '': '' @ error_text e)), s)
         | (Inr u, s) \<Rightarrow> (Inr (g\<lparr>gw_6 := gateway\<rparr>, Some r), s))
      else (Inr (g, None), s))"

fun replace_all :: "('k, 'b, 'p) ops \<Rightarrow> link \<Rightarrow> addr option list \<Rightarrow> ('k, 'b, 'p, unit) act" where
  "replace_all ops l [] s = (Inr (), s)"
| "replace_all ops l (a # as) s =
     try_io (on_kernel (nl_AddrReplace (op_netlink ops) l a) s) (\<lambda>_ s. replace_all ops l as s)"

definition lost_internet :: goerror where
  "lost_internet = Errorf ''aborted operation due to loss of internet''"

text \<open>A default route the kernel has already dropped counts as removed.\<close>

definition restore_route ::
  "('k, 'b, 'p) ops \<Rightarrow> nroute option \<Rightarrow> nroute option \<Rightarrow> ('k, 'b, 'p, unit) act" where
  "restore_route ops orig added s =
     (case orig of
        Some r \<Rightarrow>
          if nr_Gw r \<noteq> [] then on_kernel (nl_RouteReplace (op_netlink ops) r) s
          else (case added of
              None \<Rightarrow> (Inr (), s)
            | Some a \<Rightarrow> (case on_kernel (nl_RouteDel (op_netlink ops) a) s of
                  (Inl e, s) \<Rightarrow> if errors_is e ESRCH then (Inr (), s) else (Inl e, s)
                | (Inr u, s) \<Rightarrow> (Inr (), s)))
      | None \<Rightarrow> (case added of
            None \<Rightarrow> (Inr (), s)
          | Some a \<Rightarrow> (case on_kernel (nl_RouteDel (op_netlink ops) a) s of
                (Inl e, s) \<Rightarrow> if errors_is e ESRCH then (Inr (), s) else (Inl e, s)
              | (Inr u, s) \<Rightarrow> (Inr (), s))))"

definition roll_back ::
  "('k, 'b, 'p) ops \<Rightarrow> link \<Rightarrow> ipnet \<Rightarrow> bool \<Rightarrow> ipnet list \<Rightarrow> nroute option \<Rightarrow> nroute option \<Rightarrow> ('k, 'b, 'p, unit) act" where
  "roll_back ops l a exists orig origRoute added s =
     try_io (if exists then (Inr (), s) else on_kernel (nl_AddrDel (op_netlink ops) l (plain_addr a)) s) (\<lambda>_ s.
     try_io (replace_all ops l (map (\<lambda>n. Some (plain_addr n)) orig) s) (\<lambda>_ s.
     try_io (restore_route ops origRoute added s) (\<lambda>_ s. (Inl lost_internet, s))))"

definition verify_gateway ::
  "('k, 'b, 'p) ops \<Rightarrow> ip \<Rightarrow> (('k, 'b, 'p) host \<Rightarrow> unit result \<times> ('k, 'b, 'p) host) \<Rightarrow> ('k, 'b, 'p, unit) act" where
  "verify_gateway ops gateway rollback s =
     (if skipConnectivityCheck (ho_options s) then (Inr (), s)
      else case ping ops gateway s of (_, s) \<Rightarrow>
        (case internet ops s of (True, s) \<Rightarrow> (Inr (), s) | (False, s) \<Rightarrow> rollback s))"

text \<open>Everything between raising the link and persisting.\<close>

definition change_running ::
  "('k, 'b, 'p) ops \<Rightarrow> link \<Rightarrow> ipnet \<Rightarrow> ip \<Rightarrow> ('k, 'b, 'p, ipnet list \<times> ip \<times> ip) act" where
  "change_running ops l a gateway s =
     (let family = family_of (net_ip a); zeroIP = zero_of (net_ip a) in
      try_io (on_kernel (nl_AddrList (op_netlink ops) l FAMILY_ALL) s) (\<lambda>addrs s.
      try_io (scan_addresses ops l a addrs s) (\<lambda>(exists, addresses, orig) s.
      try_io (add_new_address ops l a exists addresses s) (\<lambda>addresses s.
      try_io (on_kernel (nl_RouteList (op_netlink ops) l FAMILY_ALL) s) (\<lambda>routes s.
      try_io (scan_routes ops family zeroIP routes (start_gateways gateway) s) (\<lambda>g s.
      let gateway = (if ip_equal (gw_gateway g) zeroIP then [] else gw_gateway g) in
      if gateway = [] then (Inr (addresses, gw_4 g, gw_6 g), s)
      else try_io (add_gateway ops family l gateway g s) (\<lambda>(g, added) s.
        try_io (verify_gateway ops gateway (roll_back ops l a exists orig (gw_orig g) added) s) (\<lambda>_ s.
        (Inr (addresses, gw_4 g, gw_6 g), s)))))))))"

definition put_link_down :: "('k, 'b, 'p) ops \<Rightarrow> string \<Rightarrow> link \<Rightarrow> ('k, 'b, 'p) host \<Rightarrow> ('k, 'b, 'p) host" where
  "put_link_down ops iface l s = (case on_kernel (nl_LinkSetDown (op_netlink ops) l) s of
       (Inl e, s) \<Rightarrow> log_lines [''failed to return interface '' @ iface @ '' to down: '' @ error_text e] s
     | (Inr u, s) \<Rightarrow> s)"

definition AddAddress :: "('k, 'b, 'p) ops \<Rightarrow> string \<Rightarrow> ipnet \<Rightarrow> ip \<Rightarrow> ('k, 'b, 'p, unit) act" where
  "AddAddress ops iface a gateway s =
     try_io (open_link ops iface s) (\<lambda>l s.
     if \<not> gateway_ok a gateway then (Inl (Errorf ''provided gateway is not reachable from network''), s)
     else try_io (ensureLinkUp ops l s) (\<lambda>broughtUp s.
     case change_running ops l a gateway s of
       (Inl e, s) \<Rightarrow> (Inl e, if broughtUp then put_link_down ops iface l s else s)
     | (Inr (addresses, gateway4, gateway6), s) \<Rightarrow>
         (Inr (), on_panels (reloadPanels (op_panel ops))
            (persist_addresses ops iface addresses gateway4 gateway6 s))))"

section \<open>SetPrimaryAddress\<close>

definition same_family :: "family \<Rightarrow> ip \<Rightarrow> bool" where
  "same_family family a \<longleftrightarrow> (family = FAMILY_V4) = (To4 a \<noteq> [])"

definition address_is :: "ip \<Rightarrow> addr \<Rightarrow> bool" where
  "address_is a x \<longleftrightarrow> ip_equal (net_ip (ad_IPNet x)) a"

definition family_addrs :: "family \<Rightarrow> addr list \<Rightarrow> addr list" where
  "family_addrs family addrs =
     filter (\<lambda>x. not_link_local x \<and> same_family family (net_ip (ad_IPNet x))) addrs"

text \<open>The first default route of each family; \<open>gw_orig\<close> is the one of the family asked about.\<close>

fun first_defaults :: "family \<Rightarrow> nroute list \<Rightarrow> gateways \<Rightarrow> gateways" where
  "first_defaults family [] g = g"
| "first_defaults family (r # rs) g =
     (if route_ones r \<noteq> 0 \<or> \<not> (nr_Family r = FAMILY_V4 \<and> \<not> gw_seen4 g
          \<or> nr_Family r = FAMILY_V6 \<and> \<not> gw_seen6 g)
      then first_defaults family rs g
      else let g = capture r g;
               g = (if nr_Family r = family then g\<lparr>gw_orig := Some r\<rparr> else g)
           in if gw_seen4 g \<and> gw_seen6 g then g else first_defaults family rs g)"

fun drop_first :: "('a \<Rightarrow> bool) \<Rightarrow> 'a list \<Rightarrow> 'a list" where
  "drop_first P [] = []"
| "drop_first P (x # xs) = (if P x then xs else x # drop_first P xs)"

text \<open>The target is the zero address when it is not among the family's addresses.\<close>

definition desired_order :: "ip \<Rightarrow> addr list \<Rightarrow> addr option list" where
  "desired_order a fam = List.find (address_is a) fam # map Some (drop_first (address_is a) fam)"

fun delete_all :: "('k, 'b, 'p) ops \<Rightarrow> link \<Rightarrow> addr list \<Rightarrow> ('k, 'b, 'p, unit) act" where
  "delete_all ops l [] s = (Inr (), s)"
| "delete_all ops l (a # as) s =
     try_io (on_kernel (nl_AddrDel (op_netlink ops) l a) s) (\<lambda>_ s. delete_all ops l as s)"

definition restore_default ::
  "('k, 'b, 'p) ops \<Rightarrow> link \<Rightarrow> family \<Rightarrow> nroute option \<Rightarrow> ('k, 'b, 'p, unit) act" where
  "restore_default ops l family familyRoute s = (case familyRoute of
       None \<Rightarrow> (Inr (), s)
     | Some r \<Rightarrow>
         try_io (on_kernel (nl_RouteList (op_netlink ops) l family) s) (\<lambda>cur s.
         if list_ex (\<lambda>q. route_ones q = 0 \<and> ip_equal (nr_Gw q) (nr_Gw r)) cur then (Inr (), s)
         else on_kernel (nl_RouteReplace (op_netlink ops) r) s))"

definition reapply ::
  "('k, 'b, 'p) ops \<Rightarrow> link \<Rightarrow> family \<Rightarrow> addr list \<Rightarrow> nroute option \<Rightarrow> addr option list \<Rightarrow> ('k, 'b, 'p, unit) act" where
  "reapply ops l family fam familyRoute order s =
     try_io (delete_all ops l fam s) (\<lambda>_ s.
     try_io (replace_all ops l order s) (\<lambda>_ s.
     restore_default ops l family familyRoute s))"

definition verify_primary ::
  "('k, 'b, 'p) ops \<Rightarrow> link \<Rightarrow> family \<Rightarrow> addr list \<Rightarrow> nroute option \<Rightarrow> ('k, 'b, 'p, unit) act" where
  "verify_primary ops l family fam familyRoute s =
     (if skipConnectivityCheck (ho_options s) then (Inr (), s)
      else case familyRoute of
          None \<Rightarrow> (Inr (), s)
        | Some r \<Rightarrow>
            if nr_Gw r = [] then (Inr (), s)
            else (case ping ops (nr_Gw r) s of (_, s) \<Rightarrow> (case internet ops s of
                (True, s) \<Rightarrow> (Inr (), s)
              | (False, s) \<Rightarrow>
                  try_io (reapply ops l family fam familyRoute (map Some fam) s) (\<lambda>_ s. (Inl lost_internet, s)))))"

definition persist_primary ::
  "('k, 'b, 'p) ops \<Rightarrow> string \<Rightarrow> ipnet \<Rightarrow> ipnet list \<Rightarrow> gateways \<Rightarrow> ('k, 'b, 'p, unit) act" where
  "persist_primary ops iface a addresses g s =
     (Inr (), on_panels (\<lambda>ps. setMainIPOnPanels (op_panel ops) ps (net_ip a))
       (on_panels (reloadPanels (op_panel ops))
         (persist_addresses ops iface (fst (reorderPrimaryAddress addresses a)) (gw_4 g) (gw_6 g) s)))"

definition SetPrimaryAddress :: "('k, 'b, 'p) ops \<Rightarrow> string \<Rightarrow> ipnet \<Rightarrow> ('k, 'b, 'p, unit) act" where
  "SetPrimaryAddress ops iface a s =
     try_io (open_link ops iface s) (\<lambda>l s.
     let family = family_of (net_ip a) in
     try_io (on_kernel (nl_AddrList (op_netlink ops) l FAMILY_ALL) s) (\<lambda>addrs s.
     let addresses = map ad_IPNet (filter not_link_local addrs); fam = family_addrs family addrs in
     if \<not> list_ex (address_is (net_ip a)) addrs then (Inl (Errorf ''address not found on interface''), s)
     else try_io (on_kernel (nl_RouteList (op_netlink ops) l FAMILY_ALL) s) (\<lambda>routes s.
     let g = first_defaults family routes (start_gateways []) in
     if fam \<noteq> [] \<and> address_is (net_ip a) (hd fam) then persist_primary ops iface a addresses g s
     else try_io (reapply ops l family fam (gw_orig g) (desired_order (net_ip a) fam) s) (\<lambda>_ s.
       try_io (verify_primary ops l family fam (gw_orig g) s) (\<lambda>_ s.
       persist_primary ops iface a addresses g s)))))"

section \<open>RemoveAddress\<close>

definition primary_of :: "family \<Rightarrow> addr list \<Rightarrow> ip" where
  "primary_of family addrs = (case family_addrs family addrs of [] \<Rightarrow> [] | x # xs \<Rightarrow> net_ip (ad_IPNet x))"

definition reaches_gateway :: "ip \<Rightarrow> ip \<Rightarrow> addr list \<Rightarrow> bool" where
  "reaches_gateway gw a addrs \<longleftrightarrow> list_ex (\<lambda>x. \<not> address_is a x \<and> gw \<noteq> []
     \<and> (net_contains (ad_IPNet x) gw \<or> is_link_local_unicast gw)) addrs"

definition route_gateway :: "nroute option \<Rightarrow> ip" where
  "route_gateway r = (case r of None \<Rightarrow> [] | Some r \<Rightarrow> nr_Gw r)"

definition remove_and_verify ::
  "('k, 'b, 'p) ops \<Rightarrow> link \<Rightarrow> ip \<Rightarrow> ip \<Rightarrow> addr \<Rightarrow> ('k, 'b, 'p, unit) act" where
  "remove_and_verify ops l a gw x s =
     try_io (on_kernel (nl_AddrDel (op_netlink ops) l x) s) (\<lambda>_ s.
     if skipConnectivityCheck (ho_options s) then (Inr (), s)
     else case internet ops (if gw \<noteq> [] then snd (ping ops gw s) else s) of
         (True, s) \<Rightarrow> (Inr (), s)
       | (False, s) \<Rightarrow>
           try_io (on_kernel (nl_AddrReplace (op_netlink ops) l (Some x)) s) (\<lambda>_ s.
           (Inl (Errorf (''removing address '' @ ip_string a @ '' broke internet connectivity; address restored'')), s)))"

definition refuse_primary :: "ip \<Rightarrow> goerror" where
  "refuse_primary a = Errorf (''refusing to remove primary address '' @ ip_string a
     @ ''; promote another address first or enable WithAllowPrimaryRemoval'')"

definition no_way_to_gateway :: goerror where
  "no_way_to_gateway = Errorf ''unable to reach gateway after removing address.''"

definition RemoveAddress :: "('k, 'b, 'p) ops \<Rightarrow> string \<Rightarrow> ipnet \<Rightarrow> ('k, 'b, 'p, unit) act" where
  "RemoveAddress ops iface a s =
     try_io (open_link ops iface s) (\<lambda>l s.
     let family = family_of (net_ip a) in
     try_io (on_kernel (nl_RouteList (op_netlink ops) l FAMILY_ALL) s) (\<lambda>routes s.
     let g = first_defaults family routes (start_gateways []); gw = route_gateway (gw_orig g) in
     try_io (on_kernel (nl_AddrList (op_netlink ops) l FAMILY_ALL) s) (\<lambda>addrs s.
     let primary = primary_of family addrs;
         addresses = map ad_IPNet (filter (\<lambda>x. \<not> address_is (net_ip a) x \<and> not_link_local x) addrs) in
     if primary \<noteq> [] \<and> ip_equal primary (net_ip a) \<and> \<not> allowPrimaryRemoval (ho_options s)
     then (Inl (refuse_primary (net_ip a)), s)
     else if gw \<noteq> [] \<and> \<not> reaches_gateway gw (net_ip a) addrs then (Inl no_way_to_gateway, s)
     else try_io (case find_last (address_is (net_ip a)) addrs of
           None \<Rightarrow> (Inr (), s)
         | Some x \<Rightarrow> remove_and_verify ops l (net_ip a) gw x s) (\<lambda>_ s.
       (Inr (), persist_addresses ops iface addresses (gw_4 g) (gw_6 g)
          (on_panels (\<lambda>ps. removeIPFromPanels (op_panel ops) ps (net_ip a)) s))))))"

section \<open>Routes\<close>

definition persist_routes ::
  "('k, 'b, 'p) ops \<Rightarrow> string \<Rightarrow> Route list \<Rightarrow> ('k, 'b, 'p) host \<Rightarrow> ('k, 'b, 'p) host" where
  "persist_routes ops iface routes s =
     (case applyIfaceRoutes (op_iface ops) (ho_ifaceBackends s) iface routes (ho_world s) of
        (bs, w) \<Rightarrow> s\<lparr>ho_ifaceBackends := bs, ho_world := w\<rparr>)"

definition covers_own :: "ipnet \<Rightarrow> addr list \<Rightarrow> bool" where
  "covers_own dst addrs \<longleftrightarrow> mask_ones (net_mask dst) \<noteq> 0
     \<and> list_ex (\<lambda>x. net_contains dst (net_ip (ad_IPNet x))) addrs"

definition is_static :: "addr list \<Rightarrow> nroute \<Rightarrow> bool" where
  "is_static addrs r \<longleftrightarrow> route_ones r \<noteq> 0 \<and> \<not> own_network addrs r"

definition new_route :: "link \<Rightarrow> ipnet \<Rightarrow> ip \<Rightarrow> int \<Rightarrow> nroute" where
  "new_route l dst gateway metric = \<lparr>nr_Family = family_of (net_ip dst), nr_LinkIndex = lk_index l,
     nr_Dst = dst, nr_Gw = gateway, nr_Priority = metric, nr_attrs = 0\<rparr>"

definition AddRoute :: "('k, 'b, 'p) ops \<Rightarrow> string \<Rightarrow> ipnet \<Rightarrow> ip \<Rightarrow> int \<Rightarrow> ('k, 'b, 'p, unit) act" where
  "AddRoute ops iface dst gateway metric s =
     try_io (open_link ops iface s) (\<lambda>l s.
     try_io (on_kernel (nl_AddrList (op_netlink ops) l FAMILY_ALL) s) (\<lambda>addrs s.
     if covers_own dst addrs
     then (Inl (Errorf ''cannot add routes that contains an address on the interface''), s)
     else try_io (on_kernel (nl_RouteAdd (op_netlink ops) (new_route l dst gateway metric)) s) (\<lambda>_ s.
       try_io (on_kernel (nl_RouteList (op_netlink ops) l FAMILY_ALL) s) (\<lambda>routes s.
       (Inr (), persist_routes ops iface (map static_route (filter (is_static addrs) routes)) s)))))"

definition route_matches :: "ipnet \<Rightarrow> ip \<Rightarrow> nroute \<Rightarrow> bool" where
  "route_matches dst gateway r \<longleftrightarrow> net_contains (nr_Dst r) (net_ip dst)
     \<and> net_mask (nr_Dst r) = net_mask dst \<and> ip_equal (nr_Gw r) gateway"

fun delete_matching ::
  "('k, 'b, 'p) ops \<Rightarrow> addr list \<Rightarrow> ipnet \<Rightarrow> ip \<Rightarrow> nroute list \<Rightarrow> ('k, 'b, 'p, Route list) act" where
  "delete_matching ops addrs dst gateway [] s = (Inr [], s)"
| "delete_matching ops addrs dst gateway (r # rs) s =
     (if \<not> is_static addrs r then delete_matching ops addrs dst gateway rs s
      else if route_matches dst gateway r then
        try_io (on_kernel (nl_RouteDel (op_netlink ops) r) s) (\<lambda>_ s.
        delete_matching ops addrs dst gateway rs s)
      else try_io (delete_matching ops addrs dst gateway rs s) (\<lambda>kept s. (Inr (static_route r # kept), s)))"

definition RemoveRoute :: "('k, 'b, 'p) ops \<Rightarrow> string \<Rightarrow> ipnet \<Rightarrow> ip \<Rightarrow> ('k, 'b, 'p, unit) act" where
  "RemoveRoute ops iface dst gateway s =
     try_io (open_link ops iface s) (\<lambda>l s.
     try_io (on_kernel (nl_AddrList (op_netlink ops) l FAMILY_ALL) s) (\<lambda>addrs s.
     if covers_own dst addrs
     then (Inl (Errorf ''cannot remove routes that contains an address on the interface''), s)
     else try_io (on_kernel (nl_RouteList (op_netlink ops) l FAMILY_ALL) s) (\<lambda>routes s.
       try_io (delete_matching ops addrs dst gateway routes s) (\<lambda>kept s.
       (Inr (), persist_routes ops iface kept s)))))"

section \<open>DNS and DHCP\<close>

definition SetDNS ::
  "('k, 'b, 'p) ops \<Rightarrow> string \<Rightarrow> ip list \<Rightarrow> string list \<Rightarrow> ('k, 'b, 'p, unit) act" where
  "SetDNS ops iface servers searchDomains s =
     (case applyIfaceDNS (op_iface ops) (ho_ifaceBackends s) iface servers searchDomains (ho_world s) of
        (bs, w) \<Rightarrow> (Inr (), s\<lparr>ho_ifaceBackends := bs, ho_world := applyLiveDNS iface servers searchDomains w\<rparr>))"

definition SetDHCP :: "('k, 'b, 'p) ops \<Rightarrow> string \<Rightarrow> bool \<Rightarrow> bool \<Rightarrow> ('k, 'b, 'p, unit) act" where
  "SetDHCP ops iface dhcp4 dhcp6 s =
     (case applyIfaceDHCP (op_iface ops) (ho_ifaceBackends s) iface dhcp4 dhcp6 (ho_world s) of
        (False, bs, w) \<Rightarrow> (Inl (Errorf (''no backend accepted a DHCP change for '' @ iface)),
           s\<lparr>ho_ifaceBackends := bs, ho_world := w\<rparr>)
      | (True, bs, w) \<Rightarrow>
          (case (if dhcp4 \<or> dhcp6 then renewDHCPOnBackends (op_iface ops) bs iface w else (bs, w)) of
             (bs, w) \<Rightarrow> (Inr (), s\<lparr>ho_ifaceBackends := bs, ho_world := w\<rparr>)))"

section \<open>NewConfigurator\<close>


text \<open>
  The constructors of the six backends and the three panel objects. A constructor returns a
  backend or nil, and an error or nil.
\<close>

type_synonym 'b constructor = "world \<Rightarrow> ('b option \<times> goerror option) \<times> world"

record 'b constructors =
  newNetworkd :: "int \<Rightarrow> 'b constructor"
  newNetworkManager :: "int \<Rightarrow> 'b constructor"
  newNetworkScripts' :: "int \<Rightarrow> 'b constructor"
  newIfUpDown' :: "int \<Rightarrow> 'b constructor"
  newNetplan :: "int \<Rightarrow> 'b constructor"
  newCloudInit :: "int \<Rightarrow> 'b constructor"

record 'p panels =
  new_cpanel :: 'p
  new_plesk :: 'p
  new_interworx :: 'p

definition ifUpDownDetected :: "initState \<Rightarrow> world \<Rightarrow> bool \<times> world" where
  "ifUpDownDetected s w = (case os_Stat ifUpDownConfig w of
       (Inl e, w) \<Rightarrow> (False, w)
     | (Inr i, w) \<Rightarrow> or_else (detected s ''networking'' w)
         (\<lambda>w. case initSystemDiscoverable w of (d, w) \<Rightarrow> (\<not> d, w)))"

text \<open>A probe that, when it succeeds, constructs the backend and logs the constructor's error.\<close>

definition construct :: "string \<Rightarrow> 'b constructor \<Rightarrow> bool \<times> world \<Rightarrow> 'b option \<times> world" where
  "construct what new d = (case d of
       (False, w) \<Rightarrow> (None, w)
     | (True, w) \<Rightarrow> (case new w of
           ((b, None), w) \<Rightarrow> (b, w)
         | ((b, Some e), w) \<Rightarrow> (b, log_print (what @ '' '' @ error_text e) w)))"

definition register :: "string \<Rightarrow> 'b option \<Rightarrow> 'b named" where
  "register n b = (case b of None \<Rightarrow> [] | Some b \<Rightarrow> [(n, b)])"

definition detect_backends ::
  "systemd_bus \<Rightarrow> 'b constructors \<Rightarrow> configOptions \<Rightarrow> world \<Rightarrow> 'b named \<times> world" where
  "detect_backends bus new options w =
     (let (initSys, w) = newInitState bus w;
          (nd, w) = construct ''error parsing networkd config:'' (newNetworkd new (backupRetention options))
            (detected initSys ''systemd-networkd'' w);
          (nm, w) = construct ''error parsing network manager config:'' (newNetworkManager new (serviceReadyTimeout options))
            (or_else (detected initSys ''NetworkManager'' w) networkManagerRunning);
          (ns, w) = construct ''error parsing network scripts:'' (newNetworkScripts' new (backupRetention options))
            (detected initSys ''network'' w);
          (iud, w) = construct ''error parsing ifupdown:'' (newIfUpDown' new (backupRetention options))
            (ifUpDownDetected initSys w);
          (np, w) = construct ''error parsing netplan:'' (newNetplan new (backupRetention options))
            (commandExists ''netplan'' w);
          (ci, w) = construct ''error parsing cloud-init:'' (newCloudInit new (backupRetention options)) (True, w)
      in (register ''Netplan'' np @ register ''cloud-init'' ci @ register ''NetworkManager'' nm
          @ register ''Networkd'' nd @ register ''NetworkScripts'' ns @ register ''IfUpDown'' iud, w))"

definition detect_panels :: "'p panels \<Rightarrow> world \<Rightarrow> 'p named \<times> world" where
  "detect_panels new w =
     (let (c, w) = path_exists cpanelBin w;
          (p, w) = path_exists pleskBin w;
          (i, w) = path_exists nodeworxBin w
      in ((if c then [(''cPanel'', new_cpanel new)] else []) @ (if p then [(''Plesk'', new_plesk new)] else [])
          @ (if i then [(''Interworx'', new_interworx new)] else []), w))"

definition no_backend :: goerror where
  "no_backend = Errorf ''no network configuration backend detected: address changes would apply to the running system but not survive a reboot (use WithAllowNoBackends to proceed anyway)''"

text \<open>\<open>ctx_err\<close> is what \<open>ctx.Err()\<close> returns once the backends have been probed.\<close>

definition NewConfigurator ::
  "systemd_bus \<Rightarrow> 'b constructors \<Rightarrow> 'p panels \<Rightarrow> goerror option \<Rightarrow> Option option list \<Rightarrow> 'k \<Rightarrow> world
     \<Rightarrow> ('k, 'b, 'p) host result \<times> world" where
  "NewConfigurator bus new pnew ctx_err opts k w =
     (let options = newConfigOptions opts;
          (backends, w) = detect_backends bus new options w
      in if backends = [] \<and> ctx_err \<noteq> None then
           (Inl (Wrap ''backend detection did not complete'' (the ctx_err)), w)
         else if backends = [] \<and> \<not> allowNoBackends options then (Inl no_backend, w)
         else let (panels, w) = detect_panels pnew w in
           (Inr \<lparr>ho_kernel = k, ho_world = w, ho_ifaceBackends = backends,
              ho_panelBackends = panels, ho_options = options\<rparr>, w))"

end
