(* ===== verification/LinuxKernel.thy ===== *)
theory LinuxKernel
  imports LinuxConfigurator
begin

text \<open>
  The laws of rtnetlink that the theorems about \<open>configurator_linux.go\<close> assume, and a
  concrete kernel that keeps them, on which their witnesses are evaluated.
\<close>

section \<open>The laws of the kernel\<close>

text \<open>
  The two things about a link the operation changes: its networks, in order, and the
  default route it has for each family. A failing call reports an errno and changes
  neither. Deleting an address may take the family's default route with it.
\<close>

record 'k view =
  v_nets :: "'k \<Rightarrow> ipnet list"
  v_default :: "'k \<Rightarrow> family \<Rightarrow> nroute option"

definition same_view :: "'k view \<Rightarrow> 'k \<Rightarrow> 'k \<Rightarrow> bool" where
  "same_view v k k' \<longleftrightarrow> v_nets v k' = v_nets v k \<and> v_default v k' = v_default v k"

definition query :: "'k view \<Rightarrow> ('k \<Rightarrow> 'a result \<times> 'k) \<Rightarrow> ('k \<Rightarrow> 'a \<Rightarrow> bool) \<Rightarrow> bool" where
  "query v f P \<longleftrightarrow> (\<forall>k. same_view v k (snd (f k)) \<and> (case fst (f k) of Inl e \<Rightarrow> \<exists>n. e = Errno n | Inr a \<Rightarrow> P k a))"

definition change :: "'k view \<Rightarrow> ('k \<Rightarrow> unit result \<times> 'k) \<Rightarrow> ('k \<Rightarrow> 'k \<Rightarrow> bool) \<Rightarrow> bool" where
  "change v f P \<longleftrightarrow> (\<forall>k. case f k of (Inl e, k') \<Rightarrow> (\<exists>n. e = Errno n) \<and> same_view v k k' | (Inr u, k') \<Rightarrow> P k k')"

definition sets_default :: "'k view \<Rightarrow> nroute \<Rightarrow> nroute option \<Rightarrow> 'k \<Rightarrow> 'k \<Rightarrow> bool" where
  "sets_default v r d k k' \<longleftrightarrow> v_nets v k' = v_nets v k \<and> v_default v k' = (v_default v k)(nr_Family r := d)"

definition first_default :: "family \<Rightarrow> nroute list \<Rightarrow> nroute option" where
  "first_default f routes = List.find (\<lambda>r. route_ones r = 0 \<and> nr_Family r = f) routes"

definition kernel_laws :: "'k netlink \<Rightarrow> link \<Rightarrow> 'k view \<Rightarrow> bool" where
  "kernel_laws nl l v \<longleftrightarrow>
     query v (nl_NewHandle nl) (\<lambda>k u. True)
   \<and> (\<forall>n. query v (nl_LinkByName nl n) (\<lambda>k l'. True))
   \<and> query v (nl_AddrList nl l FAMILY_ALL) (\<lambda>k as. map ad_IPNet as = v_nets v k)
   \<and> query v (nl_RouteList nl l FAMILY_ALL) (\<lambda>k rs. \<forall>f\<in>{FAMILY_V4, FAMILY_V6}. first_default f rs = v_default v k f)
   \<and> (\<forall>k. same_view v k (snd (nl_ping nl k)))
   \<and> (\<forall>a t k. same_view v k (snd (nl_http nl a t k)))
   \<and> (\<forall>x. change v (nl_AddrAdd nl l x) (\<lambda>k k'. v_nets v k' = v_nets v k @ [ad_IPNet x] \<and> v_default v k' = v_default v k))
   \<and> (\<forall>x. change v (nl_AddrReplace nl l (Some x)) (\<lambda>k k'. v_default v k' = v_default v k \<and>
        v_nets v k' = (if ad_IPNet x \<in> set (v_nets v k) then v_nets v k else v_nets v k @ [ad_IPNet x])))
   \<and> (\<forall>x. change v (nl_AddrDel nl l x) (\<lambda>k k'. v_nets v k' = remove1 (ad_IPNet x) (v_nets v k)
        \<and> (\<forall>f. v_default v k' f \<in> {v_default v k f, None})))
   \<and> (\<forall>r. route_ones r = 0 \<longrightarrow>
        change v (nl_RouteAdd nl r) (sets_default v r (Some r))
      \<and> change v (nl_RouteChange nl r) (sets_default v r (Some r))
      \<and> change v (nl_RouteReplace nl r) (sets_default v r (Some r))
      \<and> change v (nl_RouteDel nl r) (sets_default v r None)
      \<and> (\<forall>k. fst (nl_RouteDel nl r k) = Inl (Errno ESRCH) \<longrightarrow> v_default v k (nr_Family r) = None))"

section \<open>A kernel that keeps them\<close>

text \<open>One link with addresses and routes; a default route needs its gateway reachable.\<close>

record bench =
  bk_addrs :: "addr list"
  bk_routes :: "nroute list"

definition bench_link :: link where
  "bench_link = \<lparr>lk_name = ''eth0'', lk_mac = [2, 0, 0, 0, 0, 1], lk_index = 2, lk_operState = OperUp,
     lk_flagUp = True, lk_type = ''device''\<rparr>"

definition default_of :: "family \<Rightarrow> nroute \<Rightarrow> bool" where
  "default_of f r \<longleftrightarrow> route_ones r = 0 \<and> nr_Family r = f"

definition set_route :: "nroute \<Rightarrow> nroute list \<Rightarrow> nroute list" where
  "set_route r rs = filter (\<lambda>q. \<not> default_of (nr_Family r) q) rs @ [r]"

definition bench_netlink :: "bench netlink" where
  "bench_netlink = \<lparr>
     nl_NewHandle = (\<lambda>k. (Inr (), k)),
     nl_LinkList = (\<lambda>k. (Inr [bench_link], k)),
     nl_LinkByName = (\<lambda>n k. (if n = ''eth0'' then Inr bench_link else Inl (Errno ENOENT), k)),
     nl_LinkSetUp = (\<lambda>l k. (Inr (), k)),
     nl_LinkSetDown = (\<lambda>l k. (Inr (), k)),
     nl_AddrList = (\<lambda>l f k. (Inr (bk_addrs k), k)),
     nl_AddrAdd = (\<lambda>l x k. if ad_IPNet x \<in> ad_IPNet ` set (bk_addrs k) then (Inl (Errno EEXIST), k)
        else (Inr (), k\<lparr>bk_addrs := bk_addrs k @ [x]\<rparr>)),
     nl_AddrReplace = (\<lambda>l x k. case x of None \<Rightarrow> (Inl (Errno EIO), k)
       | Some x \<Rightarrow> (Inr (), k\<lparr>bk_addrs := (if ad_IPNet x \<in> ad_IPNet ` set (bk_addrs k)
            then map (\<lambda>y. if ad_IPNet y = ad_IPNet x then x else y) (bk_addrs k) else bk_addrs k @ [x])\<rparr>)),
     nl_AddrDel = (\<lambda>l x k. if ad_IPNet x \<in> ad_IPNet ` set (bk_addrs k)
        then (Inr (), k\<lparr>bk_addrs := drop_first (\<lambda>y. ad_IPNet y = ad_IPNet x) (bk_addrs k)\<rparr>)
        else (Inl (Errno ENOENT), k)),
     nl_RouteList = (\<lambda>l f k. (Inr (bk_routes k), k)),
     nl_RouteAdd = (\<lambda>r k. if list_ex (default_of (nr_Family r)) (bk_routes k) then (Inl (Errno EEXIST), k)
        else (Inr (), k\<lparr>bk_routes := set_route r (bk_routes k)\<rparr>)),
     nl_RouteDel = (\<lambda>r k. if list_ex (default_of (nr_Family r)) (bk_routes k)
        then (Inr (), k\<lparr>bk_routes := filter (\<lambda>q. \<not> default_of (nr_Family r) q) (bk_routes k)\<rparr>)
        else (Inl (Errno ESRCH), k)),
     nl_RouteChange = (\<lambda>r k. (Inr (), k\<lparr>bk_routes := set_route r (bk_routes k)\<rparr>)),
     nl_RouteReplace = (\<lambda>r k. (Inr (), k\<lparr>bk_routes := set_route r (bk_routes k)\<rparr>)),
     nl_ping = (\<lambda>k. (\<lparr>pb_new = (\<lambda>d. True), pb_run = (\<lambda>d n t. Some 0)\<rparr>, k)),
     nl_http = (\<lambda>a t k. (Inr (204, ''204 No Content''), k))\<rparr>"

definition bench_view :: "bench view" where
  "bench_view = \<lparr>v_nets = (\<lambda>k. map ad_IPNet (bk_addrs k)), v_default = (\<lambda>k f. first_default f (bk_routes k))\<rparr>"

lemma first_default_set_route:
  "route_ones r = 0 \<Longrightarrow> first_default f (set_route r rs) = (if f = nr_Family r then Some r else first_default f rs)"
  by (induction rs) (auto simp: set_route_def first_default_def default_of_def)

lemma first_default_removed:
  "first_default f (filter (\<lambda>q. \<not> default_of g q) rs) = (if f = g then None else first_default f rs)"
  by (induction rs) (auto simp: first_default_def default_of_def)

lemma first_default_none: "\<not> list_ex (default_of f) rs \<Longrightarrow> first_default f rs = None"
  by (auto simp: first_default_def default_of_def list_ex_iff find_None_ball)

lemma map_drop_first: "map f (drop_first (\<lambda>y. f y = a) xs) = remove1 a (map f xs)"
  by (induction xs) auto

lemma map_replace: "map ad_IPNet (map (\<lambda>y. if ad_IPNet y = ad_IPNet x then x else y) xs) = map ad_IPNet xs"
  by (induction xs) auto

lemma bench_laws: "kernel_laws bench_netlink bench_link bench_view"
  unfolding kernel_laws_def
  by (intro conjI allI impI)
    (auto simp: query_def change_def same_view_def sets_default_def bench_netlink_def bench_view_def
      map_drop_first map_replace first_default_set_route first_default_removed first_default_none fun_eq_iff
      split: if_splits)

text \<open>A host on the concrete kernel whose connectivity test always fails.\<close>

definition no_panel :: "unit panelBackend" where
  "no_panel = \<lparr>panel_reload = (\<lambda>s. (Inr (), s)), panel_setMainIP = (\<lambda>a s. (Inr (), s)),
     panel_removeIP = (\<lambda>a s. (Inr (), s))\<rparr>"

definition bench_ops :: "(bench, Interface list, unit) ops" where
  "bench_ops = \<lparr>op_netlink = bench_netlink, op_iface = reader_ops, op_panel = no_panel\<rparr>"

definition net24 :: "byte \<Rightarrow> ipnet" where
  "net24 n = \<lparr>net_ip = [192, 0, 2, n], net_mask = [255, 255, 255, 0]\<rparr>"

definition gateway_route :: "ip \<Rightarrow> nroute" where
  "gateway_route gw = default_route FAMILY_V4 bench_link gw"

definition bench_host :: "addr list \<Rightarrow> nroute list \<Rightarrow> (bench, Interface list, unit) host" where
  "bench_host addrs routes = \<lparr>ho_kernel = \<lparr>bk_addrs = addrs, bk_routes = routes\<rparr>, ho_world = mk_world [],
     ho_ifaceBackends = [(''a'', [])], ho_panelBackends = [],
     ho_options = defaultConfigOptions\<lparr>testAddress := ''test_fail''\<rparr>\<rparr>"

definition onlink_start :: "(bench, Interface list, unit) host" where
  "onlink_start = bench_host [plain_addr (net24 10)] [gateway_route []]"

definition gated_start :: "(bench, Interface list, unit) host" where
  "gated_start = bench_host [plain_addr (net24 10)] [gateway_route [192, 0, 2, 1]]"

definition removal_start :: "(bench, Interface list, unit) host" where
  "removal_start = (bench_host [plain_addr (net24 10), plain_addr (net24 20)] [gateway_route [192, 0, 2, 1]])
     \<lparr>ho_options := defaultConfigOptions\<lparr>testAddress := ''test_fail'', allowPrimaryRemoval := True\<rparr>\<rparr>"

end
