(* ===== verification/LinuxLaws.thy ===== *)
theory LinuxLaws
  imports LinuxKernel
begin

text \<open>
  What the operations of \<open>configurator_linux.go\<close> guarantee: the running system is changed
  first and the configuration files only after every check passed, refusals change
  nothing, and a change that breaks connectivity is rolled back.
\<close>

section \<open>Steps that leave files, backends and panels alone\<close>

text \<open>Between \<open>s\<close> and \<open>s'\<close> only the kernel changed and lines were logged.\<close>

definition quiet :: "('k, 'b, 'p) host \<Rightarrow> ('k, 'b, 'p) host \<Rightarrow> bool" where
  "quiet s s' \<longleftrightarrow> ho_ifaceBackends s' = ho_ifaceBackends s \<and> ho_panelBackends s' = ho_panelBackends s
     \<and> ho_options s' = ho_options s \<and> (\<exists>ls. ho_world s' = fold log_print ls (ho_world s))"

named_theorems quiet_intros \<open>operations that are quiet\<close>

lemma quiet_refl [simp]: "quiet s s"
  unfolding quiet_def by (metis fold_simps(1))

lemma quiet_trans: "quiet s t \<Longrightarrow> quiet t u \<Longrightarrow> quiet s u"
  unfolding quiet_def by (metis fold_append o_apply)

lemma quiet_on_kernel [quiet_intros]: "quiet s t \<Longrightarrow> quiet s (snd (on_kernel f t))"
  by (simp add: on_kernel_def quiet_def split: prod.splits)

lemma quiet_log_lines [quiet_intros]: "quiet s t \<Longrightarrow> quiet s (log_lines ls t)"
  unfolding quiet_def log_lines_def on_world_def by (auto, metis fold_append o_apply)

lemma quiet_try [quiet_intros]:
  assumes "quiet s (snd r)" and "\<And>a t. quiet s t \<Longrightarrow> quiet s (snd (f a t))"
  shows "quiet s (snd (try_io r f))"
  using assms by (cases r; cases "fst r") (auto simp: try_io_def)

lemma quiet_split [quiet_intros]:
  assumes "quiet s (snd r)" and "\<And>a t. quiet s t \<Longrightarrow> quiet s (snd (f a t))"
  shows "quiet s (snd (case r of (a, t) \<Rightarrow> f a t))"
  using assms by (cases r) auto

lemma quiet_ping [quiet_intros]: "quiet s t \<Longrightarrow> quiet s (snd (ping ops d t))"
  unfolding ping_def by (rule quiet_split) (simp_all add: quiet_intros)

lemma quiet_internet [quiet_intros]: "quiet s t \<Longrightarrow> quiet s (snd (internet ops t))"
  unfolding internet_def Let_def
  using quiet_on_kernel [of s t "nl_http (op_netlink ops) (testAddress (ho_options t))
    (if connectivityTimeout (ho_options t) \<le> 0 then defaultConnectivityTimeout else connectivityTimeout (ho_options t))"]
  by (auto simp: quiet_log_lines split: prod.splits)

lemma quiet_cases [quiet_intros]:
  "(b \<Longrightarrow> quiet s (snd r1)) \<Longrightarrow> (\<not> b \<Longrightarrow> quiet s (snd r2)) \<Longrightarrow> quiet s (snd (if b then r1 else r2))"
  "(\<And>e. x = Inl e \<Longrightarrow> quiet s (snd (f e))) \<Longrightarrow> (\<And>u. x = Inr u \<Longrightarrow> quiet s (snd (g u)))
     \<Longrightarrow> quiet s (snd (case x of Inl e \<Rightarrow> f e | Inr u \<Rightarrow> g u))"
  "(o' = None \<Longrightarrow> quiet s (snd r1)) \<Longrightarrow> (\<And>y. o' = Some y \<Longrightarrow> quiet s (snd (h y)))
     \<Longrightarrow> quiet s (snd (case o' of None \<Rightarrow> r1 | Some y \<Rightarrow> h y))"
  "(b \<Longrightarrow> quiet s (snd r1)) \<Longrightarrow> (\<not> b \<Longrightarrow> quiet s (snd r2))
     \<Longrightarrow> quiet s (snd (case b of True \<Rightarrow> r1 | False \<Rightarrow> r2))"
  "(\<And>y z. p = (y, z) \<Longrightarrow> quiet s (snd (k y z t))) \<Longrightarrow> quiet s (snd ((case p of (y, z) \<Rightarrow> k y z) t))"
  "quiet s t \<Longrightarrow> quiet s (snd (v, t))"
  by (auto split: sum.splits option.splits bool.splits prod.splits)

text \<open>Rules for the operations whose definitions are not recursive follow from their bodies.\<close>

lemma quiet_ensureLinkUp [quiet_intros]: "quiet s t \<Longrightarrow> quiet s (snd (ensureLinkUp ops l t))"
  unfolding ensureLinkUp_def by (intro quiet_intros)

lemma quiet_open_link [quiet_intros]: "quiet s t \<Longrightarrow> quiet s (snd (open_link ops iface t))"
  unfolding open_link_def by (intro quiet_intros)

lemma quiet_scan_addresses [quiet_intros]: "quiet s t \<Longrightarrow> quiet s (snd (scan_addresses ops l a xs t))"
proof (induction xs arbitrary: t)
  case (Cons x xs)
  show ?case
    unfolding scan_addresses.simps Let_def by (intro quiet_intros Cons) simp_all
qed simp

lemma quiet_add_new_address [quiet_intros]: "quiet s t \<Longrightarrow> quiet s (snd (add_new_address ops l a ex as t))"
  unfolding add_new_address_def by (intro quiet_intros)

lemma quiet_change_default [quiet_intros]: "quiet s t \<Longrightarrow> quiet s (snd (change_default ops z r g t))"
  unfolding change_default_def Let_def by (intro quiet_intros)

lemma quiet_scan_routes [quiet_intros]: "quiet s t \<Longrightarrow> quiet s (snd (scan_routes ops f z rs g t))"
proof (induction rs arbitrary: g t)
  case (Cons r rs)
  show ?case
    unfolding scan_routes.simps Let_def by (intro quiet_intros Cons) simp_all
qed simp

lemma quiet_add_gateway [quiet_intros]: "quiet s t \<Longrightarrow> quiet s (snd (add_gateway ops f l gw g t))"
  unfolding add_gateway_def Let_def by (intro quiet_intros)

lemma quiet_replace_all [quiet_intros]: "quiet s t \<Longrightarrow> quiet s (snd (replace_all ops l as t))"
  by (induction as arbitrary: t) (auto intro!: quiet_try quiet_on_kernel)

lemma quiet_delete_all [quiet_intros]: "quiet s t \<Longrightarrow> quiet s (snd (delete_all ops l as t))"
  by (induction as arbitrary: t) (auto intro!: quiet_try quiet_on_kernel)

lemma quiet_restore_route [quiet_intros]: "quiet s t \<Longrightarrow> quiet s (snd (restore_route ops r a t))"
  unfolding restore_route_def by (intro quiet_intros)

lemma quiet_roll_back [quiet_intros]: "quiet s t \<Longrightarrow> quiet s (snd (roll_back ops l a ex orig r ad t))"
  unfolding roll_back_def by (intro quiet_intros)

lemma quiet_verify_gateway [quiet_intros]:
  "quiet s t \<Longrightarrow> (\<And>t. quiet s t \<Longrightarrow> quiet s (snd (rb t))) \<Longrightarrow> quiet s (snd (verify_gateway ops gw rb t))"
  unfolding verify_gateway_def by (intro quiet_intros)

lemma quiet_change_running [quiet_intros]: "quiet s t \<Longrightarrow> quiet s (snd (change_running ops l a gw t))"
  unfolding change_running_def Let_def by (intro quiet_intros)

lemma quiet_put_link_down: "quiet s t \<Longrightarrow> quiet s (put_link_down ops iface l t)"
  unfolding put_link_down_def
  using quiet_on_kernel [of s t "nl_LinkSetDown (op_netlink ops) l"]
  by (auto split: prod.splits sum.splits intro: quiet_log_lines)

lemma quiet_restore_default [quiet_intros]: "quiet s t \<Longrightarrow> quiet s (snd (restore_default ops l f r t))"
  unfolding restore_default_def by (intro quiet_intros)

lemma quiet_reapply [quiet_intros]: "quiet s t \<Longrightarrow> quiet s (snd (reapply ops l f fam r order t))"
  unfolding reapply_def by (intro quiet_intros)

lemma quiet_verify_primary [quiet_intros]: "quiet s t \<Longrightarrow> quiet s (snd (verify_primary ops l f fam r t))"
  unfolding verify_primary_def by (intro quiet_intros)

lemma quiet_remove_and_verify [quiet_intros]:
  assumes "quiet s t" shows "quiet s (snd (remove_and_verify ops l a gw x t))"
proof -
  have "quiet s u \<Longrightarrow> quiet s (if gw \<noteq> [] then snd (ping ops gw u) else u)" for u
    by (simp add: quiet_ping)
  then show ?thesis unfolding remove_and_verify_def by (intro quiet_intros assms)
qed

lemma quiet_delete_matching [quiet_intros]:
  "quiet s t \<Longrightarrow> quiet s (snd (delete_matching ops addrs dst gw rs t))"
proof (induction rs arbitrary: t)
  case (Cons r rs)
  show ?case unfolding delete_matching.simps by (intro quiet_intros Cons)
qed simp

section \<open>Files are written only after every check passed\<close>

text \<open>
  A failed operation was quiet; a successful one was quiet up to a state from which the
  final state was reached by \<open>F\<close>.
\<close>

definition outcome ::
  "('k, 'b, 'p) host \<Rightarrow> unit result \<times> ('k, 'b, 'p) host \<Rightarrow> (('k, 'b, 'p) host \<Rightarrow> ('k, 'b, 'p) host \<Rightarrow> bool) \<Rightarrow> bool" where
  "outcome s r F \<longleftrightarrow> (case r of (Inl e, s') \<Rightarrow> quiet s s' | (Inr u, s') \<Rightarrow> \<exists>t. quiet s t \<and> F t s')"

lemma outcome_try:
  assumes "quiet s (snd r)" and "\<And>a t. r = (Inr a, t) \<Longrightarrow> quiet s t \<Longrightarrow> outcome s (f a t) F"
  shows "outcome s (try_io r f) F"
  using assms by (cases r; cases "fst r") (auto simp: try_io_def outcome_def)

lemma outcome_if:
  "(b \<Longrightarrow> outcome s r1 F) \<Longrightarrow> (\<not> b \<Longrightarrow> outcome s r2 F) \<Longrightarrow> outcome s (if b then r1 else r2) F"
  by simp

lemma outcome_error: "quiet s t \<Longrightarrow> outcome s (Inl e, t) F"
  by (simp add: outcome_def)

lemma outcome_done: "quiet s t \<Longrightarrow> F t s' \<Longrightarrow> outcome s (Inr u, s') F"
  by (auto simp: outcome_def)

lemmas outcome_intros = outcome_try outcome_if outcome_error

text \<open>The kernel reported these addresses for a link in the course of the operation.\<close>

definition listed :: "('k, 'b, 'p) ops \<Rightarrow> ('k, 'b, 'p) host \<Rightarrow> addr list \<Rightarrow> bool" where
  "listed ops s addrs \<longleftrightarrow> (\<exists>l t t'. quiet s t
     \<and> on_kernel (nl_AddrList (op_netlink ops) l FAMILY_ALL) t = (Inr addrs, t'))"

definition own_nets :: "addr list \<Rightarrow> ipnet list" where
  "own_nets addrs = map ad_IPNet (filter not_link_local addrs)"

text \<open>The list \<open>AddAddress\<close> persists: the address, with its new mask, in its place or at the end.\<close>

definition with_address :: "ipnet \<Rightarrow> addr list \<Rightarrow> ipnet list" where
  "with_address a addrs =
     map (\<lambda>n. if ip_equal (net_ip n) (net_ip a) then n\<lparr>net_mask := net_mask a\<rparr> else n) (own_nets addrs)
     @ (if list_ex (address_is (net_ip a)) addrs then [] else [a])"

lemma scan_addresses_spec:
  "scan_addresses ops l a xs s = (Inr (ex, addresses, orig), t) \<Longrightarrow>
     ex = list_ex (address_is (net_ip a)) xs \<and> orig = own_nets xs
     \<and> addresses = map (\<lambda>n. if ip_equal (net_ip n) (net_ip a) then n\<lparr>net_mask := net_mask a\<rparr> else n) (own_nets xs)"
proof (induction xs arbitrary: s ex addresses orig)
  case Nil
  then show ?case by (simp add: own_nets_def)
next
  case (Cons x xs)
  from Cons.prems obtain u ex' addresses' orig' where rec:
    "scan_addresses ops l a xs u = (Inr (ex', addresses', orig'), t)"
    and eqs: "ex = (address_is (net_ip a) x \<or> ex')"
      "orig = (if not_link_local x then [ad_IPNet x] else []) @ orig'"
      "addresses = (if not_link_local x then [if address_is (net_ip a) x
          then (ad_IPNet x)\<lparr>net_mask := net_mask a\<rparr> else ad_IPNet x] else []) @ addresses'"
    by (force simp: Let_def try_io_Inr_iff address_is_def split: if_splits)
  from Cons.IH [OF rec] eqs show ?case
    by (auto simp: own_nets_def address_is_def)
qed

lemma change_running_spec:
  assumes "change_running ops l a gw s = (Inr (addresses, g4, g6), t)" and "quiet s0 s"
  shows "\<exists>addrs. listed ops s0 addrs \<and> addresses = with_address a addrs"
proof -
  from assms(1) obtain addrs s1 ex as orig s2 where
      l: "on_kernel (nl_AddrList (op_netlink ops) l FAMILY_ALL) s = (Inr addrs, s1)"
    and sc: "scan_addresses ops l a addrs s1 = (Inr (ex, as, orig), s2)"
    and new: "\<exists>s3. add_new_address ops l a ex as s2 = (Inr addresses, s3)"
    unfolding change_running_def
    by (force simp: Let_def try_io_Inr_iff split: if_splits)
  from l assms(2) have "listed ops s0 addrs" unfolding listed_def by blast
  moreover from new have "addresses = as @ (if ex then [] else [a])"
    by (auto simp: add_new_address_def try_io_Inr_iff split: if_splits prod.splits bool.splits)
  ultimately show ?thesis
    using scan_addresses_spec [OF sc] by (auto simp: with_address_def)
qed

definition add_done where
  "add_done ops iface a s0 s s' \<longleftrightarrow> (\<exists>addrs g4 g6. listed ops s0 addrs
     \<and> s' = on_panels (reloadPanels (op_panel ops)) (persist_addresses ops iface (with_address a addrs) g4 g6 s))"

lemma AddAddress_outcome: "outcome s (AddAddress ops iface a gw s) (add_done ops iface a s)"
  unfolding AddAddress_def
proof (rule outcome_try)
  show "quiet s (snd (open_link ops iface s))" by (simp add: quiet_intros)
next
  fix l t assume "quiet s t"
  show "outcome s (if \<not> gateway_ok a gw then (Inl (Errorf ''provided gateway is not reachable from network''), t)
     else try_io (ensureLinkUp ops l t) (\<lambda>broughtUp s.
     case change_running ops l a gw s of
       (Inl e, s) \<Rightarrow> (Inl e, if broughtUp then put_link_down ops iface l s else s)
     | (Inr (addresses, gateway4, gateway6), s) \<Rightarrow>
         (Inr (), on_panels (reloadPanels (op_panel ops))
            (persist_addresses ops iface addresses gateway4 gateway6 s)))) (add_done ops iface a s)"
  proof (intro outcome_intros \<open>quiet s t\<close>)
    show "quiet s (snd (ensureLinkUp ops l t))" using \<open>quiet s t\<close> by (simp add: quiet_intros)
  next
    fix up u assume u: "quiet s u"
    then have q: "quiet s (snd (change_running ops l a gw u))" by (simp add: quiet_intros)
    show "outcome s (case change_running ops l a gw u of
       (Inl e, s) \<Rightarrow> (Inl e, if up then put_link_down ops iface l s else s)
     | (Inr (addresses, gateway4, gateway6), s) \<Rightarrow>
         (Inr (), on_panels (reloadPanels (op_panel ops))
            (persist_addresses ops iface addresses gateway4 gateway6 s))) (add_done ops iface a s)"
      (is "outcome s ?r _")
    proof (cases "change_running ops l a gw u")
      case (Pair r v)
      show ?thesis
      proof (cases r)
        case (Inl e)
        with Pair q show ?thesis by (simp add: outcome_error quiet_put_link_down)
      next
        case (Inr x)
        then obtain as g4 g6 where x: "r = Inr (as, g4, g6)" by (cases x) auto
        obtain addrs where "listed ops s addrs" "as = with_address a addrs"
          using change_running_spec [of ops l a gw u as g4 g6 v s] Pair x u by auto
        then have "add_done ops iface a s v
            (on_panels (reloadPanels (op_panel ops)) (persist_addresses ops iface as g4 g6 v))"
          unfolding add_done_def by blast
        then show ?thesis using Pair x q by (simp add: outcome_done)
      qed
    qed
  qed
qed

definition primary_done where
  "primary_done ops iface a s0 s s' \<longleftrightarrow> (\<exists>addrs g. listed ops s0 addrs
     \<and> list_ex (address_is (net_ip a)) addrs
     \<and> s' = snd (persist_primary ops iface a (own_nets addrs) g s))"

lemma listedI:
  "quiet s0 t \<Longrightarrow> on_kernel (nl_AddrList (op_netlink ops) l FAMILY_ALL) t = (Inr addrs, t') \<Longrightarrow> listed ops s0 addrs"
  unfolding listed_def by blast

lemma outcome_primary:
  assumes "quiet s t" and "listed ops s addrs" and "list_ex (address_is (net_ip a)) addrs"
  shows "outcome s (persist_primary ops iface a (map ad_IPNet (filter not_link_local addrs)) g t) (primary_done ops iface a s)"
proof -
  have "primary_done ops iface a s t (snd (persist_primary ops iface a (own_nets addrs) g t))"
    unfolding primary_done_def using assms by blast
  then show ?thesis
    using assms(1) by (simp add: persist_primary_def own_nets_def outcome_done)
qed

lemma SetPrimaryAddress_outcome: "outcome s (SetPrimaryAddress ops iface a s) (primary_done ops iface a s)"
  unfolding SetPrimaryAddress_def Let_def
  by (intro outcome_intros outcome_primary; (elim listedI)?; simp add: quiet_intros)

definition remove_done where
  "remove_done ops iface a s0 s s' \<longleftrightarrow> (\<exists>addrs g4 g6. listed ops s0 addrs
     \<and> s' = persist_addresses ops iface (filter (\<lambda>n. \<not> ip_equal (net_ip n) (net_ip a)) (own_nets addrs)) g4 g6
         (on_panels (\<lambda>ps. removeIPFromPanels (op_panel ops) ps (net_ip a)) s))"

lemma outcome_remove:
  assumes "quiet s t" and "listed ops s addrs"
  shows "outcome s (Inr (), persist_addresses ops iface
      (map ad_IPNet (filter (\<lambda>x. \<not> address_is (net_ip a) x \<and> not_link_local x) addrs)) g4 g6
      (on_panels (\<lambda>ps. removeIPFromPanels (op_panel ops) ps (net_ip a)) t)) (remove_done ops iface a s)"
proof -
  have "map ad_IPNet (filter (\<lambda>x. \<not> address_is (net_ip a) x \<and> not_link_local x) addrs)
      = filter (\<lambda>n. \<not> ip_equal (net_ip n) (net_ip a)) (own_nets addrs)"
    by (induction addrs) (auto simp: own_nets_def address_is_def)
  then show ?thesis
    using assms by (intro outcome_done [of s t]) (auto simp: remove_done_def)
qed

lemma RemoveAddress_outcome: "outcome s (RemoveAddress ops iface a s) (remove_done ops iface a s)"
  unfolding RemoveAddress_def Let_def
  by (intro outcome_intros outcome_remove; (elim listedI)?; simp add: quiet_intros split: option.splits)

definition routes_done where
  "routes_done ops iface s s' \<longleftrightarrow> (\<exists>addrs rs. s' = persist_routes ops iface (map static_route (filter (is_static addrs) rs)) s)"

lemma AddRoute_outcome: "outcome s (AddRoute ops iface dst gw m s) (routes_done ops iface)"
  unfolding AddRoute_def
  by (intro outcome_intros outcome_done; (simp add: quiet_intros)?; unfold routes_done_def; blast)

lemma delete_matching_spec:
  "delete_matching ops addrs dst gw rs s = (Inr kept, t) \<Longrightarrow>
     kept = map static_route (filter (is_static addrs) (filter (\<lambda>r. \<not> route_matches dst gw r) rs))"
  by (induction rs arbitrary: s kept) (auto simp: try_io_Inr_iff split: if_splits)

lemma RemoveRoute_outcome: "outcome s (RemoveRoute ops iface dst gw s) (routes_done ops iface)"
  unfolding RemoveRoute_def
  by (intro outcome_intros outcome_done; (simp add: quiet_intros)?)
    (auto dest: delete_matching_spec simp: routes_done_def)


section \<open>What the kernel answers\<close>

text \<open>The kernel's answers to the queries an operation starts with; asking changes nothing.\<close>

definition answers ::
  "'k netlink \<Rightarrow> 'k \<Rightarrow> string \<Rightarrow> link \<Rightarrow> addr list \<Rightarrow> nroute list \<Rightarrow> bool" where
  "answers nl k iface l addrs routes \<longleftrightarrow> nl_NewHandle nl k = (Inr (), k)
     \<and> nl_LinkByName nl iface k = (Inr l, k)
     \<and> nl_AddrList nl l FAMILY_ALL k = (Inr addrs, k)
     \<and> nl_RouteList nl l FAMILY_ALL k = (Inr routes, k)"

lemma answers_query:
  assumes "answers (op_netlink ops) (ho_kernel s) iface l addrs routes"
  shows "open_link ops iface s = (Inr l, s)"
    and "on_kernel (nl_AddrList (op_netlink ops) l FAMILY_ALL) s = (Inr addrs, s)"
    and "on_kernel (nl_RouteList (op_netlink ops) l FAMILY_ALL) s = (Inr routes, s)"
  using assms by (simp_all add: answers_def open_link_def on_kernel_def)

definition family_gateway :: "ip \<Rightarrow> nroute list \<Rightarrow> ip" where
  "family_gateway a routes = route_gateway (gw_orig (first_defaults (family_of a) routes (start_gateways [])))"

text \<open>
  C15. \<open>RemoveAddress\<close> refuses, with its own error and without touching the kernel, the files
  or the panels, to remove the primary address of a family (the first one that is not
  link-local) unless that was allowed, and to remove an address when no other address of
  the interface reaches the family's default gateway.
\<close>

theorem RemoveAddress_refuses:
  assumes "answers (op_netlink ops) (ho_kernel s) iface l addrs routes"
    and "primary = primary_of (family_of (net_ip a)) addrs"
    and "gw = family_gateway (net_ip a) routes"
  shows "(primary \<noteq> [] \<and> ip_equal primary (net_ip a) \<and> \<not> allowPrimaryRemoval (ho_options s) \<longrightarrow>
      RemoveAddress ops iface a s = (Inl (refuse_primary (net_ip a)), s))
    \<and> (\<not> (primary \<noteq> [] \<and> ip_equal primary (net_ip a) \<and> \<not> allowPrimaryRemoval (ho_options s))
        \<and> gw \<noteq> [] \<and> \<not> reaches_gateway gw (net_ip a) addrs \<longrightarrow>
      RemoveAddress ops iface a s = (Inl no_way_to_gateway, s))"
  using assms(2,3) answers_query [OF assms(1)]
  by (simp add: RemoveAddress_def family_gateway_def Let_def)

lemma bench_answers:
  "answers (op_netlink bench_ops) (ho_kernel (bench_host addrs routes)) ''eth0'' bench_link addrs routes"
  by (simp add: answers_def bench_ops_def bench_netlink_def bench_host_def)

lemma RemoveAddress_refuses_witness:
  "RemoveAddress bench_ops ''eth0'' (net24 10) gated_start = (Inl (refuse_primary [192, 0, 2, 10]), gated_start)"
proof -
  have ip: "net_ip (net24 10) = [192, 0, 2, 10]" by (simp add: net24_def)
  have p: "primary_of (family_of (net_ip (net24 10))) [plain_addr (net24 10)] = [192, 0, 2, 10]" by code_simp
  have o: "\<not> allowPrimaryRemoval (ho_options gated_start)" by code_simp
  show ?thesis
    using RemoveAddress_refuses [OF bench_answers [of "[plain_addr (net24 10)]" "[gateway_route [192, 0, 2, 1]]",
      folded gated_start_def] refl refl, of "net24 10"] p o ip by simp
qed

text \<open>
  \<open>RemoveRoute\<close> of a default route succeeds without asking the kernel to remove
  anything: the loop skips every route with a zero-length prefix, so the exemption the
  guard makes for default routes has no effect, and the static routes are persisted as
  they are.
\<close>

theorem RemoveRoute_default_is_noop:
  assumes "answers (op_netlink ops) (ho_kernel s) iface l addrs routes"
    and "mask_ones (net_mask dst) = 0"
  shows "RemoveRoute ops iface dst gw s =
     (Inr (), persist_routes ops iface (map static_route (filter (is_static addrs) routes)) s)"
proof -
  have "delete_matching ops addrs dst gw routes s = (Inr (map static_route (filter (is_static addrs) routes)), s)"
  proof (induction routes)
    case (Cons r rs)
    have "route_matches dst gw r \<Longrightarrow> \<not> is_static addrs r"
      using assms(2) by (auto simp: route_matches_def is_static_def route_ones_def)
    with Cons show ?case by auto
  qed simp
  with assms(2) answers_query [OF assms(1)] show ?thesis
    by (simp add: RemoveRoute_def covers_own_def)
qed

lemma RemoveRoute_default_is_noop_witness:
  "fst (RemoveRoute bench_ops ''eth0'' \<lparr>net_ip = [0, 0, 0, 0], net_mask = [0, 0, 0, 0]\<rparr> [192, 0, 2, 1] gated_start) = Inr ()
   \<and> ho_kernel (snd (RemoveRoute bench_ops ''eth0'' \<lparr>net_ip = [0, 0, 0, 0], net_mask = [0, 0, 0, 0]\<rparr> [192, 0, 2, 1] gated_start))
     = ho_kernel gated_start"
proof -
  have m: "mask_ones (net_mask \<lparr>net_ip = [0, 0, 0, 0], net_mask = [0, 0, 0, 0]\<rparr>) = 0" by code_simp
  have k: "ho_kernel (persist_routes ops i rs s) = ho_kernel s" for ops i rs and s :: "(bench, Interface list, unit) host"
    by (simp add: persist_routes_def split: prod.splits)
  show ?thesis
    using RemoveRoute_default_is_noop [OF bench_answers [of "[plain_addr (net24 10)]" "[gateway_route [192, 0, 2, 1]]",
      folded gated_start_def] m, of "[192, 0, 2, 1]"] k by simp
qed

lemma ip_equal_link_local: "ip_equal a b \<Longrightarrow> is_link_local_unicast a = is_link_local_unicast b"
  by (auto simp: ip_equal_def is_link_local_unicast_def is_v4_def To4_def split: if_splits)

text \<open>
  C22. \<open>SetPrimaryAddress\<close> of a link-local address that is present deletes every other
  address of the family and then fails: link-local addresses are not in the list the target
  is looked up in, so the zero address is what it re-adds first.
\<close>

theorem SetPrimaryAddress_link_local:
  assumes "answers (op_netlink ops) (ho_kernel s) iface l addrs routes"
    and "is_link_local_unicast (net_ip a)" and "list_ex (address_is (net_ip a)) addrs"
    and "fam = family_addrs (family_of (net_ip a)) addrs"
    and "\<And>k. nl_AddrReplace (op_netlink ops) l None k = (Inl e, k)"
  shows "SetPrimaryAddress ops iface a s = try_io (delete_all ops l fam s) (\<lambda>u t. (Inl e, t))"
proof -
  have absent: "\<forall>x\<in>set fam. \<not> address_is (net_ip a) x"
    using assms(2,4) by (auto simp: family_addrs_def not_link_local_def address_is_def dest: ip_equal_link_local)
  then have find: "List.find (address_is (net_ip a)) fam = None"
    by (simp add: find_None_ball)
  have first: "\<not> (fam \<noteq> [] \<and> address_is (net_ip a) (hd fam))"
    using absent by (cases fam) auto
  have replace: "replace_all ops l (None # os) t = (Inl e, t)" for os t
    using assms(5) by (simp add: on_kernel_def)
  have "reapply ops l f fam r (desired_order (net_ip a) fam) s = try_io (delete_all ops l fam s) (\<lambda>u t. (Inl e, t))" for f r
    unfolding reapply_def desired_order_def find replace try_io_simps ..
  then have r: "try_io (reapply ops l f fam r (desired_order (net_ip a) fam) s) h
      = try_io (delete_all ops l fam s) (\<lambda>u t. (Inl e, t))" for f r and h :: "unit \<Rightarrow> _"
    by (cases "delete_all ops l fam s"; cases "fst (delete_all ops l fam s)") (auto simp: try_io_def)
  show ?thesis
    unfolding SetPrimaryAddress_def Let_def answers_query [OF assms(1)] try_io_simps assms(4) [symmetric]
    using assms(3) first by (auto simp: r)
qed

definition linklocal_addrs :: "addr list" where
  "linklocal_addrs = [plain_addr (net24 10), plain_addr \<lparr>net_ip = [169, 254, 0, 7], net_mask = [255, 255, 0, 0]\<rparr>]"

lemma SetPrimaryAddress_link_local_witness:
  "fst (SetPrimaryAddress bench_ops ''eth0'' \<lparr>net_ip = [169, 254, 0, 7], net_mask = [255, 255, 0, 0]\<rparr>
      (bench_host linklocal_addrs [])) = Inl (Errno EIO)
   \<and> map ad_IPNet (bk_addrs (ho_kernel (snd (SetPrimaryAddress bench_ops ''eth0''
       \<lparr>net_ip = [169, 254, 0, 7], net_mask = [255, 255, 0, 0]\<rparr> (bench_host linklocal_addrs [])))))
     = [\<lparr>net_ip = [169, 254, 0, 7], net_mask = [255, 255, 0, 0]\<rparr>]"
  (is "fst (SetPrimaryAddress _ _ ?a ?s) = _ \<and> _")
proof -
  have ll: "is_link_local_unicast (net_ip ?a)" "list_ex (address_is (net_ip ?a)) linklocal_addrs" by code_simp+
  have z: "\<And>k. nl_AddrReplace (op_netlink bench_ops) bench_link None k = (Inl (Errno EIO), k)"
    by (simp add: bench_ops_def bench_netlink_def)
  have d: "fst (try_io (delete_all bench_ops bench_link (family_addrs (family_of (net_ip ?a)) linklocal_addrs) ?s)
        (\<lambda>u t. (Inl (Errno EIO) :: unit result, t))) = Inl (Errno EIO)
    \<and> map ad_IPNet (bk_addrs (ho_kernel (snd (try_io (delete_all bench_ops bench_link
        (family_addrs (family_of (net_ip ?a)) linklocal_addrs) ?s) (\<lambda>u t. (Inl (Errno EIO) :: unit result, t)))))) = [?a]"
    by code_simp
  show ?thesis
    using d unfolding SetPrimaryAddress_link_local [OF bench_answers ll(1) ll(2) refl z] .
qed

section \<open>Detection and DHCP\<close>

text \<open>
  \<open>SetDHCP\<close> calls every backend once and fails exactly when none accepted the change.
  Only when it succeeds and a client was enabled does it then ask every backend that can,
  once, to renew the lease; turning clients off asks nothing of the running system. The
  kernel is not touched.
\<close>

theorem SetDHCP_renews_only_when_enabling:
  "\<exists>rs bs w. calls_each (\<lambda>b. Some (SetIfaceDHCP (op_iface ops) iface d4 d6)) error_msg
        (ho_ifaceBackends s) (ho_world s) rs bs w
     \<and> fst (SetDHCP ops iface d4 d6 s) = (if \<exists>r\<in>set rs. succeeded r then Inr ()
         else Inl (Errorf (''no backend accepted a DHCP change for '' @ iface)))
     \<and> (let s' = snd (SetDHCP ops iface d4 d6 s) in
        ho_kernel s' = ho_kernel s \<and> ho_panelBackends s' = ho_panelBackends s \<and>
        (if (\<exists>r\<in>set rs. succeeded r) \<and> (d4 \<or> d6)
         then \<exists>rs'. calls_each (\<lambda>b. map_option (\<lambda>renew. renew iface) (dhcpRenewer (op_iface ops) b))
            (\<lambda>n e. n @ '': error renewing DHCP on '' @ iface @ '': '' @ error_text e) bs w rs'
            (ho_ifaceBackends s') (ho_world s')
         else ho_ifaceBackends s' = bs \<and> ho_world s' = w))"
proof -
  let ?c = "\<lambda>b. Some (SetIfaceDHCP (op_iface ops) iface d4 d6)"
  obtain oks bs w where f: "for_backends ?c error_msg (ho_ifaceBackends s) (ho_world s) = (oks, bs, w)"
    by (cases "for_backends ?c error_msg (ho_ifaceBackends s) (ho_world s)") auto
  then obtain rs where rs: "calls_each ?c error_msg (ho_ifaceBackends s) (ho_world s) rs bs w"
    "oks = map (\<lambda>r. succeeded r) rs"
    using for_backends_calls by metis
  have ok: "list_ex id oks = (\<exists>r\<in>set rs. succeeded r)" by (simp add: rs(2) list_ex_iff)
  obtain bs' w' where r: "renewDHCPOnBackends (op_iface ops) bs iface w = (bs', w')" by fastforce
  then obtain rs' where "calls_each (\<lambda>b. map_option (\<lambda>renew. renew iface) (dhcpRenewer (op_iface ops) b))
      (\<lambda>n e. n @ '': error renewing DHCP on '' @ iface @ '': '' @ error_text e) bs w rs' bs' w'"
    unfolding renewDHCPOnBackends_def for_backends_snd by blast
  then show ?thesis
    using f r rs(1) ok by (intro exI [of _ rs] exI [of _ bs] exI [of _ w])
      (auto simp: SetDHCP_def applyIfaceDHCP_def Let_def)
qed

definition backend_order :: "string list" where
  "backend_order = [''Netplan'', ''cloud-init'', ''NetworkManager'', ''Networkd'', ''NetworkScripts'', ''IfUpDown'']"

lemma register_names: "map fst (register n b) = (if b = None then [] else [n])"
  by (simp add: register_def split: option.splits)

lemma detect_names: "\<exists>P. map fst (fst (detect_backends bus new opts w)) = filter P backend_order"
proof -
  obtain np ci nm nd ns iud where
    e: "fst (detect_backends bus new opts w) = register ''Netplan'' np @ register ''cloud-init'' ci
      @ register ''NetworkManager'' nm @ register ''Networkd'' nd @ register ''NetworkScripts'' ns @ register ''IfUpDown'' iud"
    unfolding detect_backends_def Let_def case_prod_beta fst_conv by blast
  define P where "P = (\<lambda>n. (n = ''Netplan'' \<and> np \<noteq> None) \<or> (n = ''cloud-init'' \<and> ci \<noteq> None)
    \<or> (n = ''NetworkManager'' \<and> nm \<noteq> None) \<or> (n = ''Networkd'' \<and> nd \<noteq> None)
    \<or> (n = ''NetworkScripts'' \<and> ns \<noteq> None) \<or> (n = ''IfUpDown'' \<and> iud \<noteq> None))"
  have "map fst (fst (detect_backends bus new opts w)) = filter P backend_order"
    by (simp add: e register_names backend_order_def P_def)
  then show ?thesis by blast
qed


end
