(* ===== verification/LinuxRollback.thy ===== *)
theory LinuxRollback
  imports LinuxLaws
begin

text \<open>
  \<open>AddAddress\<close> and its rollback against a kernel that keeps the documented laws of
  rtnetlink, and a concrete kernel that keeps them.
\<close>

section \<open>AddAddress on a lawful kernel\<close>

text \<open>The networks and the family's default route, as a pair on the host.\<close>

definition nets :: "'k view \<Rightarrow> ('k, 'b, 'p) host \<Rightarrow> ipnet list" where
  "nets v s = v_nets v (ho_kernel s)"

definition dflt :: "'k view \<Rightarrow> family \<Rightarrow> ('k, 'b, 'p) host \<Rightarrow> nroute option" where
  "dflt v f s = v_default v (ho_kernel s) f"

definition unchanged :: "'k view \<Rightarrow> ('k, 'b, 'p) host \<Rightarrow> ('k, 'b, 'p) host \<Rightarrow> bool" where
  "unchanged v s t \<longleftrightarrow> nets v t = nets v s \<and> (\<forall>f. dflt v f t = dflt v f s)"

lemma unchanged_refl [simp]: "unchanged v s s"
  by (simp add: unchanged_def)

lemma unchanged_trans: "unchanged v s t \<Longrightarrow> unchanged v t u \<Longrightarrow> unchanged v s u"
  by (simp add: unchanged_def)

lemma same_view_unchanged: "same_view v (ho_kernel s) k \<Longrightarrow> unchanged v s (s\<lparr>ho_kernel := k\<rparr>)"
  by (simp add: same_view_def unchanged_def nets_def dflt_def)

lemma query_cases:
  assumes "query v f P" and "on_kernel f s = (r, t)"
  obtains (Error) n where "r = Inl (Errno n)" "unchanged v s t"
  | (Answer) a where "r = Inr a" "P (ho_kernel s) a" "unchanged v s t"
proof -
  obtain r' k where fk: "f (ho_kernel s) = (r', k)" by fastforce
  then have rt: "r = r'" "t = s\<lparr>ho_kernel := k\<rparr>" using assms(2) by (simp_all add: on_kernel_def)
  have same: "same_view v (ho_kernel s) k" and P: "case r' of Inl e \<Rightarrow> \<exists>n. e = Errno n | Inr a \<Rightarrow> P (ho_kernel s) a"
    using assms(1) fk by (metis query_def fst_conv snd_conv)+
  have u: "unchanged v s t" unfolding rt(2) by (rule same_view_unchanged [OF same])
  show ?thesis
  proof (cases r')
    case (Inl e)
    with P obtain n where "e = Errno n" by auto
    with Inl rt(1) u that(1) show ?thesis by simp
  next
    case (Inr a)
    with P rt(1) u that(2) show ?thesis by simp
  qed
qed

lemma change_cases:
  assumes "change v f P" and "on_kernel f s = (r, t)"
  obtains (Error) n where "r = Inl (Errno n)" "unchanged v s t"
  | (Done) "r = Inr ()" "P (ho_kernel s) (ho_kernel t)"
proof -
  obtain r' k where fk: "f (ho_kernel s) = (r', k)" by fastforce
  then have rt: "r = r'" "t = s\<lparr>ho_kernel := k\<rparr>" using assms(2) by (simp_all add: on_kernel_def)
  have P: "case r' of Inl e \<Rightarrow> (\<exists>n. e = Errno n) \<and> same_view v (ho_kernel s) k
      | Inr u \<Rightarrow> P (ho_kernel s) k"
    using spec [OF assms(1) [unfolded change_def], of "ho_kernel s"] fk by simp
  show ?thesis
  proof (cases r')
    case (Inl e)
    with P obtain n where n: "e = Errno n" and same: "same_view v (ho_kernel s) k" by auto
    have "unchanged v s t" unfolding rt(2) by (rule same_view_unchanged [OF same])
    with Inl n rt(1) that(1) show ?thesis by simp
  next
    case (Inr a)
    with P rt that(2) show ?thesis by simp
  qed
qed

lemma law_query:
  assumes "kernel_laws nl l v"
  shows "query v (nl_NewHandle nl) (\<lambda>k u. True)"
    and "query v (nl_LinkByName nl n) (\<lambda>k l'. True)"
    and "query v (nl_AddrList nl l FAMILY_ALL) (\<lambda>k as. map ad_IPNet as = v_nets v k)"
    and "query v (nl_RouteList nl l FAMILY_ALL)
      (\<lambda>k rs. \<forall>f\<in>{FAMILY_V4, FAMILY_V6}. first_default f rs = v_default v k f)"
  using assms unfolding kernel_laws_def by blast+

lemma law_change:
  assumes "kernel_laws nl l v"
  shows "change v (nl_AddrAdd nl l x) (\<lambda>k k'. v_nets v k' = v_nets v k @ [ad_IPNet x] \<and> v_default v k' = v_default v k)"
    and "change v (nl_AddrReplace nl l (Some x)) (\<lambda>k k'. v_default v k' = v_default v k \<and>
        v_nets v k' = (if ad_IPNet x \<in> set (v_nets v k) then v_nets v k else v_nets v k @ [ad_IPNet x]))"
    and "change v (nl_AddrDel nl l x) (\<lambda>k k'. v_nets v k' = remove1 (ad_IPNet x) (v_nets v k)
        \<and> (\<forall>f. v_default v k' f \<in> {v_default v k f, None}))"
  using assms unfolding kernel_laws_def by blast+

lemma law_route:
  assumes "kernel_laws nl l v" and "route_ones r = 0"
  shows "change v (nl_RouteAdd nl r) (sets_default v r (Some r))"
    and "change v (nl_RouteChange nl r) (sets_default v r (Some r))"
    and "change v (nl_RouteReplace nl r) (sets_default v r (Some r))"
    and "change v (nl_RouteDel nl r) (sets_default v r None)"
    and "fst (nl_RouteDel nl r k) = Inl (Errno ESRCH) \<Longrightarrow> v_default v k (nr_Family r) = None"
  using assms unfolding kernel_laws_def by blast+

lemma law_probe:
  assumes "kernel_laws nl l v"
  shows "same_view v k (snd (nl_ping nl k))" and "same_view v k (snd (nl_http nl a d k))"
  using assms unfolding kernel_laws_def by blast+

lemma ping_unchanged: "kernel_laws (op_netlink ops) l v \<Longrightarrow> ping ops d s = (b, t) \<Longrightarrow> unchanged v s t"
  using law_probe(1) [of "op_netlink ops" l v "ho_kernel s"]
  by (auto simp: ping_def on_kernel_def split: prod.splits intro!: same_view_unchanged)

lemma unchanged_log: "unchanged v s t \<Longrightarrow> unchanged v s (log_lines ls t)"
  by (simp add: unchanged_def nets_def dflt_def log_lines_def on_world_def)

lemma internet_unchanged:
  assumes "kernel_laws (op_netlink ops) l v" and "internet ops s = (b, t)"
  shows "unchanged v s t"
proof -
  have "nl_http (op_netlink ops) a d (ho_kernel s) = (r, k) \<Longrightarrow> unchanged v s (s\<lparr>ho_kernel := k\<rparr>)" for a d r k
    using law_probe(2) [OF assms(1)] same_view_unchanged by (metis snd_conv)
  with assms(2) show ?thesis
    by (auto simp: internet_def on_kernel_def Let_def split: prod.splits if_splits intro!: unchanged_log)
qed

text \<open>Without the address among those listed, the first loop asks the kernel nothing.\<close>

lemma scan_absent:
  "\<forall>x\<in>set xs. \<not> ip_equal (net_ip (ad_IPNet x)) (net_ip a) \<Longrightarrow>
     scan_addresses ops l a xs s = (Inr (False, own_nets xs, own_nets xs), s)"
  by (induction xs) (auto simp: own_nets_def)

text \<open>
  The loop over the routes: it reports an errno or, when it gets through, the family's
  default route before the change, and has given it the new gateway.
\<close>

definition changed_default :: "ip \<Rightarrow> ip \<Rightarrow> nroute \<Rightarrow> nroute option" where
  "changed_default z gw r = (if gw = [] then Some r else if ip_equal gw z then None else Some (r\<lparr>nr_Gw := gw\<rparr>))"

definition seen :: "family \<Rightarrow> gateways \<Rightarrow> bool" where
  "seen f g \<longleftrightarrow> (if f = FAMILY_V4 then gw_seen4 g else gw_seen6 g)"

definition gw_of :: "family \<Rightarrow> gateways \<Rightarrow> ip" where
  "gw_of f g = (if f = FAMILY_V4 then gw_4 g else gw_6 g)"

lemma change_default_law:
  assumes "kernel_laws (op_netlink ops) l v" and "route_ones r = 0" and "change_default ops z r g s = (res, t)"
    and "dflt v (nr_Family r) s = Some r"
  shows "(\<exists>n. res = Inl (Errno n)) \<or> (\<exists>r' g'. res = Inr (r', g') \<and> nr_Family r' = nr_Family r
      \<and> gw_orig g' = Some r \<and> gw_4 g' = gw_4 g \<and> gw_6 g' = gw_6 g \<and> gw_seen4 g' = gw_seen4 g \<and> gw_seen6 g' = gw_seen6 g
      \<and> gw_gateway g' = (if gw_gateway g = [] then nr_Gw r else gw_gateway g)
      \<and> nr_Gw r' = (if gw_gateway g = [] then nr_Gw r else if ip_equal (gw_gateway g) z then [] else gw_gateway g)
      \<and> nets v t = nets v s \<and> dflt v (nr_Family r) t = changed_default z (gw_gateway g) r)"
proof -
  have same: "dflt v (nr_Family r) s = Some r" by (rule assms(4))
  show ?thesis
  proof (cases "gw_gateway g = []")
    case True
    with assms(3) same show ?thesis by (auto simp: change_default_def changed_default_def)
  next
    case False
    note gw = False
    have r': "route_ones (r\<lparr>nr_Gw := gw_gateway g\<rparr>) = 0" using assms(2) by (simp add: route_ones_def)
    show ?thesis
    proof (cases "ip_equal (gw_gateway g) z")
      case True
      obtain res' t' where k: "on_kernel (nl_RouteDel (op_netlink ops) r) s = (res', t')" by fastforce
      from law_route(4) [OF assms(1,2)] k show ?thesis
        by (cases rule: change_cases)
          (use assms(3) k gw True in \<open>auto simp: change_default_def changed_default_def sets_default_def nets_def dflt_def\<close>)
    next
      case False
      obtain res' t' where k: "on_kernel (nl_RouteChange (op_netlink ops) (r\<lparr>nr_Gw := gw_gateway g\<rparr>)) s = (res', t')" by fastforce
      from law_route(2) [OF assms(1) r'] k show ?thesis
        by (cases rule: change_cases)
          (use assms(3) k gw False in \<open>auto simp: change_default_def changed_default_def sets_default_def nets_def dflt_def\<close>)
    qed
  qed
qed

lemma capture_other:
  "nr_Family r \<noteq> f \<Longrightarrow> f \<in> {FAMILY_V4, FAMILY_V6} \<Longrightarrow> seen f (capture r g) = seen f g
     \<and> gw_of f (capture r g) = gw_of f g"
  by (auto simp: capture_def seen_def gw_of_def)

lemma capture_orig [simp]: "gw_orig (capture r g) = gw_orig g" "gw_gateway (capture r g) = gw_gateway g"
  by (simp_all add: capture_def)

lemma capture_same:
  "nr_Family r = f \<Longrightarrow> f \<in> {FAMILY_V4, FAMILY_V6} \<Longrightarrow> seen f (capture r g) \<and> gw_of f (capture r g) = nr_Gw r"
  by (auto simp: capture_def seen_def gw_of_def)

lemma scan_routes_seen:
  assumes "f \<in> {FAMILY_V4, FAMILY_V6}" and "seen f g"
  shows "\<exists>g'. scan_routes ops f z rs g s = (Inr g', s) \<and> gw_orig g' = gw_orig g \<and> gw_of f g' = gw_of f g
     \<and> gw_gateway g' = gw_gateway g"
  using assms(2)
proof (induction rs arbitrary: g)
  case (Cons r rs)
  show ?case
  proof (cases "route_ones r \<noteq> 0 \<or> (nr_Family r = FAMILY_V4 \<and> gw_seen4 g) \<or> (nr_Family r = FAMILY_V6 \<and> gw_seen6 g)")
    case True
    with Cons show ?thesis by simp
  next
    case False
    with assms(1) Cons.prems have f: "nr_Family r \<noteq> f" by (auto simp: seen_def)
    with Cons.prems capture_other [OF f assms(1), of g] have "seen f (capture r g)" by simp
    from Cons.IH [OF this] capture_other [OF f assms(1), of g] f False show ?thesis by (auto simp: Let_def)
  qed
qed simp

lemma scan_routes_law:
  assumes laws: "kernel_laws (op_netlink ops) l v" and f: "f \<in> {FAMILY_V4, FAMILY_V6}"
  shows "\<not> seen f g \<Longrightarrow> dflt v f s = first_default f rs \<Longrightarrow>
     scan_routes ops f z rs g s = (res, t) \<Longrightarrow> gw_orig g = None \<Longrightarrow> gw_of f g = [] \<Longrightarrow>
     (\<exists>n. res = Inl (Errno n)) \<or> (\<exists>g'. res = Inr g' \<and> nets v t = nets v s \<and> gw_orig g' = dflt v f s \<and>
       (case dflt v f s of
          None \<Rightarrow> gw_of f g' = [] \<and> gw_gateway g' = gw_gateway g \<and> dflt v f t = None
        | Some r \<Rightarrow> gw_gateway g' = (if gw_gateway g = [] then nr_Gw r else gw_gateway g)
            \<and> gw_of f g' = (if gw_gateway g = [] then nr_Gw r else if ip_equal (gw_gateway g) z then [] else gw_gateway g)))"
proof (induction rs arbitrary: g)
  case Nil
  then show ?case by (auto simp: first_default_def)
next
  case (Cons r rs)
  consider (skip) "route_ones r \<noteq> 0 \<or> (nr_Family r = FAMILY_V4 \<and> gw_seen4 g) \<or> (nr_Family r = FAMILY_V6 \<and> gw_seen6 g)"
    | (other) "\<not> (route_ones r \<noteq> 0 \<or> (nr_Family r = FAMILY_V4 \<and> gw_seen4 g) \<or> (nr_Family r = FAMILY_V6 \<and> gw_seen6 g))"
        "nr_Family r \<noteq> f"
    | (mine) "\<not> (route_ones r \<noteq> 0 \<or> (nr_Family r = FAMILY_V4 \<and> gw_seen4 g) \<or> (nr_Family r = FAMILY_V6 \<and> gw_seen6 g))"
        "nr_Family r = f" by blast
  then show ?case
  proof cases
    case skip
    then have "route_ones r \<noteq> 0 \<or> nr_Family r \<noteq> f" using Cons.prems(1) f by (auto simp: seen_def)
    then have "first_default f (r # rs) = first_default f rs" by (auto simp: first_default_def)
    with Cons skip show ?thesis by simp
  next
    case other
    have fd: "first_default f (r # rs) = first_default f rs" using other(2) by (simp add: first_default_def)
    note c = capture_other [OF other(2) f, of g]
    show ?thesis
    proof (cases "gw_seen4 (capture r g) \<and> gw_seen6 (capture r g)")
      case True
      with c Cons.prems(1) f show ?thesis by (auto simp: seen_def split: if_splits)
    next
      case False
      then have "scan_routes ops f z (r # rs) g s = scan_routes ops f z rs (capture r g) s"
        using other by (auto simp: Let_def)
      then have "scan_routes ops f z rs (capture r g) s = (res, t)" using Cons.prems(3) by simp
      moreover have "\<not> seen f (capture r g)" "dflt v f s = first_default f rs"
        "gw_orig (capture r g) = None" "gw_of f (capture r g) = []"
        using c Cons.prems fd by simp_all
      ultimately show ?thesis using Cons.IH [of "capture r g"] by (simp only: capture_orig simp_thms)
    qed
  next
    case mine
    then have r: "route_ones r = 0" by simp
    have d: "dflt v f s = Some r" using Cons.prems(2) mine r by (simp add: first_default_def)
    obtain res1 u where cd: "change_default ops z r g s = (res1, u)" by fastforce
    from change_default_law [OF laws r cd] d mine(2) consider
        (err) n where "res1 = Inl (Errno n)"
      | (ok) r' g1 where "res1 = Inr (r', g1)" "nr_Family r' = f" "gw_orig g1 = Some r"
          "gw_gateway g1 = (if gw_gateway g = [] then nr_Gw r else gw_gateway g)"
          "nr_Gw r' = (if gw_gateway g = [] then nr_Gw r else if ip_equal (gw_gateway g) z then [] else gw_gateway g)"
          "nets v u = nets v s" by auto
    then show ?thesis
    proof cases
      case err
      then have "scan_routes ops f z (r # rs) g s = (Inl (Errno n), u)" using cd mine by auto
      with Cons.prems(3) show ?thesis by simp
    next
      case ok
      let ?g = "capture r' g1"
      note c = capture_same [OF ok(2) f, of g1]
      have step: "scan_routes ops f z (r # rs) g s =
          (if gw_seen4 ?g \<and> gw_seen6 ?g then (Inr ?g, u) else scan_routes ops f z rs ?g u)"
        using mine cd ok(1) by (auto simp: Let_def)
      obtain g' where "(res, t) = (Inr g', u)" "gw_orig g' = gw_orig ?g" "gw_of f g' = gw_of f ?g" "gw_gateway g' = gw_gateway ?g"
        using step Cons.prems(3) scan_routes_seen [OF f conjunct1 [OF c], of ops z rs u] by (auto split: if_splits)
      with ok c d show ?thesis by auto
    qed
  qed
qed

section \<open>The rollback\<close>

lemma replace_all_present:
  assumes laws: "kernel_laws (op_netlink ops) l v"
  shows "\<forall>n\<in>set ns. n \<in> set (nets v s) \<Longrightarrow> replace_all ops l (map (\<lambda>n. Some (plain_addr n)) ns) s = (res, t) \<Longrightarrow>
     unchanged v s t \<and> (res = Inr () \<or> (\<exists>n. res = Inl (Errno n)))"
proof (induction ns arbitrary: s)
  case (Cons n ns)
  obtain r u where k: "on_kernel (nl_AddrReplace (op_netlink ops) l (Some (plain_addr n))) s = (r, u)" by fastforce
  from law_change(2) [OF laws] k show ?case
  proof (cases rule: change_cases)
    case (Error m)
    with Cons.prems(2) k show ?thesis by auto
  next
    case Done
    then have u: "unchanged v s u"
      using Cons.prems(1) by (simp add: unchanged_def nets_def dflt_def plain_addr_def)
    then have "\<forall>n\<in>set ns. n \<in> set (nets v u)" using Cons.prems(1) by (simp add: unchanged_def)
    with Cons.IH [of u] Cons.prems(2) k Done u show ?thesis by (auto intro: unchanged_trans)
  qed
qed simp

text \<open>What the rollback has to undo: a replaced gateway, or an added default route.\<close>

definition undoable :: "family \<Rightarrow> nroute option \<Rightarrow> nroute option \<Rightarrow> bool" where
  "undoable f orig added \<longleftrightarrow> (case orig of
       Some r \<Rightarrow> route_ones r = 0 \<and> nr_Family r = f \<and> nr_Gw r \<noteq> []
     | None \<Rightarrow> (case added of None \<Rightarrow> False | Some r \<Rightarrow> route_ones r = 0 \<and> nr_Family r = f))"

lemma restore_route_law:
  assumes laws: "kernel_laws (op_netlink ops) l v" and u: "undoable f orig added"
    and r: "restore_route ops orig added s = (res, t)"
  shows "nets v t = nets v s \<and> (res = Inr () \<longrightarrow> dflt v f t = orig) \<and> (res = Inr () \<or> (\<exists>n. res = Inl (Errno n)))"
proof (cases orig)
  case (Some q)
  with u have q: "route_ones q = 0" "nr_Family q = f" "nr_Gw q \<noteq> []" by (simp_all add: undoable_def)
  with Some r have "on_kernel (nl_RouteReplace (op_netlink ops) q) s = (res, t)" by (simp add: restore_route_def)
  with law_route(3) [OF laws q(1)] show ?thesis
    by (cases rule: change_cases) (use q Some in \<open>auto simp: unchanged_def sets_default_def nets_def dflt_def\<close>)
next
  case None
  with u obtain q where q: "added = Some q" "route_ones q = 0" "nr_Family q = f"
    by (auto simp: undoable_def split: option.splits)
  obtain res' t' where k: "on_kernel (nl_RouteDel (op_netlink ops) q) s = (res', t')" by fastforce
  then have fst: "fst (nl_RouteDel (op_netlink ops) q (ho_kernel s)) = res'"
    by (simp add: on_kernel_def split: prod.splits)
  from law_route(4) [OF laws q(2)] k show ?thesis
  proof (cases rule: change_cases)
    case (Error n)
    have "n = ESRCH \<Longrightarrow> dflt v f s = None"
      using law_route(5) [OF laws q(2), of "ho_kernel s"] fst Error q(3) by (simp add: dflt_def)
    with Error r None k q show ?thesis
      by (auto simp: restore_route_def unchanged_def split: if_splits)
  next
    case Done
    with r None k q show ?thesis
      by (auto simp: restore_route_def sets_default_def nets_def dflt_def)
  qed
qed

lemma roll_back_law:
  assumes laws: "kernel_laws (op_netlink ops) l v" and "undoable f orig added"
    and "nets v s = ns @ [a]" and "a \<notin> set ns" and "set own \<subseteq> set ns"
    and rb: "roll_back ops l a False own orig added s = (res, t)"
  shows "(\<exists>n. res = Inl (Errno n)) \<or> res = Inl lost_internet \<and> nets v t = ns \<and> dflt v f t = orig"
proof -
  obtain r1 s1 where k: "on_kernel (nl_AddrDel (op_netlink ops) l (plain_addr a)) s = (r1, s1)" by fastforce
  from law_change(3) [OF laws] k show ?thesis
  proof (cases rule: change_cases)
    case (Error n)
    with rb k show ?thesis by (auto simp: roll_back_def)
  next
    case Done
    then have n1: "nets v s1 = ns"
      using assms(3,4) by (simp add: nets_def plain_addr_def remove1_append)
    obtain r2 s2 where k2: "replace_all ops l (map (\<lambda>n. Some (plain_addr n)) own) s1 = (r2, s2)" by fastforce
    have r2: "unchanged v s1 s2" "r2 = Inr () \<or> (\<exists>n. r2 = Inl (Errno n))"
      using replace_all_present [OF laws _ k2] assms(5) n1 by auto
    obtain r3 s3 where k3: "restore_route ops orig added s2 = (r3, s3)" by fastforce
    note r3 = restore_route_law [OF laws assms(2) k3]
    from r2(2) show ?thesis
    proof
      assume r2': "r2 = Inr ()"
      show ?thesis using rb k k2 k3 Done r2' r2(1) r3 n1 by (auto simp: roll_back_def unchanged_def)
    next
      assume "\<exists>n. r2 = Inl (Errno n)"
      with rb k k2 Done show ?thesis by (auto simp: roll_back_def)
    qed
  qed
qed

lemma lost_internet_plain [simp]:
  "lost_internet \<noteq> Errno n" "lost_internet \<noteq> Wrap x e" "Errno n \<noteq> lost_internet"
  by (simp_all add: lost_internet_def)

lemma family_of_cases: "family_of a \<in> {FAMILY_V4, FAMILY_V6}"
  by (simp add: family_of_def)

lemma gw_of_start [simp]:
  "gw_of f (start_gateways gw) = []" "\<not> seen f (start_gateways gw)"
  "gw_orig (start_gateways gw) = None" "gw_gateway (start_gateways gw) = gw"
  by (simp_all add: start_gateways_def gw_of_def seen_def)

lemma default_route_family [simp]:
  "route_ones (default_route f l gw) = 0" "nr_Family (default_route f l gw) = f"
  by (simp_all add: default_route_def route_ones_def mask_ones_CIDRMask)

text \<open>Adding the gateway, and what it leaves to undo.\<close>

lemma add_gateway_law:
  assumes laws: "kernel_laws (op_netlink ops) l v" and f: "f \<in> {FAMILY_V4, FAMILY_V6}"
    and ag: "add_gateway ops f l gw g s = (res, t)"
  shows "(\<exists>e. res = Inl e \<and> e \<noteq> lost_internet) \<or> (\<exists>g' added. res = Inr (g', added) \<and> nets v t = nets v s
      \<and> gw_orig g' = gw_orig g \<and> (if gw_of f g = [] then added = Some (default_route f l gw) else added = None))"
proof (cases "gw_of f g = []")
  case False
  with f ag show ?thesis by (auto simp: add_gateway_def gw_of_def Let_def split: if_splits)
next
  case True
  obtain r u where k: "on_kernel (nl_RouteAdd (op_netlink ops) (default_route f l gw)) s = (r, u)" by fastforce
  from law_route(1) [OF laws default_route_family(1)] k show ?thesis
    by (cases rule: change_cases)
      (use True f ag k in \<open>auto simp: add_gateway_def gw_of_def Let_def lost_internet_def sets_default_def nets_def\<close>)
qed

lemma verify_gateway_law:
  assumes laws: "kernel_laws (op_netlink ops) l v"
    and vg: "verify_gateway ops gw rb s = (Inl lost_internet, t)"
  shows "\<exists>u. unchanged v s u \<and> rb u = (Inl lost_internet, t)"
proof -
  obtain b s1 where p: "ping ops gw s = (b, s1)" by fastforce
  obtain b' s2 where i: "internet ops s1 = (b', s2)" by fastforce
  have "unchanged v s s2"
    using ping_unchanged [OF laws p] internet_unchanged [OF laws i] by (rule unchanged_trans)
  with vg p i show ?thesis by (auto simp: verify_gateway_def split: if_splits bool.splits)
qed

lemma add_new_address_law:
  assumes laws: "kernel_laws (op_netlink ops) l v" and an: "add_new_address ops l a False as s = (res, t)"
  shows "(\<exists>e. res = Inl e \<and> e \<noteq> lost_internet)
    \<or> (\<exists>as'. res = Inr as' \<and> nets v t = nets v s @ [a] \<and> (\<forall>f. dflt v f t = dflt v f s))"
proof -
  obtain b u where p: "ping ops (net_ip a) s = (b, u)" by fastforce
  note pu = ping_unchanged [OF laws p]
  obtain r w where k: "on_kernel (nl_AddrAdd (op_netlink ops) l (plain_addr a)) u = (r, w)" by fastforce
  show ?thesis
  proof (cases b)
    case True
    with an p show ?thesis by (auto simp: add_new_address_def lost_internet_def)
  next
    case False
    from law_change(1) [OF laws] k show ?thesis
      by (cases rule: change_cases)
        (use False an p k pu in \<open>auto simp: add_new_address_def unchanged_def nets_def dflt_def plain_addr_def\<close>)
  qed
qed

lemma change_running_rolls_back:
  assumes laws: "kernel_laws (op_netlink ops) l v"
    and fresh: "\<forall>n\<in>set (nets v s). \<not> ip_equal (net_ip n) (net_ip a)"
    and gated: "\<forall>r. dflt v (family_of (net_ip a)) s = Some r \<longrightarrow> nr_Gw r \<noteq> []"
    and cr: "change_running ops l a gw s = (Inl lost_internet, t)"
  shows "nets v t = nets v s \<and> dflt v (family_of (net_ip a)) t = dflt v (family_of (net_ip a)) s"
proof -
  let ?f = "family_of (net_ip a)" and ?z = "zero_of (net_ip a)"
  note f = family_of_cases [of "net_ip a"]
  obtain r1 s1 where k1: "on_kernel (nl_AddrList (op_netlink ops) l FAMILY_ALL) s = (r1, s1)" by fastforce
  from law_query(3) [OF laws] k1 obtain addrs where
    addrs: "r1 = Inr addrs" "map ad_IPNet addrs = nets v s" and u1: "unchanged v s s1"
    by (cases rule: query_cases) (use cr k1 in \<open>auto simp: change_running_def nets_def Let_def\<close>)
  have "\<forall>x\<in>set addrs. \<not> ip_equal (net_ip (ad_IPNet x)) (net_ip a)"
    using fresh unfolding addrs(2) [symmetric] by simp
  note scan = scan_absent [OF this, of ops l s1]
  have own: "set (own_nets addrs) \<subseteq> set (nets v s)"
    unfolding addrs(2) [symmetric] by (auto simp: own_nets_def)
  obtain r2 s2 where k2: "add_new_address ops l a False (own_nets addrs) s1 = (r2, s2)" by fastforce
  from add_new_address_law [OF laws k2] cr k1 k2 addrs(1) scan obtain as2 where
    as2: "r2 = Inr as2" and n2: "nets v s2 = nets v s1 @ [a]" and d2: "\<forall>f. dflt v f s2 = dflt v f s1"
    by (auto simp: change_running_def Let_def)
  obtain r3 s3 where k3: "on_kernel (nl_RouteList (op_netlink ops) l FAMILY_ALL) s2 = (r3, s3)" by fastforce
  from law_query(4) [OF laws] k3 obtain routes where
    routes: "r3 = Inr routes" "first_default ?f routes = dflt v ?f s2" and u3: "unchanged v s2 s3"
    by (cases rule: query_cases) (use cr k1 k2 k3 addrs(1) scan as2 f in \<open>auto simp: change_running_def dflt_def Let_def\<close>)
  obtain r4 s4 where k4: "scan_routes ops ?f ?z routes (start_gateways gw) s3 = (r4, s4)" by fastforce
  have d3: "dflt v ?f s3 = first_default ?f routes" using u3 routes(2) by (simp add: unchanged_def)
  have d0: "dflt v ?f s3 = dflt v ?f s" using u1 d2 u3 by (simp add: unchanged_def)
  from scan_routes_law [OF laws f _ d3 k4] cr k1 k2 k3 k4 addrs(1) scan as2 routes(1) obtain g where
    g: "r4 = Inr g" and n4: "nets v s4 = nets v s3" and orig: "gw_orig g = dflt v ?f s3"
    and none: "dflt v ?f s3 = None \<Longrightarrow> gw_of ?f g = []"
    by (auto simp: change_running_def Let_def split: option.splits)
  define G where "G = (if ip_equal (gw_gateway g) ?z then [] else gw_gateway g)"
  have rest: "(if G = [] then (Inr (as2, gw_4 g, gw_6 g), s4)
      else try_io (add_gateway ops ?f l G g s4) (\<lambda>(g, added) s.
        try_io (verify_gateway ops G (roll_back ops l a False (own_nets addrs) (gw_orig g) added) s) (\<lambda>_ s.
        (Inr (as2, gw_4 g, gw_6 g), s)))) = (Inl lost_internet, t)"
    using cr unfolding change_running_def Let_def k1 addrs(1) try_io_simps scan prod.case k2 as2 k3
      routes(1) k4 g G_def [symmetric] .
  then have G: "G \<noteq> []" by (auto split: if_splits)
  obtain r5 s5 where k5: "add_gateway ops ?f l G g s4 = (r5, s5)" by fastforce
  from add_gateway_law [OF laws f k5] rest G k5 obtain g' added where
    added: "r5 = Inr (g', added)" "nets v s5 = nets v s4" "gw_orig g' = gw_orig g"
      "gw_of ?f g = [] \<Longrightarrow> added = Some (default_route ?f l G)"
    by (auto split: if_splits)
  have "verify_gateway ops G (roll_back ops l a False (own_nets addrs) (gw_orig g') added) s5 = (Inl lost_internet, t)"
    using rest G k5 added(1) by (auto simp: try_io_def split: prod.splits sum.splits)
  from verify_gateway_law [OF laws this [unfolded added(3)]] obtain u where
    u: "unchanged v s5 u" "roll_back ops l a False (own_nets addrs) (gw_orig g) added u = (Inl lost_internet, t)" by blast
  have und: "undoable ?f (gw_orig g) added"
  proof (cases "dflt v ?f s3")
    case None
    with none added(4) orig show ?thesis by (simp add: undoable_def)
  next
    case (Some r)
    with d3 have "route_ones r = 0 \<and> nr_Family r = ?f"
      unfolding first_default_def by (metis (mono_tags, lifting) find_Some_iff2)
    with Some gated d0 orig show ?thesis by (simp add: undoable_def)
  qed
  have "nets v u = nets v s @ [a]"
    using u(1) added(2) n4 u3 n2 u1 by (simp add: unchanged_def)
  moreover have "a \<notin> set (nets v s)" using fresh ip_equal_refl by blast
  ultimately show ?thesis
    using roll_back_law [OF laws und _ _ own u(2)] orig d0 by auto
qed



text \<open>
  When the family's default route has no gateway (an on-link route), \<open>AddAddress\<close> gives it
  the requested gateway and, giving up for want of connectivity, does not put it back: the
  rollback restores an original route only if it had a gateway.
\<close>

theorem AddAddress_keeps_gateway_of_onlink_route:
  "fst (AddAddress bench_ops ''eth0'' (net24 20) [192, 0, 2, 254] onlink_start) = Inl lost_internet
   \<and> dflt bench_view FAMILY_V4 onlink_start = Some (gateway_route [])
   \<and> dflt bench_view FAMILY_V4 (snd (AddAddress bench_ops ''eth0'' (net24 20) [192, 0, 2, 254] onlink_start))
       = Some (gateway_route [192, 0, 2, 254])
   \<and> nets bench_view (snd (AddAddress bench_ops ''eth0'' (net24 20) [192, 0, 2, 254] onlink_start))
       = nets bench_view onlink_start"
  by code_simp

section \<open>RemoveAddress on a lawful kernel\<close>

definition removal_restored :: "ip \<Rightarrow> goerror" where
  "removal_restored a = Errorf (''removing address '' @ ip_string a @ '' broke internet connectivity; address restored'')"

lemma removal_restored_plain [simp]:
  "removal_restored a \<noteq> Errno n" "removal_restored a \<noteq> refuse_primary b" "removal_restored a \<noteq> no_way_to_gateway"
  "Errno n \<noteq> removal_restored a" "refuse_primary b \<noteq> removal_restored a" "no_way_to_gateway \<noteq> removal_restored a"
  by (simp_all add: removal_restored_def refuse_primary_def no_way_to_gateway_def)

lemma open_link_law:
  assumes "kernel_laws (op_netlink ops) l v" and "open_link ops iface s = (r, t)"
  shows "unchanged v s t \<and> (case r of Inl e \<Rightarrow> \<exists>n. e = Errno n | Inr l' \<Rightarrow> True)"
proof -
  obtain h s0 where k0: "on_kernel (nl_NewHandle (op_netlink ops)) s = (h, s0)" by fastforce
  from law_query(1) [OF assms(1)] k0 show ?thesis
  proof (cases rule: query_cases)
    case (Error n)
    with assms(2) k0 show ?thesis by (auto simp: open_link_def)
  next
    case (Answer u)
    then have k1: "on_kernel (nl_LinkByName (op_netlink ops) iface) s0 = (r, t)"
      using assms(2) k0 by (simp add: open_link_def)
    from law_query(2) [OF assms(1)] k1 Answer(3) show ?thesis
      by (cases rule: query_cases) (auto intro: unchanged_trans)
  qed
qed

lemma remove_and_verify_law:
  assumes laws: "kernel_laws (op_netlink ops) l v"
    and n: "ad_IPNet x \<in> set (nets v s)" "distinct (nets v s)"
    and rv: "remove_and_verify ops l a gw x s = (Inl (removal_restored a), t)"
  shows "nets v t = remove1 (ad_IPNet x) (nets v s) @ [ad_IPNet x] \<and> (\<forall>f. dflt v f t \<in> {dflt v f s, None})"
proof -
  obtain r1 s1 where k1: "on_kernel (nl_AddrDel (op_netlink ops) l x) s = (r1, s1)" by fastforce
  from law_change(3) [OF laws] k1 have d: "r1 = Inr ()" "nets v s1 = remove1 (ad_IPNet x) (nets v s)"
      "\<forall>f. dflt v f s1 \<in> {dflt v f s, None}"
    by (cases rule: change_cases; use rv k1 in \<open>auto simp: remove_and_verify_def nets_def dflt_def\<close>)+
  obtain b s2 where p: "ping ops gw s1 = (b, s2)" by fastforce
  define s3 where "s3 = (if gw \<noteq> [] then snd (ping ops gw s1) else s1)"
  have u3: "unchanged v s1 s3" using ping_unchanged [OF laws p] p by (simp add: s3_def)
  obtain b' s4 where i: "internet ops s3 = (b', s4)" by fastforce
  note u4 = unchanged_trans [OF u3 internet_unchanged [OF laws i]]
  obtain r5 s5 where k5: "on_kernel (nl_AddrReplace (op_netlink ops) l (Some x)) s4 = (r5, s5)" by fastforce
  have rest: "(if skipConnectivityCheck (ho_options s1) then (Inr (), s1)
      else case internet ops s3 of (True, s) \<Rightarrow> (Inr (), s)
       | (False, s) \<Rightarrow> try_io (on_kernel (nl_AddrReplace (op_netlink ops) l (Some x)) s)
           (\<lambda>_ s. (Inl (removal_restored a), s))) = (Inl (removal_restored a), t)"
    using rv unfolding remove_and_verify_def k1 d(1) try_io_simps s3_def removal_restored_def .
  have t: "r5 = Inr () \<and> t = s5"
    using law_change(2) [OF laws] k5 rest i
    by (cases rule: change_cases) (use k5 in \<open>auto split: if_splits bool.splits\<close>)
  have "ad_IPNet x \<notin> set (nets v s4)" using d(2) u4 n(2) by (simp add: unchanged_def)
  with law_change(2) [OF laws] k5 show ?thesis
    by (cases rule: change_cases) (use t d(2,3) u4 in \<open>auto simp: unchanged_def nets_def dflt_def\<close>)
qed



end
