(* ===== verification/IfUpDown.thy ===== *)
theory IfUpDown
  imports Netlink GoNetRoundtrip
begin

text \<open>
  \<open>ifupdown.go\<close>: the Debian backend over \<open>/etc/network/interfaces\<close> and the files it sources.
  The kernel's link list is a parameter.
\<close>

section \<open>State\<close>

record ifInterface =
  ifc_Name :: string
  ifc_Mode :: string
  ifc_isDHCP :: bool
  ifc_isPPP :: bool
  ifc_Files :: "string list"
  ifc_Addresses :: "ipnet list"
  ifc_Gateway4 :: ip
  ifc_Gateway6 :: ip
  ifc_Routes :: "Route list"
  ifc_Config :: "(string \<times> string list) list"  \<comment> \<open>a map\<close>

record ifUpDown =
  iu_Interfaces :: "ifInterface list"
  iu_BaseConfig :: string
  iu_BackupDir :: string
  iu_backupRetention :: int

section \<open>DHCP\<close>

definition stanzaFamily :: "ifInterface \<Rightarrow> string" where
  "stanzaFamily i = (case Fields (ifc_Mode i) of
       [] \<Rightarrow> []
     | f # fs \<Rightarrow> if f = ''inet'' \<or> f = ''inet6'' then f else [])"

definition dhcpState :: "ifInterface \<Rightarrow> bool \<times> bool" where
  "dhcpState i = (if \<not> ifc_isDHCP i then (False, False)
     else (stanzaFamily i = ''inet'', stanzaFamily i = ''inet6''))"

definition stanza_method :: "ifInterface \<Rightarrow> string" where
  "stanza_method i = (case Fields (ifc_Mode i) of f # m # fs \<Rightarrow> m | _ \<Rightarrow> [])"

definition quoted :: "string \<Rightarrow> string" where
  "quoted s = CHR 0x22 # s @ [CHR 0x22]"

definition with_mode :: "string \<Rightarrow> bool \<Rightarrow> ifInterface \<Rightarrow> ifInterface" where
  "with_mode m d i = i\<lparr>ifc_Mode := m, ifc_isDHCP := d\<rparr>"

definition setDHCP :: "bool \<Rightarrow> bool \<Rightarrow> ifInterface \<Rightarrow> ifInterface result" where
  "setDHCP dhcp4 dhcp6 i =
     (if ifc_isPPP i then Inl (Errorf ''cannot change DHCP on PPP interface'')
      else let family = stanzaFamily i in
      if family = [] then
        (if dhcp4 \<and> dhcp6 then Inl (Errorf ''ifupdown cannot enable DHCP for both families on one stanza'')
         else if dhcp4 then Inr (with_mode ''inet dhcp'' True i)
         else if dhcp6 then Inr (with_mode ''inet6 dhcp'' True i)
         else Inr (with_mode ''inet static'' False i))
      else
        let (enable, other) = (if family = ''inet6'' then (dhcp6, dhcp4) else (dhcp4, dhcp6)) in
        if other then Inl (Errorf (''ifupdown cannot enable DHCP for the other family on an '' @ quoted family
          @ '' stanza for '' @ ifc_Name i))
        else let method = stanza_method i in
        if method = ''loopback'' \<or> method = ''ppp'' \<or> method = ''tunnel'' \<or> method = ''wvdial''
        then Inl (Errorf (''cannot change DHCP on '' @ quoted method @ '' interface '' @ ifc_Name i))
        else if enable \<and> method \<noteq> ''dhcp'' then Inr (with_mode (family @ '' dhcp'') True i)
        else if \<not> enable \<and> method = ''dhcp'' then Inr (with_mode (family @ '' static'') False i)
        else Inr i)"

section \<open>Interfaces by name\<close>

definition new_ifc :: "string \<Rightarrow> string list \<Rightarrow> ifInterface" where
  "new_ifc name files = \<lparr>ifc_Name = name, ifc_Mode = [], ifc_isDHCP = False, ifc_isPPP = False,
     ifc_Files = files, ifc_Addresses = [], ifc_Gateway4 = [], ifc_Gateway6 = [], ifc_Routes = [], ifc_Config = []\<rparr>"

text \<open>\<open>EnsureInterface\<close> returns a pointer; here the interface and the configuration that holds it.\<close>

definition iu_EnsureInterface :: "string \<Rightarrow> ifUpDown \<Rightarrow> ifInterface \<times> ifUpDown" where
  "iu_EnsureInterface name u = (case List.find (\<lambda>i. ifc_Name i = name) (iu_Interfaces u) of
       Some i \<Rightarrow> (i, u)
     | None \<Rightarrow> let i = new_ifc name [iu_BaseConfig u] in (i, u\<lparr>iu_Interfaces := iu_Interfaces u @ [i]\<rparr>))"

fun update_first :: "('a \<Rightarrow> bool) \<Rightarrow> ('a \<Rightarrow> 'a) \<Rightarrow> 'a list \<Rightarrow> 'a list" where
  "update_first P f [] = []"
| "update_first P f (x # xs) = (if P x then f x # xs else x # update_first P f xs)"

definition update_ifc :: "string \<Rightarrow> (ifInterface \<Rightarrow> ifInterface) \<Rightarrow> ifUpDown \<Rightarrow> ifUpDown" where
  "update_ifc name f u = u\<lparr>iu_Interfaces := update_first (\<lambda>i. ifc_Name i = name) f (iu_Interfaces u)\<rparr>"

definition get_ifc :: "string \<Rightarrow> ifUpDown \<Rightarrow> ifInterface" where
  "get_ifc name u = fst (iu_EnsureInterface name u)"

section \<open>Commands in up and down options\<close>

definition host_net :: "string \<Rightarrow> ipnet option" where
  "host_net s = (let a = ParseIP s in if a = [] then None
     else Some \<lparr>net_ip = a, net_mask = (if To4 a = [] then CIDRMask 128 128 else CIDRMask 32 32)\<rparr>)"

definition route_dst :: "string \<Rightarrow> ipnet option" where
  "route_dst s = (if CHR ''/'' \<in> set s then ParseCIDR s else host_net s)"

definition mask_dst :: "string \<Rightarrow> ipnet option \<Rightarrow> ipnet option" where
  "mask_dst s dst = (case dst of None \<Rightarrow> None
     | Some d \<Rightarrow> let m = To4 (ParseIP s) in if m = [] then Some d else Some (d\<lparr>net_mask := m\<rparr>))"

definition or_dst :: "ipnet option \<Rightarrow> string \<Rightarrow> ipnet option" where
  "or_dst dst s = (case dst of None \<Rightarrow> route_dst s | Some d \<Rightarrow> Some d)"

record cmd =
  cm_act :: bool              \<comment> \<open>add, or del, was seen\<close>
  cm_dst :: "ipnet option"
  cm_gw :: ip
  cm_metric :: int
  cm_isRoute :: bool
  cm_isAddr :: bool
  cm_thisDev :: bool
  cm_address :: "ipnet option"

definition no_cmd :: cmd where
  "no_cmd = \<lparr>cm_act = False, cm_dst = None, cm_gw = [], cm_metric = 256, cm_isRoute = False,
     cm_isAddr = False, cm_thisDev = False, cm_address = None\<rparr>"

text \<open>\<open>route add ...\<close> and \<open>route del ...\<close>: the last field is never looked at by itself.\<close>

fun route_cmd :: "bool \<Rightarrow> string list \<Rightarrow> cmd \<Rightarrow> cmd" where
  "route_cmd add [] c = c"
| "route_cmd add [x] c = c"
| "route_cmd add (x # y # ys) c =
     (if x = (if add then ''add'' else ''del'') then route_cmd add (y # ys) (c\<lparr>cm_act := True\<rparr>)
      else if x = ''-net'' \<or> x = ''-host'' then route_cmd add (y # ys) c
      else if x = ''netmask'' then route_cmd add ys (c\<lparr>cm_dst := mask_dst y (cm_dst c)\<rparr>)
      else if add \<and> x = ''gw'' then route_cmd add ys (c\<lparr>cm_gw := ParseIP y\<rparr>)
      else if add \<and> x = ''metric'' then
        route_cmd add ys (c\<lparr>cm_metric := (case Atoi y of None \<Rightarrow> 256 | Some m \<Rightarrow> m)\<rparr>)
      else route_cmd add (y # ys) (c\<lparr>cm_dst := or_dst (cm_dst c) x\<rparr>))"

definition ip_target :: "string \<Rightarrow> cmd \<Rightarrow> cmd" where
  "ip_target s c = (case ParseCIDR s of
       None \<Rightarrow> c
     | Some n \<Rightarrow> if cm_isAddr c then c\<lparr>cm_address := Some n\<rparr>
         else if cm_isRoute c then c\<lparr>cm_dst := Some n\<rparr> else c)"

definition ip_metric :: "string \<Rightarrow> int" where
  "ip_metric s = (case Atoi s of None \<Rightarrow> 256 | Some m \<Rightarrow> if m = 0 then 256 else m)"

fun ip_cmd :: "bool \<Rightarrow> string \<Rightarrow> string list \<Rightarrow> cmd \<Rightarrow> cmd" where
  "ip_cmd add dev [] c = c"
| "ip_cmd add dev [x] c = c"
| "ip_cmd add dev (x # y # ys) c =
     (if x = ''addr'' \<or> x = ''address'' then ip_cmd add dev (y # ys) (c\<lparr>cm_isAddr := True\<rparr>)
      else if x = ''route'' then ip_cmd add dev (y # ys) (c\<lparr>cm_isRoute := True\<rparr>)
      else if (if add then x = ''add'' else x = ''del'' \<or> x = ''delete'')
        then ip_cmd add dev ys (ip_target y (c\<lparr>cm_act := True\<rparr>))
      else if x = ''dev'' then
        ip_cmd add dev ys (if y = ''$IFACE'' \<or> y = dev then c\<lparr>cm_thisDev := True\<rparr> else c)
      else if add \<and> x = ''via'' then ip_cmd add dev ys (c\<lparr>cm_gw := ParseIP y\<rparr>)
      else if add \<and> x = ''metric'' then ip_cmd add dev ys (c\<lparr>cm_metric := ip_metric y\<rparr>)
      else ip_cmd add dev (y # ys) c)"

definition cmd_route :: "cmd \<Rightarrow> Route" where
  "cmd_route c = \<lparr>rt_Destination = cm_dst c, rt_Gateway = cm_gw c, rt_Metric = cm_metric c\<rparr>"

definition add_route :: "Route \<Rightarrow> ifInterface \<Rightarrow> ifInterface" where
  "add_route r i = i\<lparr>ifc_Routes := ifc_Routes i @ [r]\<rparr>"

definition add_address :: "ipnet \<Rightarrow> ifInterface \<Rightarrow> ifInterface" where
  "add_address n i = i\<lparr>ifc_Addresses := ifc_Addresses i @ [n]\<rparr>"

text \<open>An \<open>up\<close> option that is a route or an address is absorbed as one.\<close>

definition absorb_up :: "string list \<Rightarrow> ifInterface \<Rightarrow> ifInterface option" where
  "absorb_up fs i = (case fs of
       u # tool # args \<Rightarrow>
         if u \<noteq> ''up'' \<or> length fs < 4 then None
         else if tool = ''route'' then
           (let c = route_cmd True args no_cmd in
            if cm_act c \<and> cm_dst c \<noteq> None \<and> cm_gw c \<noteq> [] then Some (add_route (cmd_route c) i) else None)
         else if tool = ''ip'' then
           (let c = ip_cmd True (ifc_Name i) args no_cmd in
            if \<not> cm_act c then None
            else if cm_isRoute c \<and> cm_dst c \<noteq> None \<and> cm_gw c \<noteq> [] then Some (add_route (cmd_route c) i)
            else if cm_isAddr c \<and> cm_thisDev c then map_option (\<lambda>n. add_address n i) (cm_address c)
            else None)
         else None
     | _ \<Rightarrow> None)"

definition dest_contains :: "ip \<Rightarrow> Route \<Rightarrow> bool" where
  "dest_contains a r = (case rt_Destination r of None \<Rightarrow> False | Some d \<Rightarrow> net_contains d a)"

text \<open>A \<open>down\<close> option that undoes one of them is dropped.\<close>

definition drop_down :: "string list \<Rightarrow> ifInterface \<Rightarrow> bool" where
  "drop_down fs i = (case fs of
       d # tool # args \<Rightarrow>
         d = ''down'' \<and> 4 \<le> length fs \<and>
         (if tool = ''route'' then
            (let c = route_cmd False args no_cmd in
             cm_act c \<and> (case cm_dst c of None \<Rightarrow> False | Some n \<Rightarrow> list_ex (dest_contains (net_ip n)) (ifc_Routes i)))
          else if tool = ''ip'' then
            (let c = ip_cmd False (ifc_Name i) args no_cmd in
             cm_act c \<and> (cm_isRoute c \<and> cm_dst c \<noteq> None \<or> cm_isAddr c \<and> cm_address c \<noteq> None \<and> cm_thisDev c))
          else False)
     | _ \<Rightarrow> False)"

definition cfg_get :: "(string \<times> string list) list \<Rightarrow> string \<Rightarrow> string list" where
  "cfg_get c k = (case map_of c k of None \<Rightarrow> [] | Some v \<Rightarrow> v)"

definition add_config :: "string \<Rightarrow> string \<Rightarrow> ifInterface \<Rightarrow> ifInterface" where
  "add_config k v i = i\<lparr>ifc_Config := AList.update k (cfg_get (ifc_Config i) k @ [v]) (ifc_Config i)\<rparr>"

section \<open>Reading\<close>

text \<open>The fields of a line without its comment.\<close>

definition line_fields :: "string \<Rightarrow> string list" where
  "line_fields l = Fields (TrimSpace (before CHR ''#'' l))"

definition base_name :: "string \<Rightarrow> string" where
  "base_name ifname = before CHR '':'' ifname"

text \<open>The variables of one call: the interface being read and its pending address.\<close>

record reader =
  rd_iface :: "string option"
  rd_address :: "ipnet option"

definition start_reader :: reader where
  "start_reader = \<lparr>rd_iface = None, rd_address = None\<rparr>"

definition on_iface :: "reader \<Rightarrow> (ifInterface \<Rightarrow> ifInterface) \<Rightarrow> ifUpDown \<Rightarrow> ifUpDown" where
  "on_iface r f u = (case rd_iface r of None \<Rightarrow> u | Some n \<Rightarrow> update_ifc n f u)"

definition flush :: "reader \<Rightarrow> ifUpDown \<Rightarrow> ifUpDown" where
  "flush r u = (case rd_address r of None \<Rightarrow> u | Some a \<Rightarrow> on_iface r (add_address a) u)"

definition start_stanza :: "string \<Rightarrow> string list \<Rightarrow> ifInterface \<Rightarrow> ifInterface" where
  "start_stanza file opts i = i\<lparr>
     ifc_Files := (if file \<in> set (ifc_Files i) then ifc_Files i else ifc_Files i @ [file]),
     ifc_isDHCP := ifc_isDHCP i \<or> ''dhcp'' \<in> set opts,
     ifc_isPPP := ifc_isPPP i \<or> ''ppp'' \<in> set opts,
     ifc_Mode := join '' '' opts\<rparr>"

definition read_iface ::
  "string \<Rightarrow> string list \<Rightarrow> reader \<Rightarrow> ifUpDown \<Rightarrow> (reader \<times> ifUpDown) result" where
  "read_iface file args r u = (case args of
       [] \<Rightarrow> Inl (Errorf ''invalid interface syntax'')
     | n # opts \<Rightarrow>
         let u = flush r u; name = base_name n; u = snd (iu_EnsureInterface name u) in
         Inr (\<lparr>rd_iface = Some name, rd_address = None\<rparr>, update_ifc name (start_stanza file opts) u))"

definition read_address :: "string list \<Rightarrow> reader \<Rightarrow> ifUpDown \<Rightarrow> (reader \<times> ifUpDown) result" where
  "read_address args r u = (case args of
       [] \<Rightarrow> Inl (Errorf ''invalid address syntax'')
     | a # as \<Rightarrow>
         if rd_iface r = None then Inl (Errorf ''no interface to assign address to'')
         else let u = flush r u in
           if CHR ''/'' \<notin> set a then
             (case host_net a of
                None \<Rightarrow> Inl (Errorf (''invalid IP provided: '' @ a))
              | Some n \<Rightarrow> Inr (r\<lparr>rd_address := Some n\<rparr>, u))
           else (case ParseCIDR a of
                None \<Rightarrow> Inl (Errorf (''invalid CIDR address: '' @ a))
              | Some n \<Rightarrow> Inr (r\<lparr>rd_address := Some n\<rparr>, u)))"

text \<open>The text of the error of \<open>strconv.Atoi\<close> is given up to the quoting and the reason.\<close>

definition read_netmask :: "string list \<Rightarrow> reader \<Rightarrow> reader result" where
  "read_netmask args r = (case args of
       [] \<Rightarrow> Inl (Errorf ''invalid netmask syntax'')
     | m # ms \<Rightarrow> (case rd_address r of
           None \<Rightarrow> Inl (Errorf ''no address to apply netmask'')
         | Some n \<Rightarrow>
             if CHR ''.'' \<in> set m then
               (let k = To4 (ParseIP m) in if k = [] then Inl (Errorf (''invalid netmask: '' @ m))
                else Inr (r\<lparr>rd_address := Some (n\<lparr>net_mask := k\<rparr>)\<rparr>))
             else (case Atoi m of
                 None \<Rightarrow> Inl (Errorf (''strconv.Atoi: parsing '' @ m))
               | Some p \<Rightarrow> Inr (r\<lparr>rd_address := Some (n\<lparr>net_mask :=
                     CIDRMask p (if To4 (net_ip n) = [] then 128 else 32)\<rparr>)\<rparr>))))"

text \<open>Before any interface, assigning the gateway dereferences a nil pointer.\<close>

definition nil_pointer :: goerror where
  "nil_pointer = Panic ''runtime error: invalid memory address or nil pointer dereference''"

definition iu_set_gateway :: "ip \<Rightarrow> ifInterface \<Rightarrow> ifInterface" where
  "iu_set_gateway g i = (if To4 g = [] then i\<lparr>ifc_Gateway6 := g\<rparr> else i\<lparr>ifc_Gateway4 := g\<rparr>)"

definition read_gateway :: "string list \<Rightarrow> reader \<Rightarrow> ifUpDown \<Rightarrow> ifUpDown result" where
  "read_gateway args r u = (case args of
       [] \<Rightarrow> Inl (Errorf ''invalid gateway syntax'')
     | a # as \<Rightarrow>
         let g = ParseIP a in
         if g = [] then Inl (Errorf (''failed to parse gateway: '' @ a))
         else if rd_iface r = None then Inl nil_pointer
         else Inr (on_iface r (iu_set_gateway g) u))"

definition read_option :: "string list \<Rightarrow> ifInterface \<Rightarrow> ifInterface" where
  "read_option fs i = (case absorb_up fs i of
       Some i' \<Rightarrow> i'
     | None \<Rightarrow> if drop_down fs i then i else add_config (hd fs) (join '' '' (tl fs)) i)"

definition read_other :: "string list \<Rightarrow> reader \<Rightarrow> ifUpDown \<Rightarrow> ifUpDown result" where
  "read_other fs r u =
     (if length fs < 2 then Inl (Errorf ''invalid syntax'') else Inr (on_iface r (read_option fs) u))"

definition with_reader :: "reader \<Rightarrow> ifUpDown result \<Rightarrow> (reader \<times> ifUpDown) result" where
  "with_reader r x = try_res x (\<lambda>u. Inr (r, u))"

text \<open>A line that sources nothing.\<close>

definition plain_line :: "string \<Rightarrow> string list \<Rightarrow> reader \<Rightarrow> ifUpDown \<Rightarrow> (reader \<times> ifUpDown) result" where
  "plain_line file fs r u = (case fs of
       [] \<Rightarrow> Inr (r, u)
     | f # args \<Rightarrow>
         if f = ''auto'' \<or> f = ''allow-hotplug'' then Inr (r, u)
         else if f = ''iface'' \<or> f = ''interface'' then read_iface file args r u
         else if f = ''address'' then read_address args r u
         else if f = ''netmask'' then try_res (read_netmask args r) (\<lambda>r. Inr (r, u))
         else if f = ''gateway'' then with_reader r (read_gateway args r u)
         else with_reader r (read_other fs r u))"

lemma try_io_cong [fundef_cong]:
  "r = r' \<Longrightarrow> (\<And>a w. r' = (Inr a, w) \<Longrightarrow> f a w = f' a w) \<Longrightarrow> try_io r f = try_io r' f'"
  by (cases r'; cases "fst r'") (auto simp: try_io_def)

text \<open>
  Reading a file, and the files it sources while it is still open. The number bounds how
  many files the process can have open: past it opening fails, which also stops a file
  that sources itself.
\<close>

function (sequential)
  ReadFile :: "nat \<Rightarrow> string \<Rightarrow> ifUpDown \<Rightarrow> world \<Rightarrow> ifUpDown result \<times> world" and
  read_files :: "nat \<Rightarrow> string list \<Rightarrow> ifUpDown \<Rightarrow> world \<Rightarrow> ifUpDown result \<times> world" and
  read_lines :: "nat \<Rightarrow> string \<Rightarrow> string list \<Rightarrow> reader \<Rightarrow> ifUpDown \<Rightarrow> world \<Rightarrow> (reader \<times> ifUpDown) result \<times> world" where
  "ReadFile 0 p u w = (Inl (path_error ''open'' p EMFILE), w)"
| "ReadFile (Suc n) p u w =
     try_io (os_Open p w) (\<lambda>fd w. case fd_read fd w of (content, w) \<Rightarrow>
     try_io (read_lines n p (scan_lines content) start_reader u w) (\<lambda>(r, u) w. (Inr (flush r u), w)))"
| "read_files n [] u w = (Inr u, w)"
| "read_files n (p # ps) u w = try_io (ReadFile n p u w) (read_files n ps)"
| "read_lines n file [] r u w = (Inr (r, u), w)"
| "read_lines n file (l # ls) r u w =
     (let fs = line_fields l in
      if fs \<noteq> [] \<and> hd fs = ''source-directory'' then
        (case tl fs of
           [] \<Rightarrow> (Inl (Errorf ''invalid source directory syntax''), w)
         | d # ds \<Rightarrow>
             try_io (os_ReadDir d w) (\<lambda>entries w.
             try_io (read_files n (map (\<lambda>e. path_join d (de_name e))
                 (filter (\<lambda>e. \<not> fi_dir (de_info e)) (sortableDirEntries entries))) u w) (\<lambda>u w.
             read_lines n file ls r u w)))
      else if fs \<noteq> [] \<and> hd fs = ''source'' then
        (case tl fs of
           [] \<Rightarrow> (Inl (Errorf ''invalid source file syntax''), w)
         | p # ps \<Rightarrow> try_io (ReadFile n p u w) (\<lambda>u w. read_lines n file ls r u w))
      else try_io (plain_line file fs r u, w) (\<lambda>(r, u) w. read_lines n file ls r u w))"
  by pat_completeness auto
termination
  by (relation "inv_image (less_than <*lex*> less_than <*lex*> less_than)
      (case_sum (\<lambda>(n, p, u, w). (n, 0, 0)) (case_sum (\<lambda>(n, ps, u, w). (n, 1, length ps))
        (\<lambda>(n, file, ls, r, u, w). (n, 2, length ls))))") auto

text \<open>How many files a process may have open.\<close>

definition open_files :: nat where "open_files = 1024"

definition newIfUpDown :: "int \<Rightarrow> world \<Rightarrow> ifUpDown result \<times> world" where
  "newIfUpDown backupRetention w =
     ReadFile open_files ifUpDownConfig \<lparr>iu_Interfaces = [], iu_BaseConfig = ifUpDownConfig,
       iu_BackupDir = ifUpDownConfig @ ''.backup'', iu_backupRetention = backupRetention\<rparr> w"

section \<open>Interfaces read back\<close>

definition link_info :: "link \<Rightarrow> Interface \<Rightarrow> Interface" where
  "link_info l i = (if lk_name l = if_Name i then i\<lparr>if_MAC := lk_mac l, if_Link := Some (lk_index l)\<rparr> else i)"

definition resolvers :: "string list \<Rightarrow> ip list" where
  "resolvers vals = filter (\<lambda>a. a \<noteq> []) (map ParseIP (concat (map Fields vals)))"

definition iu_interface :: "link list \<Rightarrow> ifInterface \<Rightarrow> Interface" where
  "iu_interface links c =
     (case dhcpState c of (d4, d6) \<Rightarrow>
      (fold link_info links ((new_interface (ifc_Name c))\<lparr>if_DHCP4 := d4, if_DHCP6 := d6\<rparr>))
        \<lparr>if_Addresses := ifc_Addresses c, if_Gateway4 := ifc_Gateway4 c, if_Gateway6 := ifc_Gateway6 c,
         if_DNS := resolvers (cfg_get (ifc_Config c) ''dns-nameservers''),
         if_SearchDomains := concat (map Fields (cfg_get (ifc_Config c) ''dns-search'')),
         if_Routes := ifc_Routes c\<rparr>)"

definition iu_GetInterfaces :: "link list result \<Rightarrow> ifUpDown \<Rightarrow> Interface list result" where
  "iu_GetInterfaces links u = try_res links (\<lambda>ls. Inr (map (iu_interface ls) (iu_Interfaces u)))"

section \<open>Writing a stanza\<close>

text \<open>The text of each print. A route without destination ends the program at its print.\<close>

definition tab :: string where "tab = [CHR 0x09]"
definition nl :: string where "nl = [newline]"

definition is4 :: "ipnet \<Rightarrow> bool" where
  "is4 n \<longleftrightarrow> To4 (net_ip n) \<noteq> []"

fun first_addresses :: "bool \<Rightarrow> bool \<Rightarrow> ipnet list \<Rightarrow> ipnet list" where
  "first_addresses f4 f6 [] = []"
| "first_addresses f4 f6 (n # ns) =
     (if is4 n then (if f4 then n # first_addresses False f6 ns else first_addresses f4 f6 ns)
      else (if f6 then n # first_addresses f4 False ns else first_addresses f4 f6 ns))"

fun more_addresses :: "bool \<Rightarrow> bool \<Rightarrow> ipnet list \<Rightarrow> ipnet list" where
  "more_addresses f4 f6 [] = []"
| "more_addresses f4 f6 (n # ns) =
     (if is4 n then (if f4 then more_addresses False f6 ns else n # more_addresses f4 f6 ns)
      else (if f6 then more_addresses f4 False ns else n # more_addresses f4 f6 ns))"

definition ip_tool :: "bool \<Rightarrow> string" where
  "ip_tool v4 = (if v4 then ''ip '' else ''ip -6 '')"

definition address_lines :: "ipnet \<Rightarrow> string list" where
  "address_lines n =
     [tab @ ''up '' @ ip_tool (is4 n) @ ''addr add '' @ ipnet_string n @ '' dev $IFACE'' @ nl,
      tab @ ''down '' @ ip_tool (is4 n) @ ''addr del '' @ ipnet_string n @ '' dev $IFACE'' @ nl]"

definition route_args :: "ipnet \<Rightarrow> Route \<Rightarrow> string" where
  "route_args d r = ipnet_string d @ '' via '' @ ip_string (rt_Gateway r) @ '' metric '' @ Itoa (rt_Metric r)
     @ '' dev $IFACE'' @ nl"

fun route_lines :: "Route list \<Rightarrow> string list \<times> bool" where
  "route_lines [] = ([nl], True)"
| "route_lines (r # rs) = (case rt_Destination r of
       None \<Rightarrow> ([], False)
     | Some d \<Rightarrow> (case route_lines rs of (ls, ok) \<Rightarrow>
         ([tab @ ''up '' @ ip_tool (is4 d) @ ''route add '' @ route_args d r,
           tab @ ''down '' @ ip_tool (is4 d) @ ''route del '' @ route_args d r] @ ls, ok)))"

definition config_keys :: "ifInterface \<Rightarrow> string list" where
  "config_keys i = (let ks = map fst (ifc_Config i) in
     sort (filter (\<lambda>k. k \<noteq> ''up'' \<and> k \<noteq> ''down'') ks)
     @ filter (\<lambda>k. k \<in> set ks) [''up'', ''down''])"

definition config_lines :: "ifInterface \<Rightarrow> string list" where
  "config_lines i = concat (map (\<lambda>k. map (\<lambda>v. tab @ k @ '' '' @ v @ nl) (cfg_get (ifc_Config i) k)) (config_keys i))"

definition head_line :: "ifInterface \<Rightarrow> string" where
  "head_line i = (if ifc_Mode i \<noteq> [] then ''iface '' @ ifc_Name i @ '' '' @ ifc_Mode i @ nl
     else ''iface '' @ ifc_Name i @ nl)"

definition gateway_lines :: "ifInterface \<Rightarrow> string list" where
  "gateway_lines i =
     (if ifc_Gateway4 i \<noteq> [] then [tab @ ''gateway '' @ ip_string (ifc_Gateway4 i) @ nl] else [])
     @ (if ifc_Gateway6 i \<noteq> [] then [tab @ ''gateway '' @ ip_string (ifc_Gateway6 i) @ nl] else [])"

definition Write :: "ifInterface \<Rightarrow> string list \<times> bool" where
  "Write i = (case route_lines (ifc_Routes i) of (rs, ok) \<Rightarrow>
     ([head_line i]
      @ map (\<lambda>n. tab @ ''address '' @ ipnet_string n @ nl) (first_addresses True True (ifc_Addresses i))
      @ gateway_lines i @ config_lines i
      @ concat (map address_lines (more_addresses True True (ifc_Addresses i))) @ rs, ok))"

section \<open>Rewriting a file\<close>

record rewrite =
  rw_found :: bool      \<comment> \<open>inside the interface's stanza\<close>
  rw_wrote :: bool
  rw_blank :: nat
  rw_ok :: bool         \<comment> \<open>the program is still running\<close>

definition start_rewrite :: rewrite where
  "start_rewrite = \<lparr>rw_found = False, rw_wrote = False, rw_blank = 0, rw_ok = True\<rparr>"

text \<open>The stanza is over: its new text is due, in the first file only.\<close>

definition leave_stanza :: "ifInterface \<Rightarrow> bool \<Rightarrow> rewrite \<Rightarrow> string list \<times> rewrite" where
  "leave_stanza i first s = (let s = s\<lparr>rw_wrote := True, rw_found := False\<rparr> in
     if first then (fst (Write i), s\<lparr>rw_ok := snd (Write i)\<rparr>) else ([], s))"

definition rewrite_line :: "ifInterface \<Rightarrow> bool \<Rightarrow> string \<Rightarrow> rewrite \<Rightarrow> string list \<times> rewrite" where
  "rewrite_line i first l s =
     (let line = TrimSpace (before CHR ''#'' l); orig = l @ nl in
      if line = [] then
        (if CHR ''#'' \<in> set l then ([orig], s\<lparr>rw_blank := 0\<rparr>)
         else (if rw_blank s = 0 then [orig] else [], s\<lparr>rw_blank := Suc (rw_blank s)\<rparr>))
      else let s = s\<lparr>rw_blank := 0\<rparr>; fs = Fields line; f = hd fs; args = tl fs in
        if f = ''auto'' \<or> f = ''allow-hotplug'' then
          (case (if ifc_Name i \<in> base_name ` set args \<and> rw_found s \<and> \<not> rw_wrote s
              then leave_stanza i first s else ([], s)) of
             (out, s) \<Rightarrow> (out @ (if rw_ok s then [orig] else []), s))
        else if f = ''iface'' \<or> f = ''interface'' then
          (case args of
             [] \<Rightarrow> ([orig], s)
           | n # ns \<Rightarrow>
              (case (if base_name n = ifc_Name i then ([], s\<lparr>rw_found := True\<rparr>)
                  else if rw_found s \<and> \<not> rw_wrote s then leave_stanza i first s else ([], s)) of
                 (out, s) \<Rightarrow> (out @ (if rw_ok s \<and> \<not> rw_found s then [orig] else []), s)))
        else if rw_found s then ([], s) else ([orig], s))"

fun rewrite_lines :: "ifInterface \<Rightarrow> bool \<Rightarrow> string list \<Rightarrow> rewrite \<Rightarrow> string list \<times> rewrite" where
  "rewrite_lines i first [] s =
     (if rw_wrote s \<or> \<not> rw_ok s then ([], s) else (fst (Write i), s\<lparr>rw_ok := snd (Write i)\<rparr>))"
| "rewrite_lines i first (l # ls) s =
     (if \<not> rw_ok s then ([], s)
      else case rewrite_line i first l s of (out, s) \<Rightarrow>
        case rewrite_lines i first ls s of (out', s) \<Rightarrow> (out @ out', s))"

definition new_file :: "ifInterface \<Rightarrow> bool \<Rightarrow> string list \<times> bool" where
  "new_file i first = (if first then
       ([''auto '' @ ifc_Name i @ nl, ''allow-hotplug '' @ ifc_Name i @ nl @ nl] @ fst (Write i), snd (Write i))
     else ([], True))"

definition save_file ::
  "string \<Rightarrow> int \<Rightarrow> nat \<Rightarrow> nat \<Rightarrow> ifInterface \<Rightarrow> bool \<Rightarrow> string \<Rightarrow> world \<Rightarrow> unit result \<times> world" where
  "save_file dir retention tTmp tBak i first filePath w =
     (let file = path_base filePath;
          tmpPath = path_join dir (''.tmp.'' @ show_nat tTmp @ ''.'' @ file);
          bakPath = path_join dir (''.bak.'' @ show_nat tBak @ ''.'' @ file) in
      try_io (os_open_write False tmpPath 420 w) (\<lambda>fdw w.
      case os_Stat filePath w of (st, w) \<Rightarrow>
      let fileExists = (\<not> is_not_exist st) in
      try_io (if fileExists then try_io (os_Open filePath w) (\<lambda>fd w. case fd_read fd w of (content, w) \<Rightarrow>
            (case rewrite_lines i first (scan_lines content) start_rewrite of (out, s) \<Rightarrow> (Inr (out, rw_ok s), w)))
          else (Inr (new_file i first), w)) (\<lambda>(out, ok) w.
      let w = fd_prints fdw 0 out w in
      if \<not> ok then (Inl nil_pointer, w)
      else try_io (if fileExists then fileMove filePath bakPath w else (Inr (), w)) (\<lambda>_ w.
        try_io (fileMove tmpPath filePath w) (\<lambda>_ w.
        (Inr (), pruneBackups dir (prefixBackupMatcher file) retention w))))))"

fun save_files ::
  "string \<Rightarrow> int \<Rightarrow> nat \<Rightarrow> nat \<Rightarrow> ifInterface \<Rightarrow> bool \<Rightarrow> string list \<Rightarrow> world \<Rightarrow> unit result \<times> world" where
  "save_files dir retention tTmp tBak i first [] w = (Inr (), w)"
| "save_files dir retention tTmp tBak i first (p # ps) w =
     try_io (save_file dir retention tTmp tBak i first p w) (\<lambda>_ w.
     save_files dir retention tTmp tBak i False ps w)"

definition iu_Save :: "string \<Rightarrow> int \<Rightarrow> ifInterface \<Rightarrow> world \<Rightarrow> unit result \<times> world" where
  "iu_Save dir retention i w =
     (case os_Stat dir w of (st, w) \<Rightarrow>
      try_io (if is_not_exist st then os_Mkdir dir w else (Inr (), w)) (\<lambda>_ w.
      case UnixNano w of (tTmp, w) \<Rightarrow>
      case UnixNano w of (tBak, w) \<Rightarrow>
      save_files dir retention tTmp tBak i True (ifc_Files i) w))"

section \<open>Changing an interface\<close>

definition iu_SetIfaceDHCP :: "string \<Rightarrow> bool \<Rightarrow> bool \<Rightarrow> ifUpDown op" where
  "iu_SetIfaceDHCP iface dhcp4 dhcp6 s = (case s of (u, w) \<Rightarrow>
     (case iu_EnsureInterface iface u of (i, u) \<Rightarrow>
      (case setDHCP dhcp4 dhcp6 i of
         Inl e \<Rightarrow> (Inl e, u, w)
       | Inr i \<Rightarrow>
          let i = (if dhcp4 \<or> dhcp6 then i\<lparr>ifc_Addresses := [], ifc_Gateway4 := [], ifc_Gateway6 := []\<rparr> else i);
              u = update_ifc iface (\<lambda>_. i) u in
          case iu_Save (iu_BackupDir u) (iu_backupRetention u) i w of (r, w) \<Rightarrow> (r, u, w))))"

definition iu_renewDHCP :: "string \<Rightarrow> ifUpDown op" where
  "iu_renewDHCP iface s = (case s of (u, w) \<Rightarrow>
     (case runCommand [''ifdown'', iface] w of (r, w) \<Rightarrow>
      case run_or_fail [''ifup'', iface] w of
        (Inl e, w) \<Rightarrow> (Inl e, u, w)
      | (Inr out, w) \<Rightarrow> (Inr (), u, w)))"

definition refuse_dynamic :: "string \<Rightarrow> ifInterface \<Rightarrow> goerror option" where
  "refuse_dynamic what i =
     (if ifc_isDHCP i then Some (Errorf (''cannot change '' @ what @ '' on DHCP interface''))
      else if ifc_isPPP i then Some (Errorf (''cannot change '' @ what @ '' on PPP interface''))
      else None)"

text \<open>The loop over the interfaces of that name: refused, changed and saved, or left.\<close>

fun change_named ::
  "string \<Rightarrow> string \<Rightarrow> (ifInterface \<Rightarrow> ifInterface) \<Rightarrow> string \<Rightarrow> int \<Rightarrow> ifInterface list \<Rightarrow> world
     \<Rightarrow> (unit result \<times> ifInterface list) \<times> world" where
  "change_named iface what f dir retention [] w = ((Inr (), []), w)"
| "change_named iface what f dir retention (i # is) w =
     (if ifc_Name i \<noteq> iface then
        (case change_named iface what f dir retention is w of ((r, is'), w) \<Rightarrow> ((r, i # is'), w))
      else case refuse_dynamic what i of
          Some e \<Rightarrow> ((Inl e, i # is), w)
        | None \<Rightarrow> (case iu_Save dir retention (f i) w of
              (Inl e, w) \<Rightarrow> ((Inl e, f i # is), w)
            | (Inr _, w) \<Rightarrow>
                (case change_named iface what f dir retention is w of ((r, is'), w) \<Rightarrow> ((r, f i # is'), w))))"

definition change_all :: "string \<Rightarrow> string \<Rightarrow> (ifInterface \<Rightarrow> ifInterface) \<Rightarrow> ifUpDown op" where
  "change_all iface what f s = (case s of (u, w) \<Rightarrow>
     (case change_named iface what f (iu_BackupDir u) (iu_backupRetention u) (iu_Interfaces u) w of
        ((r, is), w) \<Rightarrow> (r, u\<lparr>iu_Interfaces := is\<rparr>, w)))"

definition iu_SetIfaceAddresses :: "string \<Rightarrow> ipnet list \<Rightarrow> ip \<Rightarrow> ip \<Rightarrow> ifUpDown op" where
  "iu_SetIfaceAddresses iface addrs gateway4 gateway6 = change_all iface ''addresses''
     (\<lambda>i. i\<lparr>ifc_Addresses := addrs, ifc_Gateway4 := gateway4, ifc_Gateway6 := gateway6\<rparr>)"

definition iu_SetIfaceRoutes :: "string \<Rightarrow> Route list \<Rightarrow> ifUpDown op" where
  "iu_SetIfaceRoutes iface routes = change_all iface ''static routes'' (\<lambda>i. i\<lparr>ifc_Routes := routes\<rparr>)"

definition resolvconfInstalled :: "world \<Rightarrow> bool \<times> world" where
  "resolvconfInstalled w = exec_LookPath ''resolvconf'' w"

definition set_or_delete :: "string \<Rightarrow> string list \<Rightarrow> (string \<times> string list) list \<Rightarrow> (string \<times> string list) list" where
  "set_or_delete k vs c = (let c = AList.delete k c in if vs \<noteq> [] then AList.update k [join '' '' vs] c else c)"

definition iu_dns_config :: "ip list \<Rightarrow> string list \<Rightarrow> (string \<times> string list) list \<Rightarrow> (string \<times> string list) list" where
  "iu_dns_config servers domains c =
     set_or_delete ''dns-search'' domains (set_or_delete ''dns-nameservers'' (ipStrings servers) c)"

definition resolvconf_missing :: string where
  "resolvconf_missing = ''IfUpDown: resolvconf not found; dns-nameservers/dns-search in '' @ ifUpDownConfig
     @ '' will not take effect on reboot without the resolvconf package''"

definition iu_SetIfaceDNS :: "string \<Rightarrow> ip list \<Rightarrow> string list \<Rightarrow> ifUpDown op" where
  "iu_SetIfaceDNS iface servers searchDomains s = (case s of (u, w) \<Rightarrow>
     (case iu_EnsureInterface iface u of (i, u) \<Rightarrow>
      (case refuse_dynamic ''DNS'' i of
         Some e \<Rightarrow> (Inl e, u, w)
       | None \<Rightarrow>
          let i = i\<lparr>ifc_Config := iu_dns_config servers searchDomains (ifc_Config i)\<rparr>;
              u = update_ifc iface (\<lambda>_. i) u;
              w = (if ipStrings servers \<noteq> [] \<or> searchDomains \<noteq> [] then
                   (case resolvconfInstalled w of (True, w) \<Rightarrow> w | (False, w) \<Rightarrow> log_print resolvconf_missing w)
                 else w) in
          case iu_Save (iu_BackupDir u) (iu_backupRetention u) i w of (r, w) \<Rightarrow> (r, u, w))))"

end
