(* ===== verification/IfUpDownLaws.thy ===== *)
theory IfUpDownLaws
  imports IfUpDown Contracts
begin

text \<open>
  What \<open>ifupdown.go\<close> guarantees of stanzas: the DHCP state, rewriting a file around one
  interface, and where it loses configuration.
\<close>

section \<open>The DHCP state\<close>

text \<open>The flag agrees with the method of the stanza, as it does for a file with one stanza each.\<close>

definition dhcp_consistent :: "ifInterface \<Rightarrow> bool" where
  "dhcp_consistent i \<longleftrightarrow> ifc_isDHCP i = (stanzaFamily i \<noteq> [] \<and> stanza_method i = ''dhcp'')"

lemma stanza_words:
  "is_word f \<Longrightarrow> is_word m \<Longrightarrow> ifc_Mode i = f @ '' '' @ m \<Longrightarrow> f \<in> {''inet'', ''inet6''} \<Longrightarrow>
     stanzaFamily i = f \<and> stanza_method i = m"
  using Fields_word_space [of f "CHR '' ''" m] Fields_word [of m]
  by (auto simp: stanzaFamily_def stanza_method_def)

lemma is_word_modes [simp]:
  "is_word ''inet''" "is_word ''inet6''" "is_word ''dhcp''" "is_word ''static''"
  by (simp_all add: is_word_def is_space_def)

lemma with_mode_sets:
  assumes "f \<in> {''inet'', ''inet6''}" and "m \<in> {''dhcp'', ''static''}" and "d = (m = ''dhcp'')"
  shows "dhcp_consistent (with_mode (f @ '' '' @ m) d i)
    \<and> dhcpState (with_mode (f @ '' '' @ m) d i) = (d \<and> f = ''inet'', d \<and> f = ''inet6'')"
proof -
  have "stanzaFamily (with_mode (f @ '' '' @ m) d i) = f \<and> stanza_method (with_mode (f @ '' '' @ m) d i) = m"
    using assms by (intro stanza_words) (auto simp: with_mode_def)
  then show ?thesis
    using assms by (auto simp: dhcp_consistent_def dhcpState_def with_mode_def)
qed

lemma stanzaFamily_cases: "stanzaFamily i \<in> {[], ''inet'', ''inet6''}"
  by (auto simp: stanzaFamily_def split: list.splits)

text \<open>
  \<open>setDHCP\<close> fails exactly when the interface is a PPP one, when both clients are asked of an
  interface without stanza, when the client of the family the stanza does not configure is
  asked for, or when the method is one it does not manage. Otherwise the state read back
  is the one asked for, the flag still agrees with the method, and only the flag and the
  mode changed.
\<close>

theorem setDHCP_sets_state:
  assumes "dhcp_consistent i"
  shows "case setDHCP d4 d6 i of
      Inl e \<Rightarrow> ifc_isPPP i \<or> (stanzaFamily i = [] \<and> d4 \<and> d6) \<or> (stanzaFamily i = ''inet'' \<and> d6)
        \<or> (stanzaFamily i = ''inet6'' \<and> d4)
        \<or> (stanzaFamily i \<noteq> [] \<and> stanza_method i \<in> {''loopback'', ''ppp'', ''tunnel'', ''wvdial''})
    | Inr i' \<Rightarrow> dhcpState i' = (d4, d6) \<and> dhcp_consistent i' \<and> \<not> ifc_isPPP i
        \<and> i' = i\<lparr>ifc_Mode := ifc_Mode i', ifc_isDHCP := ifc_isDHCP i'\<rparr>"
proof -
  let ?ok = "\<lambda>i'. dhcpState i' = (d4, d6) \<and> dhcp_consistent i' \<and> \<not> ifc_isPPP i
        \<and> i' = i\<lparr>ifc_Mode := ifc_Mode i', ifc_isDHCP := ifc_isDHCP i'\<rparr>"
  have w: "with_mode m d i = i\<lparr>ifc_Mode := ifc_Mode (with_mode m d i), ifc_isDHCP := ifc_isDHCP (with_mode m d i)\<rparr>" for m d
    by (simp add: with_mode_def)
  have ok: "\<not> ifc_isPPP i \<Longrightarrow> f \<in> {''inet'', ''inet6''} \<Longrightarrow> m \<in> {''dhcp'', ''static''} \<Longrightarrow> d = (m = ''dhcp'') \<Longrightarrow>
      (d \<and> f = ''inet'', d \<and> f = ''inet6'') = (d4, d6) \<Longrightarrow> ?ok (with_mode (f @ '' '' @ m) d i)" for f m d
    using with_mode_sets [of f m d i] w [of "f @ '' '' @ m" d] by simp
  have same: "\<not> ifc_isPPP i \<Longrightarrow> dhcpState i = (d4, d6) \<Longrightarrow> ?ok i"
    using assms by simp
  consider "ifc_isPPP i" | "\<not> ifc_isPPP i" "stanzaFamily i = []" | "\<not> ifc_isPPP i" "stanzaFamily i = ''inet''"
    | "\<not> ifc_isPPP i" "stanzaFamily i = ''inet6''"
    using stanzaFamily_cases [of i] by blast
  then show ?thesis
  proof cases
    case 1
    then show ?thesis by (simp add: setDHCP_def)
  next
    case 2
    then show ?thesis
      using ok [of "''inet''" "''dhcp''" True] ok [of "''inet6''" "''dhcp''" True] ok [of "''inet''" "''static''" False]
      by (cases d4; cases d6) (simp_all add: setDHCP_def)
  next
    case 3
    have st: "dhcpState i = (stanza_method i = ''dhcp'', False)"
      using assms 3(2) by (simp add: dhcp_consistent_def dhcpState_def)
    have res: "setDHCP d4 d6 i = Inr (with_mode ''inet dhcp'' True i) \<and> d4 \<and> \<not> d6
      \<or> setDHCP d4 d6 i = Inr (with_mode ''inet static'' False i) \<and> \<not> d4 \<and> \<not> d6
      \<or> setDHCP d4 d6 i = Inr i \<and> d4 = (stanza_method i = ''dhcp'') \<and> \<not> d6
      \<or> (\<exists>e. setDHCP d4 d6 i = Inl e) \<and> (d6 \<or> stanza_method i \<in> {''loopback'', ''ppp'', ''tunnel'', ''wvdial''})"
      using 3 by (cases d4; cases d6) (simp_all add: setDHCP_def Let_def)
    then show ?thesis
      using ok [of "''inet''" "''dhcp''" True] ok [of "''inet''" "''static''" False] same st 3
      by (elim disjE conjE exE) simp_all
  next
    case 4
    have st: "dhcpState i = (False, stanza_method i = ''dhcp'')"
      using assms 4(2) by (simp add: dhcp_consistent_def dhcpState_def)
    have res: "setDHCP d4 d6 i = Inr (with_mode ''inet6 dhcp'' True i) \<and> d6 \<and> \<not> d4
      \<or> setDHCP d4 d6 i = Inr (with_mode ''inet6 static'' False i) \<and> \<not> d4 \<and> \<not> d6
      \<or> setDHCP d4 d6 i = Inr i \<and> d6 = (stanza_method i = ''dhcp'') \<and> \<not> d4
      \<or> (\<exists>e. setDHCP d4 d6 i = Inl e) \<and> (d4 \<or> stanza_method i \<in> {''loopback'', ''ppp'', ''tunnel'', ''wvdial''})"
      using 4 by (cases d4; cases d6) (simp_all add: setDHCP_def Let_def)
    then show ?thesis
      using ok [of "''inet6''" "''dhcp''" True] ok [of "''inet6''" "''static''" False] same st 4
      by (elim disjE conjE exE) simp_all
  qed
qed

interpretation iu_dhcp: dhcp_store dhcpState setDHCP dhcp_consistent
proof
  fix i d4 d6 i'
  assume "dhcp_consistent i" and "setDHCP d4 d6 i = Inr i'"
  then show "dhcpState i' = (d4, d6)" and "dhcp_consistent i'"
    using setDHCP_sets_state [of i d4 d6] by simp_all
qed


section \<open>Rewriting a file\<close>

definition iface_line :: "string \<Rightarrow> bool" where
  "iface_line l \<longleftrightarrow> (case line_fields l of f # n # ns \<Rightarrow> f = ''iface'' \<or> f = ''interface'' | _ \<Rightarrow> False)"

definition opens :: "ifInterface \<Rightarrow> string \<Rightarrow> bool" where
  "opens i l \<longleftrightarrow> iface_line l \<and> base_name (line_fields l ! 1) = ifc_Name i"

definition auto_line :: "string \<Rightarrow> bool" where
  "auto_line l \<longleftrightarrow> (case line_fields l of f # ns \<Rightarrow> f = ''auto'' \<or> f = ''allow-hotplug'' | _ \<Rightarrow> False)"

definition brings_up :: "ifInterface \<Rightarrow> string \<Rightarrow> bool" where
  "brings_up i l \<longleftrightarrow> auto_line l \<and> ifc_Name i \<in> base_name ` set (tl (line_fields l))"

text \<open>Inside a stanza only comments, blank lines and the \<open>auto\<close> lines survive.\<close>

definition survives :: "string \<Rightarrow> bool" where
  "survives l \<longleftrightarrow> line_fields l = [] \<or> auto_line l \<or> line_fields l \<in> {[''iface''], [''interface'']}"

definition visible :: "string \<Rightarrow> bool" where
  "visible c \<longleftrightarrow> (\<exists>x\<in>set c. \<not> is_space x)"

definition print_line :: "string \<Rightarrow> string" where "print_line l = l @ nl"

definition flags :: "rewrite \<Rightarrow> bool \<times> bool \<times> bool" where
  "flags s = (rw_found s, rw_wrote s, rw_ok s)"

lemma newline_space [simp]: "is_space newline"
  by (simp add: is_space_def newline_def)

lemma set_before: "set (before c s) \<subseteq> set s"
  by (auto simp: before_def dest: set_takeWhileD)

text \<open>The line as the rewriting loop sees it.\<close>

lemma rewrite_line_fields:
  "rewrite_line i first l s =
     (if line_fields l = [] then
        (if CHR ''#'' \<in> set l then ([print_line l], s\<lparr>rw_blank := 0\<rparr>)
         else (if rw_blank s = 0 then [print_line l] else [], s\<lparr>rw_blank := Suc (rw_blank s)\<rparr>))
      else let s = s\<lparr>rw_blank := 0\<rparr>; f = hd (line_fields l); args = tl (line_fields l) in
        if f = ''auto'' \<or> f = ''allow-hotplug'' then
          (case (if ifc_Name i \<in> base_name ` set args \<and> rw_found s \<and> \<not> rw_wrote s
              then leave_stanza i first s else ([], s)) of
             (out, s) \<Rightarrow> (out @ (if rw_ok s then [print_line l] else []), s))
        else if f = ''iface'' \<or> f = ''interface'' then
          (case args of
             [] \<Rightarrow> ([print_line l], s)
           | n # ns \<Rightarrow>
              (case (if base_name n = ifc_Name i then ([], s\<lparr>rw_found := True\<rparr>)
                  else if rw_found s \<and> \<not> rw_wrote s then leave_stanza i first s else ([], s)) of
                 (out, s) \<Rightarrow> (out @ (if rw_ok s \<and> \<not> rw_found s then [print_line l] else []), s)))
        else if rw_found s then ([], s) else ([print_line l], s))"
proof -
  have "(TrimSpace (before CHR ''#'' l) = []) = (line_fields l = [])"
    by (simp add: line_fields_def TrimSpace_Nil_iff Fields_Nil_iff)
  then show ?thesis
    by (simp only: rewrite_line_def Let_def print_line_def line_fields_def [symmetric])
qed

lemma blank_line:
  assumes "line_fields l = []" and "rw_ok s"
  shows "\<exists>out s'. rewrite_line i first l s = (out, s') \<and> filter visible out = filter visible [print_line l] \<and> flags s' = flags s"
proof -
  have "CHR ''#'' \<notin> set l \<Longrightarrow> \<not> visible (print_line l)"
    using assms(1) by (simp add: line_fields_def Fields_Nil_iff before_id visible_def print_line_def nl_def)
  then show ?thesis
    using assms by (auto simp: rewrite_line_fields flags_def)
qed

text \<open>Outside the stanza every line is kept.\<close>

lemma outside_line:
  assumes "\<not> opens i l" and "\<not> rw_found s" and "rw_ok s"
  shows "\<exists>out s'. rewrite_line i first l s = (out, s') \<and> filter visible out = filter visible [print_line l] \<and> flags s' = flags s"
proof (cases "line_fields l = []")
  case True
  then show ?thesis using blank_line assms(3) by blast
next
  case False
  then obtain f args where fs: "line_fields l = f # args" by (cases "line_fields l") auto
  show ?thesis
    using assms fs by (cases args) (auto simp: rewrite_line_fields opens_def iface_line_def flags_def Let_def)
qed

lemma inside_line:
  assumes "\<not> iface_line l" and "\<not> (brings_up i l \<and> \<not> rw_wrote s)" and "rw_found s" and "rw_ok s"
  shows "\<exists>out s'. rewrite_line i first l s = (out, s')
     \<and> filter visible out = filter visible (map print_line (filter survives [l])) \<and> flags s' = flags s"
proof (cases "line_fields l = []")
  case True
  then have "survives l" by (simp add: survives_def)
  then show ?thesis using blank_line [OF True assms(4)] by simp
next
  case False
  then obtain f args where fs: "line_fields l = f # args" by (cases "line_fields l") auto
  consider (auto) "f = ''auto'' \<or> f = ''allow-hotplug''" | (iface) "f = ''iface'' \<or> f = ''interface''"
    | (other) "f \<noteq> ''auto''" "f \<noteq> ''allow-hotplug''" "f \<noteq> ''iface''" "f \<noteq> ''interface''" by blast
  then show ?thesis
  proof cases
    case auto
    then have "survives l" "\<not> (ifc_Name i \<in> base_name ` set args \<and> \<not> rw_wrote s)"
      using fs assms(2) by (auto simp: survives_def auto_line_def brings_up_def)
    with auto fs assms(3,4) show ?thesis by (auto simp: rewrite_line_fields Let_def flags_def)
  next
    case iface
    then have "args = []" using assms(1) fs by (auto simp: iface_line_def split: list.splits)
    with iface fs assms(3,4) show ?thesis
      by (elim disjE) (simp_all add: rewrite_line_fields Let_def flags_def survives_def)
  next
    case other
    then have "\<not> survives l" using fs by (simp add: survives_def auto_line_def)
    with other fs assms(3,4) show ?thesis by (simp add: rewrite_line_fields Let_def flags_def)
  qed
qed

lemma opening_line:
  assumes "opens i l" and "rw_ok s"
  shows "\<exists>s'. rewrite_line i first l s = ([], s') \<and> flags s' = (True, rw_wrote s, True)"
  using assms by (auto simp: rewrite_line_fields opens_def iface_line_def flags_def Let_def split: list.splits)

lemma leaving_line:
  assumes "iface_line l" and "\<not> opens i l" and "rw_found s" and "\<not> rw_wrote s" and "rw_ok s" and "snd (Write i)"
  shows "\<exists>s'. rewrite_line i True l s = (fst (Write i) @ [print_line l], s') \<and> flags s' = (False, True, True)"
  using assms by (auto simp: rewrite_line_fields opens_def iface_line_def flags_def Let_def leave_stanza_def split: list.splits)

text \<open>Runs of such lines.\<close>

definition run_of :: "ifInterface \<Rightarrow> bool \<Rightarrow> string list \<Rightarrow> rewrite \<Rightarrow> string list \<Rightarrow> rewrite \<Rightarrow> bool" where
  "run_of i first ls s vis s' \<longleftrightarrow> (\<exists>out. filter visible out = filter visible vis \<and>
     (\<forall>ys. rewrite_lines i first (ls @ ys) s = (case rewrite_lines i first ys s' of (o', t) \<Rightarrow> (out @ o', t))))"

lemma run_of_Nil: "run_of i first [] s [] s"
  unfolding run_of_def by (rule exI [of _ "[]"]) (auto split: prod.splits)

lemma run_of_Cons:
  assumes "rewrite_line i first l s = (out, u)" and "rw_ok s" and "filter visible out = filter visible vis"
    and "run_of i first ls u vis' s'"
  shows "run_of i first (l # ls) s (vis @ vis') s'"
proof -
  obtain out' where "filter visible out' = filter visible vis'"
    "\<And>ys. rewrite_lines i first (ls @ ys) u = (case rewrite_lines i first ys s' of (o', t) \<Rightarrow> (out' @ o', t))"
    using assms(4) by (auto simp: run_of_def)
  then show ?thesis
    using assms(1-3) unfolding run_of_def by (intro exI [of _ "out @ out'"]) (auto split: prod.splits)
qed

lemma outside_run:
  "\<forall>l\<in>set ls. \<not> opens i l \<Longrightarrow> \<not> rw_found s \<Longrightarrow> rw_ok s \<Longrightarrow>
     \<exists>s'. run_of i first ls s (map print_line ls) s' \<and> flags s' = flags s"
proof (induction ls arbitrary: s)
  case Nil
  show ?case using run_of_Nil by fastforce
next
  case (Cons l ls)
  obtain out u where l: "rewrite_line i first l s = (out, u)" "filter visible out = filter visible [print_line l]"
    "flags u = flags s"
    using outside_line [of i l s first] Cons.prems by auto
  with Cons obtain s' where "run_of i first ls u (map print_line ls) s'" "flags s' = flags u"
    by (force simp: flags_def)
  with run_of_Cons [OF l(1) Cons.prems(3) l(2)] l(3) show ?case by fastforce
qed

lemma inside_run:
  "\<forall>l\<in>set ls. \<not> iface_line l \<and> \<not> (brings_up i l \<and> \<not> rw_wrote s) \<Longrightarrow> rw_found s \<Longrightarrow> rw_ok s \<Longrightarrow>
     \<exists>s'. run_of i first ls s (map print_line (filter survives ls)) s' \<and> flags s' = flags s"
proof (induction ls arbitrary: s)
  case Nil
  show ?case using run_of_Nil by fastforce
next
  case (Cons l ls)
  obtain out u where l: "rewrite_line i first l s = (out, u)"
    "filter visible out = filter visible (map print_line (filter survives [l]))" "flags u = flags s"
    using inside_line [of l i s first] Cons.prems by auto
  then have "rw_wrote u = rw_wrote s" "rw_found u" "rw_ok u" using Cons.prems by (simp_all add: flags_def)
  with Cons obtain s' where "run_of i first ls u (map print_line (filter survives ls)) s'" "flags s' = flags u"
    by force
  with run_of_Cons [OF l(1) Cons.prems(3) l(2)] l(3) show ?case by fastforce
qed

lemma run_then:
  assumes "run_of i first ls s vis s'" and "rewrite_lines i first ys s' = (o', t)"
  shows "\<exists>out. rewrite_lines i first (ls @ ys) s = (out, t) \<and> filter visible out = filter visible vis @ filter visible o'"
  using assms by (force simp: run_of_def)

lemma rewrite_tail:
  assumes "\<forall>l\<in>set rest. \<not> opens i l" and "flags s = (False, True, True)"
  shows "\<exists>out t. rewrite_lines i first rest s = (out, t) \<and> rw_ok t
     \<and> filter visible out = filter visible (map print_line rest)"
proof -
  from assms obtain s' where r: "run_of i first rest s (map print_line rest) s'" and f: "flags s' = (False, True, True)"
    using outside_run [of rest i s first] by (auto simp: flags_def)
  from f have "rewrite_lines i first [] s' = ([], s')" "rw_ok s'" by (simp_all add: flags_def)
  with run_then [OF r, of "[]"] show ?thesis by auto
qed

text \<open>Once the new text is written, being inside a stanza again never ends.\<close>

lemma lost_line:
  assumes "rw_wrote s" and "rw_found s" and "rw_ok s"
  shows "\<exists>out s'. rewrite_line i first l s = (out, s')
     \<and> filter visible out = filter visible (map print_line (filter survives [l])) \<and> flags s' = flags s"
proof (cases "line_fields l = []")
  case True
  then have "survives l" by (simp add: survives_def)
  then show ?thesis using blank_line [OF True assms(3)] by simp
next
  case False
  then obtain f args where fs: "line_fields l = f # args" by (cases "line_fields l") auto
  show ?thesis
    using assms fs by (cases args)
      (auto simp: rewrite_line_fields auto_line_def survives_def flags_def Let_def)
qed

lemma lost_run:
  "rw_wrote s \<Longrightarrow> rw_found s \<Longrightarrow> rw_ok s \<Longrightarrow>
     \<exists>s'. run_of i first ls s (map print_line (filter survives ls)) s' \<and> flags s' = flags s"
proof (induction ls arbitrary: s)
  case Nil
  show ?case using run_of_Nil by fastforce
next
  case (Cons l ls)
  obtain out u where l: "rewrite_line i first l s = (out, u)"
    "filter visible out = filter visible (map print_line (filter survives [l]))" "flags u = flags s"
    using lost_line [of s i first l] Cons.prems by auto
  then have "rw_wrote u" "rw_found u" "rw_ok u" using Cons.prems by (simp_all add: flags_def)
  with Cons.IH obtain s' where "run_of i first ls u (map print_line (filter survives ls)) s'" "flags s' = flags u"
    by blast
  with run_of_Cons [OF l(1) Cons.prems(3) l(2)] l(3) show ?case by fastforce
qed



definition eth0_dual :: ifInterface where
  "eth0_dual = (new_ifc ''eth0'' [ifUpDownConfig])\<lparr>ifc_Mode := ''inet6 static''\<rparr>"

definition eth2_lines :: "string list" where
  "eth2_lines = [''iface eth2 inet static'', ''address 192.0.2.7/24'', ''source /etc/network/extra'']"



end
