(* ===== verification/IfUpDownRoundtrip.thy ===== *)
theory IfUpDownRoundtrip
  imports IfUpDownLaws
begin

text \<open>
  Reading back a stanza \<open>ifupdown.go\<close> has written.
\<close>

section \<open>The fields of the written lines\<close>

definition field :: "string \<Rightarrow> bool" where
  "field w \<longleftrightarrow> is_word w \<and> CHR ''#'' \<notin> set w"

definition line_of :: "string list \<Rightarrow> string" where
  "line_of ws = join '' '' ws"

lemma set_join: "set (join sep ws) \<subseteq> set sep \<union> (\<Union>w\<in>set ws. set w)"
  by (induction sep ws rule: join.induct) auto

lemma line_of_no_hash: "\<forall>w\<in>set ws. field w \<Longrightarrow> CHR ''#'' \<notin> set (line_of ws)"
  using set_join [of "'' ''" ws] by (auto simp: line_of_def field_def)

lemma line_fields_line_of [simp]: "\<forall>w\<in>set ws. field w \<Longrightarrow> line_fields (line_of ws) = ws"
  using line_of_no_hash [of ws] by (simp add: line_fields_def before_id line_of_def Fields_join field_def)

lemma line_fields_tab [simp]: "\<forall>w\<in>set ws. field w \<Longrightarrow> line_fields (tab @ line_of ws) = ws"
  using line_of_no_hash [of ws]
  by (simp add: line_fields_def before_id line_of_def Fields_join field_def tab_def is_space_def)

text \<open>What the parser sees of a stanza: the fields of its lines.\<close>

definition ip_words :: "bool \<Rightarrow> string list" where
  "ip_words v4 = (if v4 then [''ip''] else [''ip'', ''-6''])"

definition address_fields :: "string \<Rightarrow> ipnet \<Rightarrow> string list" where
  "address_fields act n = (if act = ''add'' then ''up'' else ''down'') # ip_words (is4 n)
     @ [''addr'', act, ipnet_string n, ''dev'', ''$IFACE'']"

definition route_option_fields :: "string \<Rightarrow> Route \<Rightarrow> string list" where
  "route_option_fields act r = (if act = ''add'' then ''up'' else ''down'') # ip_words (is4 (the (rt_Destination r)))
     @ [''route'', act, ipnet_string (the (rt_Destination r)), ''via'', ip_string (rt_Gateway r), ''metric'',
        Itoa (rt_Metric r), ''dev'', ''$IFACE'']"

definition option_pairs :: "ifInterface \<Rightarrow> (string \<times> string) list" where
  "option_pairs i = concat (map (\<lambda>k. map (Pair k) (cfg_get (ifc_Config i) k)) (config_keys i))"

definition gateway_fields :: "ifInterface \<Rightarrow> string list list" where
  "gateway_fields i =
     (if ifc_Gateway4 i \<noteq> [] then [[''gateway'', ip_string (ifc_Gateway4 i)]] else [])
     @ (if ifc_Gateway6 i \<noteq> [] then [[''gateway'', ip_string (ifc_Gateway6 i)]] else [])"

definition body_fields :: "ifInterface \<Rightarrow> string list list" where
  "body_fields i =
     map (\<lambda>n. [''address'', ipnet_string n]) (first_addresses True True (ifc_Addresses i))
     @ gateway_fields i @ map (\<lambda>(k, v). k # Fields v) (option_pairs i)
     @ concat (map (\<lambda>n. [address_fields ''add'' n, address_fields ''del'' n]) (more_addresses True True (ifc_Addresses i)))
     @ concat (map (\<lambda>r. [route_option_fields ''add'' r, route_option_fields ''del'' r]) (ifc_Routes i))"

definition head_fields :: "ifInterface \<Rightarrow> string list" where
  "head_fields i = ''iface'' # ifc_Name i # Fields (ifc_Mode i)"

definition stanza_text :: "ifInterface \<Rightarrow> string list" where
  "stanza_text i = [line_of (head_fields i)] @ map (\<lambda>ws. tab @ line_of ws) (body_fields i) @ [[]]"

text \<open>
  Interfaces whose text the parser's grammar can express: proper words, valid addresses,
  routes with destination, gateway and a metric other than zero, options whose name is not
  a keyword and whose values are words, and \<open>up\<close> and \<open>down\<close> commands that are not routes or
  addresses (those are not kept as options).
\<close>

definition reserved_words :: "string list" where
  "reserved_words = [''auto'', ''allow-hotplug'', ''source-directory'', ''source'', ''iface'', ''interface'',
     ''address'', ''netmask'', ''gateway'']"

definition good_option :: "string \<Rightarrow> string \<Rightarrow> bool" where
  "good_option k v \<longleftrightarrow> field k \<and> k \<notin> set reserved_words \<and> v = line_of (Fields v) \<and> Fields v \<noteq> []
     \<and> CHR ''#'' \<notin> set v \<and> (k = ''up'' \<or> k = ''down'' \<longrightarrow> hd (Fields v) \<notin> {''route'', ''ip''})"

definition good_route :: "Route \<Rightarrow> bool" where
  "good_route r \<longleftrightarrow> (case rt_Destination r of None \<Rightarrow> False | Some d \<Rightarrow> valid_net d) \<and> valid_ip (rt_Gateway r)
     \<and> rt_Metric r \<noteq> 0 \<and> - (2 ^ 63) \<le> rt_Metric r \<and> rt_Metric r < 2 ^ 63"

definition good_ifc :: "ifInterface \<Rightarrow> bool" where
  "good_ifc i \<longleftrightarrow> field (ifc_Name i) \<and> CHR '':'' \<notin> set (ifc_Name i)
     \<and> ifc_Mode i = line_of (Fields (ifc_Mode i)) \<and> CHR ''#'' \<notin> set (ifc_Mode i)
     \<and> list_all valid_net (ifc_Addresses i)
     \<and> (ifc_Gateway4 i = [] \<or> valid_ip (ifc_Gateway4 i) \<and> is_v4 (ifc_Gateway4 i))
     \<and> (ifc_Gateway6 i = [] \<or> valid_ip (ifc_Gateway6 i) \<and> \<not> is_v4 (ifc_Gateway6 i))
     \<and> list_all good_route (ifc_Routes i)
     \<and> distinct (map fst (ifc_Config i))
     \<and> list_all (\<lambda>(k, vs). list_all (good_option k) vs) (ifc_Config i)"

lemma field_literals [simp]:
  "field ''iface''" "field ''address''" "field ''gateway''" "field ''up''" "field ''down''" "field ''ip''" "field ''-6''"
  "field ''addr''" "field ''route''" "field ''add''" "field ''del''" "field ''dev''" "field ''$IFACE''" "field ''via''"
  "field ''metric''"
  by (simp_all add: field_def is_word_def is_space_def)

lemma not_hash: "\<not> is_hex CHR ''#''" "\<not> is_digit CHR ''#''"
  by (simp_all add: is_hex_def hex_val_def is_digit_def)

lemma field_ip [simp]: "valid_ip g \<Longrightarrow> field (ip_string g)"
  using ip_string_word [of g] ip_string_chars [of g "CHR ''#''"] not_hash by (auto simp: field_def)

lemma field_net [simp]: "valid_net n \<Longrightarrow> field (ipnet_string n)"
  using ipnet_string_word [of n] ip_string_chars [of "net_ip n" "CHR ''#''"] not_hash show_nat_digits
  by (auto simp: field_def ipnet_string_valid valid_net_def)

lemma field_Itoa [simp]: "field (Itoa m)"
  using Itoa_word [of m] show_nat_digits not_hash by (auto simp: field_def Itoa_def)

lemma Fields_field: "CHR ''#'' \<notin> set v \<Longrightarrow> v = line_of (Fields v) \<Longrightarrow> w \<in> set (Fields v) \<Longrightarrow> field w"
proof -
  have member: "w \<in> set ws \<Longrightarrow> set w \<subseteq> set (join '' '' ws)" for ws :: "string list"
    by (induction "'' ''" ws rule: join.induct) auto
  assume "CHR ''#'' \<notin> set v" "v = line_of (Fields v)" "w \<in> set (Fields v)"
  then show ?thesis
    using member [of "Fields v"] Fields_words [of w v] by (auto simp: field_def line_of_def)
qed

lemma line_of_simps [simp]: "line_of [a] = a" "line_of (a # b # ws) = a @ '' '' @ line_of (b # ws)"
  by (simp_all add: line_of_def)

lemma line_of_Cons: "ws \<noteq> [] \<Longrightarrow> line_of (k # ws) = k @ '' '' @ line_of ws"
  by (cases ws) auto

lemma set_first: "n \<in> set (first_addresses f4 f6 as) \<Longrightarrow> n \<in> set as"
  by (induction as arbitrary: f4 f6) (auto split: if_splits)

lemma set_more: "n \<in> set (more_addresses f4 f6 as) \<Longrightarrow> n \<in> set as"
  by (induction as arbitrary: f4 f6) (auto split: if_splits)

lemma good_pairs: "good_ifc i \<Longrightarrow> (k, v) \<in> set (option_pairs i) \<Longrightarrow> good_option k v"
  by (auto simp: good_ifc_def option_pairs_def cfg_get_def list_all_iff split: option.splits dest!: map_of_SomeD)

lemma good_fields:
  assumes "good_ifc i"
  shows "\<forall>w\<in>set (head_fields i). field w" and "\<forall>ws\<in>set (body_fields i). \<forall>w\<in>set ws. field w"
proof -
  show "\<forall>w\<in>set (head_fields i). field w"
    using assms Fields_field [of "ifc_Mode i"] by (auto simp: good_ifc_def head_fields_def)
  have n: "n \<in> set (ifc_Addresses i) \<Longrightarrow> valid_net n" for n
    using assms by (simp add: good_ifc_def list_all_iff)
  have r: "r \<in> set (ifc_Routes i) \<Longrightarrow> good_route r" for r
    using assms by (simp add: good_ifc_def list_all_iff)
  have o: "(k, v) \<in> set (option_pairs i) \<Longrightarrow> w \<in> set (k # Fields v) \<Longrightarrow> field w" for k v w
    using good_pairs [OF assms] Fields_field [of v w] by (auto simp: good_option_def)
  have g: "ws \<in> set (gateway_fields i) \<Longrightarrow> w \<in> set ws \<Longrightarrow> field w" for ws w
    using assms by (auto simp: gateway_fields_def good_ifc_def split: if_splits)
  have a: "valid_net n \<Longrightarrow> w \<in> set (address_fields ''add'' n) \<union> set (address_fields ''del'' n) \<Longrightarrow> field w" for n w
    by (auto simp: address_fields_def ip_words_def split: if_splits)
  have rf: "good_route r \<Longrightarrow> w \<in> set (route_option_fields ''add'' r) \<union> set (route_option_fields ''del'' r) \<Longrightarrow> field w" for r w
    by (auto simp: route_option_fields_def ip_words_def good_route_def split: if_splits option.splits)
  have as: "\<forall>n\<in>set ns. valid_net n \<Longrightarrow>
      \<forall>ws\<in>set (concat (map (\<lambda>n. [address_fields ''add'' n, address_fields ''del'' n]) ns)). \<forall>w\<in>set ws. field w" for ns
    using a by (induction ns) auto
  have rs: "\<forall>r\<in>set rs. good_route r \<Longrightarrow>
      \<forall>ws\<in>set (concat (map (\<lambda>r. [route_option_fields ''add'' r, route_option_fields ''del'' r]) rs)). \<forall>w\<in>set ws. field w" for rs
    using rf by (induction rs) auto
  have os: "\<forall>ws\<in>set (map (\<lambda>(k, v). k # Fields v) (option_pairs i)). \<forall>w\<in>set ws. field w"
    using o by auto
  have fs: "\<forall>ws\<in>set (map (\<lambda>n. [''address'', ipnet_string n]) (first_addresses True True (ifc_Addresses i))).
      \<forall>w\<in>set ws. field w"
    using n set_first by fastforce
  show "\<forall>ws\<in>set (body_fields i). \<forall>w\<in>set ws. field w"
    unfolding body_fields_def set_append ball_Un
    using fs g os as [of "more_addresses True True (ifc_Addresses i)"] rs [of "ifc_Routes i"] n r set_more by blast
qed

lemma route_lines_good:
  "list_all good_route rs \<Longrightarrow> route_lines rs =
     (map print_line (map (\<lambda>ws. tab @ line_of ws) (concat (map (\<lambda>r. [route_option_fields ''add'' r, route_option_fields ''del'' r]) rs)) @ [[]]), True)"
proof (induction rs)
  case Nil
  show ?case by (simp add: print_line_def)
next
  case (Cons r rs)
  then obtain d where d: "rt_Destination r = Some d" by (auto simp: good_route_def split: option.splits)
  with Cons show ?case
    by (auto simp: route_option_fields_def ip_words_def ip_tool_def route_args_def print_line_def)
qed

lemma Write_good:
  assumes "good_ifc i"
  shows "Write i = (map print_line (stanza_text i), True)"
proof -
  have h: "head_line i = print_line (line_of (head_fields i))"
  proof (cases "ifc_Mode i = []")
    case False
    then have "Fields (ifc_Mode i) \<noteq> []" using assms by (auto simp: good_ifc_def line_of_def)
    with False assms show ?thesis
      by (simp add: head_line_def head_fields_def print_line_def good_ifc_def line_of_Cons)
  qed (simp add: head_line_def head_fields_def print_line_def)
  have g: "gateway_lines i = map print_line (map (\<lambda>ws. tab @ line_of ws) (gateway_fields i))"
    by (simp add: gateway_lines_def gateway_fields_def print_line_def)
  have a: "concat (map address_lines ns) = map print_line (map (\<lambda>ws. tab @ line_of ws)
      (concat (map (\<lambda>n. [address_fields ''add'' n, address_fields ''del'' n]) ns)))" for ns
    by (induction ns) (auto simp: address_lines_def address_fields_def ip_words_def ip_tool_def print_line_def)
  have "tab @ k @ '' '' @ v @ nl = print_line (tab @ line_of (k # Fields v))" if "(k, v) \<in> set (option_pairs i)" for k v
    using good_pairs [OF assms that] by (simp add: good_option_def line_of_Cons print_line_def)
  then have "map (\<lambda>(k, v). tab @ k @ '' '' @ v @ nl) (option_pairs i)
      = map print_line (map (\<lambda>ws. tab @ line_of ws) (map (\<lambda>(k, v). k # Fields v) (option_pairs i)))"
    by (auto simp: comp_def)
  moreover have "config_lines i = map (\<lambda>(k, v). tab @ k @ '' '' @ v @ nl) (option_pairs i)"
    by (simp add: config_lines_def option_pairs_def map_concat comp_def)
  moreover have "list_all good_route (ifc_Routes i)" using assms by (simp add: good_ifc_def)
  ultimately show ?thesis
    by (simp add: Write_def stanza_text_def body_fields_def h g a route_lines_good)
      (simp add: print_line_def)
qed

section \<open>Reading them\<close>

fun plain_lines :: "string \<Rightarrow> string list list \<Rightarrow> reader \<Rightarrow> ifUpDown \<Rightarrow> (reader \<times> ifUpDown) result" where
  "plain_lines src [] r u = Inr (r, u)"
| "plain_lines src (fs # ls) r u = try_res (plain_line src fs r u) (\<lambda>(r, u). plain_lines src ls r u)"

lemma plain_lines_append:
  "plain_lines src (xs @ ys) r u = try_res (plain_lines src xs r u) (\<lambda>(r, u). plain_lines src ys r u)"
proof (induction xs arbitrary: r u)
  case (Cons x xs)
  then show ?case by (cases "plain_line src x r u") auto
qed simp

definition sources :: "string list \<Rightarrow> bool" where
  "sources fs \<longleftrightarrow> fs \<noteq> [] \<and> (hd fs = ''source'' \<or> hd fs = ''source-directory'')"

lemma read_lines_plain:
  "\<forall>l\<in>set ls. \<not> sources (line_fields l) \<Longrightarrow>
     read_lines n src ls r u w = (plain_lines src (map line_fields ls) r u, w)"
proof (induction ls arbitrary: r u)
  case (Cons l ls)
  then show ?case
    by (cases "plain_line src (line_fields l) r u") (auto simp: sources_def Let_def)
qed simp

text \<open>The configuration with one more interface, the one being read.\<close>

definition at :: "ifUpDown \<Rightarrow> ifInterface \<Rightarrow> ifUpDown" where
  "at u i = u\<lparr>iu_Interfaces := iu_Interfaces u @ [i]\<rparr>"

definition fresh :: "string \<Rightarrow> ifUpDown \<Rightarrow> bool" where
  "fresh nm u \<longleftrightarrow> nm \<notin> ifc_Name ` set (iu_Interfaces u)"

lemma update_first_last:
  "\<forall>x\<in>set xs. \<not> P x \<Longrightarrow> P y \<Longrightarrow> update_first P f (xs @ [y]) = xs @ [f y]"
  by (induction xs) auto

lemma update_at:
  assumes "fresh (ifc_Name i) u"
  shows "update_ifc (ifc_Name i) f (at u i) = at u (f i)"
proof -
  have "\<forall>x\<in>set (iu_Interfaces u). ifc_Name x \<noteq> ifc_Name i"
    using assms by (auto simp: fresh_def image_iff)
  then have "update_first (\<lambda>x. ifc_Name x = ifc_Name i) f (iu_Interfaces u @ [i]) = iu_Interfaces u @ [f i]"
    by (rule update_first_last) simp
  then show ?thesis by (simp add: update_ifc_def at_def)
qed

lemma on_iface_at:
  "fresh (ifc_Name i) u \<Longrightarrow> rd_iface r = Some (ifc_Name i) \<Longrightarrow> on_iface r f (at u i) = at u (f i)"
  by (simp add: on_iface_def update_at)

lemma Ensure_fresh: "fresh nm u \<Longrightarrow> iu_EnsureInterface nm u = (new_ifc nm [iu_BaseConfig u], at u (new_ifc nm [iu_BaseConfig u]))"
proof -
  assume "fresh nm u"
  then have "List.find (\<lambda>i. ifc_Name i = nm) (iu_Interfaces u) = None"
    by (auto simp: fresh_def find_None_ball)
  then show ?thesis by (simp add: iu_EnsureInterface_def at_def Let_def)
qed

text \<open>Reading inside the stanza as a function on the interface and the pending address.\<close>

type_synonym reading = "ifInterface \<times> ipnet option"

definition reads :: "string \<Rightarrow> string list list \<Rightarrow> reading \<Rightarrow> reading \<Rightarrow> bool" where
  "reads src ls x y \<longleftrightarrow> ifc_Name (fst y) = ifc_Name (fst x) \<and> (\<forall>u. fresh (ifc_Name (fst x)) u \<longrightarrow>
     plain_lines src ls \<lparr>rd_iface = Some (ifc_Name (fst x)), rd_address = snd x\<rparr> (at u (fst x))
       = Inr (\<lparr>rd_iface = Some (ifc_Name (fst x)), rd_address = snd y\<rparr>, at u (fst y)))"

lemma reads_Nil: "reads src [] x x"
  by (simp add: reads_def)

lemma reads_append: "reads src xs x y \<Longrightarrow> reads src ys y z \<Longrightarrow> reads src (xs @ ys) x z"
  by (simp add: reads_def plain_lines_append)

lemma reads_concat:
  assumes "\<And>a x. a \<in> set as \<Longrightarrow> Q x \<Longrightarrow> reads src (f a) x (g a x) \<and> Q (g a x)"
  shows "Q x \<Longrightarrow> reads src (concat (map f as)) x (fold g as x) \<and> Q (fold g as x)"
  using assms
proof (induction as arbitrary: x)
  case Nil
  then show ?case by (simp add: reads_Nil)
next
  case (Cons a as)
  then have "reads src (f a) x (g a x)" "Q (g a x)" by simp_all
  moreover from Cons.IH [OF \<open>Q (g a x)\<close>] Cons.prems(2)
  have "reads src (concat (map f as)) (g a x) (fold g as (g a x)) \<and> Q (fold g as (g a x))" by simp
  ultimately show ?case by (simp add: reads_append)
qed

definition flushed :: "reading \<Rightarrow> ifInterface" where
  "flushed x = (case snd x of None \<Rightarrow> fst x | Some a \<Rightarrow> add_address a (fst x))"

lemma name_kept [simp]:
  "ifc_Name (add_address a i) = ifc_Name i" "ifc_Name (add_route r i) = ifc_Name i"
  "ifc_Name (iu_set_gateway g i) = ifc_Name i" "ifc_Name (add_config k v i) = ifc_Name i"
  by (simp_all add: add_address_def add_route_def iu_set_gateway_def add_config_def)

lemma flush_at:
  "fresh (ifc_Name (fst x)) u \<Longrightarrow>
     flush \<lparr>rd_iface = Some (ifc_Name (fst x)), rd_address = snd x\<rparr> (at u (fst x)) = at u (flushed x)"
  by (simp add: flush_def flushed_def on_iface_at split: option.splits)

lemma slash_in_net: "valid_net n \<Longrightarrow> CHR ''/'' \<in> set (ipnet_string n)"
  by (simp add: ipnet_string_valid)

lemma reads_address:
  assumes "valid_net n"
  shows "reads src [[''address'', ipnet_string n]] x (flushed x, Some (norm_net n))"
proof -
  have "ifc_Name (flushed x) = ifc_Name (fst x)" by (simp add: flushed_def split: option.splits)
  then show ?thesis
    using assms by (simp add: reads_def plain_line_def read_address_def flush_at slash_in_net ParseCIDR_ipnet_string)
qed

lemma reads_gateway:
  assumes "valid_ip g"
  shows "reads src [[''gateway'', ip_string g]] x (iu_set_gateway (To16 g) (fst x), snd x)"
  using assms by (auto simp: reads_def plain_line_def read_gateway_def with_reader_def ParseIP_ip_string on_iface_at
      To16_def valid_ip_def)

lemma reads_option_line:
  assumes "k \<notin> set reserved_words" and "vs \<noteq> []"
  shows "ifc_Name (read_option (k # vs) (fst x)) = ifc_Name (fst x) \<Longrightarrow>
     reads src [k # vs] x (read_option (k # vs) (fst x), snd x)"
  using assms by (auto simp: reads_def plain_line_def read_other_def with_reader_def on_iface_at reserved_words_def neq_Nil_conv)

lemma reads_pair:
  assumes "hd xs \<notin> set reserved_words" and "2 \<le> length xs" and "read_option xs (fst x) = i"
    and "hd ys \<notin> set reserved_words" and "2 \<le> length ys" and "read_option ys i = i" and "ifc_Name i = ifc_Name (fst x)"
  shows "reads src [xs, ys] x (i, snd x)"
proof -
  have x: "xs = hd xs # tl xs" "tl xs \<noteq> []" using assms(2) by (cases xs; cases "tl xs"; simp)+
  have y: "ys = hd ys # tl ys" "tl ys \<noteq> []" using assms(5) by (cases ys; cases "tl ys"; simp)+
  have "reads src [xs] x (i, snd x)"
    using reads_option_line [OF assms(1) x(2), where x = x and src = src] assms(3,7) x(1) by simp
  moreover have "reads src [ys] (i, snd x) (i, snd x)"
    using reads_option_line [OF assms(4) y(2), where x = "(i, snd x)" and src = src] assms(6) y(1) by simp
  ultimately show ?thesis using reads_append [of src "[xs]" x "(i, snd x)" "[ys]"] by simp
qed

lemma reads_more_address:
  assumes "valid_net n"
  shows "reads src [address_fields ''add'' n, address_fields ''del'' n] x (add_address (norm_net n) (fst x), snd x)"
proof (rule reads_pair)
  show "read_option (address_fields ''add'' n) (fst x) = add_address (norm_net n) (fst x)"
    using assms by (simp add: read_option_def absorb_up_def address_fields_def ip_words_def no_cmd_def ip_target_def
        ParseCIDR_ipnet_string Let_def)
  show "read_option (address_fields ''del'' n) (add_address (norm_net n) (fst x)) = add_address (norm_net n) (fst x)"
    using assms by (simp add: read_option_def absorb_up_def drop_down_def address_fields_def ip_words_def no_cmd_def
        ip_target_def ParseCIDR_ipnet_string Let_def)
qed (simp_all add: address_fields_def ip_words_def reserved_words_def)

definition norm_route :: "Route \<Rightarrow> Route" where
  "norm_route r = r\<lparr>rt_Destination := map_option norm_net (rt_Destination r), rt_Gateway := To16 (rt_Gateway r)\<rparr>"

lemma ip_string_not_word:
  "valid_ip g \<Longrightarrow> ip_string g \<notin> {''addr'', ''address'', ''route'', ''del'', ''delete'', ''dev''}"
proof -
  assume v: "valid_ip g"
  have "CHR ''r'' \<notin> set (ip_string g)" "CHR ''l'' \<notin> set (ip_string g)" "CHR ''v'' \<notin> set (ip_string g)"
    using ip_string_chars [OF v, of "CHR ''r''"] ip_string_chars [OF v, of "CHR ''l''"]
      ip_string_chars [OF v, of "CHR ''v''"] by (auto simp: is_hex_def hex_val_def is_digit_def)
  then show ?thesis by auto
qed

lemma Itoa_not_word: "Itoa m \<notin> {''addr'', ''address'', ''route'', ''del'', ''delete'', ''dev''}"
proof -
  have c: "c \<in> set (Itoa m) \<Longrightarrow> is_digit c \<or> c = CHR ''-''" for c
    using show_nat_digits by (auto simp: Itoa_def split: if_splits)
  have "CHR ''d'' \<notin> set (Itoa m)" "CHR ''a'' \<notin> set (Itoa m)" "CHR ''r'' \<notin> set (Itoa m)"
    using c [of "CHR ''d''"] c [of "CHR ''a''"] c [of "CHR ''r''"] by (auto simp: is_digit_def)
  then show ?thesis by auto
qed

lemma ParseIP_not_Nil: "valid_ip g \<Longrightarrow> To16 g \<noteq> []"
  by (auto simp: valid_ip_def To16_def)

lemma reads_route:
  assumes "good_route r"
  shows "reads src [route_option_fields ''add'' r, route_option_fields ''del'' r] x (add_route (norm_route r) (fst x), snd x)"
proof -
  obtain d where d: "rt_Destination r = Some d" "valid_net d"
    and g: "valid_ip (rt_Gateway r)" and m: "Atoi (Itoa (rt_Metric r)) = Some (rt_Metric r)" "rt_Metric r \<noteq> 0"
    using assms Atoi_Itoa [of "rt_Metric r"] by (auto simp: good_route_def split: option.splits)
  let ?c = "no_cmd\<lparr>cm_isRoute := True, cm_act := True, cm_dst := Some (norm_net d), cm_gw := To16 (rt_Gateway r),
    cm_metric := rt_Metric r, cm_thisDev := True\<rparr>"
  have args: "ip_cmd True nm (tl (ip_words (is4 d)) @ [''route'', ''add'', ipnet_string d, ''via'', ip_string (rt_Gateway r),
      ''metric'', Itoa (rt_Metric r), ''dev'', ''$IFACE'']) no_cmd = ?c" for nm
    using d g m by (simp add: ip_words_def ip_target_def ParseCIDR_ipnet_string ParseIP_ip_string ip_metric_def no_cmd_def)
  have up: "read_option (route_option_fields ''add'' r) (fst x) = add_route (norm_route r) (fst x)"
  proof -
    have "absorb_up (route_option_fields ''add'' r) (fst x) = Some (add_route (cmd_route ?c) (fst x))"
      using args [of "ifc_Name (fst x)"] d ParseIP_not_Nil [OF g]
      by (cases "is4 d") (simp_all add: absorb_up_def route_option_fields_def ip_words_def Let_def)
    moreover have "cmd_route ?c = norm_route r" using d by (simp add: cmd_route_def norm_route_def)
    ultimately show ?thesis by (simp add: read_option_def)
  qed
  note nw = ip_string_not_word [OF g] Itoa_not_word [of "rt_Metric r"]
  have down: "read_option (route_option_fields ''del'' r) i = i" for i
    using d nw by (simp add: read_option_def absorb_up_def drop_down_def route_option_fields_def ip_words_def no_cmd_def
        ip_target_def ParseCIDR_ipnet_string Let_def)
  show ?thesis
    using up down by (intro reads_pair) (simp_all add: route_option_fields_def ip_words_def reserved_words_def)
qed

lemma reads_option:
  assumes "good_option k v"
  shows "reads src [k # Fields v] x (add_config k v (fst x), snd x)"
proof -
  have v: "Fields v \<noteq> []" "join '' '' (Fields v) = v" and k: "k \<notin> set reserved_words"
    using assms by (simp_all add: good_option_def line_of_def)
  have n: "k = ''up'' \<or> k = ''down'' \<Longrightarrow> hd (Fields v) \<noteq> ''route'' \<and> hd (Fields v) \<noteq> ''ip''"
    using assms by (auto simp: good_option_def)
  obtain t args where tv: "Fields v = t # args" using v(1) by (cases "Fields v") auto
  have "absorb_up (k # Fields v) i = None" "\<not> drop_down (k # Fields v) i" for i
    using n tv by (auto simp: absorb_up_def drop_down_def)
  then have "read_option (k # Fields v) i = add_config k v i" for i
    using v(2) by (simp add: read_option_def)
  then show ?thesis
    using reads_option_line [OF k v(1), where x = x and src = src] by simp
qed

section \<open>The whole stanza\<close>

definition address_step :: "ipnet \<Rightarrow> reading \<Rightarrow> reading" where
  "address_step n x = (flushed x, Some (norm_net n))"

definition on_ifc :: "(ifInterface \<Rightarrow> ifInterface) \<Rightarrow> reading \<Rightarrow> reading" where
  "on_ifc f x = (f (fst x), snd x)"

lemma fold_on_ifc: "fold (\<lambda>a. on_ifc (f a)) as x = on_ifc (fold f as) x"
  by (induction as arbitrary: x) (simp_all add: on_ifc_def)

lemma fold_address_step:
  "fold address_step F (i, None) = (i\<lparr>ifc_Addresses := ifc_Addresses i @ map norm_net (butlast F)\<rparr>,
     if F = [] then None else Some (norm_net (last F)))"
proof (induction F rule: rev_induct)
  case (snoc n F)
  show ?case
  proof (cases F rule: rev_cases)
    case (snoc F' m)
    then have "map norm_net F = map norm_net (butlast F) @ [norm_net (last F)]" "F \<noteq> []" by simp_all
    then show ?thesis using snoc.IH by (simp add: address_step_def flushed_def add_address_def del: map_butlast)
  qed (simp add: address_step_def flushed_def)
qed simp

lemma reads_segment:
  assumes "\<And>a x. a \<in> set as \<Longrightarrow> reads src (f a) x (g a x)"
  shows "reads src (concat (map f as)) x (fold g as x)"
  using reads_concat [of as "\<lambda>x. True" src f g x] assms by simp

lemma concat_single: "map f xs = concat (map (\<lambda>x. [f x]) xs)"
  by (induction xs) auto

definition both_gateways :: "ifInterface \<Rightarrow> ifInterface \<Rightarrow> ifInterface" where
  "both_gateways i j = j\<lparr>ifc_Gateway4 := (if ifc_Gateway4 i = [] then ifc_Gateway4 j else To16 (ifc_Gateway4 i)),
     ifc_Gateway6 := (if ifc_Gateway6 i = [] then ifc_Gateway6 j else To16 (ifc_Gateway6 i))\<rparr>"

lemma reads_gateways:
  assumes "good_ifc i"
  shows "reads src (gateway_fields i) x (on_ifc (both_gateways i) x)"
proof -
  have g4: "ifc_Gateway4 i \<noteq> [] \<Longrightarrow> valid_ip (ifc_Gateway4 i) \<and> To4 (To16 (ifc_Gateway4 i)) \<noteq> []"
    and g6: "ifc_Gateway6 i \<noteq> [] \<Longrightarrow> valid_ip (ifc_Gateway6 i) \<and> To4 (To16 (ifc_Gateway6 i)) = []"
    using assms is_v4_To16 by (auto simp: good_ifc_def is_v4_def)
  let ?y = "on_ifc (\<lambda>j. if ifc_Gateway4 i = [] then j else j\<lparr>ifc_Gateway4 := To16 (ifc_Gateway4 i)\<rparr>) x"
  let ?z = "on_ifc (\<lambda>j. if ifc_Gateway6 i = [] then j else j\<lparr>ifc_Gateway6 := To16 (ifc_Gateway6 i)\<rparr>) ?y"
  have 1: "reads src (if ifc_Gateway4 i \<noteq> [] then [[''gateway'', ip_string (ifc_Gateway4 i)]] else []) x ?y"
  proof (cases "ifc_Gateway4 i = []")
    case False
    with g4 show ?thesis using reads_gateway [of "ifc_Gateway4 i" src x] by (simp add: on_ifc_def iu_set_gateway_def)
  qed (simp add: on_ifc_def reads_Nil)
  have 2: "reads src (if ifc_Gateway6 i \<noteq> [] then [[''gateway'', ip_string (ifc_Gateway6 i)]] else []) ?y ?z"
  proof (cases "ifc_Gateway6 i = []")
    case False
    with g6 show ?thesis using reads_gateway [of "ifc_Gateway6 i" src ?y] by (simp add: on_ifc_def iu_set_gateway_def)
  qed (simp add: on_ifc_def reads_Nil)
  have z: "?z = on_ifc (both_gateways i) x" by (simp add: on_ifc_def both_gateways_def)
  show ?thesis using reads_append [OF 1 2] unfolding gateway_fields_def z .
qed

definition body_reading :: "ifInterface \<Rightarrow> reading \<Rightarrow> reading" where
  "body_reading i x =
     on_ifc (fold (\<lambda>r. add_route (norm_route r)) (ifc_Routes i))
      (on_ifc (fold (\<lambda>n. add_address (norm_net n)) (more_addresses True True (ifc_Addresses i)))
       (on_ifc (fold (\<lambda>(k, v). add_config k v) (option_pairs i))
        (on_ifc (both_gateways i)
         (fold address_step (first_addresses True True (ifc_Addresses i)) x))))"

lemma reads_body:
  assumes "good_ifc i"
  shows "reads src (body_fields i) x (body_reading i x)"
proof -
  have n: "n \<in> set (ifc_Addresses i) \<Longrightarrow> valid_net n" for n
    using assms by (simp add: good_ifc_def list_all_iff)
  have r: "r \<in> set (ifc_Routes i) \<Longrightarrow> good_route r" for r
    using assms by (simp add: good_ifc_def list_all_iff)
  have 1: "reads src (map (\<lambda>n. [''address'', ipnet_string n]) (first_addresses True True (ifc_Addresses i))) y
      (fold address_step (first_addresses True True (ifc_Addresses i)) y)" for y
    unfolding concat_single [of "\<lambda>n. [''address'', ipnet_string n]"]
    by (rule reads_segment) (use n set_first in \<open>auto simp: address_step_def intro: reads_address\<close>)
  have 3: "reads src (map (\<lambda>(k, v). k # Fields v) (option_pairs i)) y
      (on_ifc (fold (\<lambda>(k, v). add_config k v) (option_pairs i)) y)" for y
    unfolding concat_single [of "\<lambda>(k, v). k # Fields v"] fold_on_ifc [symmetric]
    by (rule reads_segment) (use good_pairs [OF assms] in \<open>auto simp: on_ifc_def intro: reads_option\<close>)
  have 4: "reads src (concat (map (\<lambda>n. [address_fields ''add'' n, address_fields ''del'' n]) (more_addresses True True (ifc_Addresses i)))) y
      (on_ifc (fold (\<lambda>n. add_address (norm_net n)) (more_addresses True True (ifc_Addresses i))) y)" for y
    unfolding fold_on_ifc [symmetric]
    by (rule reads_segment) (use n set_more in \<open>auto simp: on_ifc_def intro: reads_more_address\<close>)
  have 5: "reads src (concat (map (\<lambda>r. [route_option_fields ''add'' r, route_option_fields ''del'' r]) (ifc_Routes i))) y
      (on_ifc (fold (\<lambda>r. add_route (norm_route r)) (ifc_Routes i)) y)" for y
    unfolding fold_on_ifc [symmetric]
    by (rule reads_segment) (use r in \<open>auto simp: on_ifc_def intro: reads_route\<close>)
  show ?thesis
    unfolding body_fields_def body_reading_def
    by (intro reads_append [OF 1] reads_append [OF reads_gateways [OF assms]] reads_append [OF 3] reads_append [OF 4] 5)
qed

text \<open>The options, as a map.\<close>

definition add_option :: "string \<times> string \<Rightarrow> (string \<times> string list) list \<Rightarrow> (string \<times> string list) list" where
  "add_option kv c = AList.update (fst kv) (cfg_get c (fst kv) @ [snd kv]) c"

lemma fold_add_config: "fold (\<lambda>(k, v). add_config k v) ps i = i\<lparr>ifc_Config := fold add_option ps (ifc_Config i)\<rparr>"
  by (induction ps arbitrary: i) (auto simp: add_config_def add_option_def)

lemma cfg_get_update [simp]: "cfg_get (AList.update k v c) l = (if l = k then v else cfg_get c l)"
  by (simp add: cfg_get_def update_conv')

lemma cfg_get_fold: "cfg_get (fold add_option ps c) k = cfg_get c k @ map snd (filter (\<lambda>p. fst p = k) ps)"
  by (induction ps arbitrary: c) (auto simp: add_option_def)

lemma filter_pairs:
  "distinct ks \<Longrightarrow> map snd (filter (\<lambda>p. fst p = k) (concat (map (\<lambda>k. map (Pair k) (f k)) ks))) = (if k \<in> set ks then f k else [])"
  by (induction ks) (auto simp: filter_map comp_def filter_empty_conv)

lemma config_keys_set: "set (config_keys i) = fst ` set (ifc_Config i)"
  by (auto simp: config_keys_def Let_def image_iff)

lemma config_keys_distinct: "distinct (map fst (ifc_Config i)) \<Longrightarrow> distinct (config_keys i)"
  by (auto simp: config_keys_def Let_def)

lemma options_back:
  assumes "distinct (map fst (ifc_Config i))"
  shows "cfg_get (fold add_option (option_pairs i) []) k = cfg_get (ifc_Config i) k"
proof -
  have "k \<notin> set (config_keys i) \<Longrightarrow> cfg_get (ifc_Config i) k = []"
    by (auto simp: config_keys_set cfg_get_def split: option.splits dest!: map_of_SomeD) force
  moreover have "cfg_get [] k = []" by (simp add: cfg_get_def)
  ultimately show ?thesis
    unfolding cfg_get_fold option_pairs_def
    using filter_pairs [OF config_keys_distinct [OF assms], of k "cfg_get (ifc_Config i)"] by auto
qed

lemma fold_add_address: "fold (\<lambda>n. add_address (f n)) ns i = i\<lparr>ifc_Addresses := ifc_Addresses i @ map f ns\<rparr>"
  by (induction ns arbitrary: i) (auto simp: add_address_def)

lemma fold_add_route: "fold (\<lambda>r. add_route (f r)) rs i = i\<lparr>ifc_Routes := ifc_Routes i @ map f rs\<rparr>"
  by (induction rs arbitrary: i) (auto simp: add_route_def)

text \<open>
  The order in which the addresses come back: one pending when the \<open>up\<close> commands are read is
  added only at the end.
\<close>

definition read_order :: "ipnet list \<Rightarrow> ipnet list" where
  "read_order as = (let F = first_addresses True True as in
     butlast F @ more_addresses True True as @ (if F = [] then [] else [last F]))"

definition read_back :: "string \<Rightarrow> ifUpDown \<Rightarrow> ifInterface \<Rightarrow> ifInterface" where
  "read_back src u i = (start_stanza src (Fields (ifc_Mode i)) (new_ifc (ifc_Name i) [iu_BaseConfig u]))
     \<lparr>ifc_Addresses := map norm_net (read_order (ifc_Addresses i)),
      ifc_Gateway4 := To16 (ifc_Gateway4 i), ifc_Gateway6 := To16 (ifc_Gateway6 i),
      ifc_Routes := map norm_route (ifc_Routes i),
      ifc_Config := fold add_option (option_pairs i) []\<rparr>"

lemma mset_first_more: "mset (first_addresses f4 f6 as) + mset (more_addresses f4 f6 as) = mset as"
  by (induction as arbitrary: f4 f6) auto

lemma mset_read_order: "mset (read_order as) = mset as"
proof -
  let ?F = "first_addresses True True as"
  show ?thesis
  proof (cases "?F = []")
    case True
    then show ?thesis using mset_first_more [of True True as] by (simp add: read_order_def)
  next
    case False
    then have "mset (butlast ?F @ [last ?F]) = mset ?F" by simp
    then have "mset (butlast ?F) + {#last ?F#} = mset ?F" by (simp del: append_butlast_last_id)
    then have "mset as = mset (butlast ?F) + {#last ?F#} + mset (more_addresses True True as)"
      using mset_first_more [of True True as] by simp
    with False show ?thesis by (simp add: read_order_def Let_def)
  qed
qed

lemma body_reading_flushed:
  assumes "ifc_Addresses j = []" "ifc_Gateway4 j = []" "ifc_Gateway6 j = []" "ifc_Routes j = []" "ifc_Config j = []"
  shows "flushed (body_reading i (j, None)) = j\<lparr>ifc_Addresses := map norm_net (read_order (ifc_Addresses i)),
      ifc_Gateway4 := To16 (ifc_Gateway4 i), ifc_Gateway6 := To16 (ifc_Gateway6 i),
      ifc_Routes := map norm_route (ifc_Routes i), ifc_Config := fold add_option (option_pairs i) []\<rparr>"
proof -
  have To16_Nil: "To16 [] = []" by (simp add: To16_def)
  show ?thesis
    using assms
    by (simp add: body_reading_def fold_address_step on_ifc_def fold_add_config fold_add_address fold_add_route
        both_gateways_def flushed_def add_address_def read_order_def Let_def To16_Nil)
qed

lemma reads_stanza:
  assumes good: "good_ifc i" and fresh: "fresh (ifc_Name i) u"
  shows "\<exists>r u'. plain_lines src ([head_fields i] @ body_fields i @ [[]]) start_reader u = Inr (r, u')
     \<and> flush r u' = at u (read_back src u i)"
proof -
  let ?j = "start_stanza src (Fields (ifc_Mode i)) (new_ifc (ifc_Name i) [iu_BaseConfig u])"
  have jn: "ifc_Name ?j = ifc_Name i" by (simp add: start_stanza_def new_ifc_def)
  have base: "base_name (ifc_Name i) = ifc_Name i"
    using good by (simp add: good_ifc_def base_name_def before_id)
  have upd: "update_ifc (ifc_Name i) f (at u (new_ifc (ifc_Name i) [iu_BaseConfig u])) = at u (f (new_ifc (ifc_Name i) [iu_BaseConfig u]))" for f
    using update_at [of "new_ifc (ifc_Name i) [iu_BaseConfig u]" u f] fresh by (simp add: new_ifc_def)
  have "plain_line src (head_fields i) start_reader u = Inr (\<lparr>rd_iface = Some (ifc_Name i), rd_address = None\<rparr>, at u ?j)"
    using fresh by (simp add: plain_line_def head_fields_def read_iface_def start_reader_def flush_def base Ensure_fresh Let_def upd)
  moreover have b: "reads src (body_fields i) (?j, None) (body_reading i (?j, None))" by (rule reads_body [OF good])
  ultimately have "plain_lines src ([head_fields i] @ body_fields i @ [[]]) start_reader u
      = Inr (\<lparr>rd_iface = Some (ifc_Name i), rd_address = snd (body_reading i (?j, None))\<rparr>, at u (fst (body_reading i (?j, None))))"
    using fresh jn by (simp add: reads_def plain_lines_append plain_line_def)
  moreover have "ifc_Name (fst (body_reading i (?j, None))) = ifc_Name i" using b jn by (simp add: reads_def)
  then have "flush \<lparr>rd_iface = Some (ifc_Name i), rd_address = snd (body_reading i (?j, None))\<rparr> (at u (fst (body_reading i (?j, None))))
      = at u (flushed (body_reading i (?j, None)))"
    using flush_at [of "body_reading i (?j, None)" u] fresh by simp
  moreover have "flushed (body_reading i (?j, None)) = read_back src u i"
    unfolding read_back_def by (rule body_reading_flushed) (simp_all add: start_stanza_def new_ifc_def)
  ultimately show ?thesis by auto
qed

lemma line_chars: "\<forall>w\<in>set ws. field w \<Longrightarrow> c \<in> set (tab @ line_of ws) \<Longrightarrow> is_space c \<Longrightarrow> c = CHR 0x09 \<or> c = CHR '' ''"
  using set_join [of "'' ''" ws] by (auto simp: line_of_def tab_def field_def is_word_def)

lemma line_scannable:
  assumes "\<forall>w\<in>set ws. field w" and "length l < max_token" and "l = line_of ws \<or> l = tab @ line_of ws"
  shows "scannable l"
proof -
  have sub: "set l \<subseteq> set (tab @ line_of ws)" using assms(3) by auto
  have "newline \<notin> set l"
    using sub line_chars [OF assms(1), of newline] by (auto simp: newline_def is_space_def)
  moreover have "CHR 0x0D \<notin> set l"
    using sub line_chars [OF assms(1), of "CHR 0x0D"] by (auto simp: is_space_def)
  then have "l \<noteq> [] \<Longrightarrow> last l \<noteq> CHR 0x0D" using last_in_set [of l] by metis
  ultimately show ?thesis using assms(2) by (simp add: scannable_def)
qed

lemma stanza_text_lines:
  assumes "good_ifc i"
  shows "map line_fields (stanza_text i) = [head_fields i] @ body_fields i @ [[]]"
proof -
  have "map line_fields (map (\<lambda>ws. tab @ line_of ws) (body_fields i)) = map (\<lambda>ws. ws) (body_fields i)"
    unfolding map_map by (rule map_cong) (use good_fields(2) [OF assms] in auto)
  then show ?thesis
    using good_fields(1) [OF assms] by (simp add: stanza_text_def) (simp add: line_fields_def before_def)
qed

lemma body_sources: "good_ifc i \<Longrightarrow> ws \<in> set (body_fields i) \<Longrightarrow> \<not> sources ws"
proof -
  assume good: "good_ifc i" and ws: "ws \<in> set (body_fields i)"
  have "hd ws \<in> {''address'', ''gateway'', ''up'', ''down''} \<or> (\<exists>k v. ws = k # Fields v \<and> good_option k v)"
    using ws good_pairs [OF good]
    by (auto simp: body_fields_def gateway_fields_def address_fields_def route_option_fields_def split: if_splits)
  then show ?thesis by (auto simp: sources_def good_option_def reserved_words_def)
qed

lemma stanza_read:
  assumes "good_ifc i" and "fresh (ifc_Name i) u"
    and "list_all (\<lambda>l. length l < max_token) (stanza_text i)"
  shows "\<exists>r u'. read_lines n src (scan_lines (concat (fst (Write i)))) start_reader u w = (Inr (r, u'), w)
     \<and> flush r u' = at u (read_back src u i)"
proof -
  note good = assms(1)
  have "scannable l" if l: "l \<in> set (stanza_text i)" for l
  proof -
    have len: "length l < max_token" using assms(3) l by (simp add: list_all_iff)
    from l consider "l = line_of (head_fields i)" | ws where "ws \<in> set (body_fields i)" "l = tab @ line_of ws" | "l = []"
      by (auto simp: stanza_text_def)
    then show ?thesis
    proof cases
      case 1
      then show ?thesis using line_scannable [OF good_fields(1) [OF good] len] by simp
    next
      case (2 ws)
      then show ?thesis using line_scannable [OF _ len] good_fields(2) [OF good] by blast
    qed (simp add: scannable_def max_token_def)
  qed
  then have "scan_lines (unlines (stanza_text i)) = stanza_text i" by (intro scan_unlines) blast
  moreover have "concat (fst (Write i)) = unlines (stanza_text i)"
    by (simp add: Write_good [OF good] unlines_def print_line_def [abs_def] nl_def)
  moreover have "\<forall>l\<in>set (stanza_text i). \<not> sources (line_fields l)"
  proof -
    have "\<not> sources (head_fields i)" by (simp add: sources_def head_fields_def)
    then have "\<forall>fs\<in>set (map line_fields (stanza_text i)). \<not> sources fs"
      unfolding stanza_text_lines [OF good] using body_sources [OF good] by (auto simp: sources_def)
    then show ?thesis by simp
  qed
  ultimately have read: "read_lines n src (scan_lines (concat (fst (Write i)))) start_reader u w
      = (plain_lines src ([head_fields i] @ body_fields i @ [[]]) start_reader u, w)"
    using read_lines_plain stanza_text_lines [OF good] by metis
  obtain r u' where p: "plain_lines src ([head_fields i] @ body_fields i @ [[]]) start_reader u = Inr (r, u')"
    and f: "flush r u' = at u (read_back src u i)"
    using reads_stanza [OF good assms(2)] by blast
  with read show ?thesis by auto
qed

text \<open>
  C6. A stanza written for an interface the grammar can express is read back as an interface
  of the same name, mode, gateways, routes (metrics included) and options, and with the
  same addresses: all of them, but in the order of \<open>read_order\<close>.
\<close>

theorem stanza_roundtrip:
  assumes "good_ifc i" and "fresh (ifc_Name i) u"
    and "list_all (\<lambda>l. length l < max_token) (stanza_text i)"
  shows "\<exists>r u' i'. read_lines n src (scan_lines (concat (fst (Write i)))) start_reader u w = (Inr (r, u'), w)
     \<and> flush r u' = u\<lparr>iu_Interfaces := iu_Interfaces u @ [i']\<rparr>
     \<and> ifc_Name i' = ifc_Name i \<and> ifc_Mode i' = ifc_Mode i
     \<and> ifc_isDHCP i' = (''dhcp'' \<in> set (Fields (ifc_Mode i)))
     \<and> ifc_Gateway4 i' = To16 (ifc_Gateway4 i) \<and> ifc_Gateway6 i' = To16 (ifc_Gateway6 i)
     \<and> ifc_Routes i' = map norm_route (ifc_Routes i)
     \<and> (\<forall>k. cfg_get (ifc_Config i') k = cfg_get (ifc_Config i) k)
     \<and> ifc_Addresses i' = map norm_net (read_order (ifc_Addresses i))
     \<and> mset (ifc_Addresses i') = mset (map norm_net (ifc_Addresses i))"
proof -
  obtain r u' where r: "read_lines n src (scan_lines (concat (fst (Write i)))) start_reader u w = (Inr (r, u'), w)"
    and f: "flush r u' = at u (read_back src u i)"
    using stanza_read [OF assms] by blast
  have mode: "join '' '' (Fields (ifc_Mode i)) = ifc_Mode i" and d: "distinct (map fst (ifc_Config i))"
    using assms(1) by (simp_all add: good_ifc_def line_of_def)
  show ?thesis
    using r f mode options_back [OF d] mset_read_order [of "ifc_Addresses i"]
    by (intro exI [of _ r] exI [of _ u'] exI [of _ "read_back src u i"])
      (simp add: at_def read_back_def start_stanza_def new_ifc_def)
qed

definition two_addresses :: ifInterface where
  "two_addresses = (new_ifc ''eth0'' [ifUpDownConfig])\<lparr>ifc_Mode := ''inet static'',
     ifc_Addresses := [\<lparr>net_ip = [192, 0, 2, 1], net_mask = [255, 255, 255, 0]\<rparr>, \<lparr>net_ip = [192, 0, 2, 2], net_mask = [255, 255, 255, 0]\<rparr>],
     ifc_Gateway4 := [192, 0, 2, 254], ifc_Config := [(''mtu'', [''9000'']), (''dns-nameservers'', [''192.0.2.53 192.0.2.54''])],
     ifc_Routes := [\<lparr>rt_Destination = Some \<lparr>net_ip = [10, 0, 0, 0], net_mask = [255, 0, 0, 0]\<rparr>,
       rt_Gateway = [192, 0, 2, 9], rt_Metric = 100\<rparr>]\<rparr>"

definition empty_config :: ifUpDown where
  "empty_config = \<lparr>iu_Interfaces = [], iu_BaseConfig = ifUpDownConfig,
     iu_BackupDir = ifUpDownConfig @ ''.backup'', iu_backupRetention = 0\<rparr>"

lemma two_addresses_good:
  "good_ifc two_addresses" "fresh (ifc_Name two_addresses) empty_config"
  "list_all (\<lambda>l. length l < max_token) (stanza_text two_addresses)"
proof -
  have "list_all (\<lambda>l. fits_buffer l) (stanza_text two_addresses)" by code_simp
  then show "list_all (\<lambda>l. length l < max_token) (stanza_text two_addresses)" by (simp add: fits_buffer_def)
  show "good_ifc two_addresses" by code_simp
  show "fresh (ifc_Name two_addresses) empty_config" by code_simp
qed

lemma stanza_roundtrip_witness:
  "\<exists>r u' i'. read_lines 1 ifUpDownConfig (scan_lines (concat (fst (Write two_addresses)))) start_reader empty_config (mk_world [])
       = (Inr (r, u'), mk_world [])
     \<and> iu_Interfaces (flush r u') = [i'] \<and> cfg_get (ifc_Config i') ''mtu'' = [''9000'']"
proof -
  have "cfg_get (ifc_Config two_addresses) ''mtu'' = [''9000'']" by code_simp
  moreover have "iu_Interfaces empty_config = []" by (simp add: empty_config_def)
  ultimately show ?thesis
    using stanza_roundtrip [OF two_addresses_good, of 1 ifUpDownConfig "mk_world []"] by auto
qed

text \<open>
  Reading the configuration back and saving it again changes which address is primary: of
  two IPv4 addresses the stanza is written with the first one in its \<open>address\<close> line, and the
  interface read back from it is written with the second one there.
\<close>

theorem reread_changes_primary:
  assumes "good_ifc i" and "fresh (ifc_Name i) u"
    and "list_all (\<lambda>l. length l < max_token) (stanza_text i)"
    and "ifc_Addresses i = [a, b]" and "is4 a" and "is4 b"
  shows "\<exists>r u' i'. read_lines n src (scan_lines (concat (fst (Write i)))) start_reader u w = (Inr (r, u'), w)
     \<and> flush r u' = u\<lparr>iu_Interfaces := iu_Interfaces u @ [i']\<rparr>
     \<and> first_addresses True True (ifc_Addresses i) = [a]
     \<and> first_addresses True True (ifc_Addresses i') = [norm_net b]"
proof -
  obtain r u' where r: "read_lines n src (scan_lines (concat (fst (Write i)))) start_reader u w = (Inr (r, u'), w)"
    and f: "flush r u' = at u (read_back src u i)"
    using stanza_read [OF assms(1-3)] by blast
  have n: "is4 (norm_net x) = is4 x" if "x \<in> set (ifc_Addresses i)" for x
  proof -
    have "valid_ip (net_ip x)" using assms(1) that by (simp add: good_ifc_def list_all_iff valid_net_def)
    then show ?thesis using is_v4_To16 by (simp add: is4_def is_v4_def)
  qed
  have "ifc_Addresses (read_back src u i) = [norm_net b, norm_net a]"
    using assms(4-6) by (simp add: read_back_def read_order_def)
  then show ?thesis
    using r f n assms(4-6) by (intro exI [of _ r] exI [of _ u'] exI [of _ "read_back src u i"]) (simp add: at_def)
qed

lemma reread_changes_primary_witness:
  "\<exists>r u' i'. read_lines 1 ifUpDownConfig (scan_lines (concat (fst (Write two_addresses)))) start_reader empty_config (mk_world [])
       = (Inr (r, u'), mk_world [])
     \<and> iu_Interfaces (flush r u') = [i']
     \<and> map ipnet_string (first_addresses True True (ifc_Addresses two_addresses)) = [''192.0.2.1/24'']
     \<and> map ipnet_string (first_addresses True True (ifc_Addresses i')) = [''192.0.2.2/24'']"
proof -
  let ?a = "\<lparr>net_ip = [192, 0, 2, 1], net_mask = [255, 255, 255, 0]\<rparr> :: ipnet"
    and ?b = "\<lparr>net_ip = [192, 0, 2, 2], net_mask = [255, 255, 255, 0]\<rparr> :: ipnet"
  have "ifc_Addresses two_addresses = [?a, ?b]" by (simp add: two_addresses_def)
  moreover have "is4 ?a" "is4 ?b" by code_simp+
  moreover have "ipnet_string ?a = ''192.0.2.1/24''" "ipnet_string (norm_net ?b) = ''192.0.2.2/24''" by code_simp+
  moreover have "iu_Interfaces empty_config = []" by (simp add: empty_config_def)
  ultimately show ?thesis
    using reread_changes_primary [OF two_addresses_good, of ?a ?b 1 ifUpDownConfig "mk_world []"] by auto
qed

end
