(* ===== verification/Networkd.thy ===== *)
theory Networkd
  imports Netlink GoNetRoundtrip
begin

text \<open>
  \<open>networkd.go\<close>: the systemd-networkd backend over directories of \<open>.network\<close> files. The
  ini library that parses and prints them and the kernel's link list are parameters.
\<close>

section \<open>The ini library\<close>

text \<open>
  A key of a section, as the library reports it: its own value, all values when it is
  repeated, and its value as an integer. A section is known by its position in the file.
  The functions that change a file return the changed file.
\<close>

record inikey =
  ik_String :: string
  ik_ValueWithShadows :: "string list"
  ik_Int :: "int option"

record 'c ini =
  ini_LoadSources :: "string list \<Rightarrow> world \<Rightarrow> 'c result \<times> world"
  ini_Sections :: "'c \<Rightarrow> string list"
  ini_HasSection :: "'c \<Rightarrow> string \<Rightarrow> bool"
  ini_GetSection :: "'c \<Rightarrow> string \<Rightarrow> nat result"
  ini_GetKey :: "'c \<Rightarrow> nat \<Rightarrow> string \<Rightarrow> inikey option"
  ini_SetValue :: "nat \<Rightarrow> string \<Rightarrow> string \<Rightarrow> 'c \<Rightarrow> 'c"
  ini_NewKey :: "nat \<Rightarrow> string \<Rightarrow> string \<Rightarrow> 'c \<Rightarrow> unit result \<times> 'c"
  ini_DeleteKey :: "nat \<Rightarrow> string \<Rightarrow> 'c \<Rightarrow> 'c"
  ini_NewSection :: "string \<Rightarrow> 'c \<Rightarrow> nat result \<times> 'c"
  ini_DeleteSection :: "string \<Rightarrow> 'c \<Rightarrow> 'c"
  ini_WriteTo :: "'c \<Rightarrow> string result"

section \<open>State\<close>

record 'c networkdNetwork =
  nn_Config :: 'c
  nn_Name :: string
  nn_MAC :: "byte list"
  nn_Link :: "link option"
  nn_File :: string
  nn_SubFiles :: "string list"

record 'c networkd =
  nd_Networks :: "'c networkdNetwork list"
  nd_configDir :: string
  nd_backupRetention :: int

section \<open>DHCP\<close>

definition parseNetworkdDHCP :: "string \<Rightarrow> bool \<times> bool" where
  "parseNetworkdDHCP value =
     (let v = ToLower (TrimSpace value) in
      if v \<in> set [''yes'', ''true'', ''on'', ''1'', ''both''] then (True, True)
      else if v \<in> set [''ipv4'', ''v4''] then (True, False)
      else if v \<in> set [''ipv6'', ''v6''] then (False, True)
      else (False, False))"

definition formatNetworkdDHCP :: "bool \<Rightarrow> bool \<Rightarrow> string option" where
  "formatNetworkdDHCP dhcp4 dhcp6 =
     (if dhcp4 \<and> dhcp6 then Some ''yes'' else if dhcp4 then Some ''ipv4''
      else if dhcp6 then Some ''ipv6'' else None)"

definition setNetworkdDHCP :: "'c ini \<Rightarrow> nat \<Rightarrow> bool \<Rightarrow> bool \<Rightarrow> 'c \<Rightarrow> unit result \<times> 'c" where
  "setNetworkdDHCP ini sec dhcp4 dhcp6 c =
     (case formatNetworkdDHCP dhcp4 dhcp6 of
        None \<Rightarrow> (Inr (), ini_DeleteKey ini sec ''DHCP'' c)
      | Some value \<Rightarrow>
          if ini_GetKey ini c sec ''DHCP'' \<noteq> None then (Inr (), ini_SetValue ini sec ''DHCP'' value c)
          else ini_NewKey ini sec ''DHCP'' value c)"

section \<open>Reading a directory\<close>

text \<open>
  The drop-in files of a network. The check before \<open>IsDir\<close> only excludes a missing
  directory: after any other failure there is no information to ask.
\<close>

definition nil_stat :: goerror where
  "nil_stat = Panic ''invalid memory address or nil pointer dereference''"

definition read_subfiles :: "string \<Rightarrow> world \<Rightarrow> string list result \<times> world" where
  "read_subfiles configSubPath w =
     (case os_Stat configSubPath w of
        (Inl e, w) \<Rightarrow> if errors_is e ENOENT then (Inr [], w) else (Inl nil_stat, w)
      | (Inr info, w) \<Rightarrow>
          if \<not> fi_dir info then (Inr [], w)
          else try_io (os_ReadDir configSubPath w) (\<lambda>entries w.
            (Inr (conf_names ''.conf'' (sortableDirEntries entries)), w)))"

text \<open>The variables \<open>mac\<close>, \<open>foundLink\<close> and \<open>name\<close>.\<close>

type_synonym found = "byte list \<times> link option \<times> string"

definition match_mac :: "byte list \<Rightarrow> link \<Rightarrow> found \<Rightarrow> found" where
  "match_mac parsed l st = (if lk_mac l = parsed then (parsed, Some l, lk_name l) else st)"

fun match_macs :: "link list \<Rightarrow> string list \<Rightarrow> found \<Rightarrow> found result" where
  "match_macs links [] st = Inr st"
| "match_macs links (m # ms) st =
     (case ParseMAC m of
        None \<Rightarrow> Inl (Errorf (''unable to parse mac address '' @ m @ '': address '' @ m @ '': invalid MAC address''))
      | Some parsed \<Rightarrow> (case st of (mac, foundLink, name) \<Rightarrow>
          match_macs links ms
            (fold (match_mac parsed) links (if mac = [] then parsed else mac, foundLink, name))))"

definition match_name :: "string \<Rightarrow> link list \<Rightarrow> link option" where
  "match_name name links = find_last (\<lambda>l. lk_name l = name) links"

text \<open>Which interface a file configures; \<^term>\<open>None\<close> when it is not about one.\<close>

definition match_network :: "'c ini \<Rightarrow> link list \<Rightarrow> 'c \<Rightarrow> found option result" where
  "match_network ini links cfg =
     (let key = (\<lambda>k. case ini_GetSection ini cfg ''Match'' of Inl e \<Rightarrow> None | Inr m \<Rightarrow> ini_GetKey ini cfg m k);
          name = (case key ''Name'' of None \<Rightarrow> [] | Some k \<Rightarrow> ik_String k);
          macAddrs = (case key ''MACAddress'' of None \<Rightarrow> [] | Some k \<Rightarrow> Fields (ik_String k));
          by_name = (\<lambda>(mac, foundLink, name).
            Some (mac, (if foundLink = None then match_name name links else foundLink), name))
      in if name \<noteq> [] then Inr (by_name ([], None, name))
         else if macAddrs = [] then Inr None
         else try_res (match_macs links macAddrs ([], None, [])) (\<lambda>st. Inr (by_name st)))"

definition read_network ::
  "'c ini \<Rightarrow> link list \<Rightarrow> string \<Rightarrow> string \<Rightarrow> world \<Rightarrow> 'c networkdNetwork option result \<times> world" where
  "read_network ini links dirPath name w =
     (let configPath = path_join dirPath name; configSubPath = configPath @ ''.d'' in
      try_io (read_subfiles configSubPath w) (\<lambda>subFiles w.
      try_io (ini_LoadSources ini (configPath # map (path_join configSubPath) subFiles) w) (\<lambda>cfg w.
      if \<not> ini_HasSection ini cfg ''Network'' \<or> \<not> ini_HasSection ini cfg ''Match''
      then (Inl (Errorf (''the configuration is missing key sections: '' @ configPath)), w)
      else try_io (match_network ini links cfg, w) (\<lambda>found w.
        (Inr (map_option (\<lambda>(mac, foundLink, ifname). \<lparr>nn_Config = cfg, nn_Name = ifname, nn_MAC = mac,
            nn_Link = foundLink, nn_File = name, nn_SubFiles = subFiles\<rparr>) found), w)))))"

fun read_networks ::
  "'c ini \<Rightarrow> link list \<Rightarrow> string \<Rightarrow> string list \<Rightarrow> world \<Rightarrow> 'c networkdNetwork list result \<times> world" where
  "read_networks ini links dirPath [] w = (Inr [], w)"
| "read_networks ini links dirPath (n # ns) w =
     try_io (read_network ini links dirPath n w) (\<lambda>found w.
     try_io (read_networks ini links dirPath ns w) (\<lambda>rest w.
     (Inr ((case found of None \<Rightarrow> [] | Some n \<Rightarrow> [n]) @ rest), w)))"

definition readNetworkdConfigDirectory ::
  "'c ini \<Rightarrow> link list result \<Rightarrow> string \<Rightarrow> world \<Rightarrow> 'c networkd result \<times> world" where
  "readNetworkdConfigDirectory ini links dirPath w =
     try_io (os_ReadDir dirPath w) (\<lambda>entries w.
     try_io (links, w) (\<lambda>links w.
     try_io (read_networks ini links dirPath (conf_names ''.network'' (sortableDirEntries entries)) w) (\<lambda>networks w.
     if networks = [] then (Inl (Errorf ''no configuration files exist''), w)
     else (Inr \<lparr>nd_Networks = networks, nd_configDir = dirPath, nd_backupRetention = 0\<rparr>, w))))"

text \<open>The three directories in turn; a panic ends the program.\<close>

definition newNetworkd :: "'c ini \<Rightarrow> link list result \<Rightarrow> int \<Rightarrow> world \<Rightarrow> 'c networkd result \<times> world" where
  "newNetworkd ini links backupRetention w =
     try_io (or_next (readNetworkdConfigDirectory ini links ''/etc/systemd/network'' w) (\<lambda>w.
       or_next (readNetworkdConfigDirectory ini links ''/run/systemd/network'' w) (\<lambda>w.
       readNetworkdConfigDirectory ini links ''/lib/systemd/network'' w))) (\<lambda>n w.
     (Inr (n\<lparr>nd_backupRetention := backupRetention\<rparr>), w))"


section \<open>What a network configures\<close>

text \<open>A section is read through its name and its \<open>GetKey\<close>.\<close>

type_synonym keys = "string \<Rightarrow> inikey option"

definition nd_sections :: "'c ini \<Rightarrow> 'c \<Rightarrow> (string \<times> keys) list" where
  "nd_sections ini c = map (\<lambda>(i, name). (name, ini_GetKey ini c i)) (enumerate 0 (ini_Sections ini c))"

definition key_values :: "keys \<Rightarrow> string \<Rightarrow> string list" where
  "key_values sec k = (case sec k of None \<Rightarrow> [] | Some key \<Rightarrow> ik_ValueWithShadows key)"

definition key_fields :: "keys \<Rightarrow> string \<Rightarrow> string list" where
  "key_fields sec k = (case sec k of None \<Rightarrow> [] | Some key \<Rightarrow> Fields (ik_String key))"

text \<open>An empty value clears the list; one that is no address is skipped.\<close>

fun add_addresses :: "string list \<Rightarrow> ipnet list \<Rightarrow> ipnet list" where
  "add_addresses [] as = as"
| "add_addresses (v # vs) as =
     (if v = [] then add_addresses vs []
      else case ParseCIDR v of None \<Rightarrow> add_addresses vs as | Some n \<Rightarrow> add_addresses vs (as @ [n]))"

definition take_gateway :: "string \<Rightarrow> Interface \<Rightarrow> Interface" where
  "take_gateway v i = (let gateway = ParseIP v in
     if gateway = [] then i
     else if To4 gateway = [] then i\<lparr>if_Gateway6 := gateway\<rparr> else i\<lparr>if_Gateway4 := gateway\<rparr>)"

definition parse_ips :: "string list \<Rightarrow> ip list" where
  "parse_ips vs = filter (\<lambda>a. a \<noteq> []) (map ParseIP vs)"

text \<open>A section without an address is left at once: nothing else in it is read.\<close>

definition read_addressing :: "keys \<Rightarrow> Interface \<Rightarrow> Interface" where
  "read_addressing sec i =
     (if sec ''Address'' = None then i
      else
        let i = i\<lparr>if_Addresses := add_addresses (key_values sec ''Address'') (if_Addresses i),
              if_DNS := if_DNS i @ parse_ips (key_values sec ''DNS''),
              if_SearchDomains := if_SearchDomains i @ key_fields sec ''Domains''\<rparr>
        in fold take_gateway (key_values sec ''Gateway'') i)"

definition read_dhcp :: "keys \<Rightarrow> Interface \<Rightarrow> Interface" where
  "read_dhcp sec i = (case sec ''DHCP'' of
       None \<Rightarrow> i
     | Some key \<Rightarrow> (case parseNetworkdDHCP (ik_String key) of (dhcp4, dhcp6) \<Rightarrow>
         i\<lparr>if_DHCP4 := dhcp4, if_DHCP6 := dhcp6\<rparr>))"

definition section_route :: "keys \<Rightarrow> Route option" where
  "section_route sec =
     (case Option.bind (sec ''Destination'') (\<lambda>key. ParseCIDR (ik_String key)) of
        None \<Rightarrow> None
      | Some destination \<Rightarrow>
          let gateway = (case sec ''Gateway'' of None \<Rightarrow> [] | Some key \<Rightarrow> ParseIP (ik_String key));
              metric = (case Option.bind (sec ''Metric'') ik_Int of None \<Rightarrow> 256 | Some m \<Rightarrow> m)
          in if gateway = [] then None
             else Some \<lparr>rt_Destination = Some destination, rt_Gateway = gateway, rt_Metric = metric\<rparr>)"

definition read_section :: "string \<times> keys \<Rightarrow> Interface \<Rightarrow> Interface" where
  "read_section s i = (case s of (name, sec) \<Rightarrow>
     if name = ''Network'' then read_addressing sec (read_dhcp sec i)
     else if name = ''Address'' then read_addressing sec i
     else if name = ''Route'' then
       (case section_route sec of None \<Rightarrow> i | Some r \<Rightarrow> i\<lparr>if_Routes := if_Routes i @ [r]\<rparr>)
     else i)"

definition nd_interface :: "'c ini \<Rightarrow> 'c networkdNetwork \<Rightarrow> Interface" where
  "nd_interface ini n = fold read_section (nd_sections ini (nn_Config n))
     ((new_interface (nn_Name n))\<lparr>if_MAC := nn_MAC n, if_Link := map_option lk_index (nn_Link n)\<rparr>)"

definition nd_GetInterfaces :: "'c ini \<Rightarrow> 'c networkd \<Rightarrow> Interface list" where
  "nd_GetInterfaces ini nd = map (nd_interface ini) (nd_Networks nd)"

section \<open>Saving\<close>

text \<open>The drop-ins are looked for next to the network file, not in their own directory.\<close>

fun move_subfiles :: "string \<Rightarrow> string \<Rightarrow> string list \<Rightarrow> world \<Rightarrow> unit result \<times> world" where
  "move_subfiles configDir suffix [] w = (Inr (), w)"
| "move_subfiles configDir suffix (f # fs) w =
     try_io (fileMove (path_join configDir f) (path_join configDir (f @ suffix)) w)
       (\<lambda>_ w. move_subfiles configDir suffix fs w)"

definition encode_to :: "string \<Rightarrow> string result \<Rightarrow> world \<Rightarrow> unit result \<times> world" where
  "encode_to p text w = try_io (os_open_write False p 420 w) (\<lambda>fd w.
     try_io (text, w) (\<lambda>data w. fd_write fd data w))"

definition nn_Save ::
  "'c ini \<Rightarrow> string \<Rightarrow> int \<Rightarrow> 'c networkdNetwork \<Rightarrow> world \<Rightarrow> (unit result \<times> 'c networkdNetwork) \<times> world" where
  "nn_Save ini configDir retention n w =
     (let configPath = path_join configDir (nn_File n) in
      case UnixNano w of (t, w) \<Rightarrow>
      let tmpPath = path_join configDir (nn_File n @ tmp_suffix t) in
      case encode_to tmpPath (ini_WriteTo ini (nn_Config n)) w of
        (Inl e, w) \<Rightarrow> ((Inl e, n), w)
      | (Inr _, w) \<Rightarrow>
      (let bases = nn_SubFiles n @ [nn_File n] in
       case UnixNano w of (t, w) \<Rightarrow>
       case try_io (move_subfiles configDir (bak_suffix t) (nn_SubFiles n) w) (\<lambda>_ w.
            try_io (fileMove configPath (path_join configDir (nn_File n @ bak_suffix t)) w) (\<lambda>_ w.
            fileMove tmpPath configPath w)) of
         (Inl e, w) \<Rightarrow> ((Inl e, n), w)
       | (Inr _, w) \<Rightarrow> ((Inr (), n\<lparr>nn_SubFiles := []\<rparr>),
           fold (\<lambda>base. pruneBackups configDir (suffixBackupMatcher base) retention) bases w)))"

section \<open>Changing an interface\<close>

text \<open>
  Every operation changes the configuration of each network of that name and saves it. The
  change may fail half way; the configuration in memory keeps what was done.
\<close>

fun change_networks ::
  "'c ini \<Rightarrow> string \<Rightarrow> ('c \<Rightarrow> unit result \<times> 'c) \<Rightarrow> string \<Rightarrow> int \<Rightarrow> 'c networkdNetwork list \<Rightarrow> world
     \<Rightarrow> (unit result \<times> 'c networkdNetwork list) \<times> world" where
  "change_networks ini iface f configDir retention [] w = ((Inr (), []), w)"
| "change_networks ini iface f configDir retention (n # ns) w =
     (if nn_Name n \<noteq> iface then
        (case change_networks ini iface f configDir retention ns w of ((r, ns'), w) \<Rightarrow> ((r, n # ns'), w))
      else case f (nn_Config n) of
          (Inl e, c) \<Rightarrow> ((Inl e, n\<lparr>nn_Config := c\<rparr> # ns), w)
        | (Inr _, c) \<Rightarrow>
            (case nn_Save ini configDir retention (n\<lparr>nn_Config := c\<rparr>) w of
               ((Inl e, n), w) \<Rightarrow> ((Inl e, n # ns), w)
             | ((Inr _, n), w) \<Rightarrow>
                 (case change_networks ini iface f configDir retention ns w of ((r, ns'), w) \<Rightarrow> ((r, n # ns'), w))))"

definition on_networks :: "'c ini \<Rightarrow> string \<Rightarrow> ('c \<Rightarrow> unit result \<times> 'c) \<Rightarrow> 'c networkd op" where
  "on_networks ini iface f s = (case s of (nd, w) \<Rightarrow>
     (case change_networks ini iface f (nd_configDir nd) (nd_backupRetention nd) (nd_Networks nd) w of
        ((r, ns), w) \<Rightarrow> (r, nd\<lparr>nd_Networks := ns\<rparr>, w)))"

text \<open>\<open>NewKey\<close> where the code drops its error, and for each value of a list.\<close>

definition add_key :: "'c ini \<Rightarrow> nat \<Rightarrow> string \<Rightarrow> string \<Rightarrow> 'c \<Rightarrow> 'c" where
  "add_key ini sec k v c = snd (ini_NewKey ini sec k v c)"

definition add_keys :: "'c ini \<Rightarrow> nat \<Rightarrow> string \<Rightarrow> string list \<Rightarrow> 'c \<Rightarrow> 'c" where
  "add_keys ini sec k vs = fold (add_key ini sec k) vs"

definition is_addressing :: "string \<Rightarrow> bool" where
  "is_addressing name \<longleftrightarrow> name = ''Network'' \<or> name = ''Address''"

definition addressing_keys :: "'c ini \<Rightarrow> 'c \<Rightarrow> keys list" where
  "addressing_keys ini c = map snd (filter (\<lambda>s. is_addressing (fst s)) (nd_sections ini c))"

definition gathered_dns :: "'c ini \<Rightarrow> 'c \<Rightarrow> string list" where
  "gathered_dns ini c = concat (map (\<lambda>sec. key_values sec ''DNS'') (addressing_keys ini c))"

definition gathered_domains :: "'c ini \<Rightarrow> 'c \<Rightarrow> string list" where
  "gathered_domains ini c = concat (map (\<lambda>sec. key_fields sec ''Domains'') (addressing_keys ini c))"

definition gateway_strings :: "ip \<Rightarrow> ip \<Rightarrow> string list" where
  "gateway_strings gateway4 gateway6 = map ip_string (filter (\<lambda>g. g \<noteq> []) [gateway4, gateway6])"

definition nd_address_config ::
  "'c ini \<Rightarrow> ipnet list \<Rightarrow> ip \<Rightarrow> ip \<Rightarrow> 'c \<Rightarrow> unit result \<times> 'c" where
  "nd_address_config ini addrs gateway4 gateway6 c =
     (let dns = gathered_dns ini c; domains = gathered_domains ini c;
          c = ini_DeleteSection ini ''Address'' c in
      case ini_GetSection ini c ''Network'' of
        Inl e \<Rightarrow> (Inl e, c)
      | Inr sec \<Rightarrow>
          let c = fold (ini_DeleteKey ini sec) [''Address'', ''Gateway'', ''DNS'', ''Domains''] c;
              c = add_keys ini sec ''Address'' (map ipnet_string addrs) c;
              c = add_keys ini sec ''Gateway'' (gateway_strings gateway4 gateway6) c;
              c = add_keys ini sec ''DNS'' dns c
          in (Inr (), add_key ini sec ''Domains'' (join '' '' domains) c))"

definition nd_SetIfaceAddresses ::
  "'c ini \<Rightarrow> string \<Rightarrow> ipnet list \<Rightarrow> ip \<Rightarrow> ip \<Rightarrow> 'c networkd op" where
  "nd_SetIfaceAddresses ini iface addrs gateway4 gateway6 =
     on_networks ini iface (nd_address_config ini addrs gateway4 gateway6)"

definition nd_dhcp_config :: "'c ini \<Rightarrow> bool \<Rightarrow> bool \<Rightarrow> 'c \<Rightarrow> unit result \<times> 'c" where
  "nd_dhcp_config ini dhcp4 dhcp6 c = (case ini_GetSection ini c ''Network'' of
       Inl e \<Rightarrow> (Inl e, c)
     | Inr sec \<Rightarrow> setNetworkdDHCP ini sec dhcp4 dhcp6 c)"

definition nd_SetIfaceDHCP :: "'c ini \<Rightarrow> string \<Rightarrow> bool \<Rightarrow> bool \<Rightarrow> 'c networkd op" where
  "nd_SetIfaceDHCP ini iface dhcp4 dhcp6 = on_networks ini iface (nd_dhcp_config ini dhcp4 dhcp6)"

definition nd_renewDHCP :: "string \<Rightarrow> 'c networkd op" where
  "nd_renewDHCP iface s = (case s of (nd, w) \<Rightarrow>
     (case run_or_fail [''networkctl'', ''reload''] w of
        (Inl e, w) \<Rightarrow> (Inl e, nd, w)
      | (Inr _, w) \<Rightarrow>
          (case run_or_fail [''networkctl'', ''reconfigure'', iface] w of
             (Inl e, w) \<Rightarrow> (Inl e, nd, w)
           | (Inr _, w) \<Rightarrow> (Inr (), nd, w))))"

fun add_route_sections :: "'c ini \<Rightarrow> Route list \<Rightarrow> 'c \<Rightarrow> unit result \<times> 'c" where
  "add_route_sections ini [] c = (Inr (), c)"
| "add_route_sections ini (r # rs) c =
     (case ini_NewSection ini ''Route'' c of
        (Inl e, c) \<Rightarrow> (Inl e, c)
      | (Inr sec, c) \<Rightarrow> add_route_sections ini rs
          (add_key ini sec ''Metric'' (Itoa (rt_Metric r))
            (add_key ini sec ''Gateway'' (ip_string (rt_Gateway r))
              (add_key ini sec ''Destination'' (dest_string (rt_Destination r)) c))))"

definition nd_SetIfaceRoutes :: "'c ini \<Rightarrow> string \<Rightarrow> Route list \<Rightarrow> 'c networkd op" where
  "nd_SetIfaceRoutes ini iface routes =
     on_networks ini iface (\<lambda>c. add_route_sections ini routes (ini_DeleteSection ini ''Route'' c))"

definition addressing_sections :: "'c ini \<Rightarrow> 'c \<Rightarrow> nat list" where
  "addressing_sections ini c = map fst (filter (\<lambda>s. is_addressing (snd s)) (enumerate 0 (ini_Sections ini c)))"

definition nd_dns_config :: "'c ini \<Rightarrow> ip list \<Rightarrow> string list \<Rightarrow> 'c \<Rightarrow> unit result \<times> 'c" where
  "nd_dns_config ini servers searchDomains c =
     (let c = fold (\<lambda>sec c. ini_DeleteKey ini sec ''Domains'' (ini_DeleteKey ini sec ''DNS'' c))
            (addressing_sections ini c) c in
      case ini_GetSection ini c ''Network'' of
        Inl e \<Rightarrow> (Inl e, c)
      | Inr sec \<Rightarrow>
          let c = add_keys ini sec ''DNS'' (ipStrings servers) c in
          (Inr (), if searchDomains \<noteq> [] then add_key ini sec ''Domains'' (join '' '' searchDomains) c else c))"

definition nd_SetIfaceDNS :: "'c ini \<Rightarrow> string \<Rightarrow> ip list \<Rightarrow> string list \<Rightarrow> 'c networkd op" where
  "nd_SetIfaceDNS ini iface servers searchDomains = on_networks ini iface (nd_dns_config ini servers searchDomains)"

end
