(* ===== verification/NetworkdLaws.thy ===== *)
theory NetworkdLaws
  imports Networkd SaveLaws Contracts
begin

text \<open>
  The networkd backend: what it relies on in the ini library, a small ini file that has these
  properties, and the properties of reading, changing and saving a network.
\<close>

section \<open>What the ini library promises\<close>

text \<open>
  Stated on the sections as they are read: names with their keys, in file order. A new key
  has the value given; a key that is there is repeated with it (the files are loaded with
  shadows allowed). The library gives \<open>-\<close> a meaning of its own.
\<close>

definition plain_key :: "string \<Rightarrow> inikey \<Rightarrow> bool" where
  "plain_key v key \<longleftrightarrow> ik_String key = v \<and> ik_ValueWithShadows key = (if v = [] then [] else [v])
     \<and> (\<forall>m. - (2 ^ 63) \<le> m \<and> m < 2 ^ 63 \<and> v = Itoa m \<longrightarrow> ik_Int key = Some m)"

definition shadowed :: "inikey \<Rightarrow> string \<Rightarrow> inikey \<Rightarrow> bool" where
  "shadowed old v key \<longleftrightarrow> ik_String key = ik_String old
     \<and> (ik_ValueWithShadows old \<noteq> [] \<longrightarrow> ik_ValueWithShadows key = ik_ValueWithShadows old @ [v])"

definition added_key :: "inikey option \<Rightarrow> string \<Rightarrow> inikey \<Rightarrow> bool" where
  "added_key old v key = (case old of None \<Rightarrow> plain_key v key | Some u \<Rightarrow> shadowed u v key)"

definition with_keys :: "nat \<Rightarrow> (keys \<Rightarrow> keys) \<Rightarrow> (string \<times> keys) list \<Rightarrow> (string \<times> keys) list" where
  "with_keys i f ss = ss[i := (fst (ss ! i), f (snd (ss ! i)))]"

definition finds_section :: "(string \<times> keys) list \<Rightarrow> string \<Rightarrow> nat result \<Rightarrow> bool" where
  "finds_section ss n r = (case r of
       Inl e \<Rightarrow> n \<notin> fst ` set ss
     | Inr i \<Rightarrow> i < length ss \<and> fst (ss ! i) = n \<and> (\<forall>j<i. fst (ss ! j) \<noteq> n))"

definition ini_laws :: "'c ini \<Rightarrow> bool" where
  "ini_laws ini \<longleftrightarrow> (\<forall>c.
     (\<forall>n. finds_section (nd_sections ini c) n (ini_GetSection ini c n))
   \<and> (\<forall>i k. i < length (nd_sections ini c) \<longrightarrow>
        nd_sections ini (ini_DeleteKey ini i k c) = with_keys i (\<lambda>g. g(k := None)) (nd_sections ini c))
   \<and> (\<forall>i k v. i < length (nd_sections ini c) \<and> k \<noteq> [] \<and> k \<noteq> ''-'' \<longrightarrow>
        (\<exists>key. fst (ini_NewKey ini i k v c) = Inr () \<and> added_key (snd (nd_sections ini c ! i) k) v key
           \<and> nd_sections ini (snd (ini_NewKey ini i k v c)) = with_keys i (\<lambda>g. g(k \<mapsto> key)) (nd_sections ini c)))
   \<and> (\<forall>i k v old. i < length (nd_sections ini c) \<and> snd (nd_sections ini c ! i) k = Some old \<longrightarrow>
        (\<exists>key. ik_String key = v
           \<and> nd_sections ini (ini_SetValue ini i k v c) = with_keys i (\<lambda>g. g(k \<mapsto> key)) (nd_sections ini c)))
   \<and> (\<forall>n. nd_sections ini (ini_DeleteSection ini n c) = filter (\<lambda>s. fst s \<noteq> n) (nd_sections ini c))
   \<and> (\<forall>n. n \<noteq> [] \<longrightarrow> fst (ini_NewSection ini n c) = Inr (length (nd_sections ini c))
        \<and> nd_sections ini (snd (ini_NewSection ini n c)) = nd_sections ini c @ [(n, \<lambda>k. None)]))"

section \<open>An ini file\<close>

text \<open>A key has its own value and those it is repeated with.\<close>

type_synonym doc = "(string \<times> (string \<times> string \<times> string list) list) list"

definition doc_key :: "string \<times> string list \<Rightarrow> inikey" where
  "doc_key k = (case k of (v, ss) \<Rightarrow>
     \<lparr>ik_String = v, ik_ValueWithShadows = (if ss = [] \<and> v = [] then [] else v # ss), ik_Int = Atoi v\<rparr>)"

definition doc_keys :: "(string \<times> string \<times> string list) list \<Rightarrow> keys" where
  "doc_keys kvs k = map_option doc_key (map_of kvs k)"

definition doc_update ::
  "nat \<Rightarrow> ((string \<times> string \<times> string list) list \<Rightarrow> (string \<times> string \<times> string list) list) \<Rightarrow> doc \<Rightarrow> doc" where
  "doc_update i f c = c[i := (fst (c ! i), f (snd (c ! i)))]"

definition doc_repeat :: "string \<Rightarrow> string \<Rightarrow> (string \<times> string \<times> string list) list \<Rightarrow> (string \<times> string \<times> string list) list" where
  "doc_repeat k v kvs = AList.update k (case map_of kvs k of None \<Rightarrow> (v, []) | Some (u, ss) \<Rightarrow> (u, ss @ [v])) kvs"

definition doc_replace :: "string \<Rightarrow> string \<Rightarrow> (string \<times> string \<times> string list) list \<Rightarrow> (string \<times> string \<times> string list) list" where
  "doc_replace k v kvs = AList.update k (case map_of kvs k of None \<Rightarrow> (v, []) | Some (u, ss) \<Rightarrow> (v, ss)) kvs"

definition doc_text :: "doc \<Rightarrow> string" where
  "doc_text c = concat (map (\<lambda>(n, kvs). ''['' @ n @ '']'' @ [newline]
     @ concat (map (\<lambda>(k, v, ss). concat (map (\<lambda>v. k @ ''='' @ v @ [newline]) (v # ss))) kvs)) c)"

definition doc_find :: "doc \<Rightarrow> string \<Rightarrow> nat result" where
  "doc_find c n = (case List.find (\<lambda>i. fst (c ! i) = n) [0 ..< length c] of
       None \<Rightarrow> Inl (Errorf ''section does not exist'') | Some i \<Rightarrow> Inr i)"

definition doc_ini :: "doc ini" where
  "doc_ini = \<lparr>
     ini_LoadSources = (\<lambda>ps w. (Inr [], w)),
     ini_Sections = map fst,
     ini_HasSection = (\<lambda>c n. n \<in> set (map fst c)),
     ini_GetSection = doc_find,
     ini_GetKey = (\<lambda>c i. doc_keys (snd (c ! i))),
     ini_SetValue = (\<lambda>i k v. doc_update i (doc_replace k v)),
     ini_NewKey = (\<lambda>i k v c. (Inr (), doc_update i (doc_repeat k v) c)),
     ini_DeleteKey = (\<lambda>i k. doc_update i (AList.delete k)),
     ini_NewSection = (\<lambda>n c. (Inr (length c), c @ [(n, [])])),
     ini_DeleteSection = (\<lambda>n. filter (\<lambda>s. fst s \<noteq> n)),
     ini_WriteTo = (\<lambda>c. Inr (doc_text c))\<rparr>"

lemma doc_sections: "nd_sections doc_ini c = map (\<lambda>(n, kvs). (n, doc_keys kvs)) c"
  by (rule nth_equalityI)
    (auto simp: nd_sections_def doc_ini_def nth_enumerate_eq split: prod.splits)

lemma doc_update_sections:
  assumes "i < length c" and "doc_keys (f (snd (c ! i))) = g (doc_keys (snd (c ! i)))"
  shows "nd_sections doc_ini (doc_update i f c) = with_keys i g (nd_sections doc_ini c)"
  using assms by (simp add: doc_sections doc_update_def with_keys_def map_update split_beta)

lemma doc_find_spec: "finds_section (nd_sections doc_ini c) n (doc_find c n)"
proof (cases "List.find (\<lambda>i. fst (c ! i) = n) [0 ..< length c]")
  case None
  then have "\<forall>i<length c. fst (c ! i) \<noteq> n" by (auto simp: find_None_iff)
  then have "n \<notin> fst ` set c" by (metis imageE in_set_conv_nth)
  then show ?thesis using None by (force simp: finds_section_def doc_find_def doc_sections)
next
  case (Some i)
  then have "i < length c \<and> fst (c ! i) = n \<and> (\<forall>j<i. fst (c ! j) \<noteq> n)"
    by (auto simp: find_Some_iff)
  then show ?thesis
    using Some by (auto simp: finds_section_def doc_find_def doc_sections split_beta)
qed

lemma added_doc_key:
  "added_key (doc_keys kvs k) v (doc_key (case map_of kvs k of None \<Rightarrow> (v, []) | Some (u, ss) \<Rightarrow> (u, ss @ [v])))"
  by (auto simp: added_key_def plain_key_def shadowed_def doc_key_def doc_keys_def Atoi_Itoa split: option.splits prod.splits)

lemma doc_ops:
  "ini_GetSection doc_ini = doc_find"
  "ini_SetValue doc_ini i k v = doc_update i (doc_replace k v)"
  "ini_NewKey doc_ini i k v c = (Inr (), doc_update i (doc_repeat k v) c)"
  "ini_DeleteKey doc_ini i k = doc_update i (AList.delete k)"
  "ini_NewSection doc_ini n c = (Inr (length c), c @ [(n, [])])"
  "ini_DeleteSection doc_ini n c = filter (\<lambda>s. fst s \<noteq> n) c"
  by (simp_all add: doc_ini_def)

lemma doc_keys_update: "doc_keys (AList.update k x kvs) = (doc_keys kvs)(k \<mapsto> doc_key x)"
  by (auto simp: doc_keys_def update_conv' fun_eq_iff)

lemma doc_keys_delete: "doc_keys (AList.delete k kvs) = (doc_keys kvs)(k := None)"
  by (auto simp: doc_keys_def delete_conv' fun_eq_iff)

lemma doc_laws: "ini_laws doc_ini"
proof -
  have l: "length (nd_sections doc_ini c) = length c" for c by (simp add: doc_sections)
  have k: "snd (nd_sections doc_ini c ! i) = doc_keys (snd (c ! i))" if "i < length c" for c i
    using that by (simp add: doc_sections split_beta)
  have del: "nd_sections doc_ini (doc_update i (AList.delete k) c) = with_keys i (\<lambda>g. g(k := None)) (nd_sections doc_ini c)"
    if "i < length c" for i k c
    by (rule doc_update_sections [OF that]) (rule doc_keys_delete)
  have new: "\<exists>key. added_key (snd (nd_sections doc_ini c ! i) k) v key
      \<and> nd_sections doc_ini (doc_update i (doc_repeat k v) c) = with_keys i (\<lambda>g. g(k \<mapsto> key)) (nd_sections doc_ini c)"
    if "i < length c" for i k v c
    unfolding k [OF that] doc_repeat_def
    by (intro exI conjI, rule added_doc_key, rule doc_update_sections [OF that]) (rule doc_keys_update)
  have set: "\<exists>key. ik_String key = v
      \<and> nd_sections doc_ini (doc_update i (doc_replace k v) c) = with_keys i (\<lambda>g. g(k \<mapsto> key)) (nd_sections doc_ini c)"
    if "i < length c" for i k v c
  proof -
    let ?x = "case map_of (snd (c ! i)) k of None \<Rightarrow> (v, []) | Some (u, ss) \<Rightarrow> (v, ss)"
    have "nd_sections doc_ini (doc_update i (doc_replace k v) c) = with_keys i (\<lambda>g. g(k \<mapsto> doc_key ?x)) (nd_sections doc_ini c)"
      by (rule doc_update_sections [OF that]) (simp add: doc_replace_def doc_keys_update)
    moreover have "ik_String (doc_key ?x) = v" by (auto simp: doc_key_def split: option.splits)
    ultimately show ?thesis by blast
  qed
  have sec: "nd_sections doc_ini (filter (\<lambda>s. fst s \<noteq> n) c) = filter (\<lambda>s. fst s \<noteq> n) (nd_sections doc_ini c)" for n c
    by (simp add: doc_sections filter_map o_def split_beta)
  have ns: "nd_sections doc_ini (c @ [(n, [])]) = nd_sections doc_ini c @ [(n, \<lambda>k. None)]" for n c
    by (simp add: doc_sections doc_keys_def fun_eq_iff)
  show ?thesis
    unfolding ini_laws_def doc_ops l prod.sel
    using doc_find_spec del new set sec ns by simp
qed

section \<open>Changing the keys of one section\<close>

lemma ini_law_find: "ini_laws ini \<Longrightarrow> finds_section (nd_sections ini c) n (ini_GetSection ini c n)"
  unfolding ini_laws_def by blast

lemma ini_law_delete:
  "ini_laws ini \<Longrightarrow> i < length (nd_sections ini c) \<Longrightarrow>
     nd_sections ini (ini_DeleteKey ini i k c) = with_keys i (\<lambda>g. g(k := None)) (nd_sections ini c)"
  unfolding ini_laws_def by blast

lemma ini_law_new:
  "ini_laws ini \<Longrightarrow> i < length (nd_sections ini c) \<Longrightarrow> k \<noteq> [] \<Longrightarrow> k \<noteq> ''-'' \<Longrightarrow>
     \<exists>key. fst (ini_NewKey ini i k v c) = Inr () \<and> added_key (snd (nd_sections ini c ! i) k) v key
       \<and> nd_sections ini (snd (ini_NewKey ini i k v c)) = with_keys i (\<lambda>g. g(k \<mapsto> key)) (nd_sections ini c)"
  unfolding ini_laws_def by blast

lemma ini_law_set:
  "ini_laws ini \<Longrightarrow> i < length (nd_sections ini c) \<Longrightarrow> snd (nd_sections ini c ! i) k = Some old \<Longrightarrow>
     \<exists>key. ik_String key = v \<and> nd_sections ini (ini_SetValue ini i k v c) = with_keys i (\<lambda>g. g(k \<mapsto> key)) (nd_sections ini c)"
  unfolding ini_laws_def by blast

lemma ini_law_section:
  "ini_laws ini \<Longrightarrow> nd_sections ini (ini_DeleteSection ini n c) = filter (\<lambda>s. fst s \<noteq> n) (nd_sections ini c)"
  "ini_laws ini \<Longrightarrow> n \<noteq> [] \<Longrightarrow> fst (ini_NewSection ini n c) = Inr (length (nd_sections ini c))"
  "ini_laws ini \<Longrightarrow> n \<noteq> [] \<Longrightarrow> nd_sections ini (snd (ini_NewSection ini n c)) = nd_sections ini c @ [(n, \<lambda>k. None)]"
  unfolding ini_laws_def by blast+

lemma with_keys_at [simp]: "with_keys (length pre) f (pre @ (n, g) # post) = pre @ (n, f g) # post"
  by (simp add: with_keys_def)

lemma delete_keys_at:
  assumes "ini_laws ini" and "nd_sections ini c = pre @ (n, g) # post"
  shows "nd_sections ini (fold (ini_DeleteKey ini (length pre)) ks c)
    = pre @ (n, \<lambda>k. if k \<in> set ks then None else g k) # post"
  using assms(2)
proof (induction ks arbitrary: c g)
  case (Cons k ks)
  have "nd_sections ini (ini_DeleteKey ini (length pre) k c) = pre @ (n, g(k := None)) # post"
    using ini_law_delete [OF assms(1), of "length pre" c k] Cons.prems by simp
  from Cons.IH [OF this] show ?case by (simp add: fun_eq_iff)
qed simp

lemma new_key_at:
  assumes "ini_laws ini" and "nd_sections ini c = pre @ (n, g) # post" and "k \<noteq> []" and "k \<noteq> ''-''"
  shows "\<exists>key. ini_NewKey ini (length pre) k v c = (Inr (), add_key ini (length pre) k v c) \<and> added_key (g k) v key
     \<and> nd_sections ini (add_key ini (length pre) k v c) = pre @ (n, g(k \<mapsto> key)) # post"
proof -
  have "length pre < length (nd_sections ini c)" using assms(2) by simp
  from ini_law_new [OF assms(1) this assms(3,4), of v] show ?thesis
    unfolding assms(2) with_keys_at nth_append_length snd_conv add_key_def by (metis prod.collapse)
qed

text \<open>A list of values for a key that is not there.\<close>

lemma add_keys_at:
  assumes "ini_laws ini" and "nd_sections ini c = pre @ (n, g) # post" and "k \<noteq> []" and "k \<noteq> ''-''"
    and "g k = None" and "[] \<notin> set vs"
  shows "\<exists>x. nd_sections ini (add_keys ini (length pre) k vs c) = pre @ (n, g(k := x)) # post
     \<and> (case x of None \<Rightarrow> vs = [] | Some key \<Rightarrow> vs \<noteq> [] \<and> ik_ValueWithShadows key = vs \<and> ik_String key = hd vs)"
  using assms(6)
proof (induction vs rule: rev_induct)
  case Nil
  then show ?case using assms(2,5) by (intro exI [of _ None]) (simp add: add_keys_def fun_upd_idem)
next
  case (snoc v vs)
  from snoc.prems have "[] \<notin> set vs" by simp
  from snoc.IH [OF this] obtain x where x: "nd_sections ini (add_keys ini (length pre) k vs c) = pre @ (n, g(k := x)) # post"
    and s: "case x of None \<Rightarrow> vs = [] | Some key \<Rightarrow> vs \<noteq> [] \<and> ik_ValueWithShadows key = vs \<and> ik_String key = hd vs"
    by blast
  from new_key_at [OF assms(1) x assms(3,4), of v] obtain key where
    key: "added_key ((g(k := x)) k) v key"
    and m: "nd_sections ini (add_key ini (length pre) k v (add_keys ini (length pre) k vs c)) = pre @ (n, (g(k := x))(k \<mapsto> key)) # post"
    by blast
  have n: "nd_sections ini (add_keys ini (length pre) k (vs @ [v]) c) = pre @ (n, g(k \<mapsto> key)) # post"
    using m by (simp add: add_keys_def)
  show ?case
    using n key s snoc.prems
    by (intro exI [of _ "Some key"]) (auto simp: added_key_def plain_key_def shadowed_def split: option.splits)
qed

lemma get_section_at:
  assumes "ini_laws ini" and "nd_sections ini c = pre @ (n, g) # post" and "n \<notin> fst ` set pre"
  shows "ini_GetSection ini c n = Inr (length pre)"
proof -
  have f: "finds_section (pre @ (n, g) # post) n (ini_GetSection ini c n)"
    using ini_law_find [OF assms(1), of c n] assms(2) by simp
  then obtain i where i: "ini_GetSection ini c n = Inr i"
    by (cases "ini_GetSection ini c n") (auto simp: finds_section_def)
  with f have "fst ((pre @ (n, g) # post) ! i) = n" "\<forall>j<i. fst ((pre @ (n, g) # post) ! j) \<noteq> n"
    by (auto simp: finds_section_def)
  moreover have "fst ((pre @ (n, g) # post) ! length pre) = n" by simp
  moreover have "fst ((pre @ (n, g) # post) ! i) \<noteq> n" if "i < length pre"
    using that assms(3) by (auto simp: nth_append image_iff)
  ultimately have "i = length pre" by (metis linorder_neqE_nat)
  with i show ?thesis by simp
qed

section \<open>Setting the addresses of a network\<close>

text \<open>The sections after the change: one \<open>Network\<close> section rewritten, the \<open>Address\<close> sections gone.\<close>

definition rewritten :: "string list \<Rightarrow> string list \<Rightarrow> string list \<Rightarrow> string list \<Rightarrow> keys \<Rightarrow> keys \<Rightarrow> bool" where
  "rewritten addrs gws dns domains g g' \<longleftrightarrow>
     key_values g' ''Address'' = addrs \<and> (g' ''Address'' = None \<longleftrightarrow> addrs = [])
   \<and> key_values g' ''Gateway'' = gws \<and> key_values g' ''DNS'' = dns \<and> key_fields g' ''Domains'' = domains
   \<and> (\<forall>k. k \<notin> {''Address'', ''Gateway'', ''DNS'', ''Domains''} \<longrightarrow> g' k = g k)"

lemma nd_address_config_sections:
  assumes "ini_laws ini" and "nd_sections ini c = pre @ (''Network'', g) # post" and "''Network'' \<notin> fst ` set pre"
    and "\<forall>a\<in>set addrs. valid_net a" and "[] \<notin> set (gathered_dns ini c)"
    and "gateway4 = [] \<or> valid_ip gateway4" and "gateway6 = [] \<or> valid_ip gateway6"
  shows "\<exists>c' g'. nd_address_config ini addrs gateway4 gateway6 c = (Inr (), c')
     \<and> nd_sections ini c' = filter (\<lambda>s. fst s \<noteq> ''Address'') pre @ (''Network'', g') # filter (\<lambda>s. fst s \<noteq> ''Address'') post
     \<and> rewritten (map ipnet_string addrs) (gateway_strings gateway4 gateway6) (gathered_dns ini c) (gathered_domains ini c) g g'"
proof -
  let ?pre = "filter (\<lambda>s. fst s \<noteq> ''Address'') pre" and ?post = "filter (\<lambda>s. fst s \<noteq> ''Address'') post"
  let ?ks = "[''Address'', ''Gateway'', ''DNS'', ''Domains'']"
  let ?g = "\<lambda>k. if k \<in> set ?ks then None else g k"
  define c1 where "c1 = ini_DeleteSection ini ''Address'' c"
  have s1: "nd_sections ini c1 = ?pre @ (''Network'', g) # ?post"
    using assms(2) by (simp add: ini_law_section [OF assms(1)] c1_def)
  have sec: "ini_GetSection ini c1 ''Network'' = Inr (length ?pre)"
    by (rule get_section_at [OF assms(1) s1]) (use assms(3) in auto)
  define c2 where "c2 = fold (ini_DeleteKey ini (length ?pre)) ?ks c1"
  note s2 = delete_keys_at [OF assms(1) s1, of ?ks, folded c2_def]
  have w: "[] \<notin> set (map ipnet_string addrs)"
    using assms(4) ipnet_string_word by (fastforce simp: is_word_def)
  define c3 where "c3 = add_keys ini (length ?pre) ''Address'' (map ipnet_string addrs) c2"
  obtain xa where s3: "nd_sections ini c3 = ?pre @ (''Network'', ?g(''Address'' := xa)) # ?post"
    and xa: "case xa of None \<Rightarrow> addrs = [] | Some key \<Rightarrow> addrs \<noteq> [] \<and> ik_ValueWithShadows key = map ipnet_string addrs"
    using add_keys_at [OF assms(1) s2, of "''Address''", OF _ _ _ w] unfolding c3_def by (auto split: option.splits)
  have wg: "[] \<notin> set (gateway_strings gateway4 gateway6)"
    using assms(6,7) ip_string_word [of gateway4] ip_string_word [of gateway6]
    by (auto simp: gateway_strings_def is_word_def)
  define c4 where "c4 = add_keys ini (length ?pre) ''Gateway'' (gateway_strings gateway4 gateway6) c3"
  obtain xg where s4: "nd_sections ini c4 = ?pre @ (''Network'', ?g(''Address'' := xa, ''Gateway'' := xg)) # ?post"
    and xg: "case xg of None \<Rightarrow> gateway_strings gateway4 gateway6 = []
        | Some key \<Rightarrow> ik_ValueWithShadows key = gateway_strings gateway4 gateway6"
    using add_keys_at [OF assms(1) s3, of "''Gateway''", OF _ _ _ wg] unfolding c4_def by (auto split: option.splits)
  define c5 where "c5 = add_keys ini (length ?pre) ''DNS'' (gathered_dns ini c) c4"
  obtain xd where s5: "nd_sections ini c5 = ?pre @ (''Network'', ?g(''Address'' := xa, ''Gateway'' := xg, ''DNS'' := xd)) # ?post"
    and xd: "case xd of None \<Rightarrow> gathered_dns ini c = [] | Some key \<Rightarrow> ik_ValueWithShadows key = gathered_dns ini c"
    using add_keys_at [OF assms(1) s4, of "''DNS''", OF _ _ _ assms(5)] unfolding c5_def by (auto split: option.splits)
  obtain key where s6: "nd_sections ini (add_key ini (length ?pre) ''Domains'' (join '' '' (gathered_domains ini c)) c5)
      = ?pre @ (''Network'', ?g(''Address'' := xa, ''Gateway'' := xg, ''DNS'' := xd, ''Domains'' \<mapsto> key)) # ?post"
    and key: "added_key None (join '' '' (gathered_domains ini c)) key"
    using new_key_at [OF assms(1) s5, of "''Domains''" "join '' '' (gathered_domains ini c)"] by auto
  have dom: "Fields (join '' '' (gathered_domains ini c)) = gathered_domains ini c"
    by (rule Fields_join) (auto simp: gathered_domains_def key_fields_def Fields_words split: option.splits)
  show ?thesis
    using sec s6 key xa xg xd dom
    by (intro exI conjI, simp add: nd_address_config_def Let_def c1_def [symmetric],
        (simp add: c5_def c4_def c3_def c2_def; fail)?)
      (auto simp: rewritten_def key_values_def key_fields_def added_key_def plain_key_def split: option.splits)
qed

section \<open>Reading the sections\<close>

definition section_routes :: "(string \<times> keys) list \<Rightarrow> Route list" where
  "section_routes ss = List.map_filter (\<lambda>(n, g). if n = ''Route'' then section_route g else None) ss"

lemma section_routes_simps [simp]:
  "section_routes [] = []"
  "section_routes ((n, g) # ss) = (if n = ''Route'' then (case section_route g of None \<Rightarrow> [] | Some r \<Rightarrow> [r]) else [])
     @ section_routes ss"
  by (auto simp: section_routes_def List.map_filter_simps split: option.splits)

lemma section_routes_append [simp]: "section_routes (ss @ ts) = section_routes ss @ section_routes ts"
  by (induction ss) auto

lemma section_routes_filter: "n \<noteq> ''Route'' \<Longrightarrow> section_routes (filter (\<lambda>s. fst s \<noteq> n) ss) = section_routes ss"
  by (induction ss) auto

text \<open>Sections that are not about addresses only have routes.\<close>

lemma read_others:
  "\<forall>s\<in>set ss. \<not> is_addressing (fst s) \<Longrightarrow>
     fold read_section ss i = i\<lparr>if_Routes := if_Routes i @ section_routes ss\<rparr>"
  by (induction ss arbitrary: i) (auto simp: read_section_def is_addressing_def split: option.splits)

lemma add_addresses_valid:
  "\<forall>a\<in>set as. valid_net a \<Longrightarrow> add_addresses (map ipnet_string as) bs = bs @ map norm_net as"
proof (induction as arbitrary: bs)
  case (Cons a as)
  then have "ipnet_string a \<noteq> []" using ipnet_string_word by (simp add: is_word_def)
  then show ?case using Cons by (simp add: ParseCIDR_ipnet_string)
qed simp

lemma take_gateway_string:
  assumes "valid_ip g"
  shows "take_gateway (ip_string g) i = (if is_v4 g then i\<lparr>if_Gateway4 := To16 g\<rparr> else i\<lparr>if_Gateway6 := To16 g\<rparr>)"
  using assms is_v4_To16 [OF assms] ParseIP_ip_string [OF assms]
  by (auto simp: take_gateway_def Let_def is_v4_def To16_def valid_ip_def)

lemma take_gateways:
  assumes "gateway4 = [] \<or> valid_ip gateway4 \<and> is_v4 gateway4" and "gateway6 = [] \<or> valid_ip gateway6 \<and> \<not> is_v4 gateway6"
  shows "fold take_gateway (gateway_strings gateway4 gateway6) i
    = i\<lparr>if_Gateway4 := (if gateway4 = [] then if_Gateway4 i else To16 gateway4),
        if_Gateway6 := (if gateway6 = [] then if_Gateway6 i else To16 gateway6)\<rparr>"
  using assms by (auto simp: gateway_strings_def take_gateway_string)

text \<open>Fields that the sections about addresses leave alone.\<close>

lemma take_gateway_fields [simp]:
  "if_Routes (take_gateway v i) = if_Routes i" "if_DHCP4 (take_gateway v i) = if_DHCP4 i"
  "if_DHCP6 (take_gateway v i) = if_DHCP6 i" "if_Name (take_gateway v i) = if_Name i"
  "if_Addresses (take_gateway v i) = if_Addresses i" "if_DNS (take_gateway v i) = if_DNS i"
  "if_SearchDomains (take_gateway v i) = if_SearchDomains i"
  by (simp_all add: take_gateway_def Let_def)

lemma fold_take_gateway_fields [simp]:
  "if_Routes (fold take_gateway vs i) = if_Routes i" "if_DHCP4 (fold take_gateway vs i) = if_DHCP4 i"
  "if_DHCP6 (fold take_gateway vs i) = if_DHCP6 i" "if_Name (fold take_gateway vs i) = if_Name i"
  "if_Addresses (fold take_gateway vs i) = if_Addresses i" "if_DNS (fold take_gateway vs i) = if_DNS i"
  "if_SearchDomains (fold take_gateway vs i) = if_SearchDomains i"
  by (induction vs arbitrary: i) auto

lemma read_addressing_fields [simp]:
  "if_Routes (read_addressing g i) = if_Routes i" "if_DHCP4 (read_addressing g i) = if_DHCP4 i"
  "if_DHCP6 (read_addressing g i) = if_DHCP6 i" "if_Name (read_addressing g i) = if_Name i"
  by (simp_all add: read_addressing_def Let_def)

lemma read_dhcp_fields [simp]:
  "if_Routes (read_dhcp g i) = if_Routes i" "if_Name (read_dhcp g i) = if_Name i"
  "if_Addresses (read_dhcp g i) = if_Addresses i" "if_DNS (read_dhcp g i) = if_DNS i"
  "if_SearchDomains (read_dhcp g i) = if_SearchDomains i"
  "if_Gateway4 (read_dhcp g i) = if_Gateway4 i" "if_Gateway6 (read_dhcp g i) = if_Gateway6 i"
  by (simp_all add: read_dhcp_def split: option.splits prod.splits)

lemma read_routes: "if_Routes (fold read_section ss i) = if_Routes i @ section_routes ss"
  by (induction ss arbitrary: i) (auto simp: read_section_def split: option.splits)

definition dhcp_of :: "keys \<Rightarrow> bool \<times> bool \<Rightarrow> bool \<times> bool" where
  "dhcp_of g d = (case g ''DHCP'' of None \<Rightarrow> d | Some key \<Rightarrow> parseNetworkdDHCP (ik_String key))"

lemma read_dhcp_of: "(if_DHCP4 (read_dhcp g i), if_DHCP6 (read_dhcp g i)) = dhcp_of g (if_DHCP4 i, if_DHCP6 i)"
  by (simp add: read_dhcp_def dhcp_of_def split: option.splits prod.splits)

text \<open>The DHCP state is the last one a \<open>Network\<close> section sets.\<close>

definition network_keys :: "(string \<times> keys) list \<Rightarrow> keys list" where
  "network_keys ss = map snd (filter (\<lambda>s. fst s = ''Network'') ss)"

lemma read_section_dhcp:
  "(if_DHCP4 (read_section s i), if_DHCP6 (read_section s i))
    = (if fst s = ''Network'' then dhcp_of (snd s) (if_DHCP4 i, if_DHCP6 i) else (if_DHCP4 i, if_DHCP6 i))"
  using read_dhcp_of [of "snd s" i] by (cases s) (simp add: read_section_def split: option.splits)

lemma read_dhcps:
  "(if_DHCP4 (fold read_section ss i), if_DHCP6 (fold read_section ss i))
    = fold dhcp_of (network_keys ss) (if_DHCP4 i, if_DHCP6 i)"
proof (induction ss arbitrary: i)
  case (Cons s ss)
  show ?case
    unfolding fold_Cons comp_apply Cons.IH read_section_dhcp by (simp add: network_keys_def)
qed (simp add: network_keys_def)

section \<open>What is set is read back\<close>

definition gateways_ok :: "ip \<Rightarrow> ip \<Rightarrow> bool" where
  "gateways_ok gateway4 gateway6 \<longleftrightarrow> (gateway4 = [] \<or> valid_ip gateway4 \<and> is_v4 gateway4)
     \<and> (gateway6 = [] \<or> valid_ip gateway6 \<and> \<not> is_v4 gateway6)"

lemma network_keys_split:
  "network_keys ss = g # gs \<Longrightarrow>
     \<exists>pre post. ss = pre @ (''Network'', g) # post \<and> ''Network'' \<notin> fst ` set pre \<and> network_keys post = gs"
proof (induction ss)
  case (Cons s ss)
  obtain n h where s: "s = (n, h)" by fastforce
  show ?case
  proof (cases "n = ''Network''")
    case True
    then show ?thesis
      using Cons.prems by (intro exI [of _ "[]"] exI [of _ ss]) (simp add: s network_keys_def)
  next
    case False
    then have "network_keys ss = g # gs" using Cons.prems by (simp add: s network_keys_def)
    from Cons.IH [OF this] obtain pre post where
      "ss = pre @ (''Network'', g) # post \<and> ''Network'' \<notin> fst ` set pre \<and> network_keys post = gs" by blast
    then show ?thesis using False by (intro exI [of _ "s # pre"] exI [of _ post]) (simp add: s)
  qed
qed (simp add: network_keys_def)

lemma network_keys_simps [simp]:
  "network_keys [] = []" "network_keys ((n, g) # ss) = (if n = ''Network'' then g # network_keys ss else network_keys ss)"
  "network_keys (ss @ ts) = network_keys ss @ network_keys ts"
  by (simp_all add: network_keys_def)

lemma network_keys_none: "''Network'' \<notin> fst ` set ss \<Longrightarrow> network_keys ss = []"
  by (force simp: network_keys_def filter_empty_conv)

lemma network_keys_filter: "network_keys (filter (\<lambda>s. fst s \<noteq> ''Address'') ss) = network_keys ss"
  by (induction ss) auto

lemma read_network_routes [simp]: "if_Routes (read_section (''Network'', g) i) = if_Routes i"
  by (simp add: read_section_def)

section \<open>The DHCP state as a store\<close>

definition nd_dhcp_state :: "'c ini \<Rightarrow> 'c \<Rightarrow> bool \<times> bool" where
  "nd_dhcp_state ini c = fold dhcp_of (network_keys (nd_sections ini c)) (False, False)"

definition nd_put_dhcp :: "'c ini \<Rightarrow> bool \<Rightarrow> bool \<Rightarrow> 'c \<Rightarrow> 'c result" where
  "nd_put_dhcp ini d4 d6 c = (case nd_dhcp_config ini d4 d6 c of (Inl e, _) \<Rightarrow> Inl e | (Inr _, c') \<Rightarrow> Inr c')"

definition one_network :: "'c ini \<Rightarrow> 'c \<Rightarrow> bool" where
  "one_network ini c \<longleftrightarrow> length (network_keys (nd_sections ini c)) = 1"

lemma parse_format_DHCP:
  "(case formatNetworkdDHCP d4 d6 of None \<Rightarrow> (False, False) | Some v \<Rightarrow> parseNetworkdDHCP v) = (d4, d6)"
proof -
  have "parseNetworkdDHCP ''yes'' = (True, True)" "parseNetworkdDHCP ''ipv4'' = (True, False)"
    "parseNetworkdDHCP ''ipv6'' = (False, True)" by code_simp+
  then show ?thesis by (simp add: formatNetworkdDHCP_def)
qed

lemma nd_sections_key: "nd_sections ini c = pre @ (n, g) # post \<Longrightarrow> ini_GetKey ini c (length pre) = g"
proof -
  assume s: "nd_sections ini c = pre @ (n, g) # post"
  then have "length pre < length (nd_sections ini c)" and "nd_sections ini c ! length pre = (n, g)" by simp_all
  then show ?thesis by (simp add: nd_sections_def nth_enumerate_eq)
qed

lemma setNetworkdDHCP_at:
  assumes "ini_laws ini" and "nd_sections ini c = pre @ (n, g) # post" and "setNetworkdDHCP ini (length pre) d4 d6 c = (r, c')"
  shows "r = Inr () \<and> (\<exists>x. nd_sections ini c' = pre @ (n, g(''DHCP'' := x)) # post
    \<and> (case x of None \<Rightarrow> (False, False) | Some key \<Rightarrow> parseNetworkdDHCP (ik_String key)) = (d4, d6))"
proof (cases "formatNetworkdDHCP d4 d6")
  case None
  have "length pre < length (nd_sections ini c)" using assms(2) by simp
  from ini_law_delete [OF assms(1) this] None show ?thesis
    using assms(2,3) parse_format_DHCP [of d4 d6] by (intro conjI exI [of _ None]) (auto simp: setNetworkdDHCP_def)
next
  case (Some v)
  have i: "length pre < length (nd_sections ini c)" using assms(2) by simp
  have v: "parseNetworkdDHCP v = (d4, d6)" using parse_format_DHCP [of d4 d6] Some by simp
  show ?thesis
  proof (cases "g ''DHCP''")
    case None
    then obtain key where "ini_NewKey ini (length pre) ''DHCP'' v c = (Inr (), add_key ini (length pre) ''DHCP'' v c)"
      "added_key None v key" "nd_sections ini (add_key ini (length pre) ''DHCP'' v c) = pre @ (n, g(''DHCP'' \<mapsto> key)) # post"
      using new_key_at [OF assms(1,2), of "''DHCP''" v] by auto
    then show ?thesis
      using assms(3) Some None v nd_sections_key [OF assms(2)]
      by (intro conjI exI [of _ "Some key"]) (auto simp: setNetworkdDHCP_def added_key_def plain_key_def)
  next
    case old: (Some key)
    then have "snd (nd_sections ini c ! length pre) ''DHCP'' = Some key" by (simp add: assms(2))
    from ini_law_set [OF assms(1) i this, of v] obtain key' where "ik_String key' = v"
      "nd_sections ini (ini_SetValue ini (length pre) ''DHCP'' v c) = pre @ (n, g(''DHCP'' \<mapsto> key')) # post"
      using assms(2) by auto
    then show ?thesis
      using assms(3) Some old v nd_sections_key [OF assms(2)]
      by (intro conjI exI [of _ "Some key'"]) (auto simp: setNetworkdDHCP_def)
  qed
qed

lemma nd_dhcp_store:
  assumes "ini_laws ini"
  shows "dhcp_store (nd_dhcp_state ini) (nd_put_dhcp ini) (one_network ini)"
proof
  fix c d4 d6 c'
  assume one: "one_network ini c" and put: "nd_put_dhcp ini d4 d6 c = Inr c'"
  then obtain g where "network_keys (nd_sections ini c) = [g]" by (auto simp: one_network_def length_Suc_conv)
  then obtain pre post where s: "nd_sections ini c = pre @ (''Network'', g) # post" "''Network'' \<notin> fst ` set pre"
    "network_keys post = []"
    using network_keys_split by blast
  have "ini_GetSection ini c ''Network'' = Inr (length pre)" by (rule get_section_at [OF assms s(1,2)])
  then obtain r where r: "setNetworkdDHCP ini (length pre) d4 d6 c = (r, c')"
    using put by (auto simp: nd_put_dhcp_def nd_dhcp_config_def split: prod.splits sum.splits)
  obtain x where x: "nd_sections ini c' = pre @ (''Network'', g(''DHCP'' := x)) # post"
    "(case x of None \<Rightarrow> (False, False) | Some key \<Rightarrow> parseNetworkdDHCP (ik_String key)) = (d4, d6)"
    using setNetworkdDHCP_at [OF assms s(1) r] by blast
  have k: "network_keys (nd_sections ini c') = [g(''DHCP'' := x)]"
    using network_keys_none [OF s(2)] s(3) by (simp add: x(1))
  show "nd_dhcp_state ini c' = (d4, d6)" using x(2) by (simp add: nd_dhcp_state_def k dhcp_of_def split: option.splits)
  show "one_network ini c'" by (simp add: one_network_def k)
qed

text \<open>For every lawful library; on the documents of this theory in particular.\<close>

interpretation nd_dhcp: dhcp_store "nd_dhcp_state doc_ini" "nd_put_dhcp doc_ini" "one_network doc_ini"
  by (rule nd_dhcp_store [OF doc_laws])

text \<open>A rewritten section after the addresses so far.\<close>

lemma read_rewritten:
  assumes "rewritten (map ipnet_string addrs) (gateway_strings gateway4 gateway6) dns domains g g'"
    and "addrs \<noteq> []" and "\<forall>a\<in>set addrs. valid_net a" and "gateways_ok gateway4 gateway6"
  shows "read_section (''Network'', g') i = (read_dhcp g i)
     \<lparr>if_Addresses := if_Addresses i @ map norm_net addrs, if_DNS := if_DNS i @ parse_ips dns,
      if_SearchDomains := if_SearchDomains i @ domains,
      if_Gateway4 := (if gateway4 = [] then if_Gateway4 i else To16 gateway4),
      if_Gateway6 := (if gateway6 = [] then if_Gateway6 i else To16 gateway6)\<rparr>"
proof -
  have "g' ''DHCP'' = g ''DHCP''" using assms(1) by (simp add: rewritten_def)
  then have d: "read_dhcp g' i = read_dhcp g i" by (simp add: read_dhcp_def)
  have a: "g' ''Address'' \<noteq> None" using assms(1,2) by (simp add: rewritten_def)
  show ?thesis
    using assms a
    by (simp del: not_None_eq add: read_section_def read_addressing_def rewritten_def Let_def add_addresses_valid take_gateways
        gateways_ok_def d)
qed

definition start_interface :: "'c networkdNetwork \<Rightarrow> Interface" where
  "start_interface n = (new_interface (nn_Name n))\<lparr>if_MAC := nn_MAC n, if_Link := map_option lk_index (nn_Link n)\<rparr>"

lemma nd_interface_start: "nd_interface ini n = fold read_section (nd_sections ini (nn_Config n)) (start_interface n)"
  by (simp add: nd_interface_def start_interface_def)

lemma start_interface_fields [simp]:
  "if_Addresses (start_interface n) = []" "if_Gateway4 (start_interface n) = []" "if_Gateway6 (start_interface n) = []"
  "if_DNS (start_interface n) = []" "if_SearchDomains (start_interface n) = []" "if_Routes (start_interface n) = []"
  "if_DHCP4 (start_interface n) = False" "if_DHCP6 (start_interface n) = False"
  by (simp_all add: start_interface_def new_interface_def)

lemma To16_Nil [simp]: "To16 [] = []"
  by (simp add: To16_def)

text \<open>
  C8. Setting the addresses of a network whose configuration has one \<open>Network\<close> section: the
  interface read from the changed configuration has exactly these addresses (in order), the
  gateways of both families, every resolver and search domain that was configured in any
  section, and the DHCP state and routes it had.
\<close>

theorem networkd_addresses_roundtrip:
  assumes "ini_laws ini" and "network_keys (nd_sections ini (nn_Config n)) = [g]"
    and "addrs \<noteq> []" and "\<forall>a\<in>set addrs. valid_net a" and "gateways_ok gateway4 gateway6"
    and "[] \<notin> set (gathered_dns ini (nn_Config n))"
  shows "\<exists>c'. nd_address_config ini addrs gateway4 gateway6 (nn_Config n) = (Inr (), c')
     \<and> (let i = nd_interface ini n; i' = nd_interface ini (n\<lparr>nn_Config := c'\<rparr>) in
          if_Addresses i' = map norm_net addrs \<and> if_Gateway4 i' = To16 gateway4 \<and> if_Gateway6 i' = To16 gateway6
        \<and> if_DNS i' = parse_ips (gathered_dns ini (nn_Config n))
        \<and> if_SearchDomains i' = gathered_domains ini (nn_Config n)
        \<and> if_DHCP4 i' = if_DHCP4 i \<and> if_DHCP6 i' = if_DHCP6 i \<and> if_Routes i' = if_Routes i)"
proof -
  let ?keep = "filter (\<lambda>s :: string \<times> keys. fst s \<noteq> ''Address'')"
  obtain pre post where ss: "nd_sections ini (nn_Config n) = pre @ (''Network'', g) # post"
    and pre: "''Network'' \<notin> fst ` set pre" and post: "network_keys post = []"
    using network_keys_split [OF assms(2)] by blast
  have post': "''Network'' \<notin> fst ` set post"
    using post by (force simp: network_keys_def filter_empty_conv)
  have gw: "gateway4 = [] \<or> valid_ip gateway4" "gateway6 = [] \<or> valid_ip gateway6"
    using assms(5) by (auto simp: gateways_ok_def)
  obtain c' g' where c': "nd_address_config ini addrs gateway4 gateway6 (nn_Config n) = (Inr (), c')"
    and ss': "nd_sections ini c' = ?keep pre @ (''Network'', g') # ?keep post"
    and rw: "rewritten (map ipnet_string addrs) (gateway_strings gateway4 gateway6) (gathered_dns ini (nn_Config n))
        (gathered_domains ini (nn_Config n)) g g'"
    using nd_address_config_sections [OF assms(1) ss pre assms(4,6) gw] by blast
  have o: "\<forall>s\<in>set (?keep pre). \<not> is_addressing (fst s)" "\<forall>s\<in>set (?keep post). \<not> is_addressing (fst s)"
    using pre post' by (force simp: is_addressing_def)+
  let ?i = "nd_interface ini n" and ?i' = "nd_interface ini (n\<lparr>nn_Config := c'\<rparr>)"
  have start: "start_interface (n\<lparr>nn_Config := c'\<rparr>) = start_interface n" by (simp add: start_interface_def)
  have i': "?i' = fold read_section (?keep post) (read_section (''Network'', g') (fold read_section (?keep pre) (start_interface n)))"
    by (simp add: nd_interface_start start ss')
  have routes: "if_Routes ?i' = if_Routes ?i"
    by (simp add: nd_interface_start start ss ss' read_routes section_routes_filter)
  have "network_keys (nd_sections ini c') = [g']"
    using post pre by (simp add: ss' network_keys_filter network_keys_none)
  moreover have "dhcp_of g' d = dhcp_of g d" for d using rw by (simp add: dhcp_of_def rewritten_def)
  ultimately have dhcp: "(if_DHCP4 ?i', if_DHCP6 ?i') = (if_DHCP4 ?i, if_DHCP6 ?i)"
    unfolding nd_interface_start start read_dhcps using assms(2) by simp
  show ?thesis
    using c' routes dhcp by (intro exI [of _ c'])
      (simp add: i' read_others [OF o(1)] read_others [OF o(2)] read_rewritten [OF rw assms(3-5)])
qed

definition doc_network :: "doc \<Rightarrow> doc networkdNetwork" where
  "doc_network c = \<lparr>nn_Config = c, nn_Name = ''eth0'', nn_MAC = [], nn_Link = None, nn_File = ''10-eth0.network'', nn_SubFiles = []\<rparr>"

definition lan_doc :: doc where
  "lan_doc = [(''Match'', [(''Name'', ''eth0'', [])]),
     (''Network'', [(''DHCP'', ''ipv6'', []), (''Address'', ''192.0.2.9/24'', []), (''DNS'', ''192.0.2.53'', [''192.0.2.54''])]),
     (''Address'', [(''Address'', ''192.0.2.8/24'', []), (''Domains'', ''example.org'', [])]),
     (''Route'', [(''Destination'', ''10.0.0.0/8'', []), (''Gateway'', ''192.0.2.7'', [])])]"

definition lan_addrs :: "ipnet list" where
  "lan_addrs = [\<lparr>net_ip = [192, 0, 2, 10], net_mask = [255, 255, 255, 0]\<rparr>]"

lemma networkd_addresses_roundtrip_witness:
  "\<exists>c'. nd_address_config doc_ini lan_addrs [192, 0, 2, 1] [] lan_doc = (Inr (), c')
     \<and> map ipnet_string (if_Addresses (nd_interface doc_ini (doc_network c'))) = [''192.0.2.10/24'']
     \<and> if_SearchDomains (nd_interface doc_ini (doc_network c')) = [''example.org'']"
proof -
  have n: "nn_Config (doc_network lan_doc) = lan_doc" "(doc_network lan_doc)\<lparr>nn_Config := c'\<rparr> = doc_network c'" for c'
    by (simp_all add: doc_network_def)
  have k: "network_keys (nd_sections doc_ini lan_doc) = [doc_keys (snd (lan_doc ! 1))]"
    by (simp add: doc_sections lan_doc_def)
  have v: "lan_addrs \<noteq> []" "\<forall>a\<in>set lan_addrs. valid_net a" "gateways_ok [192, 0, 2, 1] []" by code_simp+
  have d: "[] \<notin> set (gathered_dns doc_ini lan_doc)" "gathered_domains doc_ini lan_doc = [''example.org'']" by code_simp+
  have s: "map ipnet_string (map norm_net lan_addrs) = [''192.0.2.10/24'']" by code_simp
  show ?thesis
    using networkd_addresses_roundtrip [OF doc_laws, of "doc_network lan_doc", unfolded n, OF k v d(1)] d(2) s
    unfolding Let_def by (elim exE conjE) (intro exI conjI, assumption, simp_all only:)
qed

text \<open>
  When the configuration has a second \<open>Network\<close> section (systemd merges repeated sections,
  and the program loads drop-ins as further sections), setting the addresses rewrites the
  first one only: the addresses of the second stay configured after the new ones.
\<close>

theorem networkd_keeps_other_addresses:
  assumes "ini_laws ini" and "network_keys (nd_sections ini (nn_Config n)) = [g1, g2]" and "g2 ''Address'' \<noteq> None"
    and "addrs \<noteq> []" and "\<forall>a\<in>set addrs. valid_net a" and "gateways_ok gateway4 gateway6"
    and "[] \<notin> set (gathered_dns ini (nn_Config n))"
  shows "\<exists>c'. nd_address_config ini addrs gateway4 gateway6 (nn_Config n) = (Inr (), c')
     \<and> if_Addresses (nd_interface ini (n\<lparr>nn_Config := c'\<rparr>))
       = add_addresses (key_values g2 ''Address'') (map norm_net addrs)"
proof -
  let ?keep = "filter (\<lambda>s :: string \<times> keys. fst s \<noteq> ''Address'')"
  obtain pre post where ss: "nd_sections ini (nn_Config n) = pre @ (''Network'', g1) # post"
    and pre: "''Network'' \<notin> fst ` set pre" and post: "network_keys post = [g2]"
    using network_keys_split [OF assms(2)] by blast
  obtain mid rest where mid: "post = mid @ (''Network'', g2) # rest" "''Network'' \<notin> fst ` set mid" "network_keys rest = []"
    using network_keys_split [OF post] by blast
  have e: "''Network'' \<notin> fst ` set rest" using mid(3) by (force simp: network_keys_def filter_empty_conv)
  have gw: "gateway4 = [] \<or> valid_ip gateway4" "gateway6 = [] \<or> valid_ip gateway6"
    using assms(6) by (auto simp: gateways_ok_def)
  obtain c' g' where c': "nd_address_config ini addrs gateway4 gateway6 (nn_Config n) = (Inr (), c')"
    and ss': "nd_sections ini c' = ?keep pre @ (''Network'', g') # ?keep post"
    and rw: "rewritten (map ipnet_string addrs) (gateway_strings gateway4 gateway6) (gathered_dns ini (nn_Config n))
        (gathered_domains ini (nn_Config n)) g1 g'"
    using nd_address_config_sections [OF assms(1) ss pre assms(5,7) gw] by blast
  have o: "\<forall>s\<in>set (?keep pre). \<not> is_addressing (fst s)" "\<forall>s\<in>set (?keep mid). \<not> is_addressing (fst s)"
    "\<forall>s\<in>set (?keep rest). \<not> is_addressing (fst s)"
    using pre mid(2) e by (force simp: is_addressing_def)+
  have start: "start_interface (n\<lparr>nn_Config := c'\<rparr>) = start_interface n" by (simp add: start_interface_def)
  have "if_Addresses (read_section (''Network'', g2) i) = add_addresses (key_values g2 ''Address'') (if_Addresses i)" for i
    using assms(3) by (simp del: not_None_eq add: read_section_def read_addressing_def Let_def)
  then show ?thesis
    using c' by (intro exI [of _ c'])
      (simp add: nd_interface_start start ss' mid(1) read_others [OF o(1)] read_others [OF o(2)] read_others [OF o(3)]
        read_rewritten [OF rw assms(4-6)])
qed

definition split_doc :: doc where
  "split_doc = lan_doc @ [(''Network'', [(''Address'', ''198.51.100.3/24'', [])])]"

lemma networkd_keeps_other_addresses_witness:
  "\<exists>c'. nd_address_config doc_ini lan_addrs [192, 0, 2, 1] [] split_doc = (Inr (), c')
     \<and> map ipnet_string (if_Addresses (nd_interface doc_ini (doc_network c'))) = [''192.0.2.10/24'', ''198.51.100.3/24'']"
proof -
  have n: "nn_Config (doc_network split_doc) = split_doc" "(doc_network split_doc)\<lparr>nn_Config := c'\<rparr> = doc_network c'" for c'
    by (simp_all add: doc_network_def)
  have k: "network_keys (nd_sections doc_ini split_doc) = [doc_keys (snd (split_doc ! 1)), doc_keys (snd (split_doc ! 4))]"
    by (simp add: doc_sections split_doc_def lan_doc_def)
  have a: "doc_keys (snd (split_doc ! 4)) ''Address'' \<noteq> None" by (simp add: split_doc_def lan_doc_def doc_keys_def)
  have v: "lan_addrs \<noteq> []" "\<forall>a\<in>set lan_addrs. valid_net a" "gateways_ok [192, 0, 2, 1] []" by code_simp+
  have d: "[] \<notin> set (gathered_dns doc_ini split_doc)" by code_simp
  have s: "map ipnet_string (add_addresses (key_values (doc_keys (snd (split_doc ! 4))) ''Address'') (map norm_net lan_addrs))
      = [''192.0.2.10/24'', ''198.51.100.3/24'']" by code_simp
  show ?thesis
    using networkd_keeps_other_addresses [OF doc_laws, of "doc_network split_doc", unfolded n, OF k a v d] s by auto
qed

section \<open>Saving\<close>

lemma encode_to_keeps: "keeps w0 p w \<Longrightarrow> keeps w0 p (snd (encode_to p t w))"
  unfolding encode_to_def
  by (intro try_io_invariant [where P = "keeps w0 p"] keeps_open_write)
    (auto dest!: os_open_write_keeps_path simp: keeps_fd_write)

lemma encode_no_links:
  assumes "no_links w"
  shows "no_links (snd (encode_to p t w))" "q \<noteq> p \<Longrightarrow> fs_get (snd (encode_to p t w)) q = fs_get w q"
proof -
  have "keeps w p (snd (encode_to p t w))"
    by (rule encode_to_keeps) (use assms in \<open>simp add: keeps_def no_links_def\<close>)
  then show "no_links (snd (encode_to p t w))" "q \<noteq> p \<Longrightarrow> fs_get (snd (encode_to p t w)) q = fs_get w q"
    using keeps_no_links assms by (auto simp: keeps_def)
qed

text \<open>Saving in terms of its moves.\<close>

definition nn_backups :: "string \<Rightarrow> nat \<Rightarrow> string list \<Rightarrow> (string \<times> string) list" where
  "nn_backups d t fs = map (\<lambda>f. (path_join d f, path_join d (f @ bak_suffix t))) fs"

lemma move_subfiles_moves: "move_subfiles d (bak_suffix t) fs w = moves (nn_backups d t fs) w"
  by (induction fs arbitrary: w) (simp_all add: nn_backups_def try_io_def split: prod.splits sum.splits)

lemma nn_Save_moves:
  "nn_Save ini d retention n w =
     (let tmp = path_join d (nn_File n @ tmp_suffix (now w)); files = nn_SubFiles n @ [nn_File n] in
      case encode_to tmp (ini_WriteTo ini (nn_Config n)) (tick w) of
        (Inl e, w) \<Rightarrow> ((Inl e, n), w)
      | (Inr _, w) \<Rightarrow>
         (case moves (nn_backups d (now w) files @ [(tmp, path_join d (nn_File n))]) (tick w) of
            (Inl e, w) \<Rightarrow> ((Inl e, n), w)
          | (Inr _, w) \<Rightarrow> ((Inr (), n\<lparr>nn_SubFiles := []\<rparr>),
              fold (\<lambda>base. pruneBackups d (suffixBackupMatcher base) retention) files w)))"
  by (simp add: nn_Save_def Let_def UnixNano_def move_subfiles_moves moves_append nn_backups_def try_io_def
      split: prod.splits sum.splits)

lemma fold_prune_off: "retention \<le> 0 \<Longrightarrow> fold (\<lambda>b. pruneBackups d (f b) retention) bs w = w"
  by (induction bs) (simp_all add: prune_off)


definition nd_world :: world where
  "nd_world = mk_world [(''/n'', Dir), (''/n/10-eth0.network'', File ''old'' 420 0)]"

text \<open>The move of the new file into place fails.\<close>

definition nd_world_fault :: world where
  "nd_world_fault = nd_world\<lparr>w_fault := (\<lambda>t. if t = 5 then Some (EIO, 0) else None)\<rparr>"


text \<open>
  C20. A network that has drop-in files cannot be saved: their names are looked up next to the
  network file and not in their own directory, so moving the first of them to its backup
  fails, every operation on the interface reports an error, and the file keeps its content.
\<close>

theorem networkd_dropins_fail:
  assumes "nn_SubFiles n = f # fs" and "fs_get w (path_join d f) = None" and "abs_dir d" and "no_links w"
    and "unit_name f" and "unit_name (nn_File n)" and "f \<noteq> nn_File n"
  shows "\<exists>e w'. nn_Save ini d retention n w = ((Inl e, n), w')
     \<and> content_of w' (path_join d (nn_File n)) = content_of w (path_join d (nn_File n))"
proof -
  let ?tmp = "path_join d (nn_File n @ tmp_suffix (now w))"
  let ?main = "path_join d (nn_File n)"
  have fn: "file_name f" "file_name (nn_File n)" using assms(5,6) by (simp_all add: unit_name_def)
  obtain x w1 where enc: "encode_to ?tmp (ini_WriteTo ini (nn_Config n)) (tick w) = (x, w1)" by fastforce
  have "no_links (tick w)" using assms(4) by (simp add: no_links_def)
  note k = encode_no_links [OF this, where p = ?tmp and t = "ini_WriteTo ini (nn_Config n)", unfolded enc snd_conv]
  have "path_join d f \<noteq> ?tmp" "?main \<noteq> ?tmp"
    using path_join_neq [OF assms(3) _ file_name_suffix(2) [OF fn(2)] unit_name_no_suffix(1)] fn assms(5,6) by blast+
  then have w1: "fs_get w1 (path_join d f) = None" "fs_get w1 ?main = fs_get w ?main"
    using k(2) assms(2) by simp_all
  show ?thesis
  proof (cases x)
    case (Inl e)
    then show ?thesis using enc w1 by (simp add: nn_Save_moves Let_def content_of_def)
  next
    case (Inr u)
    let ?b = "path_join d (f @ bak_suffix (now w1))"
    obtain e w2 where mv: "fileMove (path_join d f) ?b (tick w1) = (Inl e, w2)"
      using fileMove_missing [of "tick w1" "path_join d f" ?b] w1 by auto
    have "fs_get w2 ?main = fs_get w1 ?main"
    proof -
      have "?main \<noteq> path_join d f" using path_join_neq [OF assms(3) fn(2,1)] assms(7) by blast
      moreover have "?main \<noteq> ?b"
        by (rule path_join_neq [OF assms(3) fn(2) file_name_suffix(1) [OF fn(1)] unit_name_no_suffix(2) [OF assms(6)]])
      ultimately show ?thesis using fileMove_frame [OF mv] k(1) by (simp add: no_links_def)
    qed
    then show ?thesis
      using enc Inr mv w1 assms(1) by (simp add: nn_Save_moves Let_def nn_backups_def content_of_def)
  qed
qed

definition dropin_network :: "doc networkdNetwork" where
  "dropin_network = (doc_network lan_doc)\<lparr>nn_SubFiles := [''override.conf'']\<rparr>"

definition dropin_world :: world where
  "dropin_world = mk_world [(''/n'', Dir), (''/n/10-eth0.network'', File ''old'' 420 0),
     (''/n/10-eth0.network.d'', Dir), (''/n/10-eth0.network.d/override.conf'', File ''more'' 420 0)]"

lemma networkd_dropins_fail_witness:
  "\<exists>e w'. nn_Save doc_ini ''/n'' 5 dropin_network dropin_world = ((Inl e, dropin_network), w')
     \<and> content_of w' ''/n/10-eth0.network'' = Some ''old''"
proof -
  have s: "nn_SubFiles dropin_network = [''override.conf'']" by (simp add: dropin_network_def)
  have m: "fs_get dropin_world (path_join ''/n'' ''override.conf'') = None" by code_simp
  have d: "abs_dir ''/n''" by code_simp
  have l: "no_links dropin_world"
    by (auto simp: no_links_def no_link_def fs_get_def dropin_world_def mk_world_def split: if_splits)
  have u: "unit_name ''override.conf''" "unit_name (nn_File dropin_network)" by code_simp+
  have n: "''override.conf'' \<noteq> nn_File dropin_network" by code_simp
  have p: "path_join ''/n'' (nn_File dropin_network) = ''/n/10-eth0.network''"
    "content_of dropin_world ''/n/10-eth0.network'' = Some ''old''" by code_simp+
  show ?thesis
    using networkd_dropins_fail [OF s m d l u n, of doc_ini 5] p by simp
qed

end
