(* ===== verification/YamlIface.thy ===== *)
theory YamlIface
  imports Netlink GoNetRoundtrip
begin

text \<open>
  What \<open>netplan.go\<close> and \<open>cloudinit.go\<close> have in common: documents decoded without a schema, the
  part of an interface's configuration that both formats share, and its conversion. The
  YAML, JSON and merging libraries are parameters of the two backends.
\<close>

section \<open>Documents\<close>

text \<open>
  A value decoded into \<open>any\<close>. Mappings with string keys become \<open>map[string]any\<close>, others
  another type (\<open>YOther\<close>, also for times and floats).
\<close>

datatype yaml =
    YNull
  | YBool bool
  | YInt int
  | YString string
  | YSeq "yaml list"
  | YMap "(string \<times> yaml) list"
  | YOther

type_synonym ymap = "(string \<times> yaml) list"

text \<open>The checked assertion \<open>v.(map[string]any)\<close>; a missing key reads as nil.\<close>

definition as_map :: "yaml option \<Rightarrow> ymap option" where
  "as_map v = (case v of Some (YMap m) \<Rightarrow> Some m | _ \<Rightarrow> None)"

definition as_string :: "yaml option \<Rightarrow> string option" where
  "as_string v = (case v of Some (YString s) \<Rightarrow> Some s | _ \<Rightarrow> None)"

definition as_seq :: "yaml option \<Rightarrow> yaml list option" where
  "as_seq v = (case v of Some (YSeq xs) \<Rightarrow> Some xs | _ \<Rightarrow> None)"

text \<open>A failing unchecked assertion.\<close>

definition wrong_type :: goerror where
  "wrong_type = Panic ''interface conversion''"

section \<open>Interfaces\<close>

record nameservers =
  ys_Search :: "string list"
  ys_Addresses :: "string list"

record yamlRoute =
  yr_To :: string
  yr_Via :: string
  yr_Metric :: "int option"

record yamlMatch =
  ym_Name :: string
  ym_MACAddress :: string
  ym_Driver :: string

record yamlPhysical =
  yp_Match :: yamlMatch
  yp_SetName :: string
  yp_Wakeonlan :: bool

text \<open>\<open>'r\<close> is the type of routes, which have more fields in netplan.\<close>

record 'r yamlIface =
  yi_Addresses :: "string list"
  yi_DHCP4 :: "bool option"
  yi_DHCP6 :: "bool option"
  yi_DHCP4Overrides :: ymap
  yi_DHCP6Overrides :: ymap
  yi_Gateway4 :: string
  yi_Gateway6 :: string
  yi_Nameservers :: nameservers
  yi_MTU :: int
  yi_Renderer :: string
  yi_Routes :: "'r list"
  yi_Optional :: bool

definition yi_dhcpState :: "('r, 'z) yamlIface_scheme \<Rightarrow> bool \<times> bool" where
  "yi_dhcpState c = (yi_DHCP4 c = Some True, yi_DHCP6 c = Some True)"

definition yi_setDHCP :: "bool \<Rightarrow> bool \<Rightarrow> ('r, 'z) yamlIface_scheme \<Rightarrow> ('r, 'z) yamlIface_scheme" where
  "yi_setDHCP dhcp4 dhcp6 c = c\<lparr>
     yi_DHCP4 := (if dhcp4 \<or> yi_DHCP4 c \<noteq> None then Some dhcp4 else yi_DHCP4 c),
     yi_DHCP4Overrides := (if \<not> dhcp4 then [] else yi_DHCP4Overrides c),
     yi_DHCP6 := (if dhcp6 \<or> yi_DHCP6 c \<noteq> None then Some dhcp6 else yi_DHCP6 c),
     yi_DHCP6Overrides := (if \<not> dhcp6 then [] else yi_DHCP6Overrides c)\<rparr>"

definition convert_route :: "'z yamlRoute_scheme \<Rightarrow> Route option" where
  "convert_route r = (case ParseCIDR (yr_To r) of
       None \<Rightarrow> None
     | Some dst \<Rightarrow> Some \<lparr>rt_Destination = Some dst, rt_Gateway = ParseIP (yr_Via r),
         rt_Metric = (case yr_Metric r of Some m \<Rightarrow> m | None \<Rightarrow> 256)\<rparr>)"

definition link_mac :: "string \<Rightarrow> string \<Rightarrow> link list \<Rightarrow> byte list \<times> nat option" where
  "link_mac name MAC links =
     (let foundLink = find_last (\<lambda>l. lk_name l = name) links;
          mac = (case foundLink of None \<Rightarrow> [] | Some l \<Rightarrow> lk_mac l)
      in (if mac = [] \<and> MAC \<noteq> [] then (case ParseMAC MAC of None \<Rightarrow> [] | Some m \<Rightarrow> m) else mac,
          map_option lk_index foundLink))"

definition opt_ip :: "string \<Rightarrow> ip" where
  "opt_ip s = (if s \<noteq> [] then ParseIP s else [])"

definition convert_iface ::
  "string \<Rightarrow> string \<Rightarrow> ('z yamlRoute_scheme, 'y) yamlIface_scheme \<Rightarrow> link list \<Rightarrow> Interface" where
  "convert_iface name MAC c links =
     (case link_mac name MAC links of (mac, foundLink) \<Rightarrow> case yi_dhcpState c of (dhcp4, dhcp6) \<Rightarrow>
      (new_interface name)\<lparr>if_MAC := mac, if_Link := foundLink, if_DHCP4 := dhcp4, if_DHCP6 := dhcp6,
        if_Addresses := List.map_filter ParseCIDR (yi_Addresses c),
        if_Gateway4 := opt_ip (yi_Gateway4 c), if_Gateway6 := opt_ip (yi_Gateway6 c),
        if_DNS := filter (\<lambda>a. a \<noteq> []) (map ParseIP (ys_Addresses (yi_Nameservers c))),
        if_SearchDomains := ys_Search (yi_Nameservers c),
        if_Routes := List.map_filter convert_route (yi_Routes c)\<rparr>)"

text \<open>Iteration over a map in the order of its sorted keys.\<close>

definition by_key :: "(string \<times> 'v) list \<Rightarrow> (string \<times> 'v) list" where
  "by_key m = map (\<lambda>k. (k, the (map_of m k))) (sort (map fst m))"

section \<open>Changes\<close>

definition gateway_text :: "ip \<Rightarrow> string" where
  "gateway_text g = (if g = [] then [] else ip_string g)"

definition yi_set_addresses ::
  "ipnet list \<Rightarrow> ip \<Rightarrow> ip \<Rightarrow> ('r, 'z) yamlIface_scheme \<Rightarrow> ('r, 'z) yamlIface_scheme" where
  "yi_set_addresses addrs gateway4 gateway6 c = c\<lparr>yi_Addresses := map ipnet_string addrs,
     yi_Gateway4 := gateway_text gateway4, yi_Gateway6 := gateway_text gateway6\<rparr>"

definition yi_set_dns :: "ip list \<Rightarrow> string list \<Rightarrow> ('r, 'z) yamlIface_scheme \<Rightarrow> ('r, 'z) yamlIface_scheme" where
  "yi_set_dns servers searchDomains c =
     c\<lparr>yi_Nameservers := \<lparr>ys_Search = searchDomains, ys_Addresses = ipStrings servers\<rparr>\<rparr>"

definition yi_set_routes ::
  "(Route \<Rightarrow> 'r) \<Rightarrow> Route list \<Rightarrow> ('r, 'z) yamlIface_scheme \<Rightarrow> ('r, 'z) yamlIface_scheme" where
  "yi_set_routes f routes c = c\<lparr>yi_Routes := map f routes\<rparr>"

end
