(* ===== verification/Netplan.thy ===== *)
theory Netplan
  imports YamlIface
begin

text \<open>
  \<open>netplan.go\<close>: the backend over a directory of netplan YAML files. The YAML library and the
  merging library are parameters.
\<close>

section \<open>The configuration\<close>

record npRoute = yamlRoute +
  nr_From :: string
  nr_OnLink :: "bool option"
  nr_Scope :: string
  nr_Table :: "int option"
  nr_Type :: string

record npRoutePolicy =
  npp_From :: string
  npp_Mark :: "int option"
  npp_Priority :: "int option"
  npp_Table :: "int option"
  npp_To :: string
  npp_TypeOfService :: "int option"

record npInterface = "npRoute yamlIface" +
  npi_AcceptRA :: "bool option"
  npi_Critical :: bool
  npi_DHCPIdentifier :: string
  npi_MACAddress :: string
  npi_RoutingPolicy :: "npRoutePolicy list"
  npi_LinkLocal :: "string list option"
  npi_OVSParameters :: "ymap option"

record npEthernet =
  npe_Physical :: yamlPhysical
  npe_Interface :: npInterface

record npAccessPoint =
  npa_Password :: string
  npa_Mode :: string
  npa_Channel :: int

record npWifi = npEthernet +
  npw_AccessPoints :: "(string \<times> npAccessPoint) list"

record npBridgeParameters =
  br_AgeingTime :: "int option"
  br_ForwardDelay :: int_string
  br_HelloTime :: "int option"
  br_MaxAge :: "int option"
  br_PathCost :: "(string \<times> int) list"
  br_PortPriority :: "(string \<times> int) list"
  br_Priority :: "int option"
  br_STP :: "bool option"

record npBondParameters =
  bo_Mode :: int_string
  bo_LACPRate :: int_string
  bo_MIIMonitorInterval :: int_string
  bo_MinLinks :: "int option"
  bo_TransmitHashPolicy :: string
  bo_ADSelect :: int_string
  bo_AllSlavesActive :: "bool option"
  bo_ARPInterval :: "int option"
  bo_ARPIPTargets :: "string list"
  bo_ARPValidate :: int_string
  bo_ARPAllTargets :: int_string
  bo_UpDelay :: int_string
  bo_DownDelay :: int_string
  bo_FailOverMACPolicy :: int_string
  bo_GratuitousARPLegacy :: "int option"
  bo_GratuitousARP :: "int option"
  bo_PacketsPerSlave :: "int option"
  bo_PrimaryReselectPolicy :: int_string
  bo_ResendIGMP :: "int option"
  bo_LearnPacketInterval :: "int option"
  bo_Primary :: string

text \<open>Virtual devices: an interface with the settings of its kind.\<close>

record 'k virtual =
  npv_Interface :: npInterface
  npv_Settings :: 'k

type_synonym npBridge = "(string list \<times> npBridgeParameters) virtual"
type_synonym npBond = "(string list \<times> npBondParameters) virtual"
type_synonym npVLAN = "(int option \<times> string) virtual"

record npNetwork =
  npn_Version :: int_string
  npn_Renderer :: string
  npn_Ethernets :: "(string \<times> npEthernet) list"
  npn_Wifis :: "(string \<times> npWifi) list"
  npn_Bridges :: "(string \<times> npBridge) list"
  npn_Bonds :: "(string \<times> npBond) list"
  npn_VLANs :: "(string \<times> npVLAN) list"
  npn_Routes :: "npRoute list"

record npConfig =
  npc_Network :: npNetwork
  npc_file :: string
  npc_empty :: bool
  npc_dirty :: bool

record netplan =
  np_configs :: "npConfig list"
  np_configDir :: string
  np_backupRetention :: int

text \<open>The libraries.\<close>

record np_libs =
  np_parse :: "string \<Rightarrow> ymap result"               \<comment> \<open>\<open>yaml.Unmarshal\<close> into a map\<close>
  np_print :: "ymap \<Rightarrow> string result"               \<comment> \<open>\<open>yaml.Marshal\<close> of a map\<close>
  np_decode :: "string \<Rightarrow> npNetwork result"         \<comment> \<open>\<open>yaml.Unmarshal\<close> into a configuration\<close>
  np_encode :: "npNetwork \<Rightarrow> string result"         \<comment> \<open>\<open>yaml.Marshal\<close> of a configuration\<close>
  np_merge :: "ymap \<Rightarrow> ymap \<Rightarrow> ymap result"         \<comment> \<open>\<open>mergo.Merge\<close> of the second into the first\<close>

section \<open>Reading a directory\<close>

record npConfigFile =
  cf_data :: ymap
  cf_file :: string
  cf_empty :: bool
  cf_dirty :: bool

definition configTypes :: "string list" where
  "configTypes = [''ethernets'', ''wifis'', ''bridges'', ''bonds'', ''vlans'', ''routes'']"

definition network_of :: "ymap \<Rightarrow> ymap option" where
  "network_of d = as_map (map_of d ''network'')"

definition section_of :: "ymap \<Rightarrow> string \<Rightarrow> ymap option" where
  "section_of d t = Option.bind (network_of d) (\<lambda>n. as_map (map_of n t))"

text \<open>Assigning \<open>data["network"][t]\<close> when both levels are mappings.\<close>

definition put_section :: "string \<Rightarrow> ymap \<Rightarrow> ymap \<Rightarrow> ymap" where
  "put_section t c d = (case network_of d of
       None \<Rightarrow> d
     | Some n \<Rightarrow> AList.update ''network'' (YMap (AList.update t (YMap c) n)) d)"

text \<open>
  One name of a section of an earlier file, merged into that file and deleted from the
  current one if the current file configures it too.
\<close>

definition merge_key ::
  "np_libs \<Rightarrow> string \<Rightarrow> string \<Rightarrow> npConfigFile \<times> npConfigFile \<Rightarrow> (npConfigFile \<times> npConfigFile) result" where
  "merge_key lib t key st = (case st of (this, cur) \<Rightarrow>
     case section_of (cf_data cur) t of None \<Rightarrow> Inr st
   | Some c \<Rightarrow> (case as_map (map_of c key) of
        None \<Rightarrow> Inr st
      | Some k \<Rightarrow>
          (case section_of (cf_data this) t of None \<Rightarrow> Inr st
         | Some thisC \<Rightarrow> (case as_map (map_of thisC key) of
              None \<Rightarrow> Inl wrong_type
            | Some thisK \<Rightarrow> try_res (np_merge lib thisK k) (\<lambda>m.
                Inr (this\<lparr>cf_data := put_section t (AList.update key (YMap m) thisC) (cf_data this), cf_dirty := True\<rparr>,
                     cur\<lparr>cf_data := put_section t (AList.delete key c) (cf_data cur), cf_dirty := True\<rparr>))))))"

fun merge_keys ::
  "np_libs \<Rightarrow> string \<Rightarrow> string list \<Rightarrow> npConfigFile \<times> npConfigFile \<Rightarrow> (npConfigFile \<times> npConfigFile) result" where
  "merge_keys lib t [] st = Inr st"
| "merge_keys lib t (key # ks) st = try_res (merge_key lib t key st) (merge_keys lib t ks)"

fun merge_priors ::
  "np_libs \<Rightarrow> string \<Rightarrow> npConfigFile list \<Rightarrow> npConfigFile \<Rightarrow> (npConfigFile list \<times> npConfigFile) result" where
  "merge_priors lib t [] cur = Inr ([], cur)"
| "merge_priors lib t (this # rest) cur =
     (if cf_empty this then try_res (merge_priors lib t rest cur) (\<lambda>(rest, cur). Inr (this # rest, cur))
      else if network_of (cf_data this) = None then Inl wrong_type
      else try_res (case section_of (cf_data this) t of
              None \<Rightarrow> Inr (this, cur)
            | Some thisC \<Rightarrow> merge_keys lib t (map fst thisC) (this, cur)) (\<lambda>(this, cur).
           try_res (merge_priors lib t rest cur) (\<lambda>(rest, cur). Inr (this # rest, cur))))"

fun merge_types ::
  "np_libs \<Rightarrow> string list \<Rightarrow> npConfigFile list \<Rightarrow> npConfigFile \<Rightarrow> (npConfigFile list \<times> npConfigFile) result" where
  "merge_types lib [] configs cur = Inr (configs, cur)"
| "merge_types lib (t # ts) configs cur =
     (if section_of (cf_data cur) t = None then merge_types lib ts configs cur
      else try_res (merge_priors lib t configs cur) (\<lambda>(configs, cur). merge_types lib ts configs cur))"

definition config_count :: "ymap \<Rightarrow> nat" where
  "config_count d =
     (case network_of d of
        None \<Rightarrow> 0
      | Some n \<Rightarrow> sum_list (map (\<lambda>t. case section_of d t of None \<Rightarrow> 0 | Some c \<Rightarrow> length c) configTypes))
     + (case as_seq (map_of d ''routes'') of None \<Rightarrow> 0 | Some rs \<Rightarrow> length rs)"

definition add_config_file :: "np_libs \<Rightarrow> npConfigFile list \<Rightarrow> npConfigFile \<Rightarrow> npConfigFile list result" where
  "add_config_file lib configs cur =
     try_res (if network_of (cf_data cur) = None then Inr (configs, cur) else merge_types lib configTypes configs cur)
       (\<lambda>(configs, cur). Inr (configs @ [cur\<lparr>cf_empty := config_count (cf_data cur) = 0\<rparr>]))"

fun read_config_files ::
  "np_libs \<Rightarrow> string \<Rightarrow> string list \<Rightarrow> npConfigFile list \<Rightarrow> world \<Rightarrow> npConfigFile list result \<times> world" where
  "read_config_files lib dirPath [] configs w = (Inr configs, w)"
| "read_config_files lib dirPath (n # ns) configs w =
     try_io (os_ReadFile (path_join dirPath n) w) (\<lambda>content w.
     try_io (np_parse lib content, w) (\<lambda>data w.
     try_io (add_config_file lib configs \<lparr>cf_data = data, cf_file = n, cf_empty = False, cf_dirty = False\<rparr>, w)
       (read_config_files lib dirPath ns)))"

fun decode_configs :: "np_libs \<Rightarrow> npConfigFile list \<Rightarrow> npConfig list result" where
  "decode_configs lib [] = Inr []"
| "decode_configs lib (f # fs) =
     try_res (np_print lib (cf_data f)) (\<lambda>data.
     try_res (np_decode lib data) (\<lambda>network.
     try_res (decode_configs lib fs) (\<lambda>cs.
     Inr (\<lparr>npc_Network = network, npc_file = cf_file f, npc_empty = cf_empty f, npc_dirty = cf_dirty f\<rparr> # cs))))"

definition readNetplanConfigDirectory :: "np_libs \<Rightarrow> string \<Rightarrow> world \<Rightarrow> netplan result \<times> world" where
  "readNetplanConfigDirectory lib dirPath w =
     try_io (os_ReadDir dirPath w) (\<lambda>entries w.
     try_io (read_config_files lib dirPath (conf_names ''.yaml'' (sortableDirEntries entries)) [] w) (\<lambda>configs w.
     if configs = [] then (Inl (Errorf ''no netplan configurations found''), w)
     else try_io (decode_configs lib configs, w) (\<lambda>cs w.
       (Inr \<lparr>np_configs = cs, np_configDir = dirPath, np_backupRetention = 0\<rparr>, w))))"

definition newNetplan :: "np_libs \<Rightarrow> int \<Rightarrow> world \<Rightarrow> netplan result \<times> world" where
  "newNetplan lib backupRetention w =
     try_io (run_or_fail [''netplan'', ''info''] w) (\<lambda>_ w.
     try_io (or_next (readNetplanConfigDirectory lib ''/etc/netplan'' w) (\<lambda>w.
       or_next (readNetplanConfigDirectory lib ''/run/netplan'' w) (\<lambda>w.
       readNetplanConfigDirectory lib ''/lib/netplan'' w))) (\<lambda>np w.
     (Inr (np\<lparr>np_backupRetention := backupRetention\<rparr>), w)))"

section \<open>Reading interfaces\<close>

definition physical_name :: "string \<Rightarrow> ('z) npEthernet_scheme \<Rightarrow> string" where
  "physical_name name e = (if yp_SetName (npe_Physical e) \<noteq> [] then yp_SetName (npe_Physical e) else name)"

definition ConvertInterface :: "string \<Rightarrow> npInterface \<Rightarrow> link list \<Rightarrow> Interface" where
  "ConvertInterface name config links = convert_iface name (npi_MACAddress config) config links"

definition physical_iface :: "link list \<Rightarrow> string \<times> ('z) npEthernet_scheme \<Rightarrow> Interface" where
  "physical_iface links ne = (case ne of (name, e) \<Rightarrow>
     let config = npe_Interface e;
         config = (if npi_MACAddress config = []
           then config\<lparr>npi_MACAddress := ym_MACAddress (yp_Match (npe_Physical e))\<rparr> else config)
     in ConvertInterface (physical_name name e) config links)"

definition virtual_iface :: "link list \<Rightarrow> string \<times> 'k virtual \<Rightarrow> Interface" where
  "virtual_iface links nv = ConvertInterface (fst nv) (npv_Interface (snd nv)) links"

definition config_interfaces :: "link list \<Rightarrow> npConfig \<Rightarrow> Interface list" where
  "config_interfaces links c =
     (if npc_empty c then [] else let n = npc_Network c in
        map (physical_iface links) (by_key (npn_Ethernets n))
      @ map (physical_iface links) (by_key (npn_Wifis n))
      @ map (virtual_iface links) (by_key (npn_Bridges n))
      @ map (virtual_iface links) (by_key (npn_Bonds n))
      @ map (virtual_iface links) (by_key (npn_VLANs n)))"

definition np_GetInterfaces :: "link list result \<Rightarrow> netplan \<Rightarrow> Interface list result" where
  "np_GetInterfaces links np = try_res links (\<lambda>ls. Inr (concat (map (config_interfaces ls) (np_configs np))))"

section \<open>Saving\<close>

text \<open>One file: written beside the old one unless it is empty now, then the old one moved away.\<close>

definition save_np_config ::
  "np_libs \<Rightarrow> string \<Rightarrow> int \<Rightarrow> npConfig \<Rightarrow> world \<Rightarrow> (unit result \<times> npConfig) \<times> world" where
  "save_np_config lib configDir retention c w =
     (if \<not> npc_dirty c then ((Inr (), c), w)
      else let configPath = path_join configDir (npc_file c) in
        case UnixNano w of (t1, w) \<Rightarrow>
        let tmpPath = path_join configDir (npc_file c @ tmp_suffix t1) in
        case UnixNano w of (t2, w) \<Rightarrow>
        let bakupPath = path_join configDir (npc_file c @ bak_suffix t2) in
        case try_io (if npc_empty c then (Inr (), w)
              else try_io (np_encode lib (npc_Network c), w) (\<lambda>data w. os_WriteFile tmpPath data 420 w)) (\<lambda>_ w.
            try_io (fileMove configPath bakupPath w) (\<lambda>_ w.
            if npc_empty c then (Inr (), w) else fileMove tmpPath configPath w)) of
          (Inl e, w) \<Rightarrow> ((Inl e, c), w)
        | (Inr _, w) \<Rightarrow> ((Inr (), if npc_empty c then c else c\<lparr>npc_dirty := False\<rparr>),
            pruneBackups configDir (suffixBackupMatcher (npc_file c)) retention w))"

fun save_configs ::
  "np_libs \<Rightarrow> string \<Rightarrow> int \<Rightarrow> npConfig list \<Rightarrow> world \<Rightarrow> (unit result \<times> npConfig list) \<times> world" where
  "save_configs lib configDir retention [] w = ((Inr (), []), w)"
| "save_configs lib configDir retention (c # cs) w =
     (case save_np_config lib configDir retention c w of
        ((Inl e, c), w) \<Rightarrow> ((Inl e, c # cs), w)
      | ((Inr _, c), w) \<Rightarrow>
          (case save_configs lib configDir retention cs w of ((r, cs), w) \<Rightarrow> ((r, c # cs), w)))"

definition np_Save :: "np_libs \<Rightarrow> netplan op" where
  "np_Save lib s = (case s of (np, w) \<Rightarrow>
     (case save_configs lib (np_configDir np) (np_backupRetention np) (np_configs np) w of
        ((Inl e, cs), w) \<Rightarrow> (Inl e, np\<lparr>np_configs := cs\<rparr>, w)
      | ((Inr _, cs), w) \<Rightarrow>
          (Inr (), np\<lparr>np_configs := filter (\<lambda>c. \<not> (npc_dirty c \<and> npc_empty c)) cs\<rparr>, w)))"

section \<open>Changing an interface\<close>

text \<open>
  Physical devices are found by the name they are given, virtual ones by their key. A
  file is dirty when one of its interfaces was changed.
\<close>

definition change_physical ::
  "string \<Rightarrow> (npInterface \<Rightarrow> npInterface) \<Rightarrow> string \<times> ('z) npEthernet_scheme \<Rightarrow> string \<times> ('z) npEthernet_scheme" where
  "change_physical iface f ne = (case ne of (name, e) \<Rightarrow>
     if physical_name name e = iface then (name, e\<lparr>npe_Interface := f (npe_Interface e)\<rparr>) else (name, e))"

definition change_virtual ::
  "string \<Rightarrow> (npInterface \<Rightarrow> npInterface) \<Rightarrow> string \<times> 'k virtual \<Rightarrow> string \<times> 'k virtual" where
  "change_virtual iface f nv = (case nv of (name, v) \<Rightarrow>
     if name = iface then (name, v\<lparr>npv_Interface := f (npv_Interface v)\<rparr>) else (name, v))"

definition change_network :: "string \<Rightarrow> (npInterface \<Rightarrow> npInterface) \<Rightarrow> npNetwork \<Rightarrow> npNetwork" where
  "change_network iface f n = n\<lparr>
     npn_Ethernets := map (change_physical iface f) (npn_Ethernets n),
     npn_Wifis := map (change_physical iface f) (npn_Wifis n),
     npn_Bridges := map (change_virtual iface f) (npn_Bridges n),
     npn_Bonds := map (change_virtual iface f) (npn_Bonds n),
     npn_VLANs := map (change_virtual iface f) (npn_VLANs n)\<rparr>"

definition configures :: "string \<Rightarrow> npNetwork \<Rightarrow> bool" where
  "configures iface n \<longleftrightarrow>
     list_ex (\<lambda>(name, e). physical_name name e = iface) (npn_Ethernets n)
   \<or> list_ex (\<lambda>(name, e). physical_name name e = iface) (npn_Wifis n)
   \<or> iface \<in> set (map fst (npn_Bridges n)) \<or> iface \<in> set (map fst (npn_Bonds n)) \<or> iface \<in> set (map fst (npn_VLANs n))"

definition change_config :: "string \<Rightarrow> (npInterface \<Rightarrow> npInterface) \<Rightarrow> npConfig \<Rightarrow> npConfig" where
  "change_config iface f c =
     (if npc_empty c then c
      else c\<lparr>npc_Network := change_network iface f (npc_Network c),
             npc_dirty := npc_dirty c \<or> configures iface (npc_Network c)\<rparr>)"

definition on_configs :: "np_libs \<Rightarrow> string \<Rightarrow> (npInterface \<Rightarrow> npInterface) \<Rightarrow> netplan op" where
  "on_configs lib iface f s = (case s of (np, w) \<Rightarrow>
     np_Save lib (np\<lparr>np_configs := map (change_config iface f) (np_configs np)\<rparr>, w))"

definition np_SetIfaceAddresses :: "np_libs \<Rightarrow> string \<Rightarrow> ipnet list \<Rightarrow> ip \<Rightarrow> ip \<Rightarrow> netplan op" where
  "np_SetIfaceAddresses lib iface addrs gateway4 gateway6 =
     on_configs lib iface (yi_set_addresses addrs gateway4 gateway6)"

definition np_SetIfaceDHCP :: "np_libs \<Rightarrow> string \<Rightarrow> bool \<Rightarrow> bool \<Rightarrow> netplan op" where
  "np_SetIfaceDHCP lib iface dhcp4 dhcp6 = on_configs lib iface (yi_setDHCP dhcp4 dhcp6)"

definition np_renewDHCP :: "string \<Rightarrow> netplan op" where
  "np_renewDHCP iface s = (case s of (np, w) \<Rightarrow>
     (case run_or_fail [''netplan'', ''apply''] w of
        (Inl e, w) \<Rightarrow> (Inl e, np, w)
      | (Inr _, w) \<Rightarrow> (Inr (), np, w)))"

definition np_route :: "Route \<Rightarrow> npRoute" where
  "np_route r = \<lparr>yr_To = dest_string (rt_Destination r), yr_Via = ip_string (rt_Gateway r), yr_Metric = Some (rt_Metric r),
     nr_From = [], nr_OnLink = None, nr_Scope = [], nr_Table = None, nr_Type = []\<rparr>"

definition np_SetIfaceRoutes :: "np_libs \<Rightarrow> string \<Rightarrow> Route list \<Rightarrow> netplan op" where
  "np_SetIfaceRoutes lib iface routes = on_configs lib iface (yi_set_routes np_route routes)"

definition np_SetIfaceDNS :: "np_libs \<Rightarrow> string \<Rightarrow> ip list \<Rightarrow> string list \<Rightarrow> netplan op" where
  "np_SetIfaceDNS lib iface servers searchDomains = on_configs lib iface (yi_set_dns servers searchDomains)"

end
