(* ===== verification/NetplanMerge.thy ===== *)
theory NetplanMerge
  imports Netplan
begin

text \<open>
  Reading the netplan directory: an interface that several files configure is merged into the
  first of them, so that no two files configure the same interface.
\<close>

section \<open>Sections\<close>

lemma section_put_section:
  "network_of d \<noteq> None \<Longrightarrow> section_of (put_section t c d) u = (if u = t then Some c else section_of d u)"
  by (auto simp: section_of_def put_section_def network_of_def as_map_def update_conv' split: option.splits yaml.splits)

lemma section_network: "section_of d t = Some c \<Longrightarrow> network_of d \<noteq> None"
  by (auto simp: section_of_def bind_eq_Some_conv)

text \<open>
  How the file merged into and the file merged from may change: the one keeps its names, and
  which of them are mappings, the other only loses names.
\<close>

definition rel_sections :: "(ymap \<Rightarrow> ymap \<Rightarrow> bool) \<Rightarrow> npConfigFile \<Rightarrow> npConfigFile \<Rightarrow> bool" where
  "rel_sections R f g \<longleftrightarrow> cf_empty g = cf_empty f \<and> cf_file g = cf_file f
     \<and> (\<forall>t. rel_option R (section_of (cf_data f) t) (section_of (cf_data g) t))"

definition same_names :: "ymap \<Rightarrow> ymap \<Rightarrow> bool" where
  "same_names a b \<longleftrightarrow> dom (map_of b) = dom (map_of a) \<and> (\<forall>k. as_map (map_of b k) = None \<longleftrightarrow> as_map (map_of a k) = None)"

definition fewer_names :: "ymap \<Rightarrow> ymap \<Rightarrow> bool" where
  "fewer_names a b \<longleftrightarrow> (\<forall>k. map_of b k = map_of a k \<or> map_of b k = None)"

abbreviation keeps_names :: "npConfigFile \<Rightarrow> npConfigFile \<Rightarrow> bool" where
  "keeps_names \<equiv> rel_sections same_names"

abbreviation loses_names :: "npConfigFile \<Rightarrow> npConfigFile \<Rightarrow> bool" where
  "loses_names \<equiv> rel_sections fewer_names"

lemma as_map_Some: "as_map v = Some m \<longleftrightarrow> v = Some (YMap m)"
  by (auto simp: as_map_def split: option.splits yaml.splits)

lemma as_map_None [simp]: "as_map None = None"
  by (simp add: as_map_def)

lemma names_refl [simp]: "same_names a a" "fewer_names a a"
  by (simp_all add: same_names_def fewer_names_def)

lemma names_trans:
  "same_names a b \<Longrightarrow> same_names b c \<Longrightarrow> same_names a c"
  "fewer_names a b \<Longrightarrow> fewer_names b c \<Longrightarrow> fewer_names a c"
  unfolding same_names_def fewer_names_def by metis+

lemma rel_sections_refl [simp]: "keeps_names f f" "loses_names f f"
  by (simp_all add: rel_sections_def option.rel_refl)

lemma rel_sections_trans:
  assumes R: "transp R" and "rel_sections R f g" and "rel_sections R g h"
  shows "rel_sections R f h"
proof -
  have "rel_option R x y \<Longrightarrow> rel_option R y z \<Longrightarrow> rel_option R x z" for x y z
    by (cases x; cases y; cases z) (auto intro: transpD [OF R])
  then show ?thesis using assms(2,3) unfolding rel_sections_def by metis
qed

lemma transp_names: "transp same_names" "transp fewer_names"
  using names_trans by (auto intro: transpI)

lemmas keeps_names_trans = rel_sections_trans [OF transp_names(1)]
lemmas loses_names_trans = rel_sections_trans [OF transp_names(2)]

section \<open>Files that configure different interfaces\<close>

definition apart :: "ymap option \<Rightarrow> ymap option \<Rightarrow> bool" where
  "apart a b \<longleftrightarrow> (case a of None \<Rightarrow> True | Some a \<Rightarrow> (case b of None \<Rightarrow> True | Some b \<Rightarrow>
     list_all (\<lambda>k. as_map (map_of b k) = None) (map fst a)))"

definition apart_files :: "string list \<Rightarrow> npConfigFile \<Rightarrow> npConfigFile \<Rightarrow> bool" where
  "apart_files ts f g \<longleftrightarrow> cf_empty f \<or> list_all (\<lambda>t. apart (section_of (cf_data f) t) (section_of (cf_data g) t)) ts"

lemma apart_iff: "apart (Some a) (Some b) \<longleftrightarrow> (\<forall>k\<in>dom (map_of a). as_map (map_of b k) = None)"
  by (auto simp: apart_def list_all_iff dom_map_of_conv_image_fst)

lemma apart_names:
  assumes "rel_option same_names a a'" and "rel_option fewer_names b b' \<or> rel_option same_names b b'" and "apart a b"
  shows "apart a' b'"
proof (cases a; cases b)
  fix x y
  assume xy: "a = Some x" "b = Some y"
  then obtain x' y' where x': "a' = Some x'" "b' = Some y'" "same_names x x'" "fewer_names y y' \<or> same_names y y'"
    using assms(1,2) by (auto simp: option_rel_Some1)
  have "as_map (map_of y' k) = None" if "k \<in> dom (map_of x')" for k
  proof -
    have "as_map (map_of y k) = None" using assms(3) that x'(3) by (simp add: xy apart_iff same_names_def)
    then show ?thesis using x'(4) unfolding fewer_names_def same_names_def by (metis as_map_None)
  qed
  then show ?thesis by (simp add: x' apart_iff)
qed (use assms in \<open>auto simp: apart_def split: option.splits\<close>)

lemma apart_files_names:
  assumes "apart_files ts f g" and "keeps_names f f'" and "loses_names g g' \<or> keeps_names g g'"
  shows "apart_files ts f' g'"
  using assms apart_names unfolding apart_files_def rel_sections_def list_all_iff by metis

section \<open>Merging\<close>

lemma merge_key_names:
  assumes "merge_key lib t key (a, b) = Inr (a', b')" and "section_of (cf_data a) t \<noteq> None"
  shows "keeps_names a a' \<and> loses_names b b'
    \<and> (case section_of (cf_data b') t of None \<Rightarrow> True | Some c \<Rightarrow> as_map (map_of c key) = None)"
proof (cases "section_of (cf_data b) t")
  case None
  then show ?thesis using assms by (simp add: merge_key_def)
next
  case b: (Some c)
  show ?thesis
  proof (cases "as_map (map_of c key)")
    case None
    then show ?thesis using assms b by (simp add: merge_key_def)
  next
    case k: (Some k)
    show ?thesis
    proof (cases "section_of (cf_data a) t")
      case None
      then show ?thesis using assms(2) by simp
    next
      case A: (Some A)
      then obtain m where m: "as_map (map_of A key) = Some m"
        using assms b k by (auto simp: merge_key_def split: option.splits)
      obtain n where n: "np_merge lib m k = Inr n"
        using assms b k A m by (cases "np_merge lib m k") (auto simp: merge_key_def)
      have e: "a' = a\<lparr>cf_data := put_section t (AList.update key (YMap n) A) (cf_data a), cf_dirty := True\<rparr>"
        "b' = b\<lparr>cf_data := put_section t (AList.delete key c) (cf_data b), cf_dirty := True\<rparr>"
        using assms b k A m n by (simp_all add: merge_key_def)
      have "same_names A (AList.update key (YMap n) A)"
        using m unfolding as_map_Some by (auto simp: same_names_def update_conv' as_map_def)
      moreover have "fewer_names c (AList.delete key c)"
        by (simp add: fewer_names_def delete_conv')
      ultimately show ?thesis
        using section_network [OF A] section_network [OF b] A b
        by (auto simp: e rel_sections_def section_put_section delete_conv' option.rel_refl)
    qed
  qed
qed

lemma merge_keys_names:
  "merge_keys lib t ks (a, b) = Inr (a', b') \<Longrightarrow> section_of (cf_data a) t \<noteq> None \<Longrightarrow> keeps_names a a' \<and> loses_names b b'
    \<and> (\<forall>key\<in>set ks. case section_of (cf_data b') t of None \<Rightarrow> True | Some c \<Rightarrow> as_map (map_of c key) = None)"
proof (induction ks arbitrary: a b)
  case (Cons key ks)
  obtain a1 b1 where s: "merge_key lib t key (a, b) = Inr (a1, b1)" "merge_keys lib t ks (a1, b1) = Inr (a', b')"
    using Cons.prems by (cases "merge_key lib t key (a, b)") auto
  note k = merge_key_names [OF s(1) Cons.prems(2)]
  then have "rel_option same_names (section_of (cf_data a) t) (section_of (cf_data a1) t)"
    by (simp add: rel_sections_def)
  then have "section_of (cf_data a1) t \<noteq> None" using Cons.prems(2) by (auto simp: option_rel_Some1)
  note ks = Cons.IH [OF s(2) this]
  have "case section_of (cf_data b') t of None \<Rightarrow> True | Some c \<Rightarrow> as_map (map_of c key) = None"
  proof -
    have "rel_option fewer_names (section_of (cf_data b1) t) (section_of (cf_data b') t)"
      using ks by (simp add: rel_sections_def)
    then show ?thesis using k unfolding fewer_names_def
      by (cases "section_of (cf_data b1) t"; cases "section_of (cf_data b') t") (simp_all, metis as_map_None)
  qed
  moreover have "keeps_names a a'" "loses_names b b'"
    using k ks keeps_names_trans [of a a1 a'] loses_names_trans [of b b1 b'] by blast+
  ultimately show ?case using ks by simp
qed simp

lemma merge_file_names:
  assumes "merge_keys lib t (map fst A) (a, b) = Inr (a', b')" and "section_of (cf_data a) t = Some A"
  shows "keeps_names a a' \<and> loses_names b b' \<and> apart (section_of (cf_data a') t) (section_of (cf_data b') t)"
proof -
  have n: "keeps_names a a'" "loses_names b b'"
    "\<forall>key\<in>set (map fst A). case section_of (cf_data b') t of None \<Rightarrow> True | Some c \<Rightarrow> as_map (map_of c key) = None"
    using merge_keys_names [OF assms(1)] assms(2) by simp_all
  then have "rel_option same_names (section_of (cf_data a) t) (section_of (cf_data a') t)"
    by (simp add: rel_sections_def)
  then obtain A' where A': "section_of (cf_data a') t = Some A'" "same_names A A'"
    using assms(2) by (auto simp: option_rel_Some1)
  then have "\<forall>k\<in>dom (map_of A'). k \<in> set (map fst A)" by (simp add: same_names_def dom_map_of_conv_image_fst)
  moreover have "apart (Some A') (Some B)" if "section_of (cf_data b') t = Some B" "\<forall>k\<in>dom (map_of A'). k \<in> set (map fst A)" for B
    unfolding apart_iff
  proof
    fix k assume "k \<in> dom (map_of A')"
    then have "k \<in> set (map fst A)" using that(2) by blast
    from bspec [OF n(3) this] show "as_map (map_of B k) = None" using that(1) by simp
  qed
  moreover have "apart (Some A') None" by (simp add: apart_def)
  ultimately show ?thesis using n(1,2) A'(1) by (cases "section_of (cf_data b') t") simp_all
qed

lemma merge_priors_names:
  "merge_priors lib t fs b = Inr (fs', b') \<Longrightarrow> list_all2 keeps_names fs fs' \<and> loses_names b b'
    \<and> (\<forall>f\<in>set fs'. apart_files [t] f b')"
proof (induction lib t fs b arbitrary: fs' b' rule: merge_priors.induct)
  case (1 lib t b)
  then show ?case by simp
next
  case (2 lib t f rest b)
  have step: ?case
    if s: "keeps_names f f1" "loses_names b b1" "apart_files [t] f1 b1"
      and r: "merge_priors lib t rest b1 = Inr (rest', b')" "fs' = f1 # rest'"
      and IH: "list_all2 keeps_names rest rest' \<and> loses_names b1 b' \<and> (\<forall>f\<in>set rest'. apart_files [t] f b')"
    for f1 b1 rest'
    using s r IH apart_files_names [OF s(3) rel_sections_refl(1)] loses_names_trans [OF s(2)] by auto
  show ?case
  proof (cases "cf_empty f")
    case True
    then obtain rest' where r: "merge_priors lib t rest b = Inr (rest', b')" "fs' = f # rest'"
      using 2(3) by (cases "merge_priors lib t rest b") auto
    show ?thesis by (rule step [of f b, OF _ _ _ r 2(1) [OF True r(1)]]) (simp_all add: apart_files_def True)
  next
    case ne: False
    then have n: "network_of (cf_data f) \<noteq> None" using 2(3) by (auto split: if_splits)
    show ?thesis
    proof (cases "section_of (cf_data f) t")
      case None
      then obtain rest' where r: "merge_priors lib t rest b = Inr (rest', b')" "fs' = f # rest'"
        using 2(3) ne n by (cases "merge_priors lib t rest b") auto
      note IH = 2(2) [OF ne n r(1)]
      show ?thesis by (rule step [of f b, OF _ _ _ r IH]) (simp_all add: apart_files_def None apart_def)
    next
      case (Some A)
      then obtain f1 b1 where m: "merge_keys lib t (map fst A) (f, b) = Inr (f1, b1)"
        using 2(3) ne n by (cases "merge_keys lib t (map fst A) (f, b)") auto
      then obtain rest' where r: "merge_priors lib t rest b1 = Inr (rest', b')" "fs' = f1 # rest'"
        using 2(3) ne n Some by (cases "merge_priors lib t rest b1") auto
      note IH = 2(2) [OF ne n r(1)]
      show ?thesis
        by (rule step [of f1 b1, OF _ _ _ r IH]) (use merge_file_names [OF m Some] in \<open>simp_all add: apart_files_def\<close>)
    qed
  qed
qed

lemma keeps_list_trans:
  "list_all2 keeps_names fs gs \<Longrightarrow> list_all2 keeps_names gs hs \<Longrightarrow> list_all2 keeps_names fs hs"
  by (rule list_all2_trans) (erule (1) keeps_names_trans)

lemma apart_files_list:
  assumes "\<forall>f\<in>set fs. apart_files ts f b" and "list_all2 keeps_names fs gs" and "loses_names b b'"
  shows "\<forall>g\<in>set gs. apart_files ts g b'"
  using assms(2,1) by (induction rule: list_all2_induct) (use apart_files_names assms(3) in \<open>auto simp del: rel_sections_refl\<close>)

lemma apart_files_Cons: "apart_files (t # ts) f g \<longleftrightarrow> apart_files [t] f g \<and> apart_files ts f g"
  by (auto simp: apart_files_def)

lemma merge_types_names:
  "merge_types lib ts fs b = Inr (fs', b') \<Longrightarrow> list_all2 keeps_names fs fs' \<and> loses_names b b'
    \<and> (\<forall>f\<in>set fs'. apart_files ts f b')"
proof (induction ts arbitrary: fs b)
  case Nil
  then show ?case by (simp add: apart_files_def list_all2_refl)
next
  case (Cons t ts)
  obtain fs1 b1 where m: "list_all2 keeps_names fs fs1" "loses_names b b1" "\<forall>f\<in>set fs1. apart_files [t] f b1"
    and r: "merge_types lib ts fs1 b1 = Inr (fs', b')"
  proof (cases "section_of (cf_data b) t")
    case None
    then show ?thesis
      using Cons.prems that [of fs b] by (simp add: list_all2_refl apart_files_def apart_def split: option.split)
  next
    case (Some c)
    then obtain fs1 b1 where "merge_priors lib t fs b = Inr (fs1, b1)" "merge_types lib ts fs1 b1 = Inr (fs', b')"
      using Cons.prems by (cases "merge_priors lib t fs b") auto
    then show ?thesis using that merge_priors_names by blast
  qed
  note IH = Cons.IH [OF r]
  then show ?case
    using keeps_list_trans [OF m(1)] loses_names_trans [OF m(2)] apart_files_list [OF m(3)]
    by (auto simp: apart_files_Cons [of t ts])
qed

lemma config_count_mark [simp]: "rel_sections R f (g\<lparr>cf_empty := e\<rparr>) \<longleftrightarrow> e = cf_empty f \<and> cf_file g = cf_file f
    \<and> (\<forall>t. rel_option R (section_of (cf_data f) t) (section_of (cf_data g) t))"
  by (simp add: rel_sections_def)

lemma apart_files_mark [simp]: "apart_files ts f (g\<lparr>cf_empty := e\<rparr>) = apart_files ts f g"
  by (simp add: apart_files_def)

text \<open>Every file is apart from the ones after it.\<close>

lemma sorted_wrt_keeps:
  "sorted_wrt (apart_files ts) fs \<Longrightarrow> list_all2 keeps_names fs gs \<Longrightarrow> sorted_wrt (apart_files ts) gs"
proof (induction fs arbitrary: gs)
  case (Cons f fs)
  then obtain g gs' where gs: "gs = g # gs'" "keeps_names f g" "list_all2 keeps_names fs gs'"
    by (auto simp: list_all2_Cons1)
  have "apart_files ts g h'" if h: "h' \<in> set gs'" for h'
  proof -
    obtain h where "h \<in> set fs" "keeps_names h h'"
      using gs(3) h by (metis in_set_conv_nth list_all2_conv_all_nth)
    then show ?thesis using Cons.prems(1) gs(2) apart_files_names by (metis sorted_wrt.simps(2))
  qed
  then show ?case using Cons gs by simp
qed simp

lemma add_config_file_apart:
  assumes "add_config_file lib fs b = Inr fs'" and "sorted_wrt (apart_files configTypes) fs"
  shows "sorted_wrt (apart_files configTypes) fs'"
proof (cases "network_of (cf_data b)")
  case None
  then have "section_of (cf_data b) t = None" for t by (simp add: section_of_def)
  then have "apart_files configTypes f b" for f by (simp add: apart_files_def apart_def list_all_iff split: option.split)
  then show ?thesis using assms None by (auto simp: add_config_file_def sorted_wrt_append)
next
  case (Some n)
  then obtain gs b' where m: "merge_types lib configTypes fs b = Inr (gs, b')" and f: "fs' = gs @ [b'\<lparr>cf_empty := config_count (cf_data b') = 0\<rparr>]"
    using assms(1) by (cases "merge_types lib configTypes fs b") (auto simp: add_config_file_def)
  show ?thesis
    using merge_types_names [OF m] sorted_wrt_keeps [OF assms(2)] by (simp add: f sorted_wrt_append)
qed

lemma read_config_files_apart:
  "read_config_files lib d ns fs w = (Inr gs, w') \<Longrightarrow> sorted_wrt (apart_files configTypes) fs \<Longrightarrow>
     sorted_wrt (apart_files configTypes) gs"
proof (induction ns arbitrary: fs w)
  case (Cons n ns)
  then obtain data fs1 w1 where "add_config_file lib fs \<lparr>cf_data = data, cf_file = n, cf_empty = False, cf_dirty = False\<rparr> = Inr fs1"
    and "read_config_files lib d ns fs1 w1 = (Inr gs, w')"
    by (auto simp: try_io_Inr_iff)
  then show ?case using Cons.IH add_config_file_apart Cons.prems(2) by blast
qed simp

text \<open>
  C25. No interface is left in two netplan files: after the directory was read, a name that a
  section of an earlier file has is not the name of an interface in the same section of a later
  one, since it was merged into the earlier file.
\<close>

theorem netplan_merge_disjoint:
  assumes "read_config_files lib d ns [] w = (Inr gs, w')" and "i < j" and "j < length gs" and "\<not> cf_empty (gs ! i)"
    and "t \<in> set configTypes" and "section_of (cf_data (gs ! i)) t = Some a" and "section_of (cf_data (gs ! j)) t = Some b"
    and "k \<in> fst ` set a"
  shows "as_map (map_of b k) = None"
proof -
  have "sorted_wrt (apart_files configTypes) gs" using read_config_files_apart [OF assms(1)] by simp
  then have "apart_files configTypes (gs ! i) (gs ! j)" using assms(2,3) sorted_wrt_nth_less by blast
  then have "apart (Some a) (Some b)" using assms(4-7) by (auto simp: apart_files_def list_all_iff)
  then show ?thesis using assms(8) by (fastforce simp: apart_iff dom_map_of_conv_image_fst)
qed

text \<open>Two files for the same interface, and a library that merges without overwriting.\<close>

definition demo_doc :: "ymap \<Rightarrow> ymap" where
  "demo_doc e = [(''network'', YMap [(''ethernets'', YMap e)])]"

definition demo_parse :: "string \<Rightarrow> ymap result" where
  "demo_parse s = Inr (demo_doc (if s = ''a'' then [(''eth0'', YMap [(''dhcp4'', YBool True)])]
     else [(''eth0'', YMap [(''mtu'', YInt 1500)]), (''eth1'', YMap [])]))"

definition demo_libs :: np_libs where
  "demo_libs = \<lparr>np_parse = demo_parse, np_print = (\<lambda>_. Inr ''doc''), np_decode = (\<lambda>_. Inl (Errorf ''none'')),
     np_encode = (\<lambda>n. Inr (''network: '' @ npn_Renderer n)),
     np_merge = (\<lambda>a b. Inr (a @ filter (\<lambda>kv. map_of a (fst kv) = None) b))\<rparr>"

definition demo_files :: world where
  "demo_files = mk_world [(''/n'', Dir), (''/n/1.yaml'', File ''a'' 420 0), (''/n/2.yaml'', File ''b'' 420 0)]"

definition demo_merged :: "npConfigFile list" where
  "demo_merged = [\<lparr>cf_data = demo_doc [(''eth0'', YMap [(''dhcp4'', YBool True), (''mtu'', YInt 1500)])], cf_file = ''1.yaml'',
       cf_empty = False, cf_dirty = True\<rparr>,
     \<lparr>cf_data = demo_doc [(''eth1'', YMap [])], cf_file = ''2.yaml'', cf_empty = False, cf_dirty = True\<rparr>]"

lemma netplan_merge_disjoint_witness:
  "fst (read_config_files demo_libs ''/n'' [''1.yaml'', ''2.yaml''] [] demo_files) = Inr demo_merged
   \<and> as_map (map_of [(''eth1'', YMap [])] ''eth0'') = None"
proof -
  let ?r = "read_config_files demo_libs ''/n'' [''1.yaml'', ''2.yaml''] [] demo_files"
  have f: "fst ?r = Inr demo_merged" by code_simp
  then have r: "?r = (Inr demo_merged, snd ?r)" by (metis prod.collapse)
  have i: "(0::nat) < 1" and j: "1 < length demo_merged" and e: "\<not> cf_empty (demo_merged ! 0)" by (simp_all add: demo_merged_def)
  have t: "''ethernets'' \<in> set configTypes" by (simp add: configTypes_def)
  have a: "section_of (cf_data (demo_merged ! 0)) ''ethernets'' = Some [(''eth0'', YMap [(''dhcp4'', YBool True), (''mtu'', YInt 1500)])]"
    and b: "section_of (cf_data (demo_merged ! 1)) ''ethernets'' = Some [(''eth1'', YMap [])]"
    by (simp_all add: demo_merged_def section_of_def network_of_def demo_doc_def as_map_def)
  have k: "''eth0'' \<in> fst ` set [(''eth0'', YMap [(''dhcp4'', YBool True), (''mtu'', YInt 1500)])]" by simp
  show ?thesis using netplan_merge_disjoint [OF r i j e t a b k] f by simp
qed

section \<open>Panics\<close>

text \<open>
  An interface that an earlier file names without configuring it (a null entry) makes
  reading panic as soon as a later file does configure it: the entry is asserted to be a
  mapping, while the lookup of the other file is checked.
\<close>

theorem netplan_null_entry_panics:
  assumes "cf_empty f = False" and "section_of (cf_data f) t = Some a" and "a = (k, v) # a'" and "as_map (Some v) = None"
    and "section_of (cf_data g) t = Some b" and "as_map (map_of b k) = Some m"
  shows "merge_priors lib t (f # fs) g = Inl wrong_type"
  using assms section_network [OF assms(2)]
  by (simp add: merge_key_def as_map_def)

lemma netplan_null_entry_panics_witness:
  "merge_priors demo_libs ''ethernets''
     [\<lparr>cf_data = demo_doc [(''eth0'', YNull)], cf_file = ''1.yaml'', cf_empty = False, cf_dirty = False\<rparr>]
     \<lparr>cf_data = demo_doc [(''eth0'', YMap [])], cf_file = ''2.yaml'', cf_empty = False, cf_dirty = False\<rparr> = Inl wrong_type"
proof -
  have s: "section_of (demo_doc e) ''ethernets'' = Some e" for e
    by (simp add: section_of_def network_of_def demo_doc_def as_map_def)
  show ?thesis
    by (rule netplan_null_entry_panics [of _ _ "[(''eth0'', YNull)]" "''eth0''" YNull "[]" _ "[(''eth0'', YMap [])]" "[]"])
      (simp_all add: s as_map_def)
qed

section \<open>Sections that are not counted\<close>

text \<open>
  A file whose only device was merged away counts as empty, although it still has tunnels:
  it is dirty and will be removed when the configuration is saved.
\<close>

lemma netplan_empties_file_with_tunnels:
  "add_config_file demo_libs
     [\<lparr>cf_data = demo_doc [(''eth0'', YMap [])], cf_file = ''1.yaml'', cf_empty = False, cf_dirty = False\<rparr>]
     \<lparr>cf_data = [(''network'', YMap [(''ethernets'', YMap [(''eth0'', YMap [])]), (''tunnels'', YMap [(''wg0'', YMap [])])])],
       cf_file = ''2.yaml'', cf_empty = False, cf_dirty = False\<rparr>
   = Inr [\<lparr>cf_data = demo_doc [(''eth0'', YMap [])], cf_file = ''1.yaml'', cf_empty = False, cf_dirty = True\<rparr>,
     \<lparr>cf_data = [(''network'', YMap [(''ethernets'', YMap []), (''tunnels'', YMap [(''wg0'', YMap [])])])],
       cf_file = ''2.yaml'', cf_empty = True, cf_dirty = True\<rparr>]"
  by code_simp

end
