(* ===== verification/YamlLaws.thy ===== *)
theory YamlLaws
  imports YamlIface Contracts
begin

text \<open>What the setters of \<open>YamlIface\<close> do to the interface that is read back, shared by netplan and cloud-init.\<close>

section \<open>One interface\<close>

definition routes_ok :: "Route list \<Rightarrow> bool" where
  "routes_ok routes \<longleftrightarrow> list_all (\<lambda>r. valid_ip (rt_Gateway r)
     \<and> (case rt_Destination r of None \<Rightarrow> False | Some d \<Rightarrow> valid_net d)) routes"

definition read_route_back :: "Route \<Rightarrow> Route" where
  "read_route_back r = r\<lparr>rt_Destination := map_option norm_net (rt_Destination r), rt_Gateway := To16 (rt_Gateway r)\<rparr>"

definition gateway_valid :: "ip \<Rightarrow> bool" where
  "gateway_valid g \<longleftrightarrow> g = [] \<or> valid_ip g"

lemma map_filter_Some: "\<forall>x\<in>set xs. f (g x) = Some (h x) \<Longrightarrow> List.map_filter f (map g xs) = map h xs"
  by (induction xs) (simp_all add: List.map_filter_simps)

lemma opt_ip_gateway: "gateway_valid g \<Longrightarrow> opt_ip (gateway_text g) = To16 g"
  using ip_string_word [of g] by (auto simp: gateway_valid_def opt_ip_def gateway_text_def ParseIP_ip_string is_word_def To16_def)

lemma convert_set_addresses:
  assumes "\<forall>a\<in>set addrs. valid_net a" and "gateway_valid gateway4" and "gateway_valid gateway6"
  shows "convert_iface name MAC (yi_set_addresses addrs gateway4 gateway6 c) links
    = (convert_iface name MAC c links)\<lparr>if_Addresses := map norm_net addrs, if_Gateway4 := To16 gateway4,
        if_Gateway6 := To16 gateway6\<rparr>"
  using assms map_filter_Some [of addrs ParseCIDR ipnet_string norm_net]
  by (simp add: convert_iface_def yi_set_addresses_def opt_ip_gateway ParseCIDR_ipnet_string yi_dhcpState_def
      split: prod.split)

lemma convert_set_dhcp:
  "convert_iface name MAC (yi_setDHCP dhcp4 dhcp6 c) links
    = (convert_iface name MAC c links)\<lparr>if_DHCP4 := dhcp4, if_DHCP6 := dhcp6\<rparr>"
  by (simp add: convert_iface_def yi_setDHCP_def yi_dhcpState_def split: prod.split)

lemma ipStrings_back:
  "\<forall>s\<in>set servers. gateway_valid s \<Longrightarrow>
     filter (\<lambda>a. a \<noteq> []) (map ParseIP (ipStrings servers)) = map To16 (filter (\<lambda>a. a \<noteq> []) servers)"
  by (induction servers) (auto simp: ipStrings_def gateway_valid_def ParseIP_ip_string To16_def valid_ip_def)

lemma convert_set_dns:
  assumes "\<forall>s\<in>set servers. gateway_valid s"
  shows "convert_iface name MAC (yi_set_dns servers searchDomains c) links
    = (convert_iface name MAC c links)\<lparr>if_DNS := map To16 (filter (\<lambda>a. a \<noteq> []) servers),
        if_SearchDomains := searchDomains\<rparr>"
  using ipStrings_back [OF assms]
  by (simp add: convert_iface_def yi_set_dns_def yi_dhcpState_def split: prod.split)

lemma convert_name [simp]: "if_Name (convert_iface name MAC c links) = name"
  by (simp add: convert_iface_def new_interface_def split: prod.split)

lemma map_of_map_key:
  assumes "\<forall>x. fst (F x) = fst x"
  shows "map_of m k = Some v \<Longrightarrow> map_of (map F m) k = Some (snd (F (k, v)))"
proof (induction m)
  case (Cons x m)
  have "fst (F x) = fst x" using assms by blast
  then show ?case using Cons by (cases x; cases "F x") (auto split: if_splits)
qed simp

lemma by_key_map: "\<forall>x. fst (F x) = fst x \<Longrightarrow> by_key (map F m) = map F (by_key m)"
proof -
  assume F: "\<forall>x. fst (F x) = fst x"
  have "(k, the (map_of (map F m) k)) = F (k, the (map_of m k))" if k: "k \<in> set (map fst m)" for k
  proof -
    obtain v where "(k, v) \<in> set m" using k by auto
    then obtain v where "map_of m k = Some v" by (meson weak_map_of_SomeI)
    then show ?thesis using map_of_map_key [OF F] F by (simp add: prod_eq_iff)
  qed
  then have "map (\<lambda>k. (k, the (map_of (map F m) k))) (sort (map fst m)) = map F (map (\<lambda>k. (k, the (map_of m k))) (sort (map fst m)))"
    by simp
  moreover have "map fst (map F m) = map fst m" using F by (simp only: map_map o_def)
  ultimately show ?thesis by (simp only: by_key_def)
qed

text \<open>The DHCP keys of an interface keep every request.\<close>

interpretation yi_dhcp: dhcp_store yi_dhcpState "\<lambda>d4 d6 c. Inr (yi_setDHCP d4 d6 c)" "\<lambda>_. True"
  by unfold_locales (auto simp: yi_dhcpState_def yi_setDHCP_def)

end
