(* ===== verification/NetplanLaws.thy ===== *)
theory NetplanLaws
  imports NetplanMerge SaveLaws YamlLaws
begin

text \<open>
  The netplan backend: its operations as updates of the interfaces it reports, no interface
  in two files, and saving.
\<close>

section \<open>One interface\<close>

lemma convert_np_route:
  "valid_ip (rt_Gateway r) \<Longrightarrow> rt_Destination r = Some d \<Longrightarrow> valid_net d \<Longrightarrow>
     convert_route (np_route r) = Some (read_route_back r)"
  by (simp add: convert_route_def np_route_def dest_string_def ParseCIDR_ipnet_string ParseIP_ip_string read_route_back_def)

lemma convert_set_routes:
  assumes "routes_ok routes"
  shows "convert_iface name MAC (yi_set_routes np_route routes c) links
    = (convert_iface name MAC c links)\<lparr>if_Routes := map read_route_back routes\<rparr>"
proof -
  have "\<forall>r\<in>set routes. convert_route (np_route r) = Some (read_route_back r)"
    using assms convert_np_route by (auto simp: routes_ok_def list_all_iff split: option.splits)
  then have "List.map_filter convert_route (map np_route routes) = map read_route_back routes"
    by (rule map_filter_Some)
  then show ?thesis
    by (simp add: convert_iface_def yi_set_routes_def yi_dhcpState_def split: prod.split)
qed

section \<open>All interfaces\<close>

definition mirrors :: "link list \<Rightarrow> (npInterface \<Rightarrow> npInterface) \<Rightarrow> (Interface \<Rightarrow> Interface) \<Rightarrow> bool" where
  "mirrors links f g \<longleftrightarrow> (\<forall>name MAC c. convert_iface name MAC (f c) links = g (convert_iface name MAC c links))
     \<and> (\<forall>c. npi_MACAddress (f c) = npi_MACAddress c) \<and> keeps_name g"

lemma convert_MAC [simp]:
  "convert_iface name MAC (c\<lparr>npi_MACAddress := m\<rparr>) links = convert_iface name MAC c links"
  by (simp add: convert_iface_def yi_dhcpState_def split: prod.split)

lemma physical_iface_name [simp]: "if_Name (physical_iface links (name, e)) = physical_name name e"
  by (simp add: physical_iface_def ConvertInterface_def Let_def)

lemma change_physical_iface:
  assumes "mirrors links f g"
  shows "physical_iface links (change_physical iface f ne)
    = (if if_Name (physical_iface links ne) = iface then g (physical_iface links ne) else physical_iface links ne)"
proof -
  obtain name e where ne: "ne = (name, e)" by fastforce
  have n: "physical_name name (e\<lparr>npe_Interface := x\<rparr>) = physical_name name e" for x by (simp add: physical_name_def)
  show ?thesis
    using assms by (auto simp: ne n change_physical_def mirrors_def physical_iface_def ConvertInterface_def Let_def)
qed

lemma change_virtual_iface:
  assumes "mirrors links f g"
  shows "virtual_iface links (change_virtual iface f nv)
    = (if if_Name (virtual_iface links nv) = iface then g (virtual_iface links nv) else virtual_iface links nv)"
  using assms by (cases nv) (auto simp: change_virtual_def mirrors_def virtual_iface_def ConvertInterface_def)

lemma by_key_change:
  "by_key (map (change_physical iface f) m) = map (change_physical iface f) (by_key m)"
  "by_key (map (change_virtual iface f) n) = map (change_virtual iface f) (by_key n)"
  by (rule by_key_map; simp add: change_physical_def change_virtual_def split: prod.split)+

lemma change_config_interfaces:
  assumes "mirrors links f g"
  shows "config_interfaces links (change_config iface f c) = on_named iface g (config_interfaces links c)"
  by (simp add: config_interfaces_def change_config_def change_network_def on_named_def Let_def by_key_change
      change_physical_iface [OF assms] change_virtual_iface [OF assms] o_def)

definition np_view :: "link list \<Rightarrow> netplan \<Rightarrow> Interface list" where
  "np_view links np = concat (map (config_interfaces links) (np_configs np))"

definition np_change :: "string \<Rightarrow> (npInterface \<Rightarrow> npInterface) \<Rightarrow> netplan \<Rightarrow> netplan" where
  "np_change iface f np = np\<lparr>np_configs := map (change_config iface f) (np_configs np)\<rparr>"

lemma np_change_view: "mirrors links f g \<Longrightarrow> np_view links (np_change iface f np) = on_named iface g (np_view links np)"
proof -
  assume "mirrors links f g"
  note c = change_config_interfaces [OF this]
  have "concat (map (config_interfaces links) (map (change_config iface f) cs))
      = on_named iface g (concat (map (config_interfaces links) cs))" for cs
    by (induction cs) (simp_all add: c on_named_def)
  then show ?thesis by (simp add: np_view_def np_change_def)
qed

section \<open>Saving keeps what is configured\<close>

lemma save_np_config_same:
  "config_interfaces links (snd (fst (save_np_config lib d ret c w))) = config_interfaces links c"
  by (simp add: save_np_config_def UnixNano_def Let_def config_interfaces_def split: prod.split sum.split)

lemma save_configs_same:
  "map (config_interfaces links) (snd (fst (save_configs lib d ret cs w))) = map (config_interfaces links) cs"
proof (induction cs arbitrary: w)
  case (Cons c cs)
  obtain r c' w' where e: "save_np_config lib d ret c w = ((r, c'), w')" by (metis surj_pair)
  have "config_interfaces links c' = config_interfaces links c"
    using save_np_config_same [of links lib d ret c w] by (simp add: e)
  then show ?case
    using Cons.IH [of w'] by (cases r; cases "save_configs lib d ret cs w'") (auto simp: e)
qed simp

lemma empty_interfaces: "concat (map (config_interfaces links) (filter (\<lambda>c. \<not> (npc_dirty c \<and> npc_empty c)) cs))
    = concat (map (config_interfaces links) cs)"
  by (induction cs) (auto simp: config_interfaces_def)

lemma np_Save_view: "np_view links (fst (snd (np_Save lib (np, w)))) = np_view links np"
proof -
  obtain r cs w' where e: "save_configs lib (np_configDir np) (np_backupRetention np) (np_configs np) w = ((r, cs), w')"
    by (metis surj_pair)
  have "map (config_interfaces links) cs = map (config_interfaces links) (np_configs np)"
    using save_configs_same [of links lib "np_configDir np" "np_backupRetention np" "np_configs np" w] by (simp add: e)
  then show ?thesis by (cases r) (simp_all add: np_Save_def np_view_def e empty_interfaces [simplified])
qed

interpretation np: named_store "np_view links" np_change "mirrors links" for links
  by unfold_locales (auto simp: np_change_view mirrors_def)

lemma on_configs_view:
  assumes "mirrors links f g" and "on_configs lib iface f (np, w) = (r, np', w')"
  shows "np_view links np' = on_named iface g (np_view links np)"
  using np_Save_view [of links lib "np_change iface f np" w] np.view_change [OF assms(1), of iface np] assms(2)
  by (simp add: on_configs_def np_change_def)

lemma np_GetInterfaces_view: "np_GetInterfaces (Inr links) np = Inr (np_view links np)"
  by (simp add: np_GetInterfaces_def np_view_def)

lemma mirrors_setters:
  "\<forall>a\<in>set addrs. valid_net a \<Longrightarrow> gateway_valid gateway4 \<Longrightarrow> gateway_valid gateway6 \<Longrightarrow>
     mirrors links (yi_set_addresses addrs gateway4 gateway6)
       (\<lambda>i. i\<lparr>if_Addresses := map norm_net addrs, if_Gateway4 := To16 gateway4, if_Gateway6 := To16 gateway6\<rparr>)"
  "mirrors links (yi_setDHCP dhcp4 dhcp6) (\<lambda>i. i\<lparr>if_DHCP4 := dhcp4, if_DHCP6 := dhcp6\<rparr>)"
  "\<forall>s\<in>set servers. gateway_valid s \<Longrightarrow> mirrors links (yi_set_dns servers domains)
     (\<lambda>i. i\<lparr>if_DNS := map To16 (filter (\<lambda>a. a \<noteq> []) servers), if_SearchDomains := domains\<rparr>)"
  "routes_ok routes \<Longrightarrow> mirrors links (yi_set_routes np_route routes) (\<lambda>i. i\<lparr>if_Routes := map read_route_back routes\<rparr>)"
  by (simp_all add: mirrors_def keeps_name_def convert_set_addresses convert_set_dhcp convert_set_dns convert_set_routes)
    (simp_all add: yi_set_addresses_def yi_setDHCP_def yi_set_dns_def yi_set_routes_def)

text \<open>
  C23. The netplan backend implements its contract: whatever happens while it saves, each of
  its operations changes, of the interfaces it reports, exactly the ones of the name given,
  and of those exactly the fields it is for, to the values given.
\<close>

theorem netplan_refines:
  assumes "\<forall>a\<in>set addrs. valid_net a" and "gateway_valid gateway4" and "gateway_valid gateway6"
    and "\<forall>s\<in>set servers. gateway_valid s" and "routes_ok routes"
    and "np_GetInterfaces (Inr links) np = Inr ifs"
  shows "(\<exists>r np' w'. np_SetIfaceAddresses lib iface addrs gateway4 gateway6 (np, w) = (r, np', w')
       \<and> np_GetInterfaces (Inr links) np' = Inr (on_named iface (\<lambda>i. i\<lparr>if_Addresses := map norm_net addrs,
           if_Gateway4 := To16 gateway4, if_Gateway6 := To16 gateway6\<rparr>) ifs))
    \<and> (\<exists>r np' w'. np_SetIfaceDHCP lib iface dhcp4 dhcp6 (np, w) = (r, np', w')
       \<and> np_GetInterfaces (Inr links) np' = Inr (on_named iface (\<lambda>i. i\<lparr>if_DHCP4 := dhcp4, if_DHCP6 := dhcp6\<rparr>) ifs))
    \<and> (\<exists>r np' w'. np_SetIfaceDNS lib iface servers domains (np, w) = (r, np', w')
       \<and> np_GetInterfaces (Inr links) np' = Inr (on_named iface (\<lambda>i. i\<lparr>if_DNS := map To16 (filter (\<lambda>a. a \<noteq> []) servers),
           if_SearchDomains := domains\<rparr>) ifs))
    \<and> (\<exists>r np' w'. np_SetIfaceRoutes lib iface routes (np, w) = (r, np', w')
       \<and> np_GetInterfaces (Inr links) np' = Inr (on_named iface (\<lambda>i. i\<lparr>if_Routes := map read_route_back routes\<rparr>) ifs))"
proof -
  have ifs: "np_view links np = ifs" using assms(6) by (simp add: np_GetInterfaces_view)
  have run: "\<exists>r np' w'. on_configs lib iface f (np, w) = (r, np', w')
      \<and> np_GetInterfaces (Inr links) np' = Inr (on_named iface g ifs)" if "mirrors links f g" for f g
    using on_configs_view [OF that, of lib iface np w] ifs by (simp add: np_GetInterfaces_view) (metis surj_pair)
  show ?thesis
    unfolding np_SetIfaceAddresses_def np_SetIfaceDHCP_def np_SetIfaceDNS_def np_SetIfaceRoutes_def
    by (intro conjI run mirrors_setters assms(1-5))
qed

text \<open>A configuration with one device, renamed, and a bridge.\<close>

definition demo_interface :: npInterface where
  "demo_interface = \<lparr>yi_Addresses = [''10.0.0.1/24''], yi_DHCP4 = None, yi_DHCP6 = Some True, yi_DHCP4Overrides = [],
     yi_DHCP6Overrides = [], yi_Gateway4 = ''10.0.0.254'', yi_Gateway6 = [], yi_Nameservers = \<lparr>ys_Search = [], ys_Addresses = []\<rparr>,
     yi_MTU = 0, yi_Renderer = [], yi_Routes = [\<lparr>yr_To = ''default'', yr_Via = ''10.0.0.254'', yr_Metric = None, nr_From = [],
       nr_OnLink = None, nr_Scope = [], nr_Table = None, nr_Type = []\<rparr>], yi_Optional = False, npi_AcceptRA = None,
     npi_Critical = False, npi_DHCPIdentifier = [], npi_MACAddress = [], npi_RoutingPolicy = [], npi_LinkLocal = None,
     npi_OVSParameters = None\<rparr>"

definition demo_ethernet :: npEthernet where
  "demo_ethernet = \<lparr>npe_Physical = \<lparr>yp_Match = \<lparr>ym_Name = [], ym_MACAddress = ''02:00:00:00:00:01'', ym_Driver = []\<rparr>,
     yp_SetName = ''lan0'', yp_Wakeonlan = False\<rparr>, npe_Interface = demo_interface\<rparr>"

definition demo_network :: npNetwork where
  "demo_network = \<lparr>npn_Version = IsInt 2, npn_Renderer = ''networkd'', npn_Ethernets = [(''eth0'', demo_ethernet)], npn_Wifis = [],
     npn_Bridges = [], npn_Bonds = [], npn_VLANs = [(''lan0.5'', \<lparr>npv_Interface = demo_interface, npv_Settings = (Some 5, ''lan0'')\<rparr>)],
     npn_Routes = []\<rparr>"

definition demo_netplan :: netplan where
  "demo_netplan = \<lparr>np_configs = [\<lparr>npc_Network = demo_network, npc_file = ''1.yaml'', npc_empty = False, npc_dirty = True\<rparr>,
       \<lparr>npc_Network = demo_network\<lparr>npn_Ethernets := [], npn_VLANs := []\<rparr>, npc_file = ''2.yaml'', npc_empty = True, npc_dirty = True\<rparr>],
     np_configDir = ''/n'', np_backupRetention = 0\<rparr>"

definition demo_interfaces :: "Interface list" where
  "demo_interfaces = np_view [] demo_netplan"

lemma netplan_refines_witness:
  "\<exists>r np' w'. np_SetIfaceAddresses demo_libs ''lan0'' [\<lparr>net_ip = [10, 0, 0, 9], net_mask = [255, 255, 255, 0]\<rparr>] [] [] (demo_netplan, demo_files) = (r, np', w')
     \<and> np_GetInterfaces (Inr []) np' = Inr (on_named ''lan0'' (\<lambda>i. i\<lparr>if_Addresses := [\<lparr>net_ip = [0, 0, 0, 0, 0, 0, 0, 0, 0, 0, 255, 255, 10, 0, 0, 9], net_mask = [255, 255, 255, 0]\<rparr>],
           if_Gateway4 := [], if_Gateway6 := []\<rparr>) demo_interfaces)
     \<and> map if_Name demo_interfaces = [''lan0'', ''lan0.5'']"
proof -
  let ?a = "\<lparr>net_ip = [10, 0, 0, 9], net_mask = [255, 255, 255, 0]\<rparr> :: ipnet"
  have v: "\<forall>a\<in>set [?a]. valid_net a" by code_simp
  have s: "\<forall>s\<in>set ([] :: ip list). gateway_valid s" by simp
  have g: "gateway_valid []" by (simp add: gateway_valid_def)
  have rt: "routes_ok []" by (simp add: routes_ok_def)
  have i: "np_GetInterfaces (Inr []) demo_netplan = Inr demo_interfaces"
    by (simp add: np_GetInterfaces_view demo_interfaces_def)
  have n: "norm_net ?a = \<lparr>net_ip = [0, 0, 0, 0, 0, 0, 0, 0, 0, 0, 255, 255, 10, 0, 0, 9], net_mask = [255, 255, 255, 0]\<rparr>" "To16 [] = []" by code_simp+
  have m: "map if_Name demo_interfaces = [''lan0'', ''lan0.5'']" by code_simp
  show ?thesis
    using conjunct1 [OF netplan_refines [OF v g g s rt i, of demo_libs "''lan0''" demo_files]] n m by simp
qed

section \<open>Saving\<close>

definition np_path :: "string \<Rightarrow> npConfig \<Rightarrow> string" where
  "np_path d c = path_join d (npc_file c)"

definition written :: "np_libs \<Rightarrow> string \<Rightarrow> npConfig \<Rightarrow> world \<Rightarrow> bool" where
  "written lib d c w \<longleftrightarrow> npc_empty c \<or> \<not> npc_dirty c \<or>
     (case np_encode lib (npc_Network c) of Inl _ \<Rightarrow> False | Inr data \<Rightarrow> content_of w (np_path d c) = Some data)"

lemma save_np_config_cases:
  assumes "abs_dir d" and "file_name (npc_file c)"
  shows "save_np_config lib d ret c w =
    (let p = np_path d c; t = tmp_suffix (now w); b = bak_suffix (now (tick w)) in
     if \<not> npc_dirty c then ((Inr (), c), w)
     else case (if npc_empty c then fileMove p (p @ b) (tick (tick w))
         else case np_encode lib (npc_Network c) of Inl e \<Rightarrow> (Inl e, tick (tick w))
           | Inr data \<Rightarrow> replace_file (p @ t) p (p @ b) data (tick (tick w))) of
       (Inl e, w) \<Rightarrow> ((Inl e, c), w)
     | (Inr _, w) \<Rightarrow> ((Inr (), if npc_empty c then c else c\<lparr>npc_dirty := False\<rparr>),
         pruneBackups d (suffixBackupMatcher (npc_file c)) ret w))"
  using assms file_name_suffix [OF assms(2)]
  by (simp add: save_np_config_def np_path_def Let_def UnixNano_def replace_file_def try_io_def path_join_name
      split: prod.split sum.split)

lemma save_np_config_saves:
  assumes "save_np_config lib d ret c w = ((r, c'), w')" and "abs_dir d" and "unit_name (npc_file c)"
    and "no_links w" and "ret \<le> 0"
  shows "saves (np_path d c) w w'" and "r = Inr () \<Longrightarrow> written lib d c w'"
proof -
  have f: "file_name (npc_file c)" using assms(3) by (simp add: unit_name_def)
  have p: "plain (np_path d c)" using unit_path_plain [OF assms(2,3)] by (simp add: np_path_def)
  note e = assms(1) [unfolded save_np_config_cases [OF assms(2) f] Let_def]
  let ?w = "tick (tick w)"
  let ?b = "np_path d c @ bak_suffix (now (tick w))" and ?t = "np_path d c @ tmp_suffix (now w)"
  have nl: "no_links ?w" using assms(4) by (simp add: no_links_def)
  have tick: "saves (np_path d c) ?w v \<Longrightarrow> saves (np_path d c) w v" for v by (simp add: saves_def)
  have "saves (np_path d c) w w' \<and> (r = Inr () \<longrightarrow> written lib d c w')"
  proof (cases "npc_dirty c")
    case False
    then show ?thesis using e saves_refl [OF assms(4)] by (simp add: written_def)
  next
    case dirty: True
    show ?thesis
    proof (cases "npc_empty c")
      case True
      obtain x v where mv: "fileMove (np_path d c) ?b ?w = (x, v)" by fastforce
      have "w' = v" using e dirty True mv prune_off [OF assms(5)] by (cases x) auto
      then show ?thesis using tick move_saves [OF p nl] mv True by (metis snd_conv written_def)
    next
      case False
      show ?thesis
      proof (cases "np_encode lib (npc_Network c)")
        case (Inl a)
        then show ?thesis using e dirty False tick saves_refl [OF nl] by auto
      next
        case (Inr data)
        obtain x v where rp: "replace_file ?t (np_path d c) ?b data ?w = (x, v)" by fastforce
        have x: "w' = v" "r = x" using e dirty False Inr rp prune_off [OF assms(5)] by (cases x; auto)+
        have "written lib d c v" if "x = Inr ()"
          using replace_file_saves(2) [OF rp p nl that] Inr by (simp add: written_def)
        then show ?thesis using x tick replace_file_saves(1) [OF rp p nl] by blast
      qed
    qed
  qed
  then show "saves (np_path d c) w w'" and "r = Inr () \<Longrightarrow> written lib d c w'" by blast+
qed

lemma save_configs_saves:
  assumes "save_configs lib d ret cs w = ((r, cs'), w')" and "abs_dir d" and "\<forall>c\<in>set cs. unit_name (npc_file c)"
    and "distinct (map npc_file cs)" and "no_links w" and "ret \<le> 0"
  shows "all_saved (map (np_path d) cs) w w' \<and> (r = Inr () \<longrightarrow> (\<forall>c\<in>set cs. written lib d c w'))"
  using assms
proof (induction cs arbitrary: w r cs')
  case Nil
  then show ?case by (auto simp: all_saved_Nil)
next
  case (Cons c cs)
  obtain x c1 v where s: "save_np_config lib d ret c w = ((x, c1), v)" by (metis surj_pair)
  have u: "unit_name (npc_file c)" using Cons.prems(3) by simp
  note sv = save_np_config_saves [OF s assms(2) u Cons.prems(5) assms(6)]
  have pl: "plain (np_path d c)" "\<forall>q\<in>set (map (np_path d) cs). plain q"
    using unit_path_plain [OF assms(2)] Cons.prems(3) by (auto simp: np_path_def)
  have fn: "file_name (npc_file c)" "\<forall>b\<in>set cs. file_name (npc_file b)" using Cons.prems(3) by (auto simp: unit_name_def)
  have nin: "np_path d c \<notin> set (map (np_path d) cs)"
    using Cons.prems(4) fn path_join_inj [OF assms(2)] by (auto simp: np_path_def)
  have v: "no_links v" using sv(1) by (simp add: saves_def)
  show ?case
  proof (cases x)
    case (Inl e)
    then have "r = Inl e" "w' = v" using Cons.prems(1) s by auto
    then show ?thesis
      using all_saved_Cons [OF sv(1) all_saved_Nil [OF v] pl nin] by simp
  next
    case (Inr y)
    then obtain cs1 where rest: "save_configs lib d ret cs v = ((r, cs1), w')"
      using Cons.prems(1) s by (auto split: prod.splits)
    have IH: "all_saved (map (np_path d) cs) v w'" "r = Inr () \<longrightarrow> (\<forall>c\<in>set cs. written lib d c w')"
      using Cons.IH [OF rest assms(2) _ _ v assms(6)] Cons.prems(3,4) by simp_all
    have "np_path d c \<in> own (np_path d c)" by (simp add: own_def)
    then have "fs_get w' (np_path d c) = fs_get v (np_path d c)"
      using IH(1) own_disjoint [OF pl(1)] pl(2) nin unfolding all_saved_def by blast
    then have "written lib d c w' = written lib d c v"
      by (simp add: written_def content_of_def split: sum.split)
    then have "r = Inr () \<longrightarrow> written lib d c w'" using sv(2) Inr by simp
    then show ?thesis using all_saved_Cons [OF sv(1) IH(1) pl nin] IH(2) by simp
  qed
qed


lemma demo_files_no_links: "no_links demo_files"
  by (auto simp: no_links_def no_link_def fs_get_def demo_files_def mk_world_def split: if_splits)


section \<open>Routes\<close>

lemma save_configs_networks:
  "map npc_Network (snd (fst (save_configs lib d ret cs w))) = map npc_Network cs"
proof (induction cs arbitrary: w)
  case (Cons c cs)
  obtain r c' w' where e: "save_np_config lib d ret c w = ((r, c'), w')" by (metis surj_pair)
  have "npc_Network c' = npc_Network c"
    using e by (auto simp: save_np_config_def UnixNano_def Let_def split: if_splits prod.splits sum.splits)
  then show ?case
    using Cons.IH [of w'] by (cases r; cases "save_configs lib d ret cs w'") (auto simp: e)
qed simp

lemma np_Save_networks:
  assumes "np_Save lib (np, w) = (r, np', w')" and "c' \<in> set (np_configs np')"
  shows "npc_Network c' \<in> npc_Network ` set (np_configs np)"
proof -
  obtain x cs v where s: "save_configs lib (np_configDir np) (np_backupRetention np) (np_configs np) w = ((x, cs), v)"
    by (metis surj_pair)
  have "c' \<in> set cs" using assms s by (cases x) (auto simp: np_Save_def)
  moreover have "map npc_Network cs = map npc_Network (np_configs np)"
    using save_configs_networks [of lib "np_configDir np" "np_backupRetention np" "np_configs np" w] s by simp
  ultimately show ?thesis by (metis image_eqI list.set_map)
qed

text \<open>
  C26. A default route written the way netplan recommends, with the destination \<open>default\<close>, is not
  reported: its destination is not a network. Setting the routes of the interface, which replaces
  them by the given ones, loses it.
\<close>

theorem netplan_default_route_lost:
  assumes "np_configs np = [c]" and "\<not> npc_empty c" and "npn_Ethernets (npc_Network c) = [(name, e)]"
    and "route \<in> set (yi_Routes (npe_Interface e))" and "yr_To route = ''default''"
    and "np_SetIfaceRoutes lib (physical_name name e) routes (np, w) = (r, np', w')"
    and "c' \<in> set (np_configs np')"
  shows "convert_route route = None
    \<and> (\<exists>e'. npn_Ethernets (npc_Network c') = [(name, e')] \<and> yi_Routes (npe_Interface e') = map np_route routes)"
proof -
  have "ParseCIDR ''default'' = None" by code_simp
  then have "convert_route route = None" using assms(5) by (simp add: convert_route_def)
  moreover have "npc_Network c' = change_network (physical_name name e) (yi_set_routes np_route routes) (npc_Network c)"
    using np_Save_networks [OF _ assms(7), of lib "np\<lparr>np_configs := map (change_config (physical_name name e)
      (yi_set_routes np_route routes)) (np_configs np)\<rparr>" w r w'] assms(1,2,6)
    by (simp add: np_SetIfaceRoutes_def on_configs_def change_config_def)
  ultimately show ?thesis
    using assms(3) by (simp add: change_network_def change_physical_def yi_set_routes_def)
qed

lemma netplan_default_route_lost_witness:
  "yr_To (hd (yi_Routes demo_interface)) = ''default'' \<and> convert_route (hd (yi_Routes demo_interface)) = None"
proof -
  let ?c = "\<lparr>npc_Network = demo_network, npc_file = ''1.yaml'', npc_empty = False, npc_dirty = False\<rparr>"
  let ?np = "demo_netplan\<lparr>np_configs := [?c]\<rparr>"
  let ?s = "np_SetIfaceRoutes demo_libs (physical_name ''eth0'' demo_ethernet) [] (?np, demo_files)"
  have c: "np_configs ?np = [?c]" and e: "\<not> npc_empty ?c" by simp_all
  have n: "npn_Ethernets (npc_Network ?c) = [(''eth0'', demo_ethernet)]" by (simp add: demo_network_def)
  have rt: "hd (yi_Routes demo_interface) \<in> set (yi_Routes (npe_Interface demo_ethernet))"
    "yr_To (hd (yi_Routes demo_interface)) = ''default''"
    by (simp_all add: demo_ethernet_def demo_interface_def)
  have s: "?s = (fst ?s, fst (snd ?s), snd (snd ?s))" by simp
  have "np_configs (fst (snd ?s)) \<noteq> []" by code_simp
  then have m: "hd (np_configs (fst (snd ?s))) \<in> set (np_configs (fst (snd ?s)))" by (rule hd_in_set)
  show ?thesis using netplan_default_route_lost [OF c e n rt s m] rt(2) by simp
qed

end
