(* ===== verification/CloudInit.thy ===== *)
theory CloudInit
  imports YamlIface
begin

text \<open>
  \<open>cloudinit.go\<close>: the backend over the network configuration of cloud-init, of its version 1 (a
  list of configurations with subnets) and version 2 (netplan's form). The YAML, JSON and
  merging libraries are parameters.
\<close>

section \<open>The configuration\<close>

record ciEthernet =
  ce_Physical :: yamlPhysical
  ce_Interface :: "yamlRoute yamlIface"

record ciBridgeParameters =
  cbr_AgeingTime :: "int option"
  cbr_ForwardDelay :: int_string
  cbr_HelloTime :: "int option"
  cbr_MaxAge :: "int option"
  cbr_PathCost :: "int option"
  cbr_Priority :: "int option"
  cbr_STP :: "bool option"

record ciBondParameters =
  cbo_Mode :: int_string
  cbo_LACPRate :: int_string
  cbo_MIIMonitorInterval :: int_string
  cbo_MinLinks :: "int option"
  cbo_TransmitHashPolicy :: string
  cbo_ADSelect :: int_string
  cbo_AllSlavesActive :: "bool option"
  cbo_ARPInterval :: "int option"
  cbo_ARPIPTargets :: "string list"
  cbo_ARPValidate :: int_string
  cbo_ARPAllTargets :: int_string
  cbo_UpDelay :: int_string
  cbo_DownDelay :: int_string
  cbo_FailOverMACPolicy :: int_string
  cbo_GratuitousARP :: "int option"
  cbo_PacketsPerSlave :: "int option"
  cbo_PrimaryReselectPolicy :: int_string
  cbo_LearnPacketInterval :: "int option"

record 'k ciVirtual =
  cv_Interface :: "yamlRoute yamlIface"
  cv_Settings :: 'k

type_synonym ciBridge = "(string list \<times> ciBridgeParameters) ciVirtual"
type_synonym ciBond = "(string list \<times> ciBondParameters) ciVirtual"
type_synonym ciVLAN = "(int option \<times> string) ciVirtual"

text \<open>Version 1.\<close>

record ciSubnetRoute =
  sr_Destination :: string
  sr_Netmask :: string
  sr_Gateway :: string
  sr_Metric :: int

record ciSubnet =
  sn_Type :: string
  sn_Control :: int_string
  sn_Address :: string
  sn_Netmask :: string
  sn_Broadcast :: string
  sn_Gateway :: string
  sn_DNSNameservers :: "string list"
  sn_DNSSearch :: "string list"
  sn_Routes :: "ciSubnetRoute list"

record ciConfig =
  cc_Type :: string
  cc_Name :: string
  cc_MACAddress :: string
  cc_MTU :: int
  cc_AcceptRA :: "bool option"
  cc_Subnets :: "ciSubnet list"
  cc_BondInterfaces :: "string list"
  cc_BridgeInterfaces :: "string list"
  cc_Params :: "(string \<times> string) list"
  cc_VLANLink :: string
  cc_VLANID :: int
  cc_Interface :: string
  cc_Addresses :: "string list"
  cc_Search :: "string list"
  cc_Destination :: string
  cc_Netmask :: string
  cc_Gateway :: string
  cc_Metric :: int

record ciNetwork =
  cn_Version :: int
  cn_Renderer :: string
  cn_Ethernets :: "(string \<times> ciEthernet) list"
  cn_Bridges :: "(string \<times> ciBridge) list"
  cn_Bonds :: "(string \<times> ciBond) list"
  cn_VLANs :: "(string \<times> ciVLAN) list"
  cn_Configs :: "ciConfig list"

record ciFile =
  fl_Path :: string
  fl_OnlyNetwork :: bool
  fl_NetworkEncap :: bool

record cloudInit =
  ci_Network :: ciNetwork
  ci_configFiles :: "ciFile list"
  ci_backupRetention :: int

section \<open>YAML as cloud-init reads it\<close>

text \<open>\<open>yaml.Node\<close>: the content of a mapping alternates keys and values.\<close>

datatype node_kind = DocumentNode | SequenceNode | MappingNode | ScalarNode | AliasNode

datatype ynode = YNode (yn_kind: node_kind) (yn_value: string) (yn_content: "ynode list")

fun node_pairs :: "ynode list \<Rightarrow> (ynode \<times> ynode) list" where
  "node_pairs (k # v # r) = (k, v) # node_pairs r"
| "node_pairs _ = []"

definition same_key :: "ynode \<Rightarrow> ynode \<Rightarrow> bool" where
  "same_key k j \<longleftrightarrow> yn_kind k = ScalarNode \<and> yn_kind j = ScalarNode \<and> yn_value k = yn_value j"

fun keep_last :: "(ynode \<times> ynode) list \<Rightarrow> (ynode \<times> ynode) list" where
  "keep_last [] = []"
| "keep_last (kv # r) = (if list_ex (\<lambda>jv. same_key (fst kv) (fst jv)) r then keep_last r else kv # keep_last r)"

definition flat_pairs :: "(ynode \<times> ynode) list \<Rightarrow> ynode list" where
  "flat_pairs ps = concat (map (\<lambda>(k, v). [k, v]) ps)"

definition dedupe_content :: "node_kind \<Rightarrow> ynode list \<Rightarrow> ynode list" where
  "dedupe_content k c = (if k = MappingNode then flat_pairs (keep_last (node_pairs c)) else c)"

lemma node_pairs_set: "(k, v) \<in> set (node_pairs c) \<Longrightarrow> k \<in> set c \<and> v \<in> set c"
  by (induction c rule: node_pairs.induct) auto

lemma keep_last_set: "set (keep_last ps) \<subseteq> set ps"
  by (induction ps) auto

lemma dedupe_content_set: "x \<in> set (dedupe_content k c) \<Longrightarrow> x \<in> set c"
  using keep_last_set [of "node_pairs c"]
  by (auto simp: dedupe_content_def flat_pairs_def split: if_splits dest: node_pairs_set)

function dedupeMappingKeys :: "ynode \<Rightarrow> ynode" where
  "dedupeMappingKeys (YNode k s c) = YNode k s (map dedupeMappingKeys (dedupe_content k c))"
  by pat_completeness auto
termination
proof (relation "measure size")
  fix k s c x
  assume "x \<in> set (dedupe_content k c)"
  then have "x \<in> set c" by (rule dedupe_content_set)
  then have "size x \<le> size_list size c" by (rule size_list_estimation') simp
  then show "(x, YNode k s c) \<in> measure size" by simp
qed simp

text \<open>
  The libraries. \<open>None\<close> is the nil map that decoding leaves when there is nothing to decode.
\<close>

record ci_libs =
  cl_json :: "string \<Rightarrow> ymap option result"          \<comment> \<open>\<open>json.Unmarshal\<close> into a map\<close>
  cl_node :: "string \<Rightarrow> ynode option result"         \<comment> \<open>\<open>yaml.Unmarshal\<close> into a node; \<open>None\<close> for kind 0\<close>
  cl_decode :: "ynode \<Rightarrow> ymap option result"         \<comment> \<open>\<open>Node.Decode\<close>\<close>
  cl_print :: "ymap option \<Rightarrow> string result"         \<comment> \<open>\<open>yaml.Marshal\<close> of a map\<close>
  cl_json_print :: "ymap option \<Rightarrow> string result"    \<comment> \<open>\<open>json.MarshalIndent\<close> of a map\<close>
  cl_network :: "string \<Rightarrow> ciNetwork result"         \<comment> \<open>\<open>yaml.Unmarshal\<close> into the configuration\<close>
  cl_encode :: "ciNetwork \<Rightarrow> string result"          \<comment> \<open>\<open>yaml.Marshal\<close> of the configuration\<close>
  cl_map :: "string \<Rightarrow> ymap option result"           \<comment> \<open>\<open>yaml.Unmarshal\<close> into a map\<close>
  cl_merge :: "ymap \<Rightarrow> ymap \<Rightarrow> ymap result"           \<comment> \<open>\<open>mergo.Merge\<close>\<close>

definition unmarshalCloudConfig :: "ci_libs \<Rightarrow> string \<Rightarrow> ymap option result" where
  "unmarshalCloudConfig lib data = try_res (cl_node lib data) (\<lambda>doc. case doc of
       None \<Rightarrow> Inr None
     | Some n \<Rightarrow> cl_decode lib (dedupeMappingKeys n))"

section \<open>Reading\<close>

definition cloudInitDefault :: string where "cloudInitDefault = ''/etc/cloud/cloud.cfg''"
definition cloudInitDir :: string where "cloudInitDir = ''/etc/cloud/cloud.cfg.d''"
definition cloudBaseInit :: string where "cloudBaseInit = ''/curtin/network.json''"

definition base_files :: "string \<Rightarrow> string \<Rightarrow> world \<Rightarrow> string list \<times> world" where
  "base_files cloudinitFile cloudbaseFile w =
     (case os_Stat cloudinitFile w of
        (Inr _, w) \<Rightarrow> ([cloudinitFile], w)
      | (Inl _, w) \<Rightarrow> (case os_Stat cloudbaseFile w of
            (Inr _, w) \<Rightarrow> ([cloudbaseFile], w)
          | (Inl _, w) \<Rightarrow> ([], w)))"

text \<open>A JSON file may hold the network configuration itself.\<close>

definition encapsulate :: "ymap option \<Rightarrow> ymap option \<times> bool" where
  "encapsulate config =
     (case config of None \<Rightarrow> (config, False)
      | Some m \<Rightarrow> (case (map_of m ''config'', map_of m ''version'') of
          (Some c, Some v) \<Rightarrow> (Some [(''network'', YMap [(''config'', c), (''version'', v)])], True)
        | _ \<Rightarrow> (config, False)))"

definition is_json :: "string \<Rightarrow> bool" where
  "is_json p = HasSuffix p ''.json''"

definition decode_config :: "ci_libs \<Rightarrow> string \<Rightarrow> string \<Rightarrow> (ymap option \<times> bool) result" where
  "decode_config lib p data =
     (if is_json p then try_res (cl_json lib data) (\<lambda>m. Inr (encapsulate m))
      else try_res (unmarshalCloudConfig lib data) (\<lambda>m. Inr (m, False)))"

definition only_disabled :: "yaml \<Rightarrow> bool" where
  "only_disabled v = (case v of
       YMap s \<Rightarrow> as_string (map_of s ''config'') = Some ''disabled'' \<and> list_all (\<lambda>(k, _). k = ''config'') s
     | _ \<Rightarrow> False)"

definition found_network :: "ymap \<Rightarrow> bool" where
  "found_network m = (case map_of m ''network'' of None \<Rightarrow> False | Some v \<Rightarrow> \<not> only_disabled v)"

definition found_non_network :: "ymap \<Rightarrow> bool" where
  "found_non_network m = list_ex (\<lambda>(k, _). k \<noteq> ''network'') m"

fun read_cloud_files ::
  "ci_libs \<Rightarrow> string list \<Rightarrow> ymap option \<Rightarrow> ciFile list \<Rightarrow> world \<Rightarrow> (ymap option \<times> ciFile list) result \<times> world" where
  "read_cloud_files lib [] merged configFiles w = (Inr (merged, configFiles), w)"
| "read_cloud_files lib (p # ps) merged configFiles w =
     try_io (os_ReadFile p w) (\<lambda>data w.
     try_io (map_sum (Wrap (''parsing '' @ p)) id (decode_config lib p data), w) (\<lambda>(config, encap) w.
     case config of
       None \<Rightarrow> read_cloud_files lib ps merged configFiles w
     | Some m \<Rightarrow>
        (if \<not> found_network m then read_cloud_files lib ps merged configFiles w
         else let configFiles = configFiles @ [\<lparr>fl_Path = p, fl_OnlyNetwork = \<not> found_non_network m, fl_NetworkEncap = encap\<rparr>] in
           try_io (case merged of None \<Rightarrow> Inr m | Some m0 \<Rightarrow> cl_merge lib m0 m, w) (\<lambda>merged w.
             read_cloud_files lib ps (Some merged) configFiles w))))"

definition newCloudInitWith :: "ci_libs \<Rightarrow> string \<Rightarrow> string \<Rightarrow> string \<Rightarrow> world \<Rightarrow> cloudInit result \<times> world" where
  "newCloudInitWith lib cloudinitFile cloudbaseFile cloudinitDir w =
     (case base_files cloudinitFile cloudbaseFile w of (base, w) \<Rightarrow>
      if base = [] then (Inl (Errorf ''unable to find cloudinit config''), w)
      else case os_ReadDir cloudinitDir w of (entries, w) \<Rightarrow>
        let entries = (case entries of Inl _ \<Rightarrow> [] | Inr es \<Rightarrow> es);
            paths = base @ map (path_join cloudinitDir) (conf_names ''.cfg'' (sortableDirEntries entries)) in
        try_io (read_cloud_files lib paths None [] w) (\<lambda>(merged, configFiles) w.
        try_io (cl_print lib merged, w) (\<lambda>data w.
        try_io (cl_network lib data, w) (\<lambda>network w.
        if cn_Ethernets network = [] \<and> cn_Configs network = [] then (Inl (Errorf ''no ethernet configurations in cloud-init''), w)
        else (Inr \<lparr>ci_Network = network, ci_configFiles = configFiles, ci_backupRetention = 0\<rparr>, w)))))"

definition newCloudInit :: "ci_libs \<Rightarrow> int \<Rightarrow> world \<Rightarrow> cloudInit result \<times> world" where
  "newCloudInit lib backupRetention w =
     try_io (newCloudInitWith lib cloudInitDefault cloudBaseInit cloudInitDir w) (\<lambda>ci w.
       (Inr (ci\<lparr>ci_backupRetention := backupRetention\<rparr>), w))"

section \<open>Version 1: addresses and routes\<close>

definition v1_kind :: "ciConfig \<Rightarrow> bool" where
  "v1_kind c \<longleftrightarrow> cc_Type c \<in> set [''physical'', ''bond'', ''bridge'', ''vlan'']"

text \<open>
  An address or destination with its separate netmask. The error of \<open>ParseCIDR\<close> goes to the
  named result of the function and stays there until the next call of \<open>ParseCIDR\<close>.
\<close>

definition cidr_error :: goerror where
  "cidr_error = Errorf ''invalid CIDR address''"

definition cidr_net :: "string \<Rightarrow> string \<Rightarrow> goerror option \<Rightarrow> ipnet option \<times> goerror option" where
  "cidr_net addr netmask err =
     (case (if CHR ''/'' \<in> set addr then
              (case ParseCIDR addr of None \<Rightarrow> (None, Some cidr_error) | Some n \<Rightarrow> (Some n, None))
            else let i = ParseIP addr in
              (if i = [] then None
               else Some \<lparr>net_ip = i, net_mask = (if To4 i = [] then CIDRMask 128 128 else CIDRMask 32 32)\<rparr>, err)) of
        (None, err) \<Rightarrow> (None, err)
      | (Some n, err) \<Rightarrow>
          (if netmask = [] then Some n
           else let m = To4 (ParseIP netmask) in if m = [] then None else Some (n\<lparr>net_mask := m\<rparr>), err))"

definition subnet_route :: "ciSubnetRoute \<Rightarrow> goerror option \<Rightarrow> Route option \<times> goerror option" where
  "subnet_route r err = (case cidr_net (sr_Destination r) (sr_Netmask r) err of
       (None, err) \<Rightarrow> (None, err)
     | (Some d, err) \<Rightarrow> let g = ParseIP (sr_Gateway r) in
         (if g = [] then None else Some \<lparr>rt_Destination = Some d, rt_Gateway = g, rt_Metric = sr_Metric r\<rparr>, err))"

fun subnet_routes :: "ciSubnetRoute list \<Rightarrow> goerror option \<Rightarrow> Route list \<times> goerror option" where
  "subnet_routes [] err = ([], err)"
| "subnet_routes (r # rs) err =
     (case subnet_route r err of (x, err) \<Rightarrow> case subnet_routes rs err of (xs, err) \<Rightarrow>
       (case x of None \<Rightarrow> xs | Some y \<Rightarrow> y # xs, err))"

definition dhcp4_types :: "string list" where
  "dhcp4_types = [''dhcp'', ''dhcp4'']"

definition dhcp6_types :: "string list" where
  "dhcp6_types = [''dhcp6'', ''ipv6_dhcpv6-stateful'', ''ipv6_dhcpv6-stateless'']"

definition take_static :: "ciSubnet \<Rightarrow> ipnet \<Rightarrow> Interface \<Rightarrow> Interface" where
  "take_static s n i = (let i = i\<lparr>if_Addresses := if_Addresses i @ [n]\<rparr>; g = ParseIP (sn_Gateway s) in
     if g = [] then i else if To4 g = [] then i\<lparr>if_Gateway6 := g\<rparr> else i\<lparr>if_Gateway4 := g\<rparr>)"

definition read_subnet :: "ciSubnet \<Rightarrow> Interface \<times> goerror option \<Rightarrow> Interface \<times> goerror option" where
  "read_subnet s st = (case st of (i, err) \<Rightarrow>
     case subnet_routes (sn_Routes s) err of (routes, err) \<Rightarrow>
     let i = i\<lparr>if_DHCP4 := if_DHCP4 i \<or> sn_Type s \<in> set dhcp4_types,
               if_DHCP6 := if_DHCP6 i \<or> sn_Type s \<in> set dhcp6_types,
               if_DNS := if_DNS i @ filter (\<lambda>a. a \<noteq> []) (map ParseIP (sn_DNSNameservers s)),
               if_SearchDomains := if_SearchDomains i @ sn_DNSSearch s,
               if_Routes := if_Routes i @ routes\<rparr> in
     if sn_Type s \<noteq> ''static'' then (i, err)
     else case cidr_net (sn_Address s) (sn_Netmask s) err of
         (None, err) \<Rightarrow> (i, err)
       | (Some n, err) \<Rightarrow> (take_static s n i, err))"

definition v1_interface :: "link list \<Rightarrow> ciConfig \<Rightarrow> goerror option \<Rightarrow> Interface \<times> goerror option" where
  "v1_interface links c err = (case link_mac (cc_Name c) (cc_MACAddress c) links of (mac, foundLink) \<Rightarrow>
     fold read_subnet (cc_Subnets c) ((new_interface (cc_Name c))\<lparr>if_MAC := mac, if_Link := foundLink\<rparr>, err))"

fun v1_interfaces :: "link list \<Rightarrow> ciConfig list \<Rightarrow> goerror option \<Rightarrow> Interface list \<times> goerror option" where
  "v1_interfaces links [] err = ([], err)"
| "v1_interfaces links (c # cs) err =
     (if \<not> v1_kind c then v1_interfaces links cs err
      else case v1_interface links c err of (i, err) \<Rightarrow>
           case v1_interfaces links cs err of (is, err) \<Rightarrow> (i # is, err))"

section \<open>Reading interfaces\<close>

definition ethernet_name :: "string \<Rightarrow> ciEthernet \<Rightarrow> string" where
  "ethernet_name name e = (if yp_SetName (ce_Physical e) \<noteq> [] then yp_SetName (ce_Physical e) else name)"

text \<open>The same conversion as in netplan, with the hardware address of the match.\<close>

definition ci_ConvertInterface :: "string \<Rightarrow> string \<Rightarrow> yamlRoute yamlIface \<Rightarrow> link list \<Rightarrow> Interface" where
  "ci_ConvertInterface name MAC config links = convert_iface name MAC config links"

definition ethernet_iface :: "link list \<Rightarrow> string \<times> ciEthernet \<Rightarrow> Interface" where
  "ethernet_iface links ne = (case ne of (name, e) \<Rightarrow>
     ci_ConvertInterface (ethernet_name name e) (ym_MACAddress (yp_Match (ce_Physical e))) (ce_Interface e) links)"

definition ci_virtual_iface :: "link list \<Rightarrow> string \<times> 'k ciVirtual \<Rightarrow> Interface" where
  "ci_virtual_iface links nv = ci_ConvertInterface (fst nv) [] (cv_Interface (snd nv)) links"

definition v2_interfaces :: "link list \<Rightarrow> ciNetwork \<Rightarrow> Interface list" where
  "v2_interfaces links n =
       map (ethernet_iface links) (by_key (cn_Ethernets n))
     @ map (ci_virtual_iface links) (by_key (cn_Bridges n))
     @ map (ci_virtual_iface links) (by_key (cn_Bonds n))
     @ map (ci_virtual_iface links) (by_key (cn_VLANs n))"

definition ci_GetInterfaces :: "link list result \<Rightarrow> cloudInit \<Rightarrow> Interface list \<times> goerror option" where
  "ci_GetInterfaces links ci = (case links of
       Inl e \<Rightarrow> ([], Some e)
     | Inr ls \<Rightarrow> (case v1_interfaces ls (cn_Configs (ci_Network ci)) None of (is, err) \<Rightarrow>
         (is @ v2_interfaces ls (ci_Network ci), err)))"

section \<open>Saving\<close>

text \<open>The file that receives the configuration: the first one with nothing else in it, or the first.\<close>

definition main_config :: "ciFile list \<Rightarrow> string result" where
  "main_config fs = (case find fl_OnlyNetwork fs of
       Some f \<Rightarrow> Inr (fl_Path f)
     | None \<Rightarrow> (case fs of [] \<Rightarrow> Inl (Panic ''index out of range'') | f # _ \<Rightarrow> Inr (fl_Path f)))"

definition yaml_or_nil :: "yaml option \<Rightarrow> yaml" where
  "yaml_or_nil v = (case v of None \<Rightarrow> YNull | Some y \<Rightarrow> y)"

definition put_map :: "string \<Rightarrow> yaml \<Rightarrow> ymap option \<Rightarrow> ymap option result" where
  "put_map k v m = (case m of
       None \<Rightarrow> Inl (Panic ''assignment to entry in nil map'')
     | Some m \<Rightarrow> Inr (Some (AList.update k v m)))"

text \<open>The new content of a file, given the new configuration and what the file holds.\<close>

definition new_config :: "string \<Rightarrow> ciFile \<Rightarrow> ymap \<Rightarrow> ymap option \<Rightarrow> ymap option result" where
  "new_config main f config orig =
     (if fl_Path f = main then
        (if fl_NetworkEncap f then
           (case as_map (map_of config ''network'') of
              None \<Rightarrow> Inl wrong_type
            | Some network \<Rightarrow> put_map ''config'' (yaml_or_nil (map_of network ''config'')) orig)
         else put_map ''network'' (yaml_or_nil (map_of config ''network'')) orig)
      else Inr (map_option (AList.delete (if fl_NetworkEncap f then ''config'' else ''network'')) orig))"

definition print_config :: "ci_libs \<Rightarrow> string \<Rightarrow> ymap option \<Rightarrow> string result" where
  "print_config lib p m =
     (if is_json p then try_res (cl_json_print lib m) (\<lambda>data. Inr (data @ [newline])) else cl_print lib m)"

definition new_content :: "ci_libs \<Rightarrow> ciNetwork \<Rightarrow> string \<Rightarrow> ciFile \<Rightarrow> world \<Rightarrow> string result \<times> world" where
  "new_content lib network main f w =
     try_io (cl_encode lib network, w) (\<lambda>data w.
     try_io (cl_map lib data, w) (\<lambda>config w.
     try_io (os_ReadFile (fl_Path f) w) (\<lambda>data w.
     try_io (if is_json (fl_Path f) then cl_json lib data else unmarshalCloudConfig lib data, w) (\<lambda>orig w.
     try_io (new_config main f (case config of None \<Rightarrow> [] | Some m \<Rightarrow> m) orig, w) (\<lambda>orig w.
     (print_config lib (fl_Path f) orig, w))))))"

definition save_ci_file ::
  "ci_libs \<Rightarrow> ciNetwork \<Rightarrow> int \<Rightarrow> string \<Rightarrow> string \<Rightarrow> string \<Rightarrow> ciFile \<Rightarrow> world \<Rightarrow> unit result \<times> world" where
  "save_ci_file lib network retention main tmpSuffix bakSuffix f w =
     (case path_split (fl_Path f) of (configDir, configName) \<Rightarrow>
      let configPath = fl_Path f;
          tmpPath = path_join configDir (configName @ tmpSuffix);
          bakPath = path_join configDir (configName @ bakSuffix) in
      try_io (new_content lib network main f w) (\<lambda>data w.
      try_io (os_WriteFile tmpPath data 420 w) (\<lambda>_ w.
      try_io (fileMove configPath bakPath w) (\<lambda>_ w.
      try_io (fileMove tmpPath configPath w) (\<lambda>_ w.
      (Inr (), pruneBackups configDir (suffixBackupMatcher configName) retention w))))))"

fun save_ci_files ::
  "ci_libs \<Rightarrow> ciNetwork \<Rightarrow> int \<Rightarrow> string \<Rightarrow> string \<Rightarrow> string \<Rightarrow> ciFile list \<Rightarrow> world \<Rightarrow> unit result \<times> world" where
  "save_ci_files lib network retention main tmpSuffix bakSuffix [] w = (Inr (), w)"
| "save_ci_files lib network retention main tmpSuffix bakSuffix (f # fs) w =
     try_io (save_ci_file lib network retention main tmpSuffix bakSuffix f w)
       (\<lambda>_ w. save_ci_files lib network retention main tmpSuffix bakSuffix fs w)"

definition ci_Save :: "ci_libs \<Rightarrow> cloudInit \<Rightarrow> world \<Rightarrow> unit result \<times> world" where
  "ci_Save lib ci w =
     try_io (main_config (ci_configFiles ci), w) (\<lambda>main w.
     case UnixNano w of (t, w) \<Rightarrow> case UnixNano w of (b, w) \<Rightarrow>
     save_ci_files lib (ci_Network ci) (ci_backupRetention ci) main (tmp_suffix t) (bak_suffix b) (ci_configFiles ci) w)"

section \<open>Changing version 2\<close>

definition change_ethernet ::
  "string \<Rightarrow> (yamlRoute yamlIface \<Rightarrow> yamlRoute yamlIface) \<Rightarrow> string \<times> ciEthernet \<Rightarrow> string \<times> ciEthernet" where
  "change_ethernet iface f ne = (case ne of (name, e) \<Rightarrow>
     if ethernet_name name e = iface then (name, e\<lparr>ce_Interface := f (ce_Interface e)\<rparr>) else (name, e))"

definition change_ci_virtual ::
  "string \<Rightarrow> (yamlRoute yamlIface \<Rightarrow> yamlRoute yamlIface) \<Rightarrow> string \<times> 'k ciVirtual \<Rightarrow> string \<times> 'k ciVirtual" where
  "change_ci_virtual iface f nv = (case nv of (name, v) \<Rightarrow>
     if name = iface then (name, v\<lparr>cv_Interface := f (cv_Interface v)\<rparr>) else (name, v))"

definition change_v2 :: "string \<Rightarrow> (yamlRoute yamlIface \<Rightarrow> yamlRoute yamlIface) \<Rightarrow> ciNetwork \<Rightarrow> ciNetwork" where
  "change_v2 iface f n = n\<lparr>
     cn_Ethernets := map (change_ethernet iface f) (cn_Ethernets n),
     cn_Bridges := map (change_ci_virtual iface f) (cn_Bridges n),
     cn_Bonds := map (change_ci_virtual iface f) (cn_Bonds n),
     cn_VLANs := map (change_ci_virtual iface f) (cn_VLANs n)\<rparr>"

section \<open>Changing version 1\<close>

definition on_v1 :: "string \<Rightarrow> (ciConfig \<Rightarrow> ciConfig) \<Rightarrow> ciNetwork \<Rightarrow> ciNetwork" where
  "on_v1 iface f n = n\<lparr>cn_Configs := map (\<lambda>c. if v1_kind c \<and> cc_Name c = iface then f c else c) (cn_Configs n)\<rparr>"

definition blank_subnet :: "string \<Rightarrow> ciSubnet" where
  "blank_subnet t = \<lparr>sn_Type = t, sn_Control = IsNil, sn_Address = [], sn_Netmask = [], sn_Broadcast = [], sn_Gateway = [],
     sn_DNSNameservers = [], sn_DNSSearch = [], sn_Routes = []\<rparr>"

definition text_route :: "Route \<Rightarrow> ciSubnetRoute" where
  "text_route r = \<lparr>sr_Destination = dest_string (rt_Destination r), sr_Netmask = [], sr_Gateway = ip_string (rt_Gateway r),
     sr_Metric = rt_Metric r\<rparr>"

definition subnet_gateway :: "ipnet \<Rightarrow> ip \<Rightarrow> ip \<Rightarrow> string" where
  "subnet_gateway addr gateway4 gateway6 =
     (if net_contains addr gateway4 then ip_string gateway4
      else if net_contains addr gateway6 then ip_string gateway6 else [])"

text \<open>
  The routes whose gateway is in the network of an address are moved to its subnet one at a
  time: the first that is found is removed, then the search starts over.
\<close>

fun take_first :: "('a \<Rightarrow> bool) \<Rightarrow> 'a list \<Rightarrow> ('a \<times> 'a list) option" where
  "take_first P [] = None"
| "take_first P (x # xs) = (if P x then Some (x, xs) else map_option (\<lambda>(y, ys). (y, x # ys)) (take_first P xs))"

lemma take_first_length: "take_first P xs = Some (y, ys) \<Longrightarrow> length ys < length xs"
  by (induction xs arbitrary: ys) (auto split: if_splits)

function take_all :: "('a \<Rightarrow> bool) \<Rightarrow> 'a list \<Rightarrow> 'a list \<times> 'a list" where
  "take_all P xs = (case take_first P xs of
       None \<Rightarrow> ([], xs)
     | Some (y, ys) \<Rightarrow> (case take_all P ys of (zs, rest) \<Rightarrow> (y # zs, rest)))"
  by auto
termination
  by (relation "measure (\<lambda>(P, xs). length xs)") (auto dest: take_first_length)

declare take_all.simps [simp del]

fun address_subnets ::
  "ip \<Rightarrow> ip \<Rightarrow> string list \<Rightarrow> string list \<Rightarrow> ipnet list \<Rightarrow> Route list \<Rightarrow> ciSubnet list \<times> Route list" where
  "address_subnets gateway4 gateway6 dns domains [] routes = ([], routes)"
| "address_subnets gateway4 gateway6 dns domains (addr # addrs) routes =
     (case take_all (\<lambda>r. net_contains addr (rt_Gateway r)) routes of (mine, routes) \<Rightarrow>
      case address_subnets gateway4 gateway6 dns domains addrs routes of (subnets, routes) \<Rightarrow>
      ((blank_subnet ''static'')\<lparr>sn_Address := ipnet_string addr, sn_Gateway := subnet_gateway addr gateway4 gateway6,
         sn_DNSNameservers := dns, sn_DNSSearch := domains, sn_Routes := map text_route mine\<rparr> # subnets, routes))"

text \<open>Values without repetitions, in the order of their first occurrences.\<close>

definition add_new :: "'a \<Rightarrow> 'a list \<Rightarrow> 'a list" where
  "add_new x xs = (if x \<in> set xs then xs else xs @ [x])"

definition distinct_values :: "'a list \<Rightarrow> 'a list" where
  "distinct_values xs = fold add_new xs []"

definition v1_routes_of :: "ciConfig \<Rightarrow> Route list" where
  "v1_routes_of c = concat (map (\<lambda>s. fst (subnet_routes (sn_Routes s) None)) (cc_Subnets c))"

definition add_stray :: "Route list \<Rightarrow> ciSubnet list \<Rightarrow> ciSubnet list" where
  "add_stray routes ss = (case ss of [] \<Rightarrow> []
     | s # ss \<Rightarrow> s\<lparr>sn_Routes := sn_Routes s @ map text_route routes\<rparr> # ss)"

definition v1_set_addresses :: "ipnet list \<Rightarrow> ip \<Rightarrow> ip \<Rightarrow> ciConfig \<Rightarrow> ciConfig" where
  "v1_set_addresses addrs gateway4 gateway6 c =
     (case address_subnets gateway4 gateway6 (distinct_values (concat (map sn_DNSNameservers (cc_Subnets c))))
        (distinct_values (concat (map sn_DNSSearch (cc_Subnets c)))) addrs (v1_routes_of c) of (subnets, stray) \<Rightarrow>
      c\<lparr>cc_Subnets := add_stray stray subnets\<rparr>)"

definition ciDHCPSubnetTypes :: "(string \<times> bool) list" where
  "ciDHCPSubnetTypes = [(''dhcp'', True), (''dhcp4'', True), (''dhcp6'', False), (''ipv6_dhcpv6-stateful'', False),
     (''ipv6_dhcpv6-stateless'', False)]"

definition v1_set_dhcp :: "bool \<Rightarrow> bool \<Rightarrow> ciConfig \<Rightarrow> ciConfig" where
  "v1_set_dhcp dhcp4 dhcp6 c = c\<lparr>cc_Subnets :=
     (if dhcp4 then [blank_subnet ''dhcp4''] else []) @ (if dhcp6 then [blank_subnet ''dhcp6''] else [])
     @ filter (\<lambda>s. map_of ciDHCPSubnetTypes (sn_Type s) = None) (cc_Subnets c)\<rparr>"

text \<open>
  Routes go to the first subnet found that contains their gateway, or to the first one. The
  networks are kept in a map from subnet positions, which Go iterates in any order: \<open>ord\<close>
  gives the order for each route of each configuration.
\<close>

definition subnet_nets :: "ciSubnet list \<Rightarrow> (nat \<times> ipnet) list" where
  "subnet_nets ss = List.map_filter (\<lambda>(k, s). if sn_Type s \<noteq> ''static'' then None
       else map_option (Pair k) (fst (cidr_net (sn_Address s) (sn_Netmask s) None))) (enumerate 0 ss)"

definition route_subnet :: "(nat \<times> ipnet) list \<Rightarrow> Route \<Rightarrow> nat" where
  "route_subnet nets r = (case find (\<lambda>(k, n). net_contains n (rt_Gateway r)) nets of None \<Rightarrow> 0 | Some (k, _) \<Rightarrow> k)"

type_synonym map_order = "nat \<Rightarrow> (nat \<times> ipnet) list \<Rightarrow> (nat \<times> ipnet) list"

fun add_v1_routes :: "map_order \<Rightarrow> nat \<Rightarrow> (nat \<times> ipnet) list \<Rightarrow> Route list \<Rightarrow> ciSubnet list \<Rightarrow> ciSubnet list" where
  "add_v1_routes ord k nets [] ss = ss"
| "add_v1_routes ord k nets (r # rs) ss =
     (let idx = route_subnet (ord k nets) r; s = ss ! idx in
      add_v1_routes ord (Suc k) nets rs (ss[idx := s\<lparr>sn_Routes := sn_Routes s @ [text_route r]\<rparr>]))"

definition v1_set_routes :: "map_order \<Rightarrow> Route list \<Rightarrow> ciConfig \<Rightarrow> ciConfig result" where
  "v1_set_routes ord routes c =
     (if cc_Subnets c = [] then Inl (Errorf ''no subnets on interface'')
      else Inr (c\<lparr>cc_Subnets := add_v1_routes ord 0 (subnet_nets (cc_Subnets c)) routes
        (map (\<lambda>s. s\<lparr>sn_Routes := []\<rparr>) (cc_Subnets c))\<rparr>))"

fun v1_route_configs ::
  "(nat \<Rightarrow> map_order) \<Rightarrow> string \<Rightarrow> Route list \<Rightarrow> nat \<Rightarrow> ciConfig list \<Rightarrow> unit result \<times> ciConfig list" where
  "v1_route_configs ord iface routes k [] = (Inr (), [])"
| "v1_route_configs ord iface routes k (c # cs) =
     (if v1_kind c \<and> cc_Name c = iface then
        (case v1_set_routes (ord k) routes c of
           Inl e \<Rightarrow> (Inl e, c # cs)
         | Inr c \<Rightarrow> (case v1_route_configs ord iface routes (Suc k) cs of (r, cs) \<Rightarrow> (r, c # cs)))
      else case v1_route_configs ord iface routes (Suc k) cs of (r, cs) \<Rightarrow> (r, c # cs))"

definition v1_set_dns :: "ip list \<Rightarrow> string list \<Rightarrow> ciConfig \<Rightarrow> ciConfig" where
  "v1_set_dns servers searchDomains c = c\<lparr>cc_Subnets :=
     map (\<lambda>s. s\<lparr>sn_DNSNameservers := ipStrings servers, sn_DNSSearch := searchDomains\<rparr>) (cc_Subnets c)\<rparr>"

section \<open>Operations\<close>

definition save_network :: "ci_libs \<Rightarrow> (ciNetwork \<Rightarrow> ciNetwork) \<Rightarrow> cloudInit op" where
  "save_network lib f s = (case s of (ci, w) \<Rightarrow>
     let ci = ci\<lparr>ci_Network := f (ci_Network ci)\<rparr> in
     case ci_Save lib ci w of (r, w) \<Rightarrow> (r, ci, w))"

definition ci_SetIfaceAddresses :: "ci_libs \<Rightarrow> string \<Rightarrow> ipnet list \<Rightarrow> ip \<Rightarrow> ip \<Rightarrow> cloudInit op" where
  "ci_SetIfaceAddresses lib iface addrs gateway4 gateway6 = save_network lib
     (\<lambda>n. change_v2 iface (yi_set_addresses addrs gateway4 gateway6) (on_v1 iface (v1_set_addresses addrs gateway4 gateway6) n))"

definition ci_SetIfaceDHCP :: "ci_libs \<Rightarrow> string \<Rightarrow> bool \<Rightarrow> bool \<Rightarrow> cloudInit op" where
  "ci_SetIfaceDHCP lib iface dhcp4 dhcp6 = save_network lib
     (\<lambda>n. change_v2 iface (yi_setDHCP dhcp4 dhcp6) (on_v1 iface (v1_set_dhcp dhcp4 dhcp6) n))"

definition ci_route :: "Route \<Rightarrow> yamlRoute" where
  "ci_route r = \<lparr>yr_To = dest_string (rt_Destination r), yr_Via = ip_string (rt_Gateway r), yr_Metric = Some (rt_Metric r)\<rparr>"

definition ci_SetIfaceRoutes :: "ci_libs \<Rightarrow> (nat \<Rightarrow> map_order) \<Rightarrow> string \<Rightarrow> Route list \<Rightarrow> cloudInit op" where
  "ci_SetIfaceRoutes lib ord iface routes s = (case s of (ci, w) \<Rightarrow>
     case v1_route_configs ord iface routes 0 (cn_Configs (ci_Network ci)) of (r, cs) \<Rightarrow>
     let n = (ci_Network ci)\<lparr>cn_Configs := cs\<rparr> in
     case r of
       Inl e \<Rightarrow> (Inl e, ci\<lparr>ci_Network := n\<rparr>, w)
     | Inr _ \<Rightarrow> save_network lib (\<lambda>_. change_v2 iface (yi_set_routes ci_route routes) n) (ci, w))"

definition ci_SetIfaceDNS :: "ci_libs \<Rightarrow> string \<Rightarrow> ip list \<Rightarrow> string list \<Rightarrow> cloudInit op" where
  "ci_SetIfaceDNS lib iface servers searchDomains = save_network lib
     (\<lambda>n. change_v2 iface (yi_set_dns servers searchDomains) (on_v1 iface (v1_set_dns servers searchDomains) n))"

end
