(* ===== verification/CloudInitDedupe.thy ===== *)
theory CloudInitDedupe
  imports CloudInit
begin

text \<open>
  Repeated keys: what \<open>dedupeMappingKeys\<close> leaves has no repeated key and reads the way a loader
  reads that keeps the last value of a key.
\<close>

section \<open>The reference\<close>

definition is_key :: "string \<Rightarrow> ynode \<Rightarrow> bool" where
  "is_key k n \<longleftrightarrow> yn_kind n = ScalarNode \<and> yn_value n = k"

fun last_value :: "string \<Rightarrow> (ynode \<times> ynode) list \<Rightarrow> ynode option" where
  "last_value k [] = None"
| "last_value k (kv # r) = (case last_value k r of
       Some v \<Rightarrow> Some v
     | None \<Rightarrow> if is_key k (fst kv) then Some (snd kv) else None)"

text \<open>The node at a path of keys, for a loader that keeps the last value.\<close>

fun py_get :: "ynode \<Rightarrow> string list \<Rightarrow> ynode option" where
  "py_get n [] = Some n"
| "py_get n (k # ks) =
     (if yn_kind n = MappingNode then Option.bind (last_value k (node_pairs (yn_content n))) (\<lambda>v. py_get v ks) else None)"

definition scalar_keys :: "(ynode \<times> ynode) list \<Rightarrow> string list" where
  "scalar_keys ps = map yn_value (filter (\<lambda>k. yn_kind k = ScalarNode) (map fst ps))"

text \<open>No mapping has a repeated key, so that a strict decoder accepts the document.\<close>

fun unique_keys :: "ynode \<Rightarrow> bool" where
  "unique_keys (YNode k s c) \<longleftrightarrow> (k \<noteq> MappingNode \<or> distinct (scalar_keys (node_pairs c))) \<and> list_all unique_keys c"

section \<open>Pairs\<close>

lemma scalar_keys_simps [simp]:
  "scalar_keys [] = []"
  "scalar_keys (kv # ps) = (if yn_kind (fst kv) = ScalarNode then yn_value (fst kv) # scalar_keys ps else scalar_keys ps)"
  by (simp_all add: scalar_keys_def)

lemma node_pairs_map_flat: "node_pairs (map f (flat_pairs ps)) = map (map_prod f f) ps"
  by (induction ps) (auto simp: flat_pairs_def)

lemma same_key_iff: "same_key k j \<longleftrightarrow> yn_kind k = ScalarNode \<and> is_key (yn_value k) j"
  by (auto simp: same_key_def is_key_def)

lemma list_ex_same_key: "list_ex (\<lambda>jv. same_key k (fst jv)) ps \<longleftrightarrow> yn_kind k = ScalarNode \<and> yn_value k \<in> set (scalar_keys ps)"
  by (auto simp: list_ex_iff same_key_def scalar_keys_def image_iff)

lemma keep_last_keys: "set (scalar_keys (keep_last ps)) = set (scalar_keys ps)"
proof (induction ps)
  case (Cons kv ps)
  then show ?case by (auto simp: list_ex_same_key)
qed simp

lemma keep_last_distinct: "distinct (scalar_keys (keep_last ps))"
proof (induction ps)
  case (Cons kv ps)
  then show ?case using keep_last_keys [of ps] by (auto simp: list_ex_same_key)
qed simp

lemma keep_last_id: "distinct (scalar_keys ps) \<Longrightarrow> keep_last ps = ps"
proof (induction ps)
  case (Cons kv ps)
  then show ?case by (auto simp: list_ex_same_key split: if_splits)
qed simp

lemma last_value_None: "last_value k ps = None \<longleftrightarrow> k \<notin> set (scalar_keys ps)"
  by (induction ps) (auto simp: is_key_def split: option.splits)

lemma last_value_keep_last: "last_value k (keep_last ps) = last_value k ps"
proof (induction ps)
  case (Cons kv ps)
  then show ?case
    using last_value_None [of "yn_value (fst kv)" ps]
    by (auto simp: list_ex_same_key is_key_def split: option.splits)
qed simp

lemma last_value_map:
  assumes "\<forall>n. yn_kind (f n) = yn_kind n \<and> yn_value (f n) = yn_value n"
  shows "last_value k (map (map_prod f g) ps) = map_option g (last_value k ps)"
  using assms by (induction ps) (auto simp: is_key_def split: option.splits)

lemma scalar_keys_map:
  assumes "\<forall>n. yn_kind (f n) = yn_kind n \<and> yn_value (f n) = yn_value n"
  shows "scalar_keys (map (map_prod f g) ps) = scalar_keys ps"
  using assms by (induction ps) auto

section \<open>Documents\<close>

lemma dedupe_fields [simp]: "yn_kind (dedupeMappingKeys n) = yn_kind n" "yn_value (dedupeMappingKeys n) = yn_value n"
  by (cases n; simp)+

lemma dedupe_pairs:
  "yn_kind n = MappingNode \<Longrightarrow> node_pairs (yn_content (dedupeMappingKeys n))
    = map (map_prod dedupeMappingKeys dedupeMappingKeys) (keep_last (node_pairs (yn_content n)))"
  by (cases n) (simp add: dedupe_content_def node_pairs_map_flat)

lemma dedupe_unique: "unique_keys (dedupeMappingKeys n)"
proof (induction n rule: dedupeMappingKeys.induct)
  case (1 k s c)
  have "distinct (scalar_keys (node_pairs (map dedupeMappingKeys (dedupe_content k c))))" if "k = MappingNode"
    using that by (simp add: dedupe_content_def node_pairs_map_flat scalar_keys_map keep_last_distinct)
  then show ?case using 1 by (auto simp: list_all_iff)
qed

lemma dedupe_get: "py_get (dedupeMappingKeys n) path = map_option dedupeMappingKeys (py_get n path)"
proof (induction path arbitrary: n)
  case (Cons k path)
  show ?case
  proof (cases "yn_kind n = MappingNode")
    case True
    then have "last_value k (node_pairs (yn_content (dedupeMappingKeys n)))
        = map_option dedupeMappingKeys (last_value k (node_pairs (yn_content n)))"
      by (simp add: dedupe_pairs last_value_map last_value_keep_last)
    then show ?thesis using True Cons by (cases "last_value k (node_pairs (yn_content n))") simp_all
  qed simp
qed simp

text \<open>A document with no repeated key is left as it is, up to a key without a value at its end.\<close>

fun paired :: "ynode \<Rightarrow> bool" where
  "paired (YNode k s c) \<longleftrightarrow> (k \<noteq> MappingNode \<or> even (length c)) \<and> list_all paired c"

lemma flat_node_pairs: "even (length c) \<Longrightarrow> flat_pairs (node_pairs c) = c"
  by (induction c rule: node_pairs.induct) (auto simp: flat_pairs_def)

lemma dedupe_id: "unique_keys n \<Longrightarrow> paired n \<Longrightarrow> dedupeMappingKeys n = n"
proof (induction n rule: dedupeMappingKeys.induct)
  case (1 k s c)
  have c: "dedupe_content k c = c"
    using 1(2,3) by (auto simp: dedupe_content_def keep_last_id flat_node_pairs)
  have "dedupeMappingKeys x = x" if "x \<in> set c" for x
    using 1 that c by (auto simp: list_all_iff)
  then have "map dedupeMappingKeys c = c" by (simp add: map_idI)
  then show ?case by (simp add: c)
qed

text \<open>
  C28. \<open>dedupeMappingKeys\<close> gives every document the meaning it has for a loader that keeps the
  last value of a repeated key, and a form in which no key is repeated: looking up any path
  gives the result of the original, deduplicated itself; every mapping has distinct keys; and a
  document that has no repeated key is not changed.
\<close>

theorem dedupe_last_wins:
  "py_get (dedupeMappingKeys n) path = map_option dedupeMappingKeys (py_get n path)
   \<and> unique_keys (dedupeMappingKeys n)
   \<and> (if unique_keys n \<and> paired n then dedupeMappingKeys n = n else True)"
  using dedupe_get dedupe_unique dedupe_id by simp

end
