(* ===== verification/CloudInitLaws.thy ===== *)
theory CloudInitLaws
  imports CloudInit YamlLaws SaveLaws
begin

text \<open>
  The cloud-init backend: what is read back after a change of a version 1 configuration, where
  routes go, and saving.
\<close>

section \<open>Moving routes to subnets\<close>

lemma take_first_None: "take_first P xs = None \<longleftrightarrow> filter P xs = []"
  by (induction xs) auto

lemma take_all_partition: "take_all P xs = (filter P xs, filter (\<lambda>x. \<not> P x) xs)"
proof (induction P xs rule: take_all.induct)
  case (1 P xs)
  show ?case
  proof (cases "take_first P xs")
    case None
    then have "filter P xs = []" by (simp add: take_first_None)
    then have "filter (\<lambda>x. \<not> P x) xs = xs" by (simp add: filter_empty_conv)
    then show ?thesis using None \<open>filter P xs = []\<close> by (subst take_all.simps) simp
  next
    case (Some z)
    then obtain y ys where z: "z = (y, ys)" "filter P xs = y # filter P ys" "P y" "filter (\<lambda>x. \<not> P x) ys = filter (\<lambda>x. \<not> P x) xs"
    proof -
      have "take_first P xs = Some (y, ys) \<Longrightarrow> filter P xs = y # filter P ys \<and> P y \<and> filter (\<lambda>x. \<not> P x) ys = filter (\<lambda>x. \<not> P x) xs"
        for y ys by (induction xs arbitrary: ys) (auto split: if_splits)
      then show ?thesis using Some that by (cases z) blast
    qed
    have "take_all P ys = (filter P ys, filter (\<lambda>x. \<not> P x) ys)" using 1 [OF Some z(1) [symmetric]] .
    then show ?thesis using Some z by (subst take_all.simps) simp
  qed
qed

definition built :: "ip \<Rightarrow> ip \<Rightarrow> string list \<Rightarrow> string list \<Rightarrow> ipnet \<times> Route list \<Rightarrow> ciSubnet" where
  "built gateway4 gateway6 dns domains p = (blank_subnet ''static'')\<lparr>sn_Address := ipnet_string (fst p),
     sn_Gateway := subnet_gateway (fst p) gateway4 gateway6, sn_DNSNameservers := dns, sn_DNSSearch := domains,
     sn_Routes := map text_route (snd p)\<rparr>"

lemma address_subnets_built:
  "\<exists>ps stray. address_subnets gateway4 gateway6 dns domains addrs routes = (map (built gateway4 gateway6 dns domains) ps, stray)
    \<and> map fst ps = addrs \<and> mset (concat (map snd ps)) + mset stray = mset routes"
proof (induction addrs arbitrary: routes)
  case (Cons addr addrs)
  let ?P = "\<lambda>r. net_contains addr (rt_Gateway r)"
  obtain ps stray where IH: "address_subnets gateway4 gateway6 dns domains addrs (filter (\<lambda>r. \<not> ?P r) routes)
      = (map (built gateway4 gateway6 dns domains) ps, stray)"
    "map fst ps = addrs" "mset (concat (map snd ps)) + mset stray = mset (filter (\<lambda>r. \<not> ?P r) routes)"
    using Cons by blast
  have "mset (filter ?P routes) + mset (filter (\<lambda>r. \<not> ?P r) routes) = mset routes"
    by (metis mset_filter multiset_partition)
  then show ?case
    using IH by (intro exI [of _ "(addr, filter ?P routes) # ps"] exI [of _ stray]) (simp add: take_all_partition built_def add.assoc)
qed simp

lemma v1_set_addresses_built:
  assumes "addrs \<noteq> []"
  shows "\<exists>ps. v1_set_addresses addrs gateway4 gateway6 c = c\<lparr>cc_Subnets := map (built gateway4 gateway6
       (distinct_values (concat (map sn_DNSNameservers (cc_Subnets c))))
       (distinct_values (concat (map sn_DNSSearch (cc_Subnets c))))) ps\<rparr>
    \<and> map fst ps = addrs \<and> mset (concat (map snd ps)) = mset (v1_routes_of c)"
proof -
  let ?b = "built gateway4 gateway6 (distinct_values (concat (map sn_DNSNameservers (cc_Subnets c))))
       (distinct_values (concat (map sn_DNSSearch (cc_Subnets c))))"
  obtain ps stray where ps: "address_subnets gateway4 gateway6 (distinct_values (concat (map sn_DNSNameservers (cc_Subnets c))))
       (distinct_values (concat (map sn_DNSSearch (cc_Subnets c)))) addrs (v1_routes_of c) = (map ?b ps, stray)"
    "map fst ps = addrs" "mset (concat (map snd ps)) + mset stray = mset (v1_routes_of c)"
    using address_subnets_built by blast
  obtain a rs ps' where p: "ps = (a, rs) # ps'" using ps(2) assms by (cases ps) auto
  have "add_stray stray (map ?b ps) = map ?b ((a, rs @ stray) # ps')"
    by (simp add: p add_stray_def built_def)
  then have "v1_set_addresses addrs gateway4 gateway6 c = c\<lparr>cc_Subnets := map ?b ((a, rs @ stray) # ps')\<rparr>"
    using ps(1) by (simp add: v1_set_addresses_def)
  moreover have "map fst ((a, rs @ stray) # ps') = addrs" using ps(2) by (simp add: p)
  moreover have "mset (concat (map snd ((a, rs @ stray) # ps'))) = mset (v1_routes_of c)"
    using ps(3) by (simp add: p ac_simps)
  ultimately show ?thesis by blast
qed

section \<open>Reading a version 1 configuration\<close>

lemma subnet_routes_err: "fst (subnet_routes rs err) = fst (subnet_routes rs err')"
proof (induction rs arbitrary: err err')
  case (Cons r rs)
  have "fst (subnet_route r err) = fst (subnet_route r err')"
    by (auto simp: subnet_route_def cidr_net_def Let_def split: option.splits)
  then show ?case using Cons by (simp split: prod.splits) (metis fst_conv)
qed simp

lemma read_subnet_fields:
  assumes "read_subnet s (i, err) = (i', err')"
  shows "if_Routes i' = if_Routes i @ fst (subnet_routes (sn_Routes s) None)"
    and "if_DNS i' = if_DNS i @ filter (\<lambda>a. a \<noteq> []) (map ParseIP (sn_DNSNameservers s))"
    and "if_SearchDomains i' = if_SearchDomains i @ sn_DNSSearch s"
    and "if_DHCP4 i' \<longleftrightarrow> if_DHCP4 i \<or> sn_Type s \<in> set dhcp4_types"
    and "if_DHCP6 i' \<longleftrightarrow> if_DHCP6 i \<or> sn_Type s \<in> set dhcp6_types"
    and "(if_Name i', if_MAC i', if_Link i') = (if_Name i, if_MAC i, if_Link i)"
  using assms subnet_routes_err [of "sn_Routes s" err None]
  by (auto simp: read_subnet_def take_static_def Let_def split: prod.splits if_splits option.splits)

lemma read_subnets_fields:
  "fold read_subnet ss (i, err) = (i', err') \<Longrightarrow>
     if_Routes i' = if_Routes i @ concat (map (\<lambda>s. fst (subnet_routes (sn_Routes s) None)) ss)
   \<and> if_DNS i' = if_DNS i @ filter (\<lambda>a. a \<noteq> []) (map ParseIP (concat (map sn_DNSNameservers ss)))
   \<and> if_SearchDomains i' = if_SearchDomains i @ concat (map sn_DNSSearch ss)
   \<and> (if_DHCP4 i' \<longleftrightarrow> if_DHCP4 i \<or> list_ex (\<lambda>s. sn_Type s \<in> set dhcp4_types) ss)
   \<and> (if_DHCP6 i' \<longleftrightarrow> if_DHCP6 i \<or> list_ex (\<lambda>s. sn_Type s \<in> set dhcp6_types) ss)
   \<and> (if_Name i', if_MAC i', if_Link i') = (if_Name i, if_MAC i, if_Link i)"
proof (induction ss arbitrary: i err)
  case (Cons s ss)
  obtain j e where s: "read_subnet s (i, err) = (j, e)" by fastforce
  then show ?case using Cons.IH [of j e] Cons.prems read_subnet_fields [OF s] by simp
qed simp

section \<open>Reading what was written\<close>

lemma slash_ipnet_string: "valid_net n \<Longrightarrow> CHR ''/'' \<in> set (ipnet_string n)"
  by (simp add: ipnet_string_valid)

lemma cidr_net_string: "valid_net n \<Longrightarrow> cidr_net (ipnet_string n) [] err = (Some (norm_net n), None)"
  by (simp add: cidr_net_def slash_ipnet_string ParseCIDR_ipnet_string)

lemma ParseIP_Nil [simp]: "ParseIP [] = []"
  by code_simp

lemma subnet_route_text:
  "valid_ip (rt_Gateway r) \<Longrightarrow> rt_Destination r = Some d \<Longrightarrow> valid_net d \<Longrightarrow>
     subnet_route (text_route r) err = (Some (read_route_back r), None)"
  by (simp add: subnet_route_def text_route_def dest_string_def cidr_net_string ParseIP_ip_string read_route_back_def
      valid_ip_not_Nil Let_def)
    (metis length_0_conv valid_ip_To16 zero_neq_numeral)

lemma subnet_routes_text:
  "routes_ok rs \<Longrightarrow> subnet_routes (map text_route rs) err = (map read_route_back rs, if rs = [] then err else None)"
  by (induction rs arbitrary: err) (auto simp: routes_ok_def subnet_route_text split: option.splits)

lemma net_contains_family:
  assumes "valid_net a" and "net_contains a g"
  shows "is_v4 g = is_v4 (net_ip a)" and "g \<noteq> []"
  using assms To4_length
  by (auto simp: net_contains_def valid_net_number Let_def is_v4_def valid_net_def valid_ip_def split: if_splits)
    (auto simp: To4_def split: if_splits)

definition family_gateways :: "ip \<Rightarrow> ip \<Rightarrow> bool" where
  "family_gateways gateway4 gateway6 \<longleftrightarrow> gateway_valid gateway4 \<and> gateway_valid gateway6
     \<and> (gateway4 = [] \<or> is_v4 gateway4) \<and> \<not> is_v4 gateway6"

definition reached :: "ipnet list \<Rightarrow> ip \<Rightarrow> bool" where
  "reached addrs g \<longleftrightarrow> list_ex (\<lambda>a. net_contains a g) addrs"

lemma take_static_built:
  assumes "valid_net (fst p)" and "family_gateways gateway4 gateway6"
  shows "take_static (built gateway4 gateway6 dns domains p) n i = i\<lparr>if_Addresses := if_Addresses i @ [n],
     if_Gateway4 := (if net_contains (fst p) gateway4 then To16 gateway4 else if_Gateway4 i),
     if_Gateway6 := (if net_contains (fst p) gateway6 then To16 gateway6 else if_Gateway6 i)\<rparr>"
proof -
  let ?a = "fst p"
  note f = net_contains_family [OF assms(1)]
  have v: "valid_ip g" "ParseIP (ip_string g) = To16 g" "To16 g \<noteq> []" "To4 (To16 g) = [] \<longleftrightarrow> \<not> is_v4 g"
    if "net_contains ?a g" "gateway_valid g" for g
  proof -
    show g: "valid_ip g" using f(2) [OF that(1)] that(2) by (simp add: gateway_valid_def)
    then show "ParseIP (ip_string g) = To16 g" by (rule ParseIP_ip_string)
    show "To16 g \<noteq> []" using valid_ip_To16 [OF g] by (cases "To16 g") simp_all
    show "To4 (To16 g) = [] \<longleftrightarrow> \<not> is_v4 g" using is_v4_To16 [OF g] by (simp add: is_v4_def)
  qed
  consider (four) "net_contains ?a gateway4" | (six) "\<not> net_contains ?a gateway4" "net_contains ?a gateway6"
    | (none) "\<not> net_contains ?a gateway4" "\<not> net_contains ?a gateway6" by blast
  then show ?thesis
  proof cases
    case four
    then have "\<not> net_contains ?a gateway6" using f assms(2) unfolding family_gateways_def by metis
    moreover have "is_v4 gateway4" using four f(2) assms(2) by (auto simp: family_gateways_def)
    ultimately show ?thesis
      using four v [OF four] assms(2) by (simp add: take_static_def built_def subnet_gateway_def family_gateways_def Let_def)
  next
    case six
    then show ?thesis
      using v [OF six(2)] assms(2) by (simp add: take_static_def built_def subnet_gateway_def family_gateways_def Let_def)
  next
    case none
    then show ?thesis by (simp add: take_static_def built_def subnet_gateway_def Let_def)
  qed
qed

lemma read_built:
  assumes "valid_net (fst p)" and "family_gateways gateway4 gateway6" and "routes_ok (snd p)"
  shows "\<exists>j. read_subnet (built gateway4 gateway6 dns domains p) (i, err) = (j, None)
    \<and> if_Addresses j = if_Addresses i @ [norm_net (fst p)]
    \<and> if_Gateway4 j = (if net_contains (fst p) gateway4 then To16 gateway4 else if_Gateway4 i)
    \<and> if_Gateway6 j = (if net_contains (fst p) gateway6 then To16 gateway6 else if_Gateway6 i)"
proof -
  have s: "sn_Type (built gateway4 gateway6 dns domains p) = ''static''"
    "sn_Address (built gateway4 gateway6 dns domains p) = ipnet_string (fst p)"
    "sn_Netmask (built gateway4 gateway6 dns domains p) = []"
    "sn_Routes (built gateway4 gateway6 dns domains p) = map text_route (snd p)"
    by (simp_all add: built_def blank_subnet_def)
  show ?thesis
    by (simp add: read_subnet_def s subnet_routes_text [OF assms(3)] cidr_net_string [OF assms(1)] take_static_built [OF assms(1,2)])
qed

lemma read_builts:
  assumes "\<forall>p\<in>set ps. valid_net (fst p) \<and> routes_ok (snd p)" and "family_gateways gateway4 gateway6"
  shows "\<exists>j. fold read_subnet (map (built gateway4 gateway6 dns domains) ps) (i, err) = (j, if ps = [] then err else None)
    \<and> if_Addresses j = if_Addresses i @ map norm_net (map fst ps)
    \<and> if_Gateway4 j = (if reached (map fst ps) gateway4 then To16 gateway4 else if_Gateway4 i)
    \<and> if_Gateway6 j = (if reached (map fst ps) gateway6 then To16 gateway6 else if_Gateway6 i)"
  using assms(1)
proof (induction ps arbitrary: i err)
  case (Cons p ps)
  obtain k where k: "read_subnet (built gateway4 gateway6 dns domains p) (i, err) = (k, None)"
    "if_Addresses k = if_Addresses i @ [norm_net (fst p)]"
    "if_Gateway4 k = (if net_contains (fst p) gateway4 then To16 gateway4 else if_Gateway4 i)"
    "if_Gateway6 k = (if net_contains (fst p) gateway6 then To16 gateway6 else if_Gateway6 i)"
    using read_built [OF _ assms(2)] Cons.prems by (meson list.set_intros(1))
  then show ?case using Cons.IH [of k None] Cons.prems by (auto simp: reached_def)
qed (simp add: reached_def)

lemma routes_ok_mset: "mset rs = mset qs \<Longrightarrow> routes_ok rs = routes_ok qs"
  unfolding routes_ok_def list_all_iff by (metis set_mset_mset)

lemma routes_ok_concat: "routes_ok (concat rss) \<longleftrightarrow> (\<forall>rs\<in>set rss. routes_ok rs)"
  by (auto simp: routes_ok_def list_all_iff)

lemma set_distinct_values: "set (distinct_values xs) = set xs"
proof -
  have "set (fold add_new xs ys) = set xs \<union> set ys" for ys
    by (induction xs arbitrary: ys) (auto simp: add_new_def)
  then show ?thesis by (simp add: distinct_values_def)
qed

section \<open>Properties of version 1\<close>

lemma v1_interface_fields:
  assumes "v1_interface links c err = (i, e)"
  shows "if_Routes i = v1_routes_of c"
    and "if_DNS i = filter (\<lambda>a. a \<noteq> []) (map ParseIP (concat (map sn_DNSNameservers (cc_Subnets c))))"
    and "if_SearchDomains i = concat (map sn_DNSSearch (cc_Subnets c))"
    and "if_DHCP4 i \<longleftrightarrow> list_ex (\<lambda>s. sn_Type s \<in> set dhcp4_types) (cc_Subnets c)"
    and "if_DHCP6 i \<longleftrightarrow> list_ex (\<lambda>s. sn_Type s \<in> set dhcp6_types) (cc_Subnets c)"
    and "(if_Name i, if_MAC i, if_Link i) = (cc_Name c, link_mac (cc_Name c) (cc_MACAddress c) links)"
proof -
  obtain mac l where m: "link_mac (cc_Name c) (cc_MACAddress c) links = (mac, l)" by fastforce
  have "fold read_subnet (cc_Subnets c) ((new_interface (cc_Name c))\<lparr>if_MAC := mac, if_Link := l\<rparr>, err) = (i, e)"
    using assms by (simp add: v1_interface_def m)
  note f = read_subnets_fields [OF this]
  show "if_Routes i = v1_routes_of c"
    "if_DNS i = filter (\<lambda>a. a \<noteq> []) (map ParseIP (concat (map sn_DNSNameservers (cc_Subnets c))))"
    "if_SearchDomains i = concat (map sn_DNSSearch (cc_Subnets c))"
    "if_DHCP4 i \<longleftrightarrow> list_ex (\<lambda>s. sn_Type s \<in> set dhcp4_types) (cc_Subnets c)"
    "if_DHCP6 i \<longleftrightarrow> list_ex (\<lambda>s. sn_Type s \<in> set dhcp6_types) (cc_Subnets c)"
    "(if_Name i, if_MAC i, if_Link i) = (cc_Name c, link_mac (cc_Name c) (cc_MACAddress c) links)"
    using f by (simp_all add: new_interface_def v1_routes_of_def m)
qed

text \<open>
  C29. Addresses set on a version 1 configuration are read back, with each gateway that one of
  them reaches; the routes, resolvers and search domains of the old subnets are all kept,
  every route exactly once, and so is the identity of the interface.
\<close>

theorem cloudinit_addresses_roundtrip:
  assumes "addrs \<noteq> []" and "\<forall>a\<in>set addrs. valid_net a" and "family_gateways gateway4 gateway6"
    and "routes_ok (v1_routes_of c)" and "v1_interface links c err = (i, e)"
    and "v1_interface links (v1_set_addresses addrs gateway4 gateway6 c) err' = (i', e')"
  shows "e' = None \<and> if_Addresses i' = map norm_net addrs
    \<and> if_Gateway4 i' = (if reached addrs gateway4 then To16 gateway4 else [])
    \<and> if_Gateway6 i' = (if reached addrs gateway6 then To16 gateway6 else [])
    \<and> mset (if_Routes i') = mset (map read_route_back (if_Routes i))
    \<and> set (if_DNS i') = set (if_DNS i) \<and> set (if_SearchDomains i') = set (if_SearchDomains i)
    \<and> (if_Name i', if_MAC i', if_Link i') = (if_Name i, if_MAC i, if_Link i)"
proof -
  let ?dns = "distinct_values (concat (map sn_DNSNameservers (cc_Subnets c)))"
  let ?dom = "distinct_values (concat (map sn_DNSSearch (cc_Subnets c)))"
  let ?c = "v1_set_addresses addrs gateway4 gateway6 c" and ?b = "built gateway4 gateway6 ?dns ?dom"
  obtain ps where ps: "?c = c\<lparr>cc_Subnets := map ?b ps\<rparr>" "map fst ps = addrs" "mset (concat (map snd ps)) = mset (v1_routes_of c)"
    using v1_set_addresses_built [OF assms(1)] by blast
  have ne: "ps \<noteq> []" using ps(2) assms(1) by auto
  have ok: "routes_ok (concat (map snd ps))" using assms(4) routes_ok_mset [OF ps(3)] by simp
  have all: "\<forall>p\<in>set ps. valid_net (fst p) \<and> routes_ok (snd p)"
    using assms(2) ok by (auto simp: routes_ok_concat simp flip: ps(2))
  obtain mac l where m: "link_mac (cc_Name c) (cc_MACAddress c) links = (mac, l)" by fastforce
  let ?i0 = "(new_interface (cc_Name c))\<lparr>if_MAC := mac, if_Link := l\<rparr>"
  have f: "fold read_subnet (map ?b ps) (?i0, err') = (i', e')"
    using assms(6) by (simp add: v1_interface_def ps(1) m)
  obtain j where j: "fold read_subnet (map ?b ps) (?i0, err') = (j, if ps = [] then err' else None)"
    "if_Addresses j = if_Addresses ?i0 @ map norm_net (map fst ps)"
    "if_Gateway4 j = (if reached (map fst ps) gateway4 then To16 gateway4 else if_Gateway4 ?i0)"
    "if_Gateway6 j = (if reached (map fst ps) gateway6 then To16 gateway6 else if_Gateway6 ?i0)"
    using read_builts [OF all assms(3)] by blast
  have i': "i' = j" "e' = None" using f j(1) ne by simp_all
  note old = v1_interface_fields [OF assms(5)]
  note new = v1_interface_fields [OF assms(6)]
  have b: "sn_Routes (?b p) = map text_route (snd p)" "sn_DNSNameservers (?b p) = ?dns" "sn_DNSSearch (?b p) = ?dom" for p
    by (simp_all add: built_def)
  have "v1_routes_of ?c = concat (map (\<lambda>p. map read_route_back (snd p)) ps)"
    using all by (auto simp: v1_routes_of_def ps(1) b subnet_routes_text intro!: arg_cong [of _ _ concat])
  then have "v1_routes_of ?c = map read_route_back (concat (map snd ps))" by (simp add: map_concat o_def)
  then have r: "mset (if_Routes i') = mset (map read_route_back (if_Routes i))"
    using ps(3) by (simp add: old(1) new(1))
  have "set (concat (map sn_DNSNameservers (cc_Subnets ?c))) = set (concat (map sn_DNSNameservers (cc_Subnets c)))"
    using ne set_distinct_values [of "concat (map sn_DNSNameservers (cc_Subnets c))"] by (simp add: ps(1) b o_def)
  then have d: "set (if_DNS i') = set (if_DNS i)" unfolding old(2) new(2) by (simp only: set_filter list.set_map)
  have s: "set (if_SearchDomains i') = set (if_SearchDomains i)"
    using ne set_distinct_values [of "concat (map sn_DNSSearch (cc_Subnets c))"] by (simp add: old(3) new(3) ps(1) b o_def)
  have "(if_Name i', if_MAC i', if_Link i') = (if_Name i, if_MAC i, if_Link i)"
    using old(6) new(6) by (simp add: ps(1))
  then show ?thesis using r d s j(2-4) i' by (simp add: ps(2) new_interface_def)
qed

text \<open>An interface with a DHCP client, an address with a gateway, a route and a resolver.\<close>

definition lan_config :: ciConfig where
  "lan_config = \<lparr>cc_Type = ''physical'', cc_Name = ''lan0'', cc_MACAddress = ''02:00:00:00:00:01'', cc_MTU = 0, cc_AcceptRA = None,
     cc_Subnets = [blank_subnet ''dhcp'', (blank_subnet ''static'')\<lparr>sn_Address := ''10.0.0.5'', sn_Netmask := ''255.255.255.0'',
       sn_Gateway := ''10.0.0.254'', sn_DNSNameservers := [''9.9.9.9''], sn_Routes := [\<lparr>sr_Destination = ''10.7.0.0/16'',
         sr_Netmask = [], sr_Gateway = ''10.0.0.1'', sr_Metric = 5\<rparr>]\<rparr>],
     cc_BondInterfaces = [], cc_BridgeInterfaces = [], cc_Params = [], cc_VLANLink = [], cc_VLANID = 0, cc_Interface = [],
     cc_Addresses = [], cc_Search = [], cc_Destination = [], cc_Netmask = [], cc_Gateway = [], cc_Metric = 0\<rparr>"

abbreviation lan_addr :: ipnet where
  "lan_addr \<equiv> \<lparr>net_ip = [10, 0, 0, 9], net_mask = [255, 255, 255, 0]\<rparr>"

lemma cloudinit_addresses_roundtrip_witness:
  "let i = fst (v1_interface [] (v1_set_addresses [lan_addr] [10, 0, 0, 254] [] lan_config) None) in
   if_Addresses i = [norm_net lan_addr] \<and> if_Gateway4 i = To16 [10, 0, 0, 254]
   \<and> mset (if_Routes i) = mset (map read_route_back (if_Routes (fst (v1_interface [] lan_config None))))
   \<and> length (if_Routes i) = 1"
proof -
  let ?c = "v1_set_addresses [lan_addr] [10, 0, 0, 254] [] lan_config"
  have a: "[lan_addr] \<noteq> []" by simp
  have v: "\<forall>a\<in>set [lan_addr]. valid_net a" by code_simp
  have g: "family_gateways [10, 0, 0, 254] []" by code_simp
  have rt: "routes_ok (v1_routes_of lan_config)" by code_simp
  have i: "v1_interface [] lan_config None = (fst (v1_interface [] lan_config None), snd (v1_interface [] lan_config None))"
    "v1_interface [] ?c None = (fst (v1_interface [] ?c None), snd (v1_interface [] ?c None))" by simp_all
  have r: "reached [lan_addr] [10, 0, 0, 254]" by code_simp
  have l: "length (if_Routes (fst (v1_interface [] ?c None))) = 1" by code_simp
  show ?thesis
    using cloudinit_addresses_roundtrip [OF a v g rt i] r l by (simp add: Let_def)
qed

text \<open>
  Setting the addresses of a version 1 configuration removes its DHCP subnets, so that an
  interface that also used DHCP no longer does after the next boot, while the same change of a
  version 2 configuration keeps the client. With no address left the routes, resolvers and
  search domains are gone as well.
\<close>

theorem cloudinit_addresses_stop_dhcp:
  assumes "v1_interface links (v1_set_addresses addrs gateway4 gateway6 c) err = (i, e)"
  shows "\<not> if_DHCP4 i \<and> \<not> if_DHCP6 i \<and> yi_dhcpState (yi_set_addresses addrs gateway4 gateway6 y) = yi_dhcpState y
    \<and> (addrs = [] \<longrightarrow> if_Routes i = [] \<and> if_DNS i = [] \<and> if_SearchDomains i = [])"
proof (cases "addrs = []")
  case True
  then have "cc_Subnets (v1_set_addresses addrs gateway4 gateway6 c) = []"
    by (simp add: v1_set_addresses_def add_stray_def)
  then show ?thesis
    using v1_interface_fields [OF assms] by (simp add: v1_routes_of_def yi_dhcpState_def yi_set_addresses_def)
next
  case False
  then obtain ps where "v1_set_addresses addrs gateway4 gateway6 c = c\<lparr>cc_Subnets := map (built gateway4 gateway6
       (distinct_values (concat (map sn_DNSNameservers (cc_Subnets c))))
       (distinct_values (concat (map sn_DNSSearch (cc_Subnets c))))) ps\<rparr>"
    using v1_set_addresses_built [OF False] by blast
  then have "\<forall>s\<in>set (cc_Subnets (v1_set_addresses addrs gateway4 gateway6 c)). sn_Type s = ''static''"
    by (auto simp: built_def blank_subnet_def)
  then show ?thesis
    using v1_interface_fields(4,5) [OF assms] False
    by (auto simp: list_ex_iff dhcp4_types_def dhcp6_types_def yi_dhcpState_def yi_set_addresses_def)
qed

lemma cloudinit_addresses_stop_dhcp_witness:
  "if_DHCP4 (fst (v1_interface [] lan_config None))
   \<and> \<not> if_DHCP4 (fst (v1_interface [] (v1_set_addresses [lan_addr] [] [] lan_config) None))"
proof -
  have d: "if_DHCP4 (fst (v1_interface [] lan_config None))" by code_simp
  have "v1_interface [] (v1_set_addresses [lan_addr] [] [] lan_config) None
      = (fst (v1_interface [] (v1_set_addresses [lan_addr] [] [] lan_config) None),
         snd (v1_interface [] (v1_set_addresses [lan_addr] [] [] lan_config) None))" by simp
  from cloudinit_addresses_stop_dhcp [OF this] d show ?thesis by blast
qed

text \<open>
  The error of an address that cannot be parsed is returned with the interfaces when no
  later address or route is parsed: the configurator then ignores everything the backend
  reported, although the parser means to skip the address.
\<close>

theorem cloudinit_bad_address_fails:
  assumes "cn_Configs (ci_Network ci) = cs @ [c]" and "v1_kind c" and "cc_Subnets c = ss @ [s]"
    and "sn_Type s = ''static''" and "sn_Routes s = []" and "CHR ''/'' \<in> set (sn_Address s)" and "ParseCIDR (sn_Address s) = None"
  shows "snd (ci_GetInterfaces (Inr links) ci) = Some cidr_error
    \<and> cc_Name c \<in> if_Name ` set (fst (ci_GetInterfaces (Inr links) ci))"
proof -
  have last: "snd (read_subnet s st) = Some cidr_error" for st
    using assms(4-7) by (cases st) (simp add: read_subnet_def cidr_net_def)
  have c: "snd (v1_interface links c err) = Some cidr_error" for err
    by (simp add: v1_interface_def assms(3) last split: prod.split)
  have n: "if_Name (fst (v1_interface links c err)) = cc_Name c" for err
    using v1_interface_fields(6) [of links c err] by (cases "v1_interface links c err") simp
  have "snd (v1_interfaces links (cs @ [c]) err) = Some cidr_error
    \<and> cc_Name c \<in> if_Name ` set (fst (v1_interfaces links (cs @ [c]) err))" for err
  proof (induction cs arbitrary: err)
    case Nil
    then show ?case using c [of err] n [of err] assms(2) by (cases "v1_interface links c err") simp
  next
    case (Cons d ds)
    then show ?case by (simp split: prod.split) (metis fst_conv snd_conv)
  qed
  then show ?thesis
    using assms(1) by (simp add: ci_GetInterfaces_def split: prod.split) (metis UnI1 fst_conv image_Un snd_conv)
qed

definition lan_network :: ciNetwork where
  "lan_network = \<lparr>cn_Version = 1, cn_Renderer = [], cn_Ethernets = [], cn_Bridges = [], cn_Bonds = [], cn_VLANs = [],
     cn_Configs = [lan_config\<lparr>cc_Subnets := [(blank_subnet ''static'')\<lparr>sn_Address := ''10.0.0.5/33''\<rparr>]\<rparr>]\<rparr>"

definition lan_cloud :: cloudInit where
  "lan_cloud = \<lparr>ci_Network = lan_network, ci_configFiles = [\<lparr>fl_Path = ''/e/a.cfg'', fl_OnlyNetwork = False, fl_NetworkEncap = False\<rparr>,
     \<lparr>fl_Path = ''/e/b.cfg'', fl_OnlyNetwork = True, fl_NetworkEncap = False\<rparr>], ci_backupRetention = 0\<rparr>"

lemma cloudinit_bad_address_fails_witness:
  "snd (ci_GetInterfaces (Inr []) lan_cloud) = Some cidr_error
   \<and> ''lan0'' \<in> if_Name ` set (fst (ci_GetInterfaces (Inr []) lan_cloud))"
proof -
  let ?s = "(blank_subnet ''static'')\<lparr>sn_Address := ''10.0.0.5/33''\<rparr>" and ?c = "hd (cn_Configs lan_network)"
  have c: "cn_Configs (ci_Network lan_cloud) = [] @ [?c]" by (simp add: lan_cloud_def lan_network_def)
  have k: "v1_kind ?c" by code_simp
  have s: "cc_Subnets ?c = [] @ [?s]" by (simp add: lan_network_def)
  have t: "sn_Type ?s = ''static''" "sn_Routes ?s = []" "CHR ''/'' \<in> set (sn_Address ?s)" "ParseCIDR (sn_Address ?s) = None"
    by code_simp+
  have n: "cc_Name ?c = ''lan0''" by code_simp
  show ?thesis using cloudinit_bad_address_fails [OF c k s t, of "[]"] n by simp
qed

text \<open>The DHCP state of a version 1 configuration is in the types of its subnets.\<close>

definition v1_dhcp_state :: "ciConfig \<Rightarrow> bool \<times> bool" where
  "v1_dhcp_state c = (list_ex (\<lambda>s. sn_Type s \<in> set dhcp4_types) (cc_Subnets c),
     list_ex (\<lambda>s. sn_Type s \<in> set dhcp6_types) (cc_Subnets c))"

lemma v1_dhcp_state_read: "v1_interface links c err = (i, e) \<Longrightarrow> v1_dhcp_state c = (if_DHCP4 i, if_DHCP6 i)"
  using v1_interface_fields(4,5) by (simp add: v1_dhcp_state_def)

lemma v1_set_dhcp_state: "v1_dhcp_state (v1_set_dhcp d4 d6 c) = (d4, d6)"
proof -
  have "\<forall>s\<in>set (filter (\<lambda>s. map_of ciDHCPSubnetTypes (sn_Type s) = None) (cc_Subnets c)).
      sn_Type s \<notin> set dhcp4_types \<and> sn_Type s \<notin> set dhcp6_types"
    by (auto simp: ciDHCPSubnetTypes_def dhcp4_types_def dhcp6_types_def)
  then have "\<not> list_ex (\<lambda>s. sn_Type s \<in> set dhcp4_types) (filter (\<lambda>s. map_of ciDHCPSubnetTypes (sn_Type s) = None) (cc_Subnets c))"
    "\<not> list_ex (\<lambda>s. sn_Type s \<in> set dhcp6_types) (filter (\<lambda>s. map_of ciDHCPSubnetTypes (sn_Type s) = None) (cc_Subnets c))"
    by (auto simp: list_ex_iff)
  then show ?thesis
    by (simp add: v1_dhcp_state_def v1_set_dhcp_def blank_subnet_def) (simp add: dhcp4_types_def dhcp6_types_def)
qed

interpretation v1_dhcp: dhcp_store v1_dhcp_state "\<lambda>d4 d6 c. Inr (v1_set_dhcp d4 d6 c)" "\<lambda>_. True"
  by unfold_locales (auto simp: v1_set_dhcp_state)

section \<open>Version 2\<close>

definition ci_mirrors :: "link list \<Rightarrow> (yamlRoute yamlIface \<Rightarrow> yamlRoute yamlIface) \<Rightarrow> (Interface \<Rightarrow> Interface) \<Rightarrow> bool" where
  "ci_mirrors links f g \<longleftrightarrow> (\<forall>name MAC c. convert_iface name MAC (f c) links = g (convert_iface name MAC c links)) \<and> keeps_name g"

lemma by_key_ci_change:
  "by_key (map (change_ethernet iface f) m) = map (change_ethernet iface f) (by_key m)"
  "by_key (map (change_ci_virtual iface f) n) = map (change_ci_virtual iface f) (by_key n)"
  by (rule by_key_map; simp add: change_ethernet_def change_ci_virtual_def split: prod.split)+

lemma change_ethernet_iface:
  assumes "ci_mirrors links f g"
  shows "ethernet_iface links (change_ethernet iface f ne)
    = (if if_Name (ethernet_iface links ne) = iface then g (ethernet_iface links ne) else ethernet_iface links ne)"
proof -
  obtain name e where ne: "ne = (name, e)" by fastforce
  have "ethernet_name name (e\<lparr>ce_Interface := x\<rparr>) = ethernet_name name e" for x by (simp add: ethernet_name_def)
  then show ?thesis
    using assms by (auto simp: ne change_ethernet_def ci_mirrors_def ethernet_iface_def ci_ConvertInterface_def)
qed

lemma change_ci_virtual_iface:
  assumes "ci_mirrors links f g"
  shows "ci_virtual_iface links (change_ci_virtual iface f nv)
    = (if if_Name (ci_virtual_iface links nv) = iface then g (ci_virtual_iface links nv) else ci_virtual_iface links nv)"
  using assms by (cases nv) (auto simp: change_ci_virtual_def ci_mirrors_def ci_virtual_iface_def ci_ConvertInterface_def)

lemma change_v2_view:
  "ci_mirrors links f g \<Longrightarrow> v2_interfaces links (change_v2 iface f n) = on_named iface g (v2_interfaces links n)"
  by (simp add: v2_interfaces_def change_v2_def on_named_def by_key_ci_change change_ethernet_iface change_ci_virtual_iface o_def)

interpretation ci: named_store "v2_interfaces links" change_v2 "ci_mirrors links" for links
  by unfold_locales (auto simp: change_v2_view ci_mirrors_def)

lemma convert_ci_route:
  "routes_ok routes \<Longrightarrow> \<forall>r\<in>set routes. convert_route (ci_route r) = Some (read_route_back r)"
  by (auto simp: routes_ok_def list_all_iff convert_route_def ci_route_def dest_string_def ParseCIDR_ipnet_string
      ParseIP_ip_string read_route_back_def split: option.splits)

lemma convert_set_ci_routes:
  "routes_ok routes \<Longrightarrow> convert_iface name MAC (yi_set_routes ci_route routes c) links
    = (convert_iface name MAC c links)\<lparr>if_Routes := map read_route_back routes\<rparr>"
proof -
  assume "routes_ok routes"
  then have "List.map_filter convert_route (map ci_route routes) = map read_route_back routes"
    by (intro map_filter_Some convert_ci_route)
  then show ?thesis
    by (simp add: convert_iface_def yi_set_routes_def yi_dhcpState_def split: prod.split)
qed

lemma ci_mirrors_setters:
  "\<forall>a\<in>set addrs. valid_net a \<Longrightarrow> gateway_valid gateway4 \<Longrightarrow> gateway_valid gateway6 \<Longrightarrow>
     ci_mirrors links (yi_set_addresses addrs gateway4 gateway6)
       (\<lambda>i. i\<lparr>if_Addresses := map norm_net addrs, if_Gateway4 := To16 gateway4, if_Gateway6 := To16 gateway6\<rparr>)"
  "ci_mirrors links (yi_setDHCP dhcp4 dhcp6) (\<lambda>i. i\<lparr>if_DHCP4 := dhcp4, if_DHCP6 := dhcp6\<rparr>)"
  "\<forall>s\<in>set servers. gateway_valid s \<Longrightarrow> ci_mirrors links (yi_set_dns servers domains)
     (\<lambda>i. i\<lparr>if_DNS := map To16 (filter (\<lambda>a. a \<noteq> []) servers), if_SearchDomains := domains\<rparr>)"
  "routes_ok routes \<Longrightarrow> ci_mirrors links (yi_set_routes ci_route routes) (\<lambda>i. i\<lparr>if_Routes := map read_route_back routes\<rparr>)"
  by (simp_all add: ci_mirrors_def keeps_name_def convert_set_addresses convert_set_dhcp convert_set_dns convert_set_ci_routes)

lemma save_network_state: "\<exists>r w'. save_network lib f (ci, w) = (r, ci\<lparr>ci_Network := f (ci_Network ci)\<rparr>, w')"
  by (simp add: save_network_def Let_def split: prod.split)

text \<open>
  C31. On a version 2 configuration the cloud-init backend implements its contract: whatever
  happens while it saves, each operation changes, of the interfaces it reports, exactly the
  ones of the name given, and of those exactly the fields it is for, to the values given.
\<close>

theorem cloudinit_refines:
  assumes "\<forall>a\<in>set addrs. valid_net a" and "gateway_valid gateway4" and "gateway_valid gateway6"
    and "\<forall>s\<in>set servers. gateway_valid s" and "routes_ok routes"
    and "cn_Configs (ci_Network ci) = []" and "ci_GetInterfaces (Inr links) ci = (ifs, None)"
  shows "(\<exists>r ci' w'. ci_SetIfaceAddresses lib iface addrs gateway4 gateway6 (ci, w) = (r, ci', w')
       \<and> ci_GetInterfaces (Inr links) ci' = (on_named iface (\<lambda>i. i\<lparr>if_Addresses := map norm_net addrs,
           if_Gateway4 := To16 gateway4, if_Gateway6 := To16 gateway6\<rparr>) ifs, None))
    \<and> (\<exists>r ci' w'. ci_SetIfaceDHCP lib iface dhcp4 dhcp6 (ci, w) = (r, ci', w')
       \<and> ci_GetInterfaces (Inr links) ci' = (on_named iface (\<lambda>i. i\<lparr>if_DHCP4 := dhcp4, if_DHCP6 := dhcp6\<rparr>) ifs, None))
    \<and> (\<exists>r ci' w'. ci_SetIfaceDNS lib iface servers domains (ci, w) = (r, ci', w')
       \<and> ci_GetInterfaces (Inr links) ci' = (on_named iface (\<lambda>i. i\<lparr>if_DNS := map To16 (filter (\<lambda>a. a \<noteq> []) servers),
           if_SearchDomains := domains\<rparr>) ifs, None))
    \<and> (\<exists>r ci' w'. ci_SetIfaceRoutes lib ord iface routes (ci, w) = (r, ci', w')
       \<and> ci_GetInterfaces (Inr links) ci' = (on_named iface (\<lambda>i. i\<lparr>if_Routes := map read_route_back routes\<rparr>) ifs, None))"
proof -
  have v: "v2_interfaces links (ci_Network ci) = ifs" using assms(6,7) by (simp add: ci_GetInterfaces_def)
  have keep: "on_v1 iface h (ci_Network ci) = ci_Network ci" for h using assms(6) by (simp add: on_v1_def)
  have run: "\<exists>r ci' w'. save_network lib h (ci, w) = (r, ci', w') \<and> ci_GetInterfaces (Inr links) ci' = (on_named iface g ifs, None)"
    if "ci_mirrors links f g" "h (ci_Network ci) = change_v2 iface f (ci_Network ci)" for f g h
  proof -
    obtain r w' where s: "save_network lib h (ci, w) = (r, ci\<lparr>ci_Network := h (ci_Network ci)\<rparr>, w')"
      using save_network_state by blast
    have "cn_Configs (change_v2 iface f (ci_Network ci)) = []" using assms(6) by (simp add: change_v2_def)
    then show ?thesis
      using s ci.view_change [OF that(1), of iface "ci_Network ci"] v that(2) by (simp add: ci_GetInterfaces_def)
  qed
  have rt: "ci_SetIfaceRoutes lib ord iface routes (ci, w)
      = save_network lib (\<lambda>_. change_v2 iface (yi_set_routes ci_route routes) (ci_Network ci)) (ci, w)"
  proof -
    have e: "(ci_Network ci)\<lparr>cn_Configs := []\<rparr> = ci_Network ci" using assms(6) by (metis ciNetwork.surjective ciNetwork.update_convs(7))
    show ?thesis using assms(6) by (simp add: ci_SetIfaceRoutes_def Let_def) (simp only: e)
  qed
  show ?thesis
    unfolding ci_SetIfaceAddresses_def ci_SetIfaceDHCP_def ci_SetIfaceDNS_def rt
    by (intro conjI; rule run [OF ci_mirrors_setters(1) [OF assms(1-3)]] run [OF ci_mirrors_setters(2)]
        run [OF ci_mirrors_setters(3) [OF assms(4)]] run [OF ci_mirrors_setters(4) [OF assms(5)]]; simp add: keep)
qed

definition demo_ci_libs :: ci_libs where
  "demo_ci_libs = \<lparr>cl_json = (\<lambda>_. Inr None), cl_node = (\<lambda>s. Inr (Some (YNode ScalarNode s []))),
     cl_decode = (\<lambda>n. Inr (Some [(''users'', YString (yn_value n)), (''network'', YNull)])),
     cl_print = (\<lambda>m. Inr (case m of None \<Rightarrow> [] | Some m \<Rightarrow> concat (map fst m))), cl_json_print = (\<lambda>_. Inr []),
     cl_network = (\<lambda>_. Inr lan_network), cl_encode = (\<lambda>_. Inr ''network''),
     cl_map = (\<lambda>_. Inr (Some [(''network'', YMap [(''version'', YInt 1)])])), cl_merge = (\<lambda>a b. Inr a)\<rparr>"

definition ci_world :: world where
  "ci_world = mk_world [(''/e'', Dir), (''/e/a.cfg'', File ''a'' 420 0), (''/e/b.cfg'', File ''b'' 420 0)]"

definition v2_network :: ciNetwork where
  "v2_network = \<lparr>cn_Version = 2, cn_Renderer = [], cn_Ethernets = [(''eth0'', \<lparr>ce_Physical = \<lparr>yp_Match = \<lparr>ym_Name = [],
      ym_MACAddress = ''02:00:00:00:00:01'', ym_Driver = []\<rparr>, yp_SetName = ''lan0'', yp_Wakeonlan = False\<rparr>,
      ce_Interface = \<lparr>yi_Addresses = [''10.0.0.1/24''], yi_DHCP4 = Some True, yi_DHCP6 = None, yi_DHCP4Overrides = [],
        yi_DHCP6Overrides = [], yi_Gateway4 = [], yi_Gateway6 = [], yi_Nameservers = \<lparr>ys_Search = [], ys_Addresses = []\<rparr>,
        yi_MTU = 0, yi_Renderer = [], yi_Routes = [], yi_Optional = False\<rparr>\<rparr>)],
     cn_Bridges = [], cn_Bonds = [], cn_VLANs = [], cn_Configs = []\<rparr>"

lemma cloudinit_refines_witness:
  "(\<exists>r ci' w'. ci_SetIfaceDHCP demo_ci_libs ''lan0'' False True (lan_cloud\<lparr>ci_Network := v2_network\<rparr>, ci_world) = (r, ci', w')
     \<and> ci_GetInterfaces (Inr []) ci' = (on_named ''lan0'' (\<lambda>i. i\<lparr>if_DHCP4 := False, if_DHCP6 := True\<rparr>) (v2_interfaces [] v2_network), None))
     \<and> map if_Name (v2_interfaces [] v2_network) = [''lan0'']"
proof -
  let ?ci = "lan_cloud\<lparr>ci_Network := v2_network\<rparr>"
  have a: "\<forall>a\<in>set ([] :: ipnet list). valid_net a" "gateway_valid []" "\<forall>s\<in>set ([] :: ip list). gateway_valid s" "routes_ok []"
    by (simp_all add: gateway_valid_def routes_ok_def)
  have c: "cn_Configs (ci_Network ?ci) = []" by (simp add: v2_network_def)
  have i: "ci_GetInterfaces (Inr []) ?ci = (v2_interfaces [] v2_network, None)" using c by (simp add: ci_GetInterfaces_def)
  have n: "map if_Name (v2_interfaces [] v2_network) = [''lan0'']" by code_simp
  show ?thesis
    using conjunct1 [OF conjunct2 [OF cloudinit_refines [OF a(1,2,2,3,4) c i, of demo_ci_libs "''lan0''" ci_world False True]]] n by blast
qed

end
