(* ===== verification/CloudInitSave.thy ===== *)
theory CloudInitSave
  imports CloudInitLaws
begin

text \<open>The cloud-init backend: where routes go, and saving.\<close>

section \<open>Routes\<close>

lemma subnet_nets_bound: "(k, n) \<in> set (subnet_nets ss) \<Longrightarrow> k < length ss"
  by (auto simp: subnet_nets_def List.map_filter_def in_set_enumerate_eq split: if_splits)

definition orders :: "map_order \<Rightarrow> bool" where
  "orders ord \<longleftrightarrow> (\<forall>k xs. set (ord k xs) = set xs)"

definition home :: "(nat \<times> ipnet) list \<Rightarrow> Route \<Rightarrow> nat \<Rightarrow> bool" where
  "home nets r k \<longleftrightarrow> (\<exists>n. (k, n) \<in> set nets \<and> net_contains n (rt_Gateway r))
     \<or> (k = 0 \<and> \<not> (\<exists>(j, n)\<in>set nets. net_contains n (rt_Gateway r)))"

lemma route_subnet_home: "set xs = set nets \<Longrightarrow> home nets r (route_subnet xs r)"
proof (cases "find (\<lambda>(k, n). net_contains n (rt_Gateway r)) xs")
  case None
  assume "set xs = set nets"
  then show ?thesis using None by (auto simp: home_def route_subnet_def) (auto simp: find_None_iff)
next
  case (Some kn)
  assume "set xs = set nets"
  moreover obtain k n where kn: "kn = (k, n)" by fastforce
  moreover have "route_subnet xs r = k" using Some by (simp add: route_subnet_def kn)
  moreover have "(k, n) \<in> set xs \<and> net_contains n (rt_Gateway r)" using Some by (auto simp: find_Some_iff kn) (metis nth_mem)
  ultimately show ?thesis by (auto simp: home_def)
qed

lemma home_bound: "home (subnet_nets ss) r k \<Longrightarrow> ss \<noteq> [] \<Longrightarrow> k < length ss"
  using subnet_nets_bound by (auto simp: home_def)

definition without_routes :: "ciSubnet \<Rightarrow> ciSubnet" where
  "without_routes s = s\<lparr>sn_Routes := []\<rparr>"

lemma mset_update_concat:
  "k < length xss \<Longrightarrow> mset (concat (xss[k := xss ! k @ ys])) = mset (concat xss) + mset ys"
proof (induction xss arbitrary: k)
  case (Cons xs xss)
  then show ?case by (cases k) simp_all
qed simp

lemma add_v1_routes_spec:
  assumes "orders ord" and "\<forall>r j. home nets r j \<longrightarrow> j < length ss"
  shows "map without_routes (add_v1_routes ord k nets rs ss) = map without_routes ss
    \<and> mset (concat (map sn_Routes (add_v1_routes ord k nets rs ss))) = mset (concat (map sn_Routes ss)) + mset (map text_route rs)
    \<and> (\<forall>j<length ss. \<forall>x\<in>set (sn_Routes (add_v1_routes ord k nets rs ss ! j)).
         x \<in> set (sn_Routes (ss ! j)) \<or> (\<exists>r\<in>set rs. x = text_route r \<and> home nets r j))"
  using assms(2)
proof (induction rs arbitrary: k ss)
  case (Cons r rs)
  let ?j = "route_subnet (ord k nets) r"
  let ?s = "(ss ! ?j)\<lparr>sn_Routes := sn_Routes (ss ! ?j) @ [text_route r]\<rparr>"
  let ?ss = "ss[?j := ?s]"
  have h: "home nets r ?j" using route_subnet_home assms(1) by (simp add: orders_def)
  then have j: "?j < length ss" using Cons.prems by blast
  have "\<forall>r j. home nets r j \<longrightarrow> j < length ?ss" using Cons.prems by simp
  note IH = Cons.IH [OF this, of "Suc k"]
  have w: "map without_routes ?ss = map without_routes ss"
    using j by (auto simp: list_eq_iff_nth_eq nth_list_update without_routes_def)
  have "map sn_Routes ?ss = (map sn_Routes ss)[?j := map sn_Routes ss ! ?j @ [text_route r]]"
    using j by (simp add: map_update)
  then have m: "mset (concat (map sn_Routes ?ss)) = mset (concat (map sn_Routes ss)) + mset [text_route r]"
    using mset_update_concat [of ?j "map sn_Routes ss" "[text_route r]"] j by simp
  have p: "x \<in> set (sn_Routes (ss ! i)) \<or> (x = text_route r \<and> home nets r i)"
    if "x \<in> set (sn_Routes (?ss ! i))" "i < length ss" for x i
    using that h j by (cases "i = ?j") (auto simp: nth_list_update)
  have l: "length ?ss = length ss" by simp
  have step: "add_v1_routes ord k nets (r # rs) ss = add_v1_routes ord (Suc k) nets rs ?ss" by (simp add: Let_def)
  have "mset (concat (map sn_Routes (add_v1_routes ord k nets (r # rs) ss)))
      = mset (concat (map sn_Routes ss)) + mset (map text_route (r # rs))"
    using IH m unfolding step by simp
  moreover have "x \<in> set (sn_Routes (ss ! i)) \<or> (\<exists>q\<in>set (r # rs). x = text_route q \<and> home nets q i)"
    if "i < length ss" "x \<in> set (sn_Routes (add_v1_routes ord k nets (r # rs) ss ! i))" for i x
    using IH p [of x i] that unfolding step l by auto
  ultimately show ?case using IH w unfolding step by simp
qed simp

text \<open>
  C30. Setting the routes of a version 1 configuration that has a subnet, in whatever order Go
  walks its map, never indexes out of range and writes every route exactly once: in a static
  subnet whose network contains its gateway, or in the first subnet when no such network
  exists. Nothing else in the subnets changes.
\<close>

theorem cloudinit_routes_placed:
  assumes "orders ord" and "v1_set_routes ord routes c = Inr c'"
  shows "(\<forall>k r. route_subnet (ord k (subnet_nets (cc_Subnets c))) r < length (cc_Subnets c))
    \<and> mset (concat (map sn_Routes (cc_Subnets c'))) = mset (map text_route routes)
    \<and> map without_routes (cc_Subnets c') = map without_routes (cc_Subnets c)
    \<and> (\<forall>j<length (cc_Subnets c'). \<forall>x\<in>set (sn_Routes (cc_Subnets c' ! j)).
         \<exists>r\<in>set routes. x = text_route r \<and> home (subnet_nets (cc_Subnets c)) r j)"
proof -
  let ?ss = "cc_Subnets c" and ?clear = "\<lambda>s. s\<lparr>sn_Routes := []\<rparr>"
  have ne: "?ss \<noteq> []" and c': "cc_Subnets c' = add_v1_routes ord 0 (subnet_nets ?ss) routes (map ?clear ?ss)"
    using assms(2) by (auto simp: v1_set_routes_def split: if_splits)
  have b: "\<forall>r j. home (subnet_nets ?ss) r j \<longrightarrow> j < length (map ?clear ?ss)" using home_bound ne by simp
  note s = add_v1_routes_spec [OF assms(1) b, of 0 routes, folded c']
  have i: "route_subnet (ord k (subnet_nets ?ss)) r < length ?ss" for k r
  proof -
    have "set (ord k (subnet_nets ?ss)) = set (subnet_nets ?ss)" using assms(1) by (simp add: orders_def)
    from home_bound [OF route_subnet_home [OF this] ne] show ?thesis .
  qed
  have e: "concat (map sn_Routes (map ?clear ?ss)) = []" by simp
  have l: "length (cc_Subnets c') = length ?ss" using s map_eq_imp_length_eq by (metis length_map)
  have w: "map without_routes (map ?clear ?ss) = map without_routes ?ss" by (simp add: without_routes_def)
  have "\<exists>r\<in>set routes. x = text_route r \<and> home (subnet_nets ?ss) r j"
    if "j < length (cc_Subnets c')" "x \<in> set (sn_Routes (cc_Subnets c' ! j))" for j x
  proof -
    have "x \<in> set (sn_Routes (map ?clear ?ss ! j)) \<or> (\<exists>r\<in>set routes. x = text_route r \<and> home (subnet_nets ?ss) r j)"
      using s that l by simp
    then show ?thesis using that(1) l by simp
  qed
  then show ?thesis using s i unfolding w e by simp
qed

lemma cloudinit_routes_placed_witness:
  "\<exists>c'. v1_set_routes (\<lambda>_. rev) [\<lparr>rt_Destination = Some lan_addr, rt_Gateway = [10, 0, 0, 3], rt_Metric = 1\<rparr>] lan_config = Inr c'
     \<and> (\<forall>k r. route_subnet (rev (subnet_nets (cc_Subnets lan_config))) r < 2)
     \<and> mset (concat (map sn_Routes (cc_Subnets c'))) = mset [text_route \<lparr>rt_Destination = Some lan_addr, rt_Gateway = [10, 0, 0, 3], rt_Metric = 1\<rparr>]"
proof -
  let ?r = "\<lparr>rt_Destination = Some lan_addr, rt_Gateway = [10, 0, 0, 3], rt_Metric = 1\<rparr> :: Route"
  have o: "orders (\<lambda>_. rev)" by (simp add: orders_def)
  have n: "cc_Subnets lan_config \<noteq> []" "length (cc_Subnets lan_config) = 2" by (simp_all add: lan_config_def)
  then obtain c' where c: "v1_set_routes (\<lambda>_. rev) [?r] lan_config = Inr c'" by (simp add: v1_set_routes_def)
  show ?thesis using cloudinit_routes_placed [OF o c] c n(2) by auto
qed

section \<open>Saving\<close>

text \<open>Paths of a directory, as \<open>newCloudInitWith\<close> builds them.\<close>

definition in_dir :: "string \<Rightarrow> bool" where
  "in_dir p \<longleftrightarrow> abs_dir (butlast (fst (path_split p))) \<and> file_name (snd (path_split p)) \<and> plain p
     \<and> p = butlast (fst (path_split p)) @ ''/'' @ snd (path_split p)"

lemma path_join_slash:
  assumes "abs_dir d" and "file_name n"
  shows "path_join (d @ ''/'') n = d @ ''/'' @ n"
proof -
  obtain cs where cs: "cs \<noteq> []" "\<forall>c\<in>set cs. file_name c" "d = CHR ''/'' # join ''/'' cs"
    using assms(1) by (auto simp: abs_dir_def)
  have all: "\<forall>c\<in>set cs. CHR ''/'' \<notin> set c" using cs(2) by (simp add: file_name_def)
  have e: "(d @ ''/'') @ ''/'' @ n = CHR ''/'' # join ''/'' (cs @ [[], n])"
    using cs(1) by (simp add: cs(3) join_append_sep)
  have sp: "Split CHR ''/'' (join ''/'' (cs @ [[], n])) = cs @ [[], n]"
    by (rule Split_join) (use all assms(2) in \<open>auto simp: file_name_def\<close>)
  have j: "path_join (d @ ''/'') n = path_clean ((d @ ''/'') @ ''/'' @ n)"
    using assms(2) by (simp add: path_join_def file_name_def)
  have "filter (\<lambda>c. c \<noteq> [] \<and> c \<noteq> ''.'') (cs @ [[], n]) = cs @ [n]"
    using cs(2) assms(2) by (auto simp: file_name_def filter_id_conv)
  moreover have "foldl (clean_step True) [] (cs @ [n]) = cs @ [n]"
    using foldl_clean_names [of "cs @ [n]" True "[]"] cs(2) assms(2) by simp
  ultimately have "path_clean (CHR ''/'' # join ''/'' (cs @ [[], n])) = CHR ''/'' # join ''/'' (cs @ [n])"
    unfolding path_clean_def using sp by (simp add: Let_def)
  then show ?thesis unfolding j e using cs by (simp add: join_append_sep)
qed

lemma in_dir_join:
  assumes "in_dir p" and "file_name (snd (path_split p) @ s)"
  shows "path_join (fst (path_split p)) (snd (path_split p) @ s) = p @ s"
proof -
  let ?d = "butlast (fst (path_split p))" and ?n = "snd (path_split p)"
  have p: "p = ?d @ ''/'' @ ?n" and d: "abs_dir ?d" and n: "file_name ?n" using assms(1) by (simp_all add: in_dir_def)
  have "path_split (?d @ ''/'' @ ?n) = (?d @ ''/'', ?n)"
  proof -
    have "\<forall>c\<in>set (rev ?n). c \<noteq> CHR ''/''" using n by (auto simp: file_name_def)
    then show ?thesis
      unfolding path_split_def by (simp add: takeWhile_append2 dropWhile_append2)
  qed
  then have "fst (path_split p) = ?d @ ''/''" using p by (metis fst_conv)
  then show ?thesis using path_join_slash [OF d assms(2)] p by simp
qed

text \<open>What a successful save leaves in a file.\<close>

definition ci_decode :: "ci_libs \<Rightarrow> string \<Rightarrow> string \<Rightarrow> ymap option result" where
  "ci_decode lib p data = (if is_json p then cl_json lib data else unmarshalCloudConfig lib data)"

definition ci_written :: "ci_libs \<Rightarrow> ciNetwork \<Rightarrow> string \<Rightarrow> ciFile \<Rightarrow> world \<Rightarrow> world \<Rightarrow> bool" where
  "ci_written lib network main f w w' \<longleftrightarrow> (\<exists>data config old orig new out.
     cl_encode lib network = Inr data \<and> cl_map lib data = Inr config
     \<and> content_of w (fl_Path f) = Some old \<and> ci_decode lib (fl_Path f) old = Inr orig
     \<and> new_config main f (case config of None \<Rightarrow> [] | Some m \<Rightarrow> m) orig = Inr new
     \<and> print_config lib (fl_Path f) new = Inr out \<and> content_of w' (fl_Path f) = Some out)"

lemma new_content_fs: "fs_get (snd (new_content lib network main f w)) = fs_get w"
  unfolding new_content_def
  by (intro try_io_invariant [where P = "\<lambda>v. fs_get v = fs_get w"]) (simp_all add: os_ReadFile_fs)

lemma new_content_written:
  assumes "new_content lib network main f w = (Inr out, v)" and "no_links w" and "content_of w' (fl_Path f) = Some out"
  shows "ci_written lib network main f w w'"
proof -
  obtain data config old orig new u where n: "cl_encode lib network = Inr data" "cl_map lib data = Inr config"
    "os_ReadFile (fl_Path f) w = (Inr old, u)" "ci_decode lib (fl_Path f) old = Inr orig"
    "new_config main f (case config of None \<Rightarrow> [] | Some m \<Rightarrow> m) orig = Inr new" "print_config lib (fl_Path f) new = Inr out"
    using assms(1) by (auto simp: new_content_def try_io_Inr_iff ci_decode_def)
  have "content_of w (fl_Path f) = Some old"
    using os_ReadFile_content [OF n(3)] assms(2) by (simp add: no_links_def)
  then show ?thesis using n assms(3) unfolding ci_written_def by blast
qed

lemma save_ci_file_cases:
  assumes "in_dir (fl_Path f)" and "retention \<le> 0"
  shows "save_ci_file lib network retention main (tmp_suffix t) (bak_suffix b) f w =
     try_io (new_content lib network main f w)
       (\<lambda>data w. replace_file (fl_Path f @ tmp_suffix t) (fl_Path f) (fl_Path f @ bak_suffix b) data w)"
proof -
  let ?n = "snd (path_split (fl_Path f))"
  have n: "file_name ?n" using assms(1) by (simp add: in_dir_def)
  have p: "path_join (fst (path_split (fl_Path f))) (?n @ tmp_suffix t) = fl_Path f @ tmp_suffix t"
    "path_join (fst (path_split (fl_Path f))) (?n @ bak_suffix b) = fl_Path f @ bak_suffix b"
    using in_dir_join [OF assms(1)] file_name_suffix [OF n] by blast+
  have id: "try_io x (\<lambda>_. Pair (Inr ())) = x" for x :: "unit result \<times> world"
    by (cases x; cases "fst x") (auto simp: try_io_def split: sum.splits)
  show ?thesis
    unfolding save_ci_file_def replace_file_def
    by (simp add: case_prod_beta Let_def p prune_off [OF assms(2)] id)
qed

lemma save_ci_file_saves:
  assumes "save_ci_file lib network retention main (tmp_suffix t) (bak_suffix b) f w = (r, w')"
    and "in_dir (fl_Path f)" and "retention \<le> 0" and "no_links w"
  shows "saves (fl_Path f) w w'" and "r = Inr () \<Longrightarrow> ci_written lib network main f w w'"
proof -
  have pl: "plain (fl_Path f)" using assms(2) by (simp add: in_dir_def)
  obtain x v where n: "new_content lib network main f w = (x, v)" by fastforce
  have fs: "fs_get v = fs_get w" using new_content_fs [of lib network main f w] n by simp
  have nl: "no_links v" using assms(4) fs by (simp add: no_links_def no_link_def)
  have s: "saves (fl_Path f) v u \<Longrightarrow> saves (fl_Path f) w u" for u by (simp add: saves_def fs content_of_def)
  note e = assms(1) [unfolded save_ci_file_cases [OF assms(2,3)] n]
  have "saves (fl_Path f) w w' \<and> (r = Inr () \<longrightarrow> ci_written lib network main f w w')"
  proof (cases x)
    case (Inl a)
    then show ?thesis using e s [OF saves_refl [OF nl]] by auto
  next
    case (Inr data)
    then have rp: "replace_file (fl_Path f @ tmp_suffix t) (fl_Path f) (fl_Path f @ bak_suffix b) data v = (r, w')"
      using e by simp
    show ?thesis
      using s [OF replace_file_saves(1) [OF rp pl nl]] replace_file_saves(2) [OF rp pl nl]
        new_content_written [OF n [unfolded Inr] assms(4)] by blast
  qed
  then show "saves (fl_Path f) w w'" and "r = Inr () \<Longrightarrow> ci_written lib network main f w w'" by blast+
qed

lemma ci_written_same:
  "content_of v p = content_of w p \<Longrightarrow> content_of v' p = content_of w' p \<Longrightarrow> p = fl_Path f \<Longrightarrow>
     ci_written lib network main f v v' = ci_written lib network main f w w'"
  by (simp add: ci_written_def)

lemma save_ci_files_saves:
  assumes "save_ci_files lib network retention main (tmp_suffix t) (bak_suffix b) fs w = (r, w')"
    and "\<forall>f\<in>set fs. in_dir (fl_Path f)" and "distinct (map fl_Path fs)" and "retention \<le> 0" and "no_links w"
  shows "all_saved (map fl_Path fs) w w' \<and> (r = Inr () \<longrightarrow> (\<forall>f\<in>set fs. ci_written lib network main f w w'))"
  using assms
proof (induction fs arbitrary: w)
  case Nil
  then show ?case by (simp add: all_saved_Nil)
next
  case (Cons f fs)
  obtain x v where s: "save_ci_file lib network retention main (tmp_suffix t) (bak_suffix b) f w = (x, v)" by fastforce
  have d: "in_dir (fl_Path f)" using Cons.prems(2) by simp
  note sv = save_ci_file_saves [OF s d assms(4) Cons.prems(5)]
  have pl: "plain (fl_Path f)" "\<forall>q\<in>set (map fl_Path fs). plain q"
    using Cons.prems(2) by (auto simp: in_dir_def)
  have nin: "fl_Path f \<notin> set (map fl_Path fs)" using Cons.prems(3) by simp
  have v: "no_links v" using sv(1) by (simp add: saves_def)
  show ?case
  proof (cases x)
    case (Inl e)
    then have "r = Inl e" "w' = v" using Cons.prems(1) s by auto
    then show ?thesis using all_saved_Cons [OF sv(1) all_saved_Nil [OF v] pl nin] by simp
  next
    case (Inr y)
    then have rest: "save_ci_files lib network retention main (tmp_suffix t) (bak_suffix b) fs v = (r, w')"
      using Cons.prems(1) s by simp
    have IH: "all_saved (map fl_Path fs) v w'" "r = Inr () \<longrightarrow> (\<forall>g\<in>set fs. ci_written lib network main g v w')"
      using Cons.IH [OF rest _ _ assms(4) v] Cons.prems(2,3) by simp_all
    have own: "p \<in> own p" for p by (simp add: own_def)
    have "fs_get w' (fl_Path f) = fs_get v (fl_Path f)"
      using IH(1) own_disjoint [OF pl(1)] pl(2) nin own unfolding all_saved_def by blast
    then have f: "ci_written lib network main f w w' = ci_written lib network main f w v"
      by (intro ci_written_same [of _ "fl_Path f"]) (simp_all add: content_of_def)
    have "ci_written lib network main g w w' = ci_written lib network main g v w'" if g: "g \<in> set fs" for g
    proof -
      have "fl_Path g \<notin> own (fl_Path f)"
        using own_disjoint [OF pl(1), of "fl_Path g"] pl(2) nin own g by (metis disjoint_iff imageI list.set_map)
      then have "fs_get v (fl_Path g) = fs_get w (fl_Path g)" using sv(1) by (simp add: saves_def)
      then show ?thesis by (intro ci_written_same [of _ "fl_Path g"]) (simp_all add: content_of_def)
    qed
    then show ?thesis using all_saved_Cons [OF sv(1) IH(1) pl nin] IH(2) f sv(2) Inr by auto
  qed
qed

lemma put_map_other: "put_map k v m = Inr n \<Longrightarrow> j \<noteq> k \<Longrightarrow>
     Option.bind n (\<lambda>n. map_of n j) = Option.bind m (\<lambda>m. map_of m j)"
  by (auto simp: put_map_def update_conv' split: option.splits)

text \<open>Saving touches nothing in a file but its network configuration.\<close>

lemma new_config_other:
  "new_config main f config orig = Inr new \<Longrightarrow> j \<noteq> ''network'' \<Longrightarrow> j \<noteq> ''config'' \<Longrightarrow>
     Option.bind new (\<lambda>m. map_of m j) = Option.bind orig (\<lambda>m. map_of m j)"
  by (auto simp: new_config_def delete_conv' put_map_other split: if_splits option.splits) (cases orig; simp add: delete_conv')+



end
