(* ===== verification/PanelLaws.thy ===== *)
theory PanelLaws
  imports LinuxConfigurator UtilsLaws
begin

text \<open>
  The control panels as the configurator holds them, and what they promise when an address is
  removed: the sites go to another address of the same family, and the address is released
  only after they were moved.
\<close>

section \<open>The panels\<close>

datatype panel = PCpanel | PPlesk | PInterworx

definition panel_op :: "(world \<Rightarrow> unit result \<times> world) \<Rightarrow> panel op" where
  "panel_op f s = (case s of (p, w) \<Rightarrow> case f w of (r, w) \<Rightarrow> (r, p, w))"

definition panel_backend :: "cpanel_json \<Rightarrow> panel panelBackend" where
  "panel_backend json = \<lparr>
     panel_reload = (\<lambda>s. panel_op (case fst s of PCpanel \<Rightarrow> cp_reload | PPlesk \<Rightarrow> plesk_reload | PInterworx \<Rightarrow> iw_reload) s),
     panel_setMainIP = (\<lambda>a s. panel_op (case fst s of PCpanel \<Rightarrow> cp_setMainIP a | PPlesk \<Rightarrow> plesk_setMainIP a
       | PInterworx \<Rightarrow> iw_setMainIP a) s),
     panel_removeIP = (\<lambda>a s. panel_op (case fst s of PCpanel \<Rightarrow> cp_removeIP json a | PPlesk \<Rightarrow> plesk_removeIP a
       | PInterworx \<Rightarrow> iw_removeIP a) s)\<rparr>"

definition host_panels :: "panel panels" where
  "host_panels = \<lparr>new_cpanel = PCpanel, new_plesk = PPlesk, new_interworx = PInterworx\<rparr>"

section \<open>Where sites go\<close>

definition elsewhere :: "ip \<Rightarrow> ip \<Rightarrow> bool" where
  "elsewhere addr t \<longleftrightarrow> is_v4 t = is_v4 addr \<and> \<not> ip_equal t addr"

definition plesk_ok :: "ip \<Rightarrow> plesk_pool \<Rightarrow> bool" where
  "plesk_ok addr p \<longleftrightarrow> list_all (\<lambda>t. t \<noteq> [] \<and> elsewhere addr t) (pp_public p @ pp_private p)
     \<and> (pp_shared p = [] \<or> elsewhere addr (pp_shared p))"

lemma plesk_pool_ok: "plesk_ok addr (plesk_pool_of addr out)"
proof -
  have step: "plesk_ok addr p \<Longrightarrow> plesk_ok addr (plesk_classify addr l p)" for p l
    by (auto simp: plesk_ok_def plesk_classify_def elsewhere_def Let_def)
  have "plesk_ok addr p \<Longrightarrow> plesk_ok addr (fold (plesk_classify addr) out p)" for p
    by (induction out arbitrary: p) (auto intro: step)
  then show ?thesis by (simp add: plesk_pool_of_def plesk_ok_def)
qed

definition iw_ok :: "ip \<Rightarrow> iw_pool \<Rightarrow> bool" where
  "iw_ok addr p \<longleftrightarrow> list_all (elsewhere addr) (ip_public p @ ip_private p) \<and> (ip_shared p = [] \<or> elsewhere addr (ip_shared p))"

lemma iw_pool_ok: "iw_ok addr (iw_pool_of addr out)"
proof -
  have step: "iw_ok addr p \<Longrightarrow> iw_ok addr (iw_classify addr l p)" for p l
    by (auto simp: iw_ok_def iw_classify_def elsewhere_def Let_def)
  have "iw_ok addr p \<Longrightarrow> iw_ok addr (fold (iw_classify addr) out p)" for p
    by (induction out arbitrary: p) (auto intro: step)
  then show ?thesis by (simp add: iw_pool_of_def iw_ok_def)
qed

definition cp_ok :: "ip \<Rightarrow> cp_pool \<Rightarrow> bool" where
  "cp_ok addr p \<longleftrightarrow> list_all (\<lambda>t. \<not> ip_equal t addr) (pl_public p @ pl_private p)
     \<and> (pl_mainIP p = [] \<or> \<not> ip_equal (pl_mainIP p) addr)"

lemma cp_pool_ok: "cp_ok addr (cp_pool_of addr infos)"
proof -
  have step: "cp_ok addr p \<Longrightarrow> cp_ok addr (cp_classify addr i p)" for p i
    by (auto simp: cp_ok_def cp_classify_def Let_def)
  have "cp_ok addr p \<Longrightarrow> cp_ok addr (fold (cp_classify addr) infos p)" for p
    by (induction infos arbitrary: p) (auto intro: step)
  then show ?thesis by (simp add: cp_pool_of_def cp_ok_def)
qed

lemma hd_list_all: "list_all P xs \<Longrightarrow> xs \<noteq> [] \<Longrightarrow> P (hd xs)"
  by (cases xs) simp_all

lemma cp_replacement_ok:
  "cp_replacement addr accounts = [] \<or> (\<not> is_v4 (cp_replacement addr accounts) \<and> \<not> ip_equal (cp_replacement addr accounts) addr)"
  by (auto simp: cp_replacement_def find_Some_iff is_v4_def split: option.split)

lemma plesk_target_ok:
  "plesk_target (plesk_pool_of addr out) = Inr t \<Longrightarrow>
     (t \<noteq> [] \<and> elsewhere addr t) \<or> (t = [] \<and> pp_hosting (plesk_pool_of addr out) = 0)"
  using plesk_pool_ok [of addr out] by (auto simp: plesk_target_def plesk_ok_def dest: hd_list_all split: if_splits)


definition bench_v6 :: ip where "bench_v6 = 0x20 # 0x01 # replicate 13 0 @ [1]"

text \<open>
  For an IPv6 address a line of InterWorx's listing that does not start with an address, such
  as a heading, counts as a public address: with no shared address listed the sites are moved
  to an address that does not exist, and the script is answered \<open><nil>\<close>.
\<close>

theorem interworx_moves_to_nil:
  assumes "\<not> is_v4 addr" and "addr \<noteq> []" and "length (Fields line) \<ge> 4" and "ParseIP (Fields line ! 0) = []"
    and "Fields line ! 3 \<noteq> ''shared''" and "ip_shared (iw_pool_of addr (line # out)) = []"
  shows "iw_target (iw_pool_of addr (line # out)) = Inr [] \<and> mg_answer old [] CHR '':'' ''NEW IP Address:'' = [''<nil>'']"
proof -
  have n: "\<not> is_v4 []" "\<not> is_private []" by (simp_all add: is_v4_def To4_def is_private_def)
  have ne: "\<not> ip_equal [] addr" using assms(2) by (auto simp: ip_equal_def)
  have keep: "ip_public p = [] # ps \<Longrightarrow> \<exists>qs. ip_public (fold (iw_classify addr) ls p) = [] # qs" for p ps ls
  proof (induction ls arbitrary: p ps)
    case (Cons l ls)
    have "\<exists>qs. ip_public (iw_classify addr l p) = [] # qs" using Cons.prems by (auto simp: iw_classify_def Let_def)
    then show ?case using Cons.IH by auto
  qed simp
  let ?p = "\<lparr>ip_shared = [], ip_public = [], ip_private = []\<rparr>"
  have "\<exists>qs. ip_public (iw_pool_of addr (line # out)) = [] # qs"
  proof -
    have "ip_public (iw_classify addr line ?p) = [[]]"
      using assms n ne by (simp add: iw_classify_def Let_def)
    then show ?thesis using keep by (simp add: iw_pool_of_def)
  qed
  moreover have "mg_answer old [] CHR '':'' ''NEW IP Address:'' = [''<nil>'']" by code_simp
  ultimately show ?thesis using assms(6) by (auto simp: iw_target_def)
qed

lemma interworx_moves_to_nil_witness:
  "\<not> is_v4 bench_v6 \<and> iw_target (iw_pool_of bench_v6 [''IP External Type Status'']) = Inr []"
proof -
  have e: "\<not> is_v4 bench_v6" "bench_v6 \<noteq> []" "length (Fields ''IP External Type Status'') \<ge> 4"
    "ParseIP (Fields ''IP External Type Status'' ! 0) = []" "Fields ''IP External Type Status'' ! 3 \<noteq> ''shared''"
    "ip_shared (iw_pool_of bench_v6 [''IP External Type Status'']) = []" by code_simp+
  show ?thesis using e(1) interworx_moves_to_nil [OF e] by simp
qed

end
