(* ===== verification/Traces.thy ===== *)
theory Traces
  imports Utils
begin

text \<open>
  Which commands a computation runs. \<open>runs P f\<close> says that every command \<open>f\<close> starts satisfies \<open>P\<close>,
  whatever the commands answer and whichever call fails; the rules follow the combinators
  the model is written with.
\<close>

section \<open>The commands a computation runs\<close>

definition ran :: "world \<Rightarrow> world \<Rightarrow> string list list" where
  "ran w w' = drop (length (w_trace w)) (w_trace w')"

definition runs :: "(string list \<Rightarrow> bool) \<Rightarrow> (world \<Rightarrow> 'a \<times> world) \<Rightarrow> bool" where
  "runs P f \<longleftrightarrow> (\<forall>w. \<exists>t. w_trace (snd (f w)) = w_trace w @ t \<and> list_all P t)"

named_theorems runs_intros \<open>which commands a computation runs\<close>

lemma runs_pure [runs_intros]: "runs P (\<lambda>w. (r, w))"
  by (simp add: runs_def)

lemma runs_log [runs_intros]: "runs P (\<lambda>w. (r, log_print s w))"
  by (simp add: runs_def log_print_def)

lemma runs_after_log [runs_intros]: "runs P f \<Longrightarrow> runs P (\<lambda>w. f (log_print s w))"
proof -
  have "w_trace (log_print s w) = w_trace w" for w by (simp add: log_print_def)
  then show "runs P f \<Longrightarrow> runs P (\<lambda>w. f (log_print s w))" unfolding runs_def by metis
qed

lemma runs_try_io [runs_intros]:
  assumes "runs P f" and "\<And>a. runs P (g a)"
  shows "runs P (\<lambda>w. try_io (f w) (\<lambda>a w. g a w))"
  unfolding runs_def
proof
  fix w
  obtain r w1 where f: "f w = (r, w1)" by fastforce
  obtain t where t: "w_trace w1 = w_trace w @ t" "list_all P t"
    using assms(1) f unfolding runs_def by (metis snd_conv)
  show "\<exists>t. w_trace (snd (try_io (f w) (\<lambda>a w. g a w))) = w_trace w @ t \<and> list_all P t"
  proof (cases r)
    case (Inl e)
    then show ?thesis using f t by auto
  next
    case (Inr a)
    obtain u where "w_trace (snd (g a w1)) = w_trace w1 @ u" "list_all P u"
      using assms(2) unfolding runs_def by metis
    then show ?thesis using f t Inr by (intro exI [of _ "t @ u"]) auto
  qed
qed

lemma runs_if [runs_intros]:
  "(b \<Longrightarrow> runs P f) \<Longrightarrow> (\<not> b \<Longrightarrow> runs P g) \<Longrightarrow> runs P (\<lambda>w. if b then f w else g w)"
  by (cases b) simp_all

lemma runs_option [runs_intros]:
  "runs P f \<Longrightarrow> (\<And>a. runs P (g a)) \<Longrightarrow> runs P (\<lambda>w. case x of None \<Rightarrow> f w | Some a \<Rightarrow> g a w)"
  by (cases x) simp_all

lemma runs_sum [runs_intros]:
  "(\<And>e. runs P (f e)) \<Longrightarrow> (\<And>a. runs P (g a)) \<Longrightarrow> runs P (\<lambda>w. case x of Inl e \<Rightarrow> f e w | Inr a \<Rightarrow> g a w)"
  by (cases x) simp_all

lemma runs_split [runs_intros]: "(\<And>a b. runs P (g a b)) \<Longrightarrow> runs P (\<lambda>w. case x of (a, b) \<Rightarrow> g a b w)"
  by (cases x) simp

lemma runs_exec: "P argv \<Longrightarrow> runs P (exec_command argv)"
  by (auto simp: runs_def exec_command_def Let_def tick_def)

lemma runs_runCommand [runs_intros]: "P argv \<Longrightarrow> runs P (runCommand argv)"
  by (auto simp: runs_def runCommand_def exec_command_def Let_def tick_def split: option.splits)

lemma runs_run_or_fail [runs_intros]: "P argv \<Longrightarrow> runs P (run_or_fail argv)"
proof -
  have "snd (run_or_fail argv w) = snd (runCommand argv w)" for w
    by (simp add: run_or_fail_def split: prod.splits option.splits)
  then show "P argv \<Longrightarrow> runs P (run_or_fail argv)" using runs_runCommand [of P argv] by (simp add: runs_def)
qed

text \<open>The same where the continuation may rely on what the first computation returned.\<close>

lemma runs_try_io_post:
  assumes "runs P f" and "\<And>w a w'. f w = (Inr a, w') \<Longrightarrow> Q a" and "\<And>a. Q a \<Longrightarrow> runs P (g a)"
  shows "runs P (\<lambda>w. try_io (f w) (\<lambda>a w. g a w))"
proof -
  let ?g = "\<lambda>a w. if Q a then g a w else (Inl (Panic []), w)"
  have "try_io (f w) (\<lambda>a w. g a w) = try_io (f w) (\<lambda>a w. ?g a w)" for w
    using assms(2) [of w] by (cases "f w"; cases "fst (f w)") auto
  moreover have "runs P (\<lambda>w. try_io (f w) (\<lambda>a w. ?g a w))"
    by (intro runs_try_io assms(1) runs_if runs_pure) (rule assms(3))
  ultimately show ?thesis by simp
qed

lemma runs_seq [runs_intros]:
  assumes "runs P f" and "\<And>a. runs P (g a)"
  shows "runs P (\<lambda>w. case f w of (a, w) \<Rightarrow> g a w)"
  unfolding runs_def
proof
  fix w
  obtain a w1 where f: "f w = (a, w1)" by fastforce
  obtain t where t: "w_trace w1 = w_trace w @ t" "list_all P t"
    using assms(1) f unfolding runs_def by (metis snd_conv)
  obtain u where "w_trace (snd (g a w1)) = w_trace w1 @ u" "list_all P u"
    using assms(2) unfolding runs_def by metis
  then show "\<exists>t. w_trace (snd (case f w of (a, w) \<Rightarrow> g a w)) = w_trace w @ t \<and> list_all P t"
    using f t by (intro exI [of _ "t @ u"]) auto
qed

lemma runs_ran: "runs P f \<Longrightarrow> c \<in> set (ran w (snd (f w))) \<Longrightarrow> P c"
  by (auto simp: runs_def ran_def list_all_iff dest: spec [of _ w])

end
