(* ===== verification/PanelRelease.thy ===== *)
theory PanelRelease
  imports CPanel Plesk Interworx Traces
begin

text \<open>
  When the control panels give an address up. Each handler runs the commands that find the
  sites of the address and move them before the one command that deletes the address; a
  locale states that contract once, and the three panels interpret it.
\<close>

section \<open>The contract\<close>

locale guarded =
  fixes prepare :: "world \<Rightarrow> 'a result \<times> world"
    and finish :: "'a \<Rightarrow> world \<Rightarrow> 'b result \<times> world"
    and release :: "string list"
  assumes prepare_quiet: "runs (\<lambda>c. c \<noteq> release) prepare"
begin

lemma released_after: "release \<in> set (ran w (snd (try_io (prepare w) (\<lambda>a w. finish a w)))) \<Longrightarrow> \<exists>a w'. prepare w = (Inr a, w')"
proof -
  assume rel: "release \<in> set (ran w (snd (try_io (prepare w) (\<lambda>a w. finish a w))))"
  obtain r w1 where p: "prepare w = (r, w1)" by fastforce
  obtain t where t: "w_trace w1 = w_trace w @ t" "list_all (\<lambda>c. c \<noteq> release) t"
    using prepare_quiet p unfolding runs_def by (metis snd_conv)
  show ?thesis
  proof (cases r)
    case (Inl e)
    then have "ran w (snd (try_io (prepare w) (\<lambda>a w. finish a w))) = t" using p t by (simp add: ran_def)
    then show ?thesis using rel t(2) by (auto simp: list_all_iff)
  qed (use p in simp)
qed

end

section \<open>The three panels\<close>

lemma try_io_assoc: "try_io (try_io r f) g = try_io r (\<lambda>a w. try_io (f a w) g)"
  by (simp add: try_io_def split: prod.splits sum.splits)

text \<open>Plesk: the listing, the choice of the target and the move.\<close>

definition plesk_prepare :: "ip \<Rightarrow> world \<Rightarrow> unit result \<times> world" where
  "plesk_prepare addr w =
     try_io (run_or_fail [pleskBin, ''bin'', ''ipmanage'', ''--ip_list''] w) (\<lambda>out w.
     let pool = plesk_pool_of addr out in
     try_io (plesk_target pool, w) (\<lambda>shared w.
     if pp_hosting pool \<noteq> 0 then plesk_moveSites addr shared w else (Inr (), w)))"

definition plesk_finish :: "ip \<Rightarrow> unit \<Rightarrow> world \<Rightarrow> unit result \<times> world" where
  "plesk_finish addr u w = try_io (run_or_fail [pleskBin, ''bin'', ''ipmanage'', ''--remove'', ip_string addr] w) (\<lambda>out w.
     (Inr (), log_print (''Plesk output: '' @ join [newline] out) w))"

lemma plesk_removeIP_stages: "plesk_removeIP addr w = try_io (plesk_prepare addr w) (\<lambda>a w. plesk_finish addr a w)"
  by (simp add: plesk_removeIP_def plesk_prepare_def plesk_finish_def try_io_assoc Let_def)

lemma runs_plesk_domains: 
  assumes "\<And>d. P [pleskBin, ''bin'', ''domain'', ''--info'', d]"
    and "\<And>d a. P [pleskBin, ''bin'', ''domain'', ''--update'', d, ''-ip'', a]"
  shows "runs P (plesk_move_domains old new ds)"
proof (induction ds)
  case (Cons d ds)
  have "runs P (\<lambda>w. plesk_move_domains old new (d # ds) w)"
    unfolding plesk_move_domains.simps by (intro runs_intros assms Cons.IH)
  then show ?case by simp
qed (simp add: runs_pure)

lemma runs_plesk_prepare: "runs (\<lambda>c. c \<noteq> [pleskBin, ''bin'', ''ipmanage'', ''--remove'', ip_string addr]) (plesk_prepare addr)"
proof -
  have "runs (\<lambda>c. c \<noteq> [pleskBin, ''bin'', ''ipmanage'', ''--remove'', ip_string addr]) (\<lambda>w. plesk_prepare addr w)"
    unfolding plesk_prepare_def Let_def plesk_moveSites_def
    by (intro runs_intros runs_plesk_domains) simp_all
  then show ?thesis by simp
qed

interpretation plesk: guarded "plesk_prepare addr" "plesk_finish addr"
  "[pleskBin, ''bin'', ''ipmanage'', ''--remove'', ip_string addr]" for addr
  by unfold_locales (rule runs_plesk_prepare)

text \<open>InterWorx: the listing, the migration script and the wait.\<close>

definition iw_prepare :: "ip \<Rightarrow> world \<Rightarrow> unit result \<times> world" where
  "iw_prepare addr w =
     try_io (run_or_fail [nodeworxBin, ''-u'', ''-n'', ''-c'', ''Ip'', ''-a'', ''listIpAddresses''] w) (\<lambda>out w.
     try_io (iw_target (iw_pool_of addr out), w) (\<lambda>shared w.
     try_io (case iw_moveSites addr shared w of ((r, _), w) \<Rightarrow> (r, w)) (\<lambda>_ w. wait_briefly w)))"

definition iw_delete :: "ip \<Rightarrow> string list" where
  "iw_delete addr = [nodeworxBin, ''-u'', ''-n'', ''-c'', ''Ip'', ''-a'', ''delete'', ''--confirm_action'', ''all'', ''--ip'', ip_string addr]"

definition iw_finish :: "ip \<Rightarrow> unit \<Rightarrow> world \<Rightarrow> unit result \<times> world" where
  "iw_finish addr u w = try_io (run_or_fail (iw_delete addr) w) (\<lambda>out w. (Inr (), log_output ''Interworx output: '' out w))"

lemma iw_removeIP_stages: "iw_removeIP addr w = try_io (iw_prepare addr w) (\<lambda>a w. iw_finish addr a w)"
  by (simp add: iw_removeIP_def iw_prepare_def iw_finish_def iw_delete_def try_io_assoc Let_def)

lemma trace_log_fold [simp]: "w_trace (fold (\<lambda>l. log_print (f l)) ls w) = w_trace w"
  by (induction ls arbitrary: w) (simp_all add: log_print_def)

lemma trace_logs [simp]: "w_trace (fold log_print ls w) = w_trace w"
  using trace_log_fold [of id] by simp

lemma runs_iw_move:
  assumes "P [''/usr/local/interworx/bin/php'', ''/usr/local/interworx/bin/migrate-ip.php'']"
  shows "runs P (\<lambda>w. case iw_moveSites old new w of ((r, _), w) \<Rightarrow> (r, w))"
proof -
  let ?cmd = "[''/usr/local/interworx/bin/php'', ''/usr/local/interworx/bin/migrate-ip.php'']"
  have "w_trace (snd (case iw_moveSites old new w of ((r, _), w) \<Rightarrow> (r, w))) = w_trace (snd (exec_command ?cmd w))" for w
    by (simp add: iw_moveSites_def Let_def split: prod.splits option.splits)
  then show ?thesis using runs_exec [where P = P, OF assms] by (simp add: runs_def)
qed

lemma runs_wait [runs_intros]: "runs P (\<lambda>w. wait_briefly w)"
  by (simp add: runs_def wait_briefly_def tick_def split: option.split)

lemma runs_iw_prepare: "runs (\<lambda>c. c \<noteq> iw_delete addr) (iw_prepare addr)"
proof -
  have "runs (\<lambda>c. c \<noteq> iw_delete addr) (\<lambda>w. iw_prepare addr w)"
    unfolding iw_prepare_def
    by (intro runs_intros runs_iw_move) (simp_all add: iw_delete_def nodeworxBin_def)
  then show ?thesis by simp
qed

interpretation iw: guarded "iw_prepare addr" "iw_finish addr" "iw_delete addr" for addr
  by unfold_locales (rule runs_iw_prepare)

lemma iw_prepared:
  assumes "iw_prepare addr w = (Inr u, w')"
  shows "\<exists>out w1 t answers w2. run_or_fail [nodeworxBin, ''-u'', ''-n'', ''-c'', ''Ip'', ''-a'', ''listIpAddresses''] w = (Inr out, w1)
    \<and> iw_target (iw_pool_of addr out) = Inr t \<and> iw_moveSites addr t w1 = ((Inr (), answers), w2)"
proof -
  obtain out w1 t w2 w3 where 1: "run_or_fail [nodeworxBin, ''-u'', ''-n'', ''-c'', ''Ip'', ''-a'', ''listIpAddresses''] w = (Inr out, w1)"
      "iw_target (iw_pool_of addr out) = Inr t" "(case iw_moveSites addr t w1 of ((r, _), w) \<Rightarrow> (r, w)) = (Inr w3, w2)"
    using assms by (auto simp: iw_prepare_def try_io_Inr_iff)
  obtain r as v where 2: "iw_moveSites addr t w1 = ((r, as), v)" by (metis surj_pair)
  with 1(3) have "r = Inr ()" by simp
  with 1(1,2) 2 show ?thesis by blast
qed

text \<open>cPanel: for IPv4 the account search, the listing and the move; for IPv6 the search and the move.\<close>

definition cp_prepare :: "cpanel_json \<Rightarrow> ip \<Rightarrow> world \<Rightarrow> bool result \<times> world" where
  "cp_prepare json addr w =
     (if To4 addr = []
      then try_io (cp_search json addr ''ipv6'' w) (\<lambda>accounts w.
        try_io (moveIPv6Sites json addr (cp_replacement addr accounts) accounts w) (\<lambda>_ w. (Inr False, w)))
      else try_io (cp_search json addr ''ip'' w) (\<lambda>_ w.
        try_io (whmapi_list (pj_ips json) [''listips''] w) (\<lambda>infos w.
        let pool = cp_pool_of addr infos in
        try_io (cp_target pool, w) (\<lambda>mainIP w.
        try_io (cp_moveSites json addr mainIP w) (\<lambda>_ w.
        (Inr (pl_isMainIP pool \<or> pl_mainIP pool = []), w))))))"

definition cp_delete :: "ip \<Rightarrow> string list" where
  "cp_delete addr = [cpanelBin, cpanelJSON, ''delip'', ''ip='' @ ip_string addr] @ (if To4 addr = [] then [''ipv6=1''] else [])"

definition cp_finish :: "ip \<Rightarrow> bool \<Rightarrow> world \<Rightarrow> unit result \<times> world" where
  "cp_finish addr check w =
     try_io (cp_reload (snd (runCommand (cp_delete addr) w))) (\<lambda>_ w. if check then cp_mainipcheck w else (Inr (), w))"

lemma try_io_unit: "try_io r (\<lambda>_ w. (Inr (), w)) = r"
  by (simp add: try_io_def split: prod.splits sum.splits)

lemma cp_removeIP_stages: "cp_removeIP json addr w = try_io (cp_prepare json addr w) (\<lambda>a w. cp_finish addr a w)"
  by (simp add: cp_removeIP_def removeIPv4_def removeIPv6_def cp_prepare_def cp_finish_def cp_delip_def cp_delete_def
      try_io_assoc try_io_unit Let_def)

lemma runs_whmapi [runs_intros]: "P ([cpanelBin, cpanelJSON] @ args) \<Longrightarrow> runs P (\<lambda>w. whmapi decode args w)"
  unfolding whmapi_def by (intro runs_intros)

lemma runs_whmapi_list [runs_intros]: "P ([cpanelBin, cpanelJSON] @ args) \<Longrightarrow> runs P (\<lambda>w. whmapi_list decode args w)"
  unfolding whmapi_list_def by (rule runs_try_io) (auto intro: runs_intros split: prod.split)

lemma runs_cp_accounts:
  assumes "\<And>a b. P [cpanelBin, cpanelJSON, ''setsiteip'', a, b]"
  shows "runs P (cp_move_accounts json old new as)"
proof (induction as)
  case (Cons a as)
  have "runs P (\<lambda>w. cp_move_accounts json old new (a # as) w)"
    unfolding cp_move_accounts.simps by (intro runs_intros Cons.IH) (simp_all add: assms)
  then show ?case by simp
qed (simp add: runs_pure)

lemma runs_cp_accounts6:
  assumes "\<And>a b c. P [cpanelBin, cpanelJSON, ''setsiteip'', a, b, c]"
  shows "runs P (moveIPv6Sites json old new as)"
proof (induction as)
  case (Cons a as)
  have "runs P (\<lambda>w. moveIPv6Sites json old new (a # as) w)"
    unfolding moveIPv6Sites.simps by (intro runs_intros Cons.IH) (simp_all add: assms)
  then show ?case by simp
qed (simp add: runs_pure)

lemma runs_cp_prepare: "runs (\<lambda>c. c \<noteq> cp_delete addr) (cp_prepare json addr)"
proof -
  have "runs (\<lambda>c. c \<noteq> cp_delete addr) (\<lambda>w. cp_prepare json addr w)"
    unfolding cp_prepare_def Let_def cp_search_def cp_moveSites_def
    by (intro runs_intros runs_cp_accounts runs_cp_accounts6) (simp_all add: cp_delete_def)
  then show ?thesis by simp
qed

interpretation cp: guarded "cp_prepare json addr" "cp_finish addr" "cp_delete addr" for json addr
  by unfold_locales (rule runs_cp_prepare)

section \<open>Moved before released\<close>


definition bench_panel_exec :: "nat \<Rightarrow> string list \<Rightarrow> store \<Rightarrow> proc_result" where
  "bench_panel_exec n argv st = \<lparr>pr_start = None,
     pr_stdout = (if ''--ip_list'' \<in> set argv
         then join [newline] [''0 E eth0:192.0.2.5/255.255.255.0 0 1'', ''0 S eth0:192.0.2.6/255.255.255.0 0 0'']
       else if ''--list'' \<in> set argv then ''a.example''
       else if ''--info'' \<in> set argv then ''IP Address: 192.0.2.5'' else []),
     pr_stderr = [], pr_wait = None, pr_store = st\<rparr>"

definition bench_panel_world :: world where
  "bench_panel_world = \<lparr>w_fs = [], w_tick = 0, w_fault = (\<lambda>_. None), w_clock = (\<lambda>n. n), w_exec = bench_panel_exec,
     w_trace = [], w_log = [], w_path = []\<rparr>"


end
