(* ===== verification/PanelSites.thy ===== *)
theory PanelSites
  imports CPanel Plesk UtilsLaws
begin

text \<open>What Plesk's move does to the addresses of a domain, and cPanel's to its configuration file.\<close>

section \<open>Cutting a list while ranging over it\<close>

lemma cut_loop_append: "cut_loop old (is @ js) s = try_res (cut_loop old is s) (cut_loop old js)"
  by (induction "is" arbitrary: s) (auto simp: try_res_def split: sum.split)

lemma cut_loop_none: "\<forall>i\<in>set is. \<not> ip_equal (cl_array s ! i) old \<Longrightarrow> cut_loop old is s = Inr s"
  by (induction "is") auto

text \<open>Once something was cut, the last element of the backing array stays and the slice is shorter than it.\<close>

lemma cut_loop_shrunk:
  assumes "length (cl_array s) = n" "last (cl_array s) = l" "cl_array s \<noteq> []" "cl_len s < n" "0 < n"
  shows "(\<exists>e. cut_loop old is s = Inl (Panic e))
    \<or> (\<exists>t. cut_loop old is s = Inr t \<and> length (cl_array t) = n \<and> last (cl_array t) = l \<and> cl_array t \<noteq> [] \<and> cl_len t < n)"
  using assms
proof (induction "is" arbitrary: s)
  case (Cons i js)
  show ?case
  proof (cases "ip_equal (cl_array s ! i) old")
    case True
    show ?thesis
    proof (cases "Suc i > cl_len s")
      case False
      let ?t = "s\<lparr>cl_array := take i (cl_array s) @ drop (Suc i) (take (cl_len s) (cl_array s)) @ drop (cl_len s - 1) (cl_array s),
        cl_len := cl_len s - 1, cl_found := True\<rparr>"
      have c: "cut_at i s = Inr ?t" using False by (simp add: cut_at_def Let_def)
      have "length (cl_array ?t) = n" "last (cl_array ?t) = l" "cl_array ?t \<noteq> []" "cl_len ?t < n"
        using Cons.prems False by (auto simp: min_def last_append)
      from Cons.IH [OF this Cons.prems(5)] show ?thesis using True c by simp
    qed (use True in \<open>simp add: cut_at_def\<close>)
  next
    case False
    then show ?thesis using Cons.IH [OF Cons.prems] by simp
  qed
qed simp

lemma cut_loop_panics:
  assumes "length (cl_array s) = n" "last (cl_array s) = c" "cl_array s \<noteq> []" "cl_len s < n" "0 < n" "ip_equal c old"
  shows "\<exists>e. cut_loop old (is @ [n - 1]) s = Inl (Panic e)"
proof -
  consider e where "cut_loop old is s = Inl (Panic e)"
    | t where "cut_loop old is s = Inr t" "length (cl_array t) = n" "last (cl_array t) = c" "cl_array t \<noteq> []" "cl_len t < n"
    using cut_loop_shrunk [OF assms(1-5), of old "is"] by blast
  then show ?thesis
  proof cases
    case 2
    then have "cl_array t ! (n - 1) = c" by (metis last_conv_nth)
    then show ?thesis using 2 assms(6) by (simp add: cut_loop_append cut_at_def)
  qed (simp add: cut_loop_append)
qed

text \<open>The loop up to and including the first occurrence.\<close>

lemma cut_loop_first:
  assumes "\<forall>a\<in>set xs. \<not> ip_equal a old" and "ip_equal b old" and "n = length (xs @ b # ys)"
  shows "cut_loop old [0..<n] \<lparr>cl_array = xs @ b # ys, cl_len = n, cl_found = False\<rparr> =
    cut_loop old [Suc (length xs)..<n]
      \<lparr>cl_array = xs @ ys @ [last (b # ys)], cl_len = n - 1, cl_found = True\<rparr>"
proof -
  let ?s = "\<lparr>cl_array = xs @ b # ys, cl_len = n, cl_found = False\<rparr>"
  have "[0..<n] = [0..<length xs] @ [length xs..<n]"
    using assms(3) upt_add_eq_append [of 0 "length xs" "n - length xs"] by simp
  moreover have "[length xs..<n] = length xs # [Suc (length xs)..<n]" using assms(3) by (intro upt_conv_Cons) simp
  ultimately have split: "[0..<n] = [0..<length xs] @ length xs # [Suc (length xs)..<n]" by simp
  have none: "cut_loop old [0..<length xs] ?s = Inr ?s"
    using assms(1) by (intro cut_loop_none) (simp add: nth_append)
  have dr: "drop (length (b # ys) - 1) (b # ys) = [last (b # ys)]"
    by (cases ys rule: rev_cases) simp_all
  have "cut_at (length xs) ?s = Inr \<lparr>cl_array = xs @ ys @ [last (b # ys)], cl_len = n - 1, cl_found = True\<rparr>"
    using assms(3) dr by (simp add: cut_at_def Let_def)
  then show ?thesis using assms(2) unfolding split by (simp add: cut_loop_append none)
qed

lemma replace_old_once:
  assumes "\<forall>a\<in>set xs. \<not> ip_equal a old" and "ip_equal b old" and ys: "\<forall>a\<in>set ys. \<not> ip_equal a old"
  shows "replace_old old new (xs @ b # ys) = Inr (True, if xs @ ys = [] then [new] else xs @ ys)"
proof -
  let ?t = "\<lparr>cl_array = xs @ ys @ [last (b # ys)], cl_len = length (xs @ ys), cl_found = True\<rparr>"
  have "\<not> ip_equal (cl_array ?t ! j) old" if "j \<in> set [Suc (length xs)..<length (xs @ b # ys)]" for j
  proof -
    have "ys \<noteq> []" using that by auto
    then have "last (b # ys) \<in> set ys" by simp
    moreover have "j - length xs < length (ys @ [last (b # ys)])" using that by auto
    ultimately have "(ys @ [last (b # ys)]) ! (j - length xs) \<in> set ys"
      by (metis in_set_conv_decomp insert_absorb list.simps(15) nth_mem rotate1.simps(2) set_rotate1)
    moreover have "cl_array ?t ! j = (ys @ [last (b # ys)]) ! (j - length xs)"
    proof -
      have "\<not> j < length xs" using that by auto
      then show ?thesis by (subst cut_state.simps(1), subst nth_append) simp
    qed
    ultimately show ?thesis using ys by auto
  qed
  then have "cut_loop old [Suc (length xs)..<length (xs @ b # ys)] ?t = Inr ?t" by (intro cut_loop_none) blast
  then show ?thesis
    using cut_loop_first [OF assms(1,2) refl, of ys] by (simp add: replace_old_def)
qed

lemma replace_old_twice:
  assumes "\<forall>a\<in>set xs. \<not> ip_equal a old" and "ip_equal b old" and "ip_equal c old"
  shows "\<exists>e. replace_old old new (xs @ b # ys @ [c]) = Inl (Panic e)"
proof -
  let ?n = "length (xs @ b # ys @ [c])"
  let ?t = "\<lparr>cl_array = xs @ (ys @ [c]) @ [c], cl_len = ?n - 1, cl_found = True\<rparr>"
  have range: "[Suc (length xs)..<?n] = [Suc (length xs)..<?n - 1] @ [?n - 1]" by simp
  obtain e where e: "cut_loop old [Suc (length xs)..<?n] ?t = Inl (Panic e)"
    unfolding range using cut_loop_panics [of ?t ?n c old "[Suc (length xs)..<?n - 1]"] assms(3) by auto
  have l: "last (b # ys @ [c]) = c" by simp
  have "cut_loop old [0..<?n] \<lparr>cl_array = xs @ b # ys @ [c], cl_len = ?n, cl_found = False\<rparr> = Inl (Panic e)"
    by (simp only: cut_loop_first [OF assms(1,2) refl, of "ys @ [c]"] l e)
  then show ?thesis by (simp only: replace_old_def try_res_simps) blast
qed

text \<open>
  C40. Moving the sites of a domain off an address: an address that is not listed changes
  nothing; one that is listed once is removed, and the new address takes its place only when
  no other of that family is left; and one that is listed twice, the second time at the end,
  makes the loop slice past the end of the shortened list, a panic.
\<close>

theorem plesk_replace_old:
  assumes "\<forall>a\<in>set xs. \<not> ip_equal a old" and "ip_equal b old" and "\<forall>a\<in>set ys. \<not> ip_equal a old"
    and "ip_equal c old"
  shows "replace_old old new xs = Inr (False, xs)
    \<and> replace_old old new (xs @ b # ys) = Inr (True, if xs @ ys = [] then [new] else xs @ ys)
    \<and> (\<exists>e. replace_old old new (xs @ b # ys @ [c]) = Inl (Panic e))"
proof (intro conjI)
  show "replace_old old new xs = Inr (False, xs)" using assms(1) by (simp add: replace_old_def cut_loop_none)
qed (use assms replace_old_once replace_old_twice in blast)+

lemma plesk_replace_old_witness:
  "replace_old [192, 0, 2, 5] [192, 0, 2, 6] [[192, 0, 2, 9], [192, 0, 2, 5]] = Inr (True, [[192, 0, 2, 9]])
   \<and> (\<exists>e. replace_old [192, 0, 2, 5] [192, 0, 2, 6] [[192, 0, 2, 9], [192, 0, 2, 5], [192, 0, 2, 5]] = Inl (Panic e))"
proof -
  have "\<not> ip_equal [192, 0, 2, 9] [192, 0, 2, 5]" "ip_equal [192, 0, 2, 5] [192, 0, 2, 5]" by code_simp+
  then show ?thesis
    using plesk_replace_old [of "[[192, 0, 2, 9]]" "[192, 0, 2, 5]" "[192, 0, 2, 5]" "[]" "[192, 0, 2, 5]" "[192, 0, 2, 6]"]
    by simp
qed

section \<open>cPanel's configuration file\<close>

definition put_lines :: "(string \<Rightarrow> bool) \<Rightarrow> string \<Rightarrow> string list \<Rightarrow> string list" where
  "put_lines P n ls = (if list_ex P ls then map (\<lambda>l. if P l then n else l) ls
     else if ls \<noteq> [] \<and> last ls = [] then butlast ls @ [n, []] else ls @ [n])"

lemma set_directive_put: "set_directive d ip ls = put_lines (is_directive d) (d @ '' '' @ ip) ls"
  by (simp only: set_directive_def put_lines_def Let_def)

lemma filter_put_lines:
  assumes "P n" and "\<not> P []"
  shows "filter (\<lambda>l. \<not> P l) (put_lines P n ls) = filter (\<lambda>l. \<not> P l) ls
    \<and> filter P (put_lines P n ls) = replicate (max 1 (length (filter P ls))) n"
proof (cases "list_ex P ls")
  case True
  let ?f = "\<lambda>l. if P l then n else l"
  have "filter (\<lambda>l. \<not> P l) (map ?f xs) = filter (\<lambda>l. \<not> P l) xs" for xs
    using assms(1) by (induction xs) auto
  moreover have "filter P (map ?f xs) = replicate (length (filter P xs)) n" for xs
    using assms(1) by (induction xs) auto
  moreover have "length (filter P ls) \<ge> 1"
    using True by (cases "filter P ls") (auto simp: list_ex_iff filter_empty_conv)
  ultimately show ?thesis using True by (simp add: put_lines_def max_absorb2)
next
  case False
  then have none: "filter P ls = []" by (auto simp: list_ex_iff filter_empty_conv)
  show ?thesis
  proof (cases "ls \<noteq> [] \<and> last ls = []")
    case True
    then obtain ks where "ls = ks @ [[]]" by (metis append_butlast_last_id)
    then show ?thesis using False none assms by (simp add: put_lines_def)
  next
    case no: False
    then have "put_lines P n ls = ls @ [n]" using False by (auto simp: put_lines_def)
    then show ?thesis using none assms(1) by simp
  qed
qed

lemma put_lines_set: "l \<in> set (put_lines P n ls) \<Longrightarrow> l = n \<or> l \<in> set ls \<or> l = []"
  by (auto simp: put_lines_def dest: in_set_butlastD split: if_splits)

lemma put_lines_nonempty: "put_lines P n ls \<noteq> []"
  by (auto simp: put_lines_def)

lemma put_lines_idem:
  assumes "P n" and "\<not> P []"
  shows "put_lines P n (put_lines P n ls) = put_lines P n ls"
proof -
  let ?ks = "put_lines P n ls"
  have f: "filter P ?ks = replicate (max 1 (length (filter P ls))) n" using filter_put_lines [OF assms] by blast
  then have "set (filter P ?ks) = {n}" by (simp add: set_replicate_conv_if)
  then have all: "\<And>l. l \<in> set ?ks \<Longrightarrow> P l \<Longrightarrow> l = n" and some: "list_ex P ?ks"
    by (auto simp: list_ex_iff)
  have "map (\<lambda>l. if P l then n else l) ?ks = ?ks" by (rule map_idI) (use all in auto)
  then show ?thesis using some by (simp add: put_lines_def [of P n ?ks])
qed

lemma Split_lines: "l \<in> set (Split c s) \<Longrightarrow> c \<notin> set l"
  by (induction s arbitrary: l) (fastforce split: list.splits if_splits)+

lemma word_newline: "is_word s \<Longrightarrow> newline \<notin> set s"
proof -
  have "is_space newline" by code_simp
  then show "is_word s \<Longrightarrow> newline \<notin> set s" by (auto simp: is_word_def)
qed

lemma is_directive_new: "is_word d \<Longrightarrow> is_word ip \<Longrightarrow> is_directive d (d @ '' '' @ ip)"
  using Fields_word_space [of d "CHR '' ''" ip] by (simp add: is_directive_def is_space_def)

text \<open>
  C39. Pointing cPanel's shared address elsewhere rewrites its configuration file so that
  every line of the directive, of which there is at least one afterwards, says the new
  address, while every other line is kept, in its order; doing it again changes nothing.
\<close>

theorem cpanel_directive_set:
  assumes "setWWWAcctAddr path d ip w = (Inr (), w')" and "content_of w path = Some c" and "no_link w path"
    and "is_word d" and "is_word ip"
  shows "\<exists>c'. content_of w' path = Some c'
    \<and> filter (\<lambda>l. \<not> is_directive d l) (Split newline c') = filter (\<lambda>l. \<not> is_directive d l) (Split newline c)
    \<and> filter (is_directive d) (Split newline c') =
        replicate (max 1 (length (filter (is_directive d) (Split newline c)))) (d @ '' '' @ ip)
    \<and> join [newline] (set_directive d ip (Split newline c')) = c'"
proof -
  let ?ls = "Split newline c"
  obtain info w1 data w2 where steps: "os_Stat path w = (Inr info, w1)" "os_ReadFile path w1 = (Inr data, w2)"
      "os_WriteFile path (join [newline] (set_directive d ip (Split newline data))) (fi_mode info) w2 = (Inr (), w')"
    using assms(1) by (auto simp: setWWWAcctAddr_def try_io_Inr_iff)
  have same: "fs_get w1 q = fs_get w q" "fs_get w2 q = fs_get w q" for q
    using os_Stat_frame [OF steps(1)] os_ReadFile_frame [OF steps(2)] by simp_all
  then have link: "no_link w1 path" "no_link w2 path" using assms(3) by (simp_all add: no_link_def)
  have "data = c" using os_ReadFile_content [OF steps(2) link(1)] same assms(2) by (simp add: content_of_def)
  then have c': "content_of w' path = Some (join [newline] (set_directive d ip ?ls))"
    using os_WriteFile_content [OF steps(3) link(2)] by simp
  let ?new = "d @ '' '' @ ip"
  let ?ks = "put_lines (is_directive d) ?new ?ls"
  have dir: "is_directive d ?new" "\<not> is_directive d []"
    by (rule is_directive_new [OF assms(4,5)]) (simp add: is_directive_def)
  have "newline \<notin> set ?new" using word_newline [OF assms(4)] word_newline [OF assms(5)] by (simp add: newline_def)
  then have "\<forall>l\<in>set ?ks. newline \<notin> set l" using put_lines_set Split_lines by fastforce
  then have lines: "Split newline (join [newline] ?ks) = ?ks" by (rule Split_join [OF put_lines_nonempty])
  show ?thesis
    using c' lines filter_put_lines [OF dir, of ?ls] put_lines_idem [OF dir, of ?ls]
    unfolding set_directive_put by (intro exI [of _ "join [newline] ?ks"]) simp
qed

definition bench_acct :: string where
  "bench_acct = ''HOST a.example'' @ [newline] @ ''ADDR 192.0.2.5'' @ [newline]"

definition bench_acct_world :: world where
  "bench_acct_world = \<lparr>w_fs = [(cpanelWWWAcctConf, File bench_acct 420 0)], w_tick = 0, w_fault = (\<lambda>_. None), w_clock = (\<lambda>n. n),
     w_exec = (\<lambda>n argv st. \<lparr>pr_start = None, pr_stdout = [], pr_stderr = [], pr_wait = None, pr_store = st\<rparr>),
     w_trace = [], w_log = [], w_path = []\<rparr>"

lemma cpanel_directive_set_witness:
  "\<exists>c'. content_of (snd (setWWWAcctAddr cpanelWWWAcctConf ''ADDR'' ''192.0.2.6'' bench_acct_world)) cpanelWWWAcctConf = Some c'
    \<and> filter (is_directive ''ADDR'') (Split newline c') = [''ADDR 192.0.2.6'']"
proof -
  have run: "setWWWAcctAddr cpanelWWWAcctConf ''ADDR'' ''192.0.2.6'' bench_acct_world =
      (Inr (), snd (setWWWAcctAddr cpanelWWWAcctConf ''ADDR'' ''192.0.2.6'' bench_acct_world))"
    by (rule prod_eqI) (code_simp, simp)
  have c: "content_of bench_acct_world cpanelWWWAcctConf = Some bench_acct" "no_link bench_acct_world cpanelWWWAcctConf"
    "is_word ''ADDR''" "is_word ''192.0.2.6''" by code_simp+
  have n: "replicate (max 1 (length (filter (is_directive ''ADDR'') (Split newline bench_acct)))) (''ADDR'' @ '' '' @ ''192.0.2.6'')
    = [''ADDR 192.0.2.6'']" by code_simp
  show ?thesis using cpanel_directive_set [OF run c] unfolding n by blast
qed

end
