(* ===== verification/NetworkManager.thy ===== *)
theory NetworkManager
  imports NetConf Netlink Services
begin

text \<open>
  \<open>networkManager.go\<close>: the backend that configures NetworkManager. Profiles are read over D-Bus
  and changed with \<open>nmcli\<close>. The D-Bus library, the daemon behind it and the list of links are
  parameters; what the daemon answers is a function of the world at the call.
\<close>

section \<open>Settings\<close>

text \<open>
  A profile is a map of groups of named values. These are the types of values the code
  looks for, and \<open>NvOther\<close> for those it does not. A D-Bus array is never a nil slice.
\<close>

datatype nm_value =
    NvString string
  | NvUint "32 word"
  | NvStrings "string list"
  | NvUints "32 word list"
  | NvBytes "byte list"
  | NvByteLists "byte list list"
  | NvUintLists "32 word list list"
  | NvAnyLists "nm_value list list"
  | NvMaps "(string \<times> nm_value) list list"
  | NvOther

type_synonym nm_group = "(string \<times> nm_value) list"
type_synonym nm_settings = "(string \<times> nm_group) list"

text \<open>Reading a missing group or key gives the zero value; a type assertion that fails too.\<close>

definition nm_setting :: "nm_settings \<Rightarrow> string \<Rightarrow> string \<Rightarrow> nm_value option" where
  "nm_setting s g k = (case map_of s g of None \<Rightarrow> None | Some m \<Rightarrow> map_of m k)"

definition nv_string :: "nm_value option \<Rightarrow> string" where
  "nv_string v = (case v of Some (NvString t) \<Rightarrow> t | _ \<Rightarrow> [])"

definition nv_maps :: "nm_value option \<Rightarrow> nm_group list" where
  "nv_maps v = (case v of Some (NvMaps ms) \<Rightarrow> ms | _ \<Rightarrow> [])"

definition nv_uint_lists :: "nm_value option \<Rightarrow> 32 word list list" where
  "nv_uint_lists v = (case v of Some (NvUintLists xs) \<Rightarrow> xs | _ \<Rightarrow> [])"

definition nv_any_lists :: "nm_value option \<Rightarrow> nm_value list list" where
  "nv_any_lists v = (case v of Some (NvAnyLists xs) \<Rightarrow> xs | _ \<Rightarrow> [])"

definition nv_prefix :: "32 word \<Rightarrow> nat \<Rightarrow> ipmask" where
  "nv_prefix p bits = CIDRMask (uint p) bits"

section \<open>Profiles\<close>

record nmConnection =
  nmc_ID :: string
  nmc_Name :: string
  nmc_UsingData :: bool
  nmc_Method4 :: string
  nmc_Method6 :: string
  nmc_Addresses4 :: "ipnet list"
  nmc_Addresses6 :: "ipnet list"
  nmc_Gateway4 :: ip
  nmc_Gateway6 :: ip
  nmc_Routes4 :: "Route list"
  nmc_Routes6 :: "Route list"
  nmc_DNS :: "ip list"
  nmc_DNSSearch :: "string list"

definition new_nmConnection :: nmConnection where
  "new_nmConnection = \<lparr>nmc_ID = [], nmc_Name = [], nmc_UsingData = False, nmc_Method4 = [], nmc_Method6 = [],
     nmc_Addresses4 = [], nmc_Addresses6 = [], nmc_Gateway4 = [], nmc_Gateway6 = [], nmc_Routes4 = [], nmc_Routes6 = [],
     nmc_DNS = [], nmc_DNSSearch = []\<rparr>"

definition nm_dhcpState :: "nmConnection \<Rightarrow> bool \<times> bool" where
  "nm_dhcpState c = (nmc_Method4 c = ''auto'', nmc_Method6 c = ''auto'' \<or> nmc_Method6 c = ''dhcp'')"

definition nmStaticMethod4 :: "bool \<Rightarrow> string" where
  "nmStaticMethod4 hasAddrs = (if hasAddrs then ''manual'' else ''disabled'')"

definition nmStaticMethod6 :: "bool \<Rightarrow> string" where
  "nmStaticMethod6 hasAddrs = (if hasAddrs then ''manual'' else ''link-local'')"

definition nmNameservers :: "nm_group \<Rightarrow> ip list" where
  "nmNameservers m = (case map_of m ''dns-data'' of
       Some (NvStrings ss) \<Rightarrow> filter (\<lambda>i. i \<noteq> []) (map ParseIP ss)
     | _ \<Rightarrow> (case map_of m ''dns'' of
         Some (NvUints us) \<Rightarrow> filter (\<lambda>i. i \<noteq> []) (map uint2IP us)
       | Some (NvByteLists bs) \<Rightarrow> bs
       | _ \<Rightarrow> []))"

definition nmSearchDomains :: "nm_group \<Rightarrow> string list" where
  "nmSearchDomains m = (case map_of m ''dns-search'' of Some (NvStrings ss) \<Rightarrow> ss | _ \<Rightarrow> [])"

text \<open>The destination of an entry of a data list: its text under a key and its prefix.\<close>

definition data_net :: "string \<Rightarrow> nat \<Rightarrow> nm_group \<Rightarrow> ipnet option" where
  "data_net key bits e = (let i = ParseIP (nv_string (map_of e key)) in
     case map_of e ''prefix'' of
       Some (NvUint p) \<Rightarrow> if i = [] then None else Some \<lparr>net_ip = i, net_mask = nv_prefix p bits\<rparr>
     | _ \<Rightarrow> None)"

definition nmAddressData :: "nm_value option \<Rightarrow> nat \<Rightarrow> ipnet list" where
  "nmAddressData v bits = List.map_filter (data_net ''address'' bits) (nv_maps v)"

definition data_route :: "nat \<Rightarrow> nm_group \<Rightarrow> Route option" where
  "data_route bits e = map_option (\<lambda>n. \<lparr>rt_Destination = Some n,
       rt_Gateway = (case map_of e ''next-hop'' of Some (NvString t) \<Rightarrow> ParseIP t | _ \<Rightarrow> []),
       rt_Metric = (case map_of e ''metric'' of Some (NvUint m) \<Rightarrow> uint m | _ \<Rightarrow> 0)\<rparr>) (data_net ''dest'' bits e)"

definition nmRouteData :: "nm_value option \<Rightarrow> nat \<Rightarrow> Route list" where
  "nmRouteData v bits = List.map_filter (data_route bits) (nv_maps v)"

section \<open>The older style of settings\<close>

text \<open>An entry gives addresses to the list and may replace the gateway.\<close>

definition zeroIP :: ip where "zeroIP = replicate 4 0"
definition zeroIP6 :: ip where "zeroIP6 = replicate 16 0"

definition old_address4 :: "32 word list \<Rightarrow> nmConnection \<Rightarrow> nmConnection" where
  "old_address4 a c =
     (if length a < 3 then c
      else let gateway = uint2IP (a ! 2);
               c = (if gateway \<noteq> [] \<and> \<not> ip_equal gateway zeroIP then c\<lparr>nmc_Gateway4 := gateway\<rparr> else c) in
        c\<lparr>nmc_Addresses4 := nmc_Addresses4 c @ [\<lparr>net_ip = uint2IP (a ! 0), net_mask = nv_prefix (a ! 1) 32\<rparr>]\<rparr>)"

definition old_address6 :: "nm_value list \<Rightarrow> nmConnection \<Rightarrow> nmConnection" where
  "old_address6 a c =
     (if length a < 3 then c
      else case (a ! 0, a ! 1) of
        (NvBytes i, NvUint p) \<Rightarrow>
          (let c = (case a ! 2 of
                 NvBytes g \<Rightarrow> if \<not> ip_equal g zeroIP6 then c\<lparr>nmc_Gateway6 := g\<rparr> else c
               | _ \<Rightarrow> c) in
           c\<lparr>nmc_Addresses6 := nmc_Addresses6 c @ [\<lparr>net_ip = i, net_mask = nv_prefix p 128\<rparr>]\<rparr>)
      | _ \<Rightarrow> c)"

definition old_route4 :: "32 word list \<Rightarrow> Route option" where
  "old_route4 r =
     (if length r < 4 then None
      else Some \<lparr>rt_Destination = Some \<lparr>net_ip = uint2IP (r ! 0), net_mask = nv_prefix (r ! 1) 32\<rparr>,
        rt_Gateway = uint2IP (r ! 2), rt_Metric = uint (r ! 3)\<rparr>)"

definition old_route6 :: "nm_value list \<Rightarrow> Route option" where
  "old_route6 r =
     (if length r < 4 then None
      else case (r ! 0, r ! 1) of
        (NvBytes dest, NvUint p) \<Rightarrow>
          Some \<lparr>rt_Destination = Some \<lparr>net_ip = dest, net_mask = nv_prefix p 128\<rparr>,
            rt_Gateway = (case r ! 2 of NvBytes g \<Rightarrow> g | _ \<Rightarrow> []),
            rt_Metric = (case r ! 3 of NvUint m \<Rightarrow> uint m | _ \<Rightarrow> 0)\<rparr>
      | _ \<Rightarrow> None)"

definition parse_data :: "nm_settings \<Rightarrow> nmConnection \<Rightarrow> nmConnection" where
  "parse_data s c = c\<lparr>nmc_UsingData := True,
     nmc_Addresses4 := nmAddressData (nm_setting s ''ipv4'' ''address-data'') 32,
     nmc_Gateway4 := (case nm_setting s ''ipv4'' ''gateway'' of Some (NvString t) \<Rightarrow> ParseIP t | _ \<Rightarrow> []),
     nmc_Addresses6 := nmAddressData (nm_setting s ''ipv6'' ''address-data'') 128,
     nmc_Gateway6 := (case nm_setting s ''ipv6'' ''gateway'' of Some (NvString t) \<Rightarrow> ParseIP t | _ \<Rightarrow> []),
     nmc_Routes4 := nmRouteData (nm_setting s ''ipv4'' ''route-data'') 32,
     nmc_Routes6 := nmRouteData (nm_setting s ''ipv6'' ''route-data'') 128\<rparr>"

definition parse_old :: "nm_settings \<Rightarrow> nmConnection \<Rightarrow> nmConnection" where
  "parse_old s c =
     (let c = fold old_address4 (nv_uint_lists (nm_setting s ''ipv4'' ''addresses'')) c;
          c = fold old_address6 (nv_any_lists (nm_setting s ''ipv6'' ''addresses'')) c in
      c\<lparr>nmc_Routes4 := List.map_filter old_route4 (nv_uint_lists (nm_setting s ''ipv4'' ''routes'')),
        nmc_Routes6 := List.map_filter old_route6 (nv_any_lists (nm_setting s ''ipv6'' ''routes''))\<rparr>)"

definition group_dns :: "nm_settings \<Rightarrow> string \<Rightarrow> ip list \<times> string list" where
  "group_dns s g = (case map_of s g of None \<Rightarrow> ([], []) | Some m \<Rightarrow> (nmNameservers m, nmSearchDomains m))"

definition ParseConnection :: "nm_settings \<Rightarrow> nmConnection result" where
  "ParseConnection s = (case nm_setting s ''connection'' ''id'' of
       Some (NvString i) \<Rightarrow>
         (let c = new_nmConnection\<lparr>nmc_ID := i,
                nmc_Name := nv_string (nm_setting s ''connection'' ''interface-name''),
                nmc_Method4 := nv_string (nm_setting s ''ipv4'' ''method''),
                nmc_Method6 := nv_string (nm_setting s ''ipv6'' ''method'')\<rparr>;
              c = (if nm_setting s ''ipv4'' ''address-data'' \<noteq> None then parse_data s c else parse_old s c) in
          Inr (c\<lparr>nmc_DNS := fst (group_dns s ''ipv4'') @ fst (group_dns s ''ipv6''),
                 nmc_DNSSearch := snd (group_dns s ''ipv4'') @ snd (group_dns s ''ipv6'')\<rparr>))
     | _ \<Rightarrow> Inl (Errorf ''failed to get interface id''))"

section \<open>The daemon\<close>

text \<open>
  What the daemon and the kernel answer, at the world of the call; every call takes a tick.
  \<open>'c\<close> is a handle on a connection. The state of a device is whether it is activated.
\<close>

record 'c nm_bus =
  nb_SystemBus :: "world \<Rightarrow> unit result"
  nb_NameHasOwner :: "string \<Rightarrow> world \<Rightarrow> bool \<times> goerror option"
  nb_NewNetworkManager :: "world \<Rightarrow> unit result"
  nb_Startup :: "world \<Rightarrow> bool result"
  nb_NewSettings :: "world \<Rightarrow> unit result"
  nb_ListConnections :: "world \<Rightarrow> 'c list result"
  nb_GetSettings :: "'c \<Rightarrow> world \<Rightarrow> nm_settings result"
  nb_DeviceByIpIface :: "string \<Rightarrow> world \<Rightarrow> unit result"
  nb_DeviceActivated :: "string \<Rightarrow> world \<Rightarrow> bool result"
  nb_NewHandle :: "world \<Rightarrow> unit result"
  nb_LinkList :: "world \<Rightarrow> link list result"
  nb_LinkByName :: "string \<Rightarrow> world \<Rightarrow> link result"

definition ask :: "(world \<Rightarrow> 'a) \<Rightarrow> world \<Rightarrow> 'a \<times> world" where
  "ask f w = (f w, tick w)"

definition nmBusName :: string where "nmBusName = ''org.freedesktop.NetworkManager''"

definition nmBusNameOwned :: "'c nm_bus \<Rightarrow> world \<Rightarrow> (bool \<times> goerror option) \<times> world" where
  "nmBusNameOwned bus w = ask (nb_NameHasOwner bus nmBusName) w"

definition nmOnBus :: "'c nm_bus \<Rightarrow> world \<Rightarrow> (bool \<times> goerror option) \<times> world" where
  "nmOnBus bus w = (case ask (nb_SystemBus bus) w of
       (Inl e, w) \<Rightarrow> ((False, Some e), w)
     | (Inr _, w) \<Rightarrow> nmBusNameOwned bus w)"

definition networkManagerReady :: "'c nm_bus \<Rightarrow> world \<Rightarrow> (bool \<times> goerror option) \<times> world" where
  "networkManagerReady bus w = (case nmOnBus bus w of
       ((owned, err), w) \<Rightarrow>
         if err \<noteq> None \<or> \<not> owned then ((False, err), w)
         else (case ask (nb_NewNetworkManager bus) w of
             (Inl e, w) \<Rightarrow> ((False, Some e), w)
           | (Inr _, w) \<Rightarrow> (case ask (nb_Startup bus) w of
               (Inl e, w) \<Rightarrow> ((False, Some e), w)
             | (Inr startup, w) \<Rightarrow> ((\<not> startup, None), w))))"

text \<open>
  The wait for the daemon: the world at each probe, what the select after it takes, and
  whether the caller's context is cancelled when the wait ends. The backend itself is a handle without state.
\<close>

record nm_wait =
  nw_at :: "nat \<Rightarrow> world"
  nw_done :: "nat \<Rightarrow> goerror option"
  nw_cancelled :: bool

definition nm_wait_env :: "'c nm_bus \<Rightarrow> nm_wait \<Rightarrow> wait_env" where
  "nm_wait_env bus e = \<lparr>we_probe = (\<lambda>n. fst (networkManagerReady bus (nw_at e n))), we_done = nw_done e\<rparr>"

definition nm_open :: "'c nm_bus \<Rightarrow> world \<Rightarrow> unit result \<times> world" where
  "nm_open bus w = ask (nb_NewSettings bus) w"

definition newNetworkManager :: "'c nm_bus \<Rightarrow> nm_wait \<Rightarrow> int \<Rightarrow> world \<Rightarrow> (unit result \<times> world) option" where
  "newNetworkManager bus env readyTimeout w =
     (case waitForServiceReady (nm_wait_env bus env) ''NetworkManager'' readyTimeout w of
        None \<Rightarrow> None
      | Some (Inr _, w) \<Rightarrow> Some (nm_open bus w)
      | Some (Inl waitErr, w) \<Rightarrow>
          if nw_cancelled env then Some (Inl waitErr, w)
          else (case nmOnBus bus w of ((owned, busErr), w) \<Rightarrow>
            if busErr \<noteq> None \<or> \<not> owned then Some (Inl waitErr, w)
            else Some (nm_open bus (log_print (''NetworkManager has not finished starting up; configuring it anyway: ''
              @ error_text waitErr) w))))"

section \<open>The profiles of an interface\<close>

record nmTarget =
  nmt_ID :: string
  nmt_Settings :: nm_settings

definition iface_name_of :: "nm_settings \<Rightarrow> string" where
  "iface_name_of s = nv_string (nm_setting s ''connection'' ''interface-name'')"

fun mac_in_groups :: "nm_settings \<Rightarrow> string list \<Rightarrow> string" where
  "mac_in_groups s [] = []"
| "mac_in_groups s (g # gs) = (case nm_setting s g ''mac-address'' of
       Some (NvString m) \<Rightarrow> m
     | Some (NvBytes m) \<Rightarrow> if m \<noteq> [] then mac_string m else mac_in_groups s gs
     | _ \<Rightarrow> mac_in_groups s gs)"

definition nmSettingsMAC :: "nm_settings \<Rightarrow> string" where
  "nmSettingsMAC s = mac_in_groups s [''802-3-ethernet'', ''802-11-wireless'']"

definition nmActiveConnectionUUID :: "string \<Rightarrow> world \<Rightarrow> string \<times> world" where
  "nmActiveConnectionUUID iface w =
     (case run_or_fail [''nmcli'', ''-g'', ''GENERAL.CON-UUID'', ''device'', ''show'', iface] w of
        (Inl e, w) \<Rightarrow> ([], w)
      | (Inr out, w) \<Rightarrow>
          ((case find (\<lambda>l. l \<noteq> [] \<and> l \<noteq> ''--'') (map TrimSpace out) of None \<Rightarrow> [] | Some l \<Rightarrow> l), w))"

definition nmDeviceMAC :: "'c nm_bus \<Rightarrow> string \<Rightarrow> world \<Rightarrow> string \<times> world" where
  "nmDeviceMAC bus iface w = (case ask (nb_LinkByName bus iface) w of
       (Inl e, w) \<Rightarrow> ([], w)
     | (Inr l, w) \<Rightarrow> (mac_string (lk_mac l), w))"

definition matchByIfaceName :: "nmTarget list \<Rightarrow> string \<Rightarrow> nmTarget list" where
  "matchByIfaceName ts iface = filter (\<lambda>t. iface_name_of (nmt_Settings t) = iface) ts"

definition bound_to_device :: "string \<Rightarrow> string \<Rightarrow> nmTarget \<Rightarrow> bool" where
  "bound_to_device activeUUID mac t \<longleftrightarrow>
     iface_name_of (nmt_Settings t) = []
     \<and> (activeUUID \<noteq> [] \<and> nv_string (nm_setting (nmt_Settings t) ''connection'' ''uuid'') = activeUUID
        \<or> (let pinned = nmSettingsMAC (nmt_Settings t) in mac \<noteq> [] \<and> pinned \<noteq> [] \<and> EqualFold pinned mac))"

definition matchByDevice :: "nmTarget list \<Rightarrow> string \<Rightarrow> string \<Rightarrow> nmTarget list" where
  "matchByDevice ts activeUUID mac = filter (bound_to_device activeUUID mac) ts"

text \<open>The snapshot of the profiles that have an id.\<close>

fun read_targets :: "'c nm_bus \<Rightarrow> 'c list \<Rightarrow> world \<Rightarrow> nmTarget list result \<times> world" where
  "read_targets bus [] w = (Inr [], w)"
| "read_targets bus (c # cs) w =
     try_io (ask (nb_GetSettings bus c) w) (\<lambda>s w.
     try_io (read_targets bus cs w) (\<lambda>ts w.
       (Inr (case nm_setting s ''connection'' ''id'' of
          Some (NvString i) \<Rightarrow> if i = [] then ts else \<lparr>nmt_ID = i, nmt_Settings = s\<rparr> # ts
        | _ \<Rightarrow> ts), w)))"

definition connectionsFor :: "'c nm_bus \<Rightarrow> string \<Rightarrow> world \<Rightarrow> nmTarget list result \<times> world" where
  "connectionsFor bus iface w =
     try_io (ask (nb_ListConnections bus) w) (\<lambda>cs w.
     try_io (read_targets bus cs w) (\<lambda>ts w.
     let matched = matchByIfaceName ts iface in
     if matched \<noteq> [] then (Inr matched, w)
     else (case nmActiveConnectionUUID iface w of (uuid, w) \<Rightarrow>
           case nmDeviceMAC bus iface w of (mac, w) \<Rightarrow>
           let matched = matchByDevice ts uuid mac in
           (Inr matched, if matched = [] then log_print (''NetworkManager has no connection profile for '' @ iface
              @ ''; nothing to persist to'') w else w))))"

section \<open>Reading interfaces\<close>

definition nm_interface :: "link list \<Rightarrow> nmConnection \<Rightarrow> Interface" where
  "nm_interface links c =
     (let l = find_last (\<lambda>l. lk_name l = nmc_Name c) links in
      (new_interface (nmc_Name c))\<lparr>
        if_MAC := (case l of None \<Rightarrow> [] | Some l \<Rightarrow> lk_mac l), if_Link := map_option lk_index l,
        if_DHCP4 := fst (nm_dhcpState c), if_DHCP6 := snd (nm_dhcpState c),
        if_Addresses := nmc_Addresses4 c @ nmc_Addresses6 c,
        if_Gateway4 := nmc_Gateway4 c, if_Gateway6 := nmc_Gateway6 c,
        if_Routes := nmc_Routes4 c @ nmc_Routes6 c,
        if_DNS := nmc_DNS c, if_SearchDomains := nmc_DNSSearch c\<rparr>)"

fun nm_interfaces :: "'c nm_bus \<Rightarrow> link list \<Rightarrow> 'c list \<Rightarrow> world \<Rightarrow> Interface list result \<times> world" where
  "nm_interfaces bus links [] w = (Inr [], w)"
| "nm_interfaces bus links (c # cs) w =
     try_io (ask (nb_GetSettings bus c) w) (\<lambda>s w.
     case ParseConnection s of
       Inl _ \<Rightarrow> nm_interfaces bus links cs w
     | Inr conn \<Rightarrow>
         if nmc_Name conn = [] then nm_interfaces bus links cs w
         else try_io (nm_interfaces bus links cs w) (\<lambda>is w. (Inr (nm_interface links conn # is), w)))"

definition nm_GetInterfaces :: "'c nm_bus \<Rightarrow> world \<Rightarrow> Interface list result \<times> world" where
  "nm_GetInterfaces bus w =
     try_io (ask (nb_NewHandle bus) w) (\<lambda>_ w.
     try_io (ask (nb_LinkList bus) w) (\<lambda>links w.
     try_io (ask (nb_ListConnections bus) w) (\<lambda>cs w. nm_interfaces bus links cs w)))"

section \<open>Changing profiles\<close>

text \<open>One \<open>nmcli connection modify\<close>, and the errors it adds.\<close>

definition nm_modify :: "string \<Rightarrow> string \<Rightarrow> string list \<Rightarrow> world \<Rightarrow> goerror list \<times> world" where
  "nm_modify what i args w = (case run_or_fail ([''nmcli'', ''connection'', ''modify'', i] @ args) w of
       (Inl e, w) \<Rightarrow> ([Wrap (''failed to set '' @ what @ '' on '' @ i) e], w)
     | (Inr _, w) \<Rightarrow> ([], w))"

text \<open>The loop over the profiles: every change is tried, the errors are collected.\<close>

fun for_targets :: "(nmTarget \<Rightarrow> world \<Rightarrow> goerror list \<times> world) \<Rightarrow> nmTarget list \<Rightarrow> world \<Rightarrow> goerror list \<times> world" where
  "for_targets f [] w = ([], w)"
| "for_targets f (t # ts) w = (case f t w of (es, w) \<Rightarrow> case for_targets f ts w of (es', w) \<Rightarrow> (es @ es', w))"

definition joined :: "goerror list \<Rightarrow> unit result" where
  "joined es = (case errors_join es of None \<Rightarrow> Inr () | Some e \<Rightarrow> Inl e)"

definition both_families ::
  "(world \<Rightarrow> goerror list \<times> world) \<Rightarrow> (world \<Rightarrow> goerror list \<times> world) \<Rightarrow> world \<Rightarrow> goerror list \<times> world" where
  "both_families f g w = (case f w of (es, w) \<Rightarrow> case g w of (es', w) \<Rightarrow> (es @ es', w))"

text \<open>The methods a change of addresses leaves: a family that leases goes on leasing.\<close>

definition address_methods :: "bool \<Rightarrow> bool \<Rightarrow> string \<Rightarrow> string \<Rightarrow> string \<times> string" where
  "address_methods has4 has6 method4 method6 =
     (case nm_dhcpState (new_nmConnection\<lparr>nmc_Method4 := method4, nmc_Method6 := method6\<rparr>) of (dhcp4, dhcp6) \<Rightarrow>
      (if dhcp4 then ''auto'' else nmStaticMethod4 has4, if dhcp6 then method6 else nmStaticMethod6 has6))"

definition set_addresses_on :: "string list \<Rightarrow> string list \<Rightarrow> ip \<Rightarrow> ip \<Rightarrow> nmTarget \<Rightarrow> world \<Rightarrow> goerror list \<times> world" where
  "set_addresses_on addrs4 addrs6 gateway4 gateway6 t =
     (case address_methods (addrs4 \<noteq> []) (addrs6 \<noteq> []) (nv_string (nm_setting (nmt_Settings t) ''ipv4'' ''method''))
         (nv_string (nm_setting (nmt_Settings t) ''ipv6'' ''method'')) of (method4, method6) \<Rightarrow>
      both_families
        (nm_modify ''ipv4.addresses'' (nmt_ID t) [''ipv4.method'', method4, ''ipv4.addresses'', join '','' addrs4,
           ''ipv4.gateway'', if gateway4 \<noteq> [] \<and> addrs4 \<noteq> [] then ip_string gateway4 else []])
        (nm_modify ''ipv6.addresses'' (nmt_ID t) [''ipv6.method'', method6, ''ipv6.addresses'', join '','' addrs6,
           ''ipv6.gateway'', if gateway6 \<noteq> [] \<and> addrs6 \<noteq> [] then ip_string gateway6 else []]))"

definition nm_SetIfaceAddresses :: "'c nm_bus \<Rightarrow> string \<Rightarrow> ipnet list \<Rightarrow> ip \<Rightarrow> ip \<Rightarrow> world \<Rightarrow> unit result \<times> world" where
  "nm_SetIfaceAddresses bus iface addrs gateway4 gateway6 w =
     (let addrs6 = map ipnet_string (filter (\<lambda>a. To4 (net_ip a) = []) addrs);
          addrs4 = map ipnet_string (filter (\<lambda>a. To4 (net_ip a) \<noteq> []) addrs) in
      try_io (connectionsFor bus iface w) (\<lambda>ts w.
        case for_targets (set_addresses_on addrs4 addrs6 gateway4 gateway6) ts w of (es, w) \<Rightarrow> (joined es, w)))"

definition dhcp_methods :: "bool \<Rightarrow> bool \<Rightarrow> nmConnection \<Rightarrow> string \<times> string" where
  "dhcp_methods dhcp4 dhcp6 c =
     (if \<not> dhcp4 then nmStaticMethod4 (nmc_Addresses4 c \<noteq> []) else ''auto'',
      if dhcp6 \<and> nmc_Method6 c = ''dhcp'' then ''dhcp''
      else if \<not> dhcp6 then nmStaticMethod6 (nmc_Addresses6 c \<noteq> []) else ''auto'')"

definition set_dhcp_on :: "bool \<Rightarrow> bool \<Rightarrow> nmTarget \<Rightarrow> world \<Rightarrow> goerror list \<times> world" where
  "set_dhcp_on dhcp4 dhcp6 t = (case ParseConnection (nmt_Settings t) of
       Inl e \<Rightarrow> (\<lambda>w. ([Wrap (''failed to parse connection '' @ nmt_ID t) e], w))
     | Inr c \<Rightarrow> (case dhcp_methods dhcp4 dhcp6 c of (method4, method6) \<Rightarrow>
         both_families (nm_modify ''ipv4.method'' (nmt_ID t) [''ipv4.method'', method4])
           (nm_modify ''ipv6.method'' (nmt_ID t) [''ipv6.method'', method6])))"

definition nmDeviceActivated :: "'c nm_bus \<Rightarrow> string \<Rightarrow> world \<Rightarrow> bool \<times> world" where
  "nmDeviceActivated bus iface w = (case ask (nb_NewNetworkManager bus) w of
       (Inl e, w) \<Rightarrow> (True, w)
     | (Inr _, w) \<Rightarrow> (case ask (nb_DeviceByIpIface bus iface) w of
         (Inl e, w) \<Rightarrow> (True, w)
       | (Inr _, w) \<Rightarrow> (case ask (nb_DeviceActivated bus iface) w of
           (Inl e, w) \<Rightarrow> (True, w)
         | (Inr active, w) \<Rightarrow> (active, w))))"

definition reapplyDevice :: "string \<Rightarrow> world \<Rightarrow> unit result \<times> world" where
  "reapplyDevice iface w = try_io (run_or_fail [''nmcli'', ''device'', ''reapply'', iface] w) (\<lambda>_ w. (Inr (), w))"

definition reapply_or_log :: "string \<Rightarrow> world \<Rightarrow> world" where
  "reapply_or_log iface w = (case reapplyDevice iface w of
       (Inl e, w) \<Rightarrow> log_print (''error applying the connection profile to '' @ iface @ '': '' @ error_text e) w
     | (Inr _, w) \<Rightarrow> w)"

definition nm_SetIfaceDHCP :: "'c nm_bus \<Rightarrow> string \<Rightarrow> bool \<Rightarrow> bool \<Rightarrow> world \<Rightarrow> unit result \<times> world" where
  "nm_SetIfaceDHCP bus iface dhcp4 dhcp6 w =
     try_io (connectionsFor bus iface w) (\<lambda>ts w.
       case for_targets (set_dhcp_on dhcp4 dhcp6) ts w of (es, w) \<Rightarrow>
       case (if ts \<noteq> [] \<and> (\<not> dhcp4 \<or> \<not> dhcp6) then nmDeviceActivated bus iface w else (True, w)) of (active, w) \<Rightarrow>
       (joined es, if active then w else reapply_or_log iface w))"

definition nm_renewDHCP :: "string \<Rightarrow> world \<Rightarrow> unit result \<times> world" where
  "nm_renewDHCP iface w = reapplyDevice iface w"

text \<open>A route without a destination is a nil pointer the code dereferences.\<close>

definition route_text :: "Route \<Rightarrow> string" where
  "route_text r = dest_string (rt_Destination r) @ '' '' @ ip_string (rt_Gateway r) @ '' '' @ Itoa (rt_Metric r)"

definition route_v6 :: "Route \<Rightarrow> bool" where
  "route_v6 r = (case rt_Destination r of None \<Rightarrow> False | Some n \<Rightarrow> To4 (net_ip n) = [])"

definition set_routes_on :: "string list \<Rightarrow> string list \<Rightarrow> nmTarget \<Rightarrow> world \<Rightarrow> goerror list \<times> world" where
  "set_routes_on routes4 routes6 t =
     both_families (nm_modify ''ipv4.routes'' (nmt_ID t) [''ipv4.routes'', join '','' routes4])
       (nm_modify ''ipv6.routes'' (nmt_ID t) [''ipv6.routes'', join '','' routes6])"

definition nm_SetIfaceRoutes :: "'c nm_bus \<Rightarrow> string \<Rightarrow> Route list \<Rightarrow> world \<Rightarrow> unit result \<times> world" where
  "nm_SetIfaceRoutes bus iface routes w =
     (if list_ex (\<lambda>r. rt_Destination r = None) routes then (Inl (Panic ''nil pointer dereference''), w)
      else let routes6 = map route_text (filter route_v6 routes);
               routes4 = map route_text (filter (\<lambda>r. \<not> route_v6 r) routes) in
        try_io (connectionsFor bus iface w) (\<lambda>ts w.
          case for_targets (set_routes_on routes4 routes6) ts w of (es, w) \<Rightarrow> (joined es, w)))"

definition set_dns_on :: "string list \<Rightarrow> string list \<Rightarrow> string \<Rightarrow> nmTarget \<Rightarrow> world \<Rightarrow> goerror list \<times> world" where
  "set_dns_on dns4 dns6 search t =
     both_families
       (nm_modify ''ipv4.dns'' (nmt_ID t) [''ipv4.dns'', join '','' dns4, ''ipv4.dns-search'', search, ''ipv4.ignore-auto-dns'', ''yes''])
       (nm_modify ''ipv6.dns'' (nmt_ID t) [''ipv6.dns'', join '','' dns6, ''ipv6.dns-search'', search, ''ipv6.ignore-auto-dns'', ''yes''])"

definition nm_SetIfaceDNS :: "'c nm_bus \<Rightarrow> string \<Rightarrow> ip list \<Rightarrow> string list \<Rightarrow> world \<Rightarrow> unit result \<times> world" where
  "nm_SetIfaceDNS bus iface servers searchDomains w =
     (let ips = filter (\<lambda>i. i \<noteq> []) servers;
          dns6 = map ip_string (filter (\<lambda>i. To4 i = []) ips);
          dns4 = map ip_string (filter (\<lambda>i. To4 i \<noteq> []) ips) in
      try_io (connectionsFor bus iface w) (\<lambda>ts w.
        case for_targets (set_dns_on dns4 dns6 (join '','' searchDomains)) ts w of (es, w) \<Rightarrow>
        (joined es, if ts \<noteq> [] then reapply_or_log iface w else w)))"

section \<open>As a backend\<close>

text \<open>The backend the configurator holds: a handle, DNS reading and lease renewal included.\<close>

definition nm_op :: "(world \<Rightarrow> 'a result \<times> world) \<Rightarrow> unit \<times> world \<Rightarrow> 'a result \<times> unit \<times> world" where
  "nm_op f s = (case f (snd s) of (r, w) \<Rightarrow> (r, (), w))"

definition nm_backend :: "'c nm_bus \<Rightarrow> unit ifaceBackend" where
  "nm_backend bus = \<lparr>
     SetIfaceAddresses = (\<lambda>iface addrs g4 g6. nm_op (nm_SetIfaceAddresses bus iface addrs g4 g6)),
     SetIfaceRoutes = (\<lambda>iface routes. nm_op (nm_SetIfaceRoutes bus iface routes)),
     SetIfaceDNS = (\<lambda>iface servers domains. nm_op (nm_SetIfaceDNS bus iface servers domains)),
     SetIfaceDHCP = (\<lambda>iface d4 d6. nm_op (nm_SetIfaceDHCP bus iface d4 d6)),
     ifaceDNSReader = (\<lambda>b. Some (nm_op (nm_GetInterfaces bus))),
     dhcpRenewer = (\<lambda>b. Some (\<lambda>iface. nm_op (nm_renewDHCP iface)))\<rparr>"

end
