(* ===== verification/NetworkManagerLaws.thy ===== *)
theory NetworkManagerLaws
  imports NetworkManager Traces Contracts GoNetRoundtrip
begin

text \<open>
  What the NetworkManager backend promises: which profiles it touches, that both styles of
  settings are read alike, that what is read is well formed, and when its constructor returns.
\<close>

section \<open>What is read is well formed\<close>

definition net_ok :: "nat \<Rightarrow> ipnet \<Rightarrow> bool" where
  "net_ok bits n \<longleftrightarrow> net_mask n = [] \<or> length (net_mask n) = bits div 8"

definition route_ok :: "nat \<Rightarrow> Route \<Rightarrow> bool" where
  "route_ok bits r \<longleftrightarrow> (case rt_Destination r of None \<Rightarrow> False | Some n \<Rightarrow> net_ok bits n)
     \<and> 0 \<le> rt_Metric r \<and> rt_Metric r < 2 ^ 32"

definition conn_ok :: "nmConnection \<Rightarrow> bool" where
  "conn_ok c \<longleftrightarrow> list_all (net_ok 32) (nmc_Addresses4 c) \<and> list_all (net_ok 128) (nmc_Addresses6 c)
     \<and> list_all (route_ok 32) (nmc_Routes4 c) \<and> list_all (route_ok 128) (nmc_Routes6 c)"

lemma net_ok_prefix: "bits = 32 \<or> bits = 128 \<Longrightarrow> net_ok bits \<lparr>net_ip = i, net_mask = nv_prefix p bits\<rparr>"
  by (auto simp: net_ok_def nv_prefix_def CIDRMask_def)

lemma uint32_bound: "uint (m :: 32 word) < 2 ^ 32"
  using uint_lt2p [of m] by simp

lemma list_all_map_filter: "(\<And>x y. f x = Some y \<Longrightarrow> P y) \<Longrightarrow> list_all P (List.map_filter f xs)"
  by (induction xs) (auto simp: List.map_filter_simps split: option.split)

lemma data_net_cases:
  assumes "data_net k bits e = Some n"
  obtains p where "ParseIP (nv_string (map_of e k)) \<noteq> []" "map_of e ''prefix'' = Some (NvUint p)"
    "n = \<lparr>net_ip = ParseIP (nv_string (map_of e k)), net_mask = nv_prefix p bits\<rparr>"
  using assms unfolding data_net_def Let_def
  by (cases "map_of e ''prefix''"; cases "the (map_of e ''prefix'')") (simp_all split: if_splits)

lemma data_net_ok: "bits = 32 \<or> bits = 128 \<Longrightarrow> data_net k bits e = Some n \<Longrightarrow> net_ok bits n"
  by (erule data_net_cases) (simp add: net_ok_prefix)

lemma route_okI: "net_ok bits n \<Longrightarrow> m = 0 \<or> (\<exists>w :: 32 word. m = uint w)
    \<Longrightarrow> route_ok bits \<lparr>rt_Destination = Some n, rt_Gateway = g, rt_Metric = m\<rparr>"
  using uint32_bound by (auto simp: route_ok_def)

lemma uint_metric: "(case v of Some (NvUint m) \<Rightarrow> uint m | _ \<Rightarrow> 0) = (0 :: int)
    \<or> (\<exists>w :: 32 word. (case v of Some (NvUint m) \<Rightarrow> uint m | _ \<Rightarrow> 0) = uint w)"
  by (cases v; cases "the v") auto

lemma data_route_ok: "bits = 32 \<or> bits = 128 \<Longrightarrow> data_route bits e = Some r \<Longrightarrow> route_ok bits r"
  unfolding data_route_def map_option_eq_Some
  by (elim exE conjE, hypsubst, rule route_okI [OF data_net_ok uint_metric])

lemma old_route4_ok: "old_route4 r = Some x \<Longrightarrow> route_ok 32 x"
  by (auto simp: old_route4_def intro!: route_okI net_ok_prefix split: if_splits)

lemma old_route6_ok: "old_route6 r = Some x \<Longrightarrow> route_ok 128 x"
  by (auto simp: old_route6_def intro!: route_okI net_ok_prefix split: if_splits nm_value.splits)

lemma fold_preserves: "P c \<Longrightarrow> (\<And>x c. P c \<Longrightarrow> P (f x c)) \<Longrightarrow> P (fold f xs c)"
  by (induction xs arbitrary: c) auto

lemma old_address4_ok: "conn_ok c \<Longrightarrow> conn_ok (old_address4 a c)"
  by (auto simp: old_address4_def conn_ok_def Let_def intro!: net_ok_prefix)

lemma old_address6_ok: "conn_ok c \<Longrightarrow> conn_ok (old_address6 a c)"
  by (auto simp: old_address6_def conn_ok_def Let_def intro!: net_ok_prefix split: nm_value.splits)

lemma parse_data_ok: "conn_ok (parse_data s c)"
  by (auto simp: parse_data_def conn_ok_def nmAddressData_def nmRouteData_def
      intro!: list_all_map_filter intro: data_net_ok data_route_ok)

lemma parse_old_ok: "conn_ok c \<Longrightarrow> conn_ok (parse_old s c)"
proof -
  assume "conn_ok c"
  then have "conn_ok (fold old_address6 xs (fold old_address4 ys c))" for xs ys
    by (intro fold_preserves [where P = conn_ok] old_address4_ok old_address6_ok)
  then show ?thesis
    by (auto simp: parse_old_def conn_ok_def Let_def intro!: list_all_map_filter intro: old_route4_ok old_route6_ok)
qed

lemma ParseConnection_ok: "ParseConnection s = Inr c \<Longrightarrow> conn_ok c"
proof -
  have start: "conn_ok (new_nmConnection\<lparr>nmc_ID := i, nmc_Name := n, nmc_Method4 := m4, nmc_Method6 := m6\<rparr>)" for i n m4 m6
    by (simp add: conn_ok_def new_nmConnection_def)
  have "conn_ok c \<Longrightarrow> conn_ok (c\<lparr>nmc_DNS := d, nmc_DNSSearch := q\<rparr>)" for c d q by (simp add: conn_ok_def)
  then show "ParseConnection s = Inr c \<Longrightarrow> conn_ok c"
    using parse_data_ok parse_old_ok [OF start]
    by (auto simp: ParseConnection_def Let_def split: option.splits nm_value.splits)
qed

lemma nm_interfaces_from:
  "nm_interfaces bus links cs w = (Inr is, w') \<Longrightarrow> i \<in> set is \<Longrightarrow>
     \<exists>s conn. ParseConnection s = Inr conn \<and> nmc_Name conn \<noteq> [] \<and> i = nm_interface links conn"
proof (induction cs arbitrary: "is" w)
  case (Cons c cs)
  obtain s v where s: "ask (nb_GetSettings bus c) w = (Inr s, v)"
      "(case ParseConnection s of Inl _ \<Rightarrow> nm_interfaces bus links cs v
        | Inr conn \<Rightarrow> if nmc_Name conn = [] then nm_interfaces bus links cs v
          else try_io (nm_interfaces bus links cs v) (\<lambda>is w. (Inr (nm_interface links conn # is), w))) = (Inr is, w')"
    using Cons.prems(1) by (auto simp: try_io_Inr_iff)
  show ?case
  proof (cases "ParseConnection s")
    case (Inl e)
    then show ?thesis using s(2) Cons.IH Cons.prems(2) by simp
  next
    case (Inr conn)
    show ?thesis
    proof (cases "nmc_Name conn = []")
      case True
      then show ?thesis using s(2) Inr Cons.IH Cons.prems(2) by simp
    next
      case False
      then obtain js where "nm_interfaces bus links cs v = (Inr js, w')" "is = nm_interface links conn # js"
        using s(2) Inr by (auto simp: try_io_Inr_iff)
      then show ?thesis using Cons.IH Cons.prems(2) Inr False by auto
    qed
  qed
qed simp

text \<open>
  C36. Whatever the daemon answers, each interface the backend reports has a name, its
  addresses and routes have masks of the width of a family or none, and each route has a
  destination, which the rest of the program looks at without asking, and a metric of 32 bits.
\<close>

theorem nm_interfaces_typed:
  assumes "nm_GetInterfaces bus w = (Inr is, w')" and "i \<in> set is"
  shows "if_Name i \<noteq> [] \<and> list_all (\<lambda>n. net_ok 32 n \<or> net_ok 128 n) (if_Addresses i)
    \<and> list_all (\<lambda>r. route_ok 32 r \<or> route_ok 128 r) (if_Routes i)"
proof -
  obtain links cs v v' where "nm_interfaces bus links cs v = (Inr is, v')"
    using assms(1) by (auto simp: nm_GetInterfaces_def try_io_Inr_iff)
  then obtain s conn where c: "ParseConnection s = Inr conn" "nmc_Name conn \<noteq> []" "i = nm_interface links conn"
    using nm_interfaces_from assms(2) by blast
  then show ?thesis using ParseConnection_ok [OF c(1)]
    by (auto simp: nm_interface_def Let_def new_interface_def conn_ok_def list_all_iff)
qed

text \<open>A daemon with one profile, for \<open>eth0\<close>, that holds an address and leases nothing.\<close>

definition bench_profile :: nm_settings where
  "bench_profile = [(''connection'', [(''id'', NvString ''Wired''), (''interface-name'', NvString ''eth0'')]),
     (''ipv4'', [(''method'', NvString ''manual''),
        (''address-data'', NvMaps [[(''address'', NvString ''192.0.2.5''), (''prefix'', NvUint 24)]]),
        (''route-data'', NvMaps [[(''dest'', NvString ''10.0.0.0''), (''prefix'', NvUint 8), (''next-hop'', NvString ''192.0.2.1'')]])])]"

definition bench_nm :: "unit nm_bus" where
  "bench_nm = \<lparr>nb_SystemBus = (\<lambda>w. Inr ()), nb_NameHasOwner = (\<lambda>n w. (True, None)), nb_NewNetworkManager = (\<lambda>w. Inr ()),
     nb_Startup = (\<lambda>w. Inr True), nb_NewSettings = (\<lambda>w. Inr ()), nb_ListConnections = (\<lambda>w. Inr [()]),
     nb_GetSettings = (\<lambda>c w. Inr bench_profile), nb_DeviceByIpIface = (\<lambda>i w. Inr ()), nb_DeviceActivated = (\<lambda>i w. Inr True),
     nb_NewHandle = (\<lambda>w. Inr ()), nb_LinkList = (\<lambda>w. Inr []), nb_LinkByName = (\<lambda>i w. Inl (Errno ENOENT))\<rparr>"

definition bench_nm_world :: world where
  "bench_nm_world = \<lparr>w_fs = [], w_tick = 0, w_fault = (\<lambda>_. None), w_clock = (\<lambda>n. n),
     w_exec = (\<lambda>n argv st. \<lparr>pr_start = None, pr_stdout = [], pr_stderr = [], pr_wait = None, pr_store = st\<rparr>),
     w_trace = [], w_log = [], w_path = []\<rparr>"

definition bench_nm_iface :: Interface where
  "bench_nm_iface = (case nm_GetInterfaces bench_nm bench_nm_world of (Inr (i # is), w) \<Rightarrow> i | _ \<Rightarrow> new_interface [])"

lemma nm_interfaces_typed_witness:
  "if_Name bench_nm_iface \<noteq> [] \<and> if_Routes bench_nm_iface \<noteq> []
   \<and> list_all (\<lambda>r. route_ok 32 r \<or> route_ok 128 r) (if_Routes bench_nm_iface)"
proof -
  have some: "fst (nm_GetInterfaces bench_nm bench_nm_world) = Inr [bench_nm_iface]" by code_simp
  have "nm_GetInterfaces bench_nm bench_nm_world = (Inr [bench_nm_iface], snd (nm_GetInterfaces bench_nm bench_nm_world))"
    by (rule prod_eqI) (simp_all add: some)
  moreover have "if_Routes bench_nm_iface \<noteq> []" by code_simp
  ultimately show ?thesis using nm_interfaces_typed [of bench_nm bench_nm_world "[bench_nm_iface]"] by simp
qed

section \<open>DHCP clients\<close>

text \<open>What the two method changes of \<open>SetIfaceDHCP\<close> and of \<open>SetIfaceAddresses\<close> make of a profile.\<close>

definition nm_put_dhcp :: "bool \<Rightarrow> bool \<Rightarrow> nmConnection \<Rightarrow> nmConnection" where
  "nm_put_dhcp d4 d6 c = (case dhcp_methods d4 d6 c of (m4, m6) \<Rightarrow> c\<lparr>nmc_Method4 := m4, nmc_Method6 := m6\<rparr>)"

definition nm_put_addresses :: "ipnet list \<Rightarrow> ipnet list \<Rightarrow> nmConnection \<Rightarrow> nmConnection" where
  "nm_put_addresses a4 a6 c = (case address_methods (a4 \<noteq> []) (a6 \<noteq> []) (nmc_Method4 c) (nmc_Method6 c) of (m4, m6) \<Rightarrow>
     c\<lparr>nmc_Method4 := m4, nmc_Method6 := m6, nmc_Addresses4 := a4, nmc_Addresses6 := a6\<rparr>)"

lemma nm_put_get: "nm_dhcpState (nm_put_dhcp d4 d6 c) = (d4, d6)"
  by (auto simp: nm_put_dhcp_def dhcp_methods_def nm_dhcpState_def nmStaticMethod4_def nmStaticMethod6_def)

interpretation nm_dhcp: dhcp_store nm_dhcpState "\<lambda>d4 d6 c. Inr (nm_put_dhcp d4 d6 c)" "\<lambda>_. True"
  by unfold_locales (auto simp: nm_put_get)

lemma nm_addresses_keep_dhcp: "nm_dhcpState (nm_put_addresses a4 a6 c) = nm_dhcpState c"
  by (auto simp: nm_put_addresses_def address_methods_def nm_dhcpState_def nmStaticMethod4_def nmStaticMethod6_def new_nmConnection_def)

text \<open>A method that serves the addresses of the profile.\<close>

definition serves :: "nmConnection \<Rightarrow> bool" where
  "serves c \<longleftrightarrow> (nmc_Addresses4 c \<noteq> [] \<longrightarrow> nmc_Method4 c \<in> {''auto'', ''manual''})
     \<and> (nmc_Addresses6 c \<noteq> [] \<longrightarrow> nmc_Method6 c \<in> {''auto'', ''dhcp'', ''manual''})"

lemma nm_serves: "serves (nm_put_dhcp d4 d6 c)" "serves (nm_put_addresses a4 a6 c)"
  by (auto simp: serves_def nm_put_dhcp_def nm_put_addresses_def dhcp_methods_def address_methods_def nm_dhcpState_def
      nmStaticMethod4_def nmStaticMethod6_def new_nmConnection_def split: if_splits)

section \<open>When the constructor returns\<close>

lemma wait_probe: "we_probe (nm_wait_env bus e) n = fst (networkManagerReady bus (nw_at e n))"
  and wait_done: "we_done (nm_wait_env bus e) n = nw_done e n"
  by (simp_all add: nm_wait_env_def)

text \<open>
  C35. The constructor returns exactly when the wait is over: at once without a timeout, otherwise when at some
  probe the daemon has finished starting or the context is done. It then hands out the
  backend only if the daemon's settings could be opened, and after a wait that gave up
  only if the caller is still waiting and the daemon is on the bus.
\<close>

theorem newNetworkManager_returns:
  shows "(newNetworkManager bus env timeout w \<noteq> None \<longleftrightarrow>
      timeout \<le> 0 \<or> (\<exists>k. fst (fst (networkManagerReady bus (nw_at env k))) \<or> nw_done env k \<noteq> None))
    \<and> (case newNetworkManager bus env timeout w of
        Some (Inr u, w') \<Rightarrow> (\<exists>v. nm_open bus v = (Inr u, w'))
          \<and> (case waitForServiceReady (nm_wait_env bus env) ''NetworkManager'' timeout w of
              Some (Inl e, v) \<Rightarrow> \<not> nw_cancelled env \<and> fst (nmOnBus bus v) = (True, None)
            | r \<Rightarrow> r \<noteq> None)
      | _ \<Rightarrow> True)"
proof -
  let ?wait = "waitForServiceReady (nm_wait_env bus env) ''NetworkManager'' timeout w"
  have "newNetworkManager bus env timeout w \<noteq> None \<longleftrightarrow> ?wait \<noteq> None"
    by (auto simp: newNetworkManager_def split: option.split prod.split sum.split)
  moreover have "?wait \<noteq> None \<longleftrightarrow> timeout \<le> 0 \<or> (\<exists>k. settled (nm_wait_env bus env) k)"
    by (rule wait_returns_iff)
  ultimately show ?thesis
    by (auto simp: newNetworkManager_def settled_def wait_probe wait_done split: option.splits prod.splits sum.splits if_splits)
qed

text \<open>The daemon is starting for good; the wait is cut off at the fourth probe.\<close>

definition bench_wait :: nm_wait where
  "bench_wait = \<lparr>nw_at = (\<lambda>n. bench_nm_world), nw_done = (\<lambda>n. if n = 3 then Some (Errorf ''context deadline exceeded'') else None),
     nw_cancelled = False\<rparr>"

lemma newNetworkManager_returns_witness:
  "newNetworkManager bench_nm bench_wait 60 bench_nm_world \<noteq> None \<and> \<not> fst (fst (networkManagerReady bench_nm bench_nm_world))"
proof -
  have "nw_done bench_wait 3 \<noteq> None" by (simp add: bench_wait_def)
  moreover have "\<not> fst (fst (networkManagerReady bench_nm bench_nm_world))" by code_simp
  ultimately show ?thesis using newNetworkManager_returns [of bench_nm bench_wait 60 bench_nm_world] by blast
qed

section \<open>Which profiles are touched\<close>

text \<open>A profile that may be changed on behalf of an interface: it names the interface, or none.\<close>

definition may_change :: "'c nm_bus \<Rightarrow> string \<Rightarrow> nmTarget \<Rightarrow> bool" where
  "may_change bus iface t \<longleftrightarrow> (\<exists>c v. nb_GetSettings bus c v = Inr (nmt_Settings t))
     \<and> nm_setting (nmt_Settings t) ''connection'' ''id'' = Some (NvString (nmt_ID t))
     \<and> (iface_name_of (nmt_Settings t) = iface \<or> iface_name_of (nmt_Settings t) = [])"

definition modifies :: "string list \<Rightarrow> bool" where
  "modifies c \<longleftrightarrow> take 3 c = [''nmcli'', ''connection'', ''modify'']"

definition own_command :: "'c nm_bus \<Rightarrow> string \<Rightarrow> string list \<Rightarrow> bool" where
  "own_command bus iface c \<longleftrightarrow> (modifies c \<longrightarrow> (\<exists>t. may_change bus iface t \<and> c ! 3 = nmt_ID t))"

lemma runs_ask [runs_intros]: "runs P (\<lambda>w. ask f w)"
  by (simp add: runs_def ask_def tick_def)

lemma runs_pure_seq: "runs P f \<Longrightarrow> runs P (\<lambda>w. case f w of (a, w) \<Rightarrow> (g a, w))"
  by (rule runs_seq) (auto intro: runs_pure)

lemma read_targets_runs: "runs P (read_targets bus cs)"
proof (induction cs)
  case (Cons c cs)
  have "runs P (\<lambda>w. read_targets bus (c # cs) w)"
    unfolding read_targets.simps by (intro runs_intros Cons.IH)
  then show ?case by simp
qed (simp add: runs_pure)

lemma read_targets_settings:
  "read_targets bus cs w = (Inr ts, w') \<Longrightarrow> t \<in> set ts \<Longrightarrow>
     (\<exists>c v. nb_GetSettings bus c v = Inr (nmt_Settings t))
     \<and> nm_setting (nmt_Settings t) ''connection'' ''id'' = Some (NvString (nmt_ID t))"
proof (induction cs arbitrary: ts w w')
  case (Cons c cs)
  obtain s v us v' where s: "nb_GetSettings bus c w = Inr s" "v = tick w" "read_targets bus cs v = (Inr us, v')"
      "ts = (case nm_setting s ''connection'' ''id'' of
          Some (NvString i) \<Rightarrow> if i = [] then us else \<lparr>nmt_ID = i, nmt_Settings = s\<rparr> # us | _ \<Rightarrow> us)"
    using Cons.prems(1) by (auto simp: try_io_Inr_iff ask_def)
  consider "t \<in> set us" | i where "nm_setting s ''connection'' ''id'' = Some (NvString i)" "t = \<lparr>nmt_ID = i, nmt_Settings = s\<rparr>"
    using Cons.prems(2) s(4) by (auto split: option.splits nm_value.splits if_splits)
  then show ?case
  proof cases
    case 1
    then show ?thesis using Cons.IH [OF s(3)] by blast
  next
    case 2
    then show ?thesis using s(1) by auto
  qed
qed simp

lemma connectionsFor_own:
  assumes "connectionsFor bus iface w = (Inr ts, w')"
  shows "list_all (may_change bus iface) ts"
proof -
  obtain cs v us v' where r: "read_targets bus cs v = (Inr us, v')"
      "set ts \<subseteq> set us \<and> list_all (\<lambda>t. iface_name_of (nmt_Settings t) = iface \<or> iface_name_of (nmt_Settings t) = []) ts"
    using assms
    by (fastforce simp: connectionsFor_def try_io_Inr_iff Let_def matchByIfaceName_def matchByDevice_def bound_to_device_def
        list_all_iff split: if_splits prod.splits)
  then show ?thesis using read_targets_settings [OF r(1)] by (auto simp: list_all_iff may_change_def)
qed

lemma connectionsFor_runs: "(\<And>c. \<not> modifies c \<Longrightarrow> P c) \<Longrightarrow> runs P (connectionsFor bus iface)"
proof -
  assume p: "\<And>c. \<not> modifies c \<Longrightarrow> P c"
  have q: "runs P (\<lambda>w. nmActiveConnectionUUID iface w)"
    unfolding nmActiveConnectionUUID_def
    by (rule runs_seq, rule runs_run_or_fail, rule p) (auto simp: modifies_def intro!: runs_sum runs_pure)
  have m: "runs P (\<lambda>w. nmDeviceMAC bus iface w)"
    unfolding nmDeviceMAC_def by (rule runs_seq, rule runs_ask) (auto intro!: runs_sum runs_pure)
  have "runs P (\<lambda>w. connectionsFor bus iface w)"
    unfolding connectionsFor_def Let_def
  proof (intro runs_try_io runs_ask read_targets_runs runs_if runs_pure runs_seq [OF q] runs_seq [OF m])
    fix a
    show "runs P (\<lambda>w. (Inr (x a), if b a then log_print l w else w))" for x :: "_ \<Rightarrow> nmTarget list" and b l
      by (simp add: runs_def log_print_def)
  qed
  then show ?thesis by simp
qed

text \<open>The loop over the profiles, as a contract: a change of one profile runs commands for it only.\<close>

locale profile_change =
  fixes change :: "nmTarget \<Rightarrow> world \<Rightarrow> goerror list \<times> world"
  assumes for_itself: "runs (\<lambda>c. modifies c \<and> c ! 3 = nmt_ID t) (change t)"
begin

lemma loop_own: "list_all (may_change bus iface) ts \<Longrightarrow> runs (own_command bus iface) (for_targets change ts)"
proof (induction ts)
  case (Cons t ts)
  have "runs (own_command bus iface) (change t)"
    using for_itself [of t] Cons.prems unfolding runs_def own_command_def
    by (fastforce simp: list_all_iff)
  then have "runs (own_command bus iface) (\<lambda>w. for_targets change (t # ts) w)"
    unfolding for_targets.simps using Cons by (intro runs_seq runs_pure) auto
  then show ?case by simp
next
  case Nil
  have "runs (own_command bus iface) (\<lambda>w. for_targets change [] w)" by (simp add: runs_pure)
  then show ?case by simp
qed

lemma operation_own:
  assumes "\<And>ts es. runs (own_command bus iface) (finish ts es)"
  shows "runs (own_command bus iface) (\<lambda>w. try_io (connectionsFor bus iface w) (\<lambda>ts w.
    case for_targets change ts w of (es, w) \<Rightarrow> finish ts es w))"
proof (rule runs_try_io_post [where Q = "list_all (may_change bus iface)"])
  show "runs (own_command bus iface) (connectionsFor bus iface)"
    by (rule connectionsFor_runs) (simp add: own_command_def)
qed (auto intro: connectionsFor_own runs_seq loop_own assms)

end

lemma modify_itself: "runs (\<lambda>c. modifies c \<and> c ! 3 = i) (nm_modify what i args)"
proof -
  have "runs (\<lambda>c. modifies c \<and> c ! 3 = i) (\<lambda>w. nm_modify what i args w)"
    unfolding nm_modify_def
    by (rule runs_seq, rule runs_run_or_fail) (auto simp: modifies_def intro!: runs_sum runs_pure)
  then show ?thesis by simp
qed

lemma both_itself: "runs P f \<Longrightarrow> runs P g \<Longrightarrow> runs P (both_families f g)"
proof -
  assume "runs P f" "runs P g"
  then have "runs P (\<lambda>w. both_families f g w)" unfolding both_families_def by (intro runs_seq runs_pure)
  then show ?thesis by simp
qed

interpretation change_addresses: profile_change "set_addresses_on addrs4 addrs6 gateway4 gateway6" for addrs4 addrs6 gateway4 gateway6
  by unfold_locales (auto simp: set_addresses_on_def intro!: both_itself modify_itself split: prod.split)

interpretation change_dhcp: profile_change "set_dhcp_on dhcp4 dhcp6" for dhcp4 dhcp6
  by unfold_locales (auto simp: set_dhcp_on_def intro!: both_itself modify_itself runs_pure split: prod.split sum.split)

interpretation change_routes: profile_change "set_routes_on routes4 routes6" for routes4 routes6
  by unfold_locales (auto simp: set_routes_on_def intro!: both_itself modify_itself)

interpretation change_dns: profile_change "set_dns_on dns4 dns6 search" for dns4 dns6 search
  by unfold_locales (auto simp: set_dns_on_def intro!: both_itself modify_itself)

lemma reapply_runs: "(\<And>c. \<not> modifies c \<Longrightarrow> P c) \<Longrightarrow> runs P (\<lambda>w. (r, reapply_or_log iface w))"
proof -
  assume p: "\<And>c. \<not> modifies c \<Longrightarrow> P c"
  have "runs P (\<lambda>w. reapplyDevice iface w)"
    unfolding reapplyDevice_def by (rule runs_try_io, rule runs_run_or_fail, rule p) (auto simp: modifies_def runs_pure)
  moreover have "w_trace (reapply_or_log iface w) = w_trace (snd (reapplyDevice iface w))" for w
    by (simp add: reapply_or_log_def log_print_def split: prod.split sum.split)
  ultimately show ?thesis by (simp add: runs_def)
qed

lemma activated_runs: "runs P (\<lambda>w. nmDeviceActivated bus iface w)"
  unfolding nmDeviceActivated_def by (intro runs_seq runs_ask runs_sum runs_pure)

lemma addresses_own: "runs (own_command bus iface) (nm_SetIfaceAddresses bus iface addrs g4 g6)"
  unfolding nm_SetIfaceAddresses_def Let_def by (rule change_addresses.operation_own) (rule runs_pure)

lemma routes_own: "runs (own_command bus iface) (nm_SetIfaceRoutes bus iface routes)"
proof -
  have "runs (own_command bus iface) (\<lambda>w. nm_SetIfaceRoutes bus iface routes w)"
    unfolding nm_SetIfaceRoutes_def Let_def by (intro runs_if runs_pure change_routes.operation_own)
  then show ?thesis by simp
qed

lemma dns_own: "runs (own_command bus iface) (nm_SetIfaceDNS bus iface servers domains)"
proof -
  have "runs (own_command bus iface) (\<lambda>w. (joined es, if ts \<noteq> [] then reapply_or_log iface w else w))" for es and ts :: "nmTarget list"
    using reapply_runs [of "own_command bus iface" "joined es" iface] runs_pure [of _ "joined es"]
    by (cases "ts = []") (simp_all add: own_command_def)
  then have "runs (own_command bus iface) (\<lambda>w. nm_SetIfaceDNS bus iface servers domains w)"
    unfolding nm_SetIfaceDNS_def Let_def by (rule change_dns.operation_own)
  then show ?thesis by simp
qed

lemma dhcp_own: "runs (own_command bus iface) (nm_SetIfaceDHCP bus iface d4 d6)"
proof -
  have "runs (own_command bus iface) (\<lambda>w. (joined es, if a then w else reapply_or_log iface w))" for es a
    using reapply_runs [of "own_command bus iface" "joined es" iface] runs_pure [of _ "joined es"]
    by (cases a) (simp_all add: own_command_def)
  then have "runs (own_command bus iface) (\<lambda>w. case (if c then nmDeviceActivated bus iface w else (True, w)) of (active, w) \<Rightarrow>
      (joined es, if active then w else reapply_or_log iface w))" for es c
    by (intro runs_seq runs_if activated_runs runs_pure)
  then have "runs (own_command bus iface) (\<lambda>w. nm_SetIfaceDHCP bus iface d4 d6 w)"
    unfolding nm_SetIfaceDHCP_def by (rule change_dhcp.operation_own)
  then show ?thesis by simp
qed

text \<open>
  C33. The backend changes the profiles of its interface only: every \<open>nmcli connection modify\<close>
  run by one of the four operations is given the id of a profile the daemon listed that
  names the interface, or that names none. A profile of another interface is never
  touched, whatever the daemon and the commands answer.
\<close>

theorem nm_touches_own_profiles:
  assumes "cmd \<in> set (ran w (snd (nm_SetIfaceAddresses bus iface addrs g4 g6 w)))
      \<or> cmd \<in> set (ran w (snd (nm_SetIfaceRoutes bus iface routes w)))
      \<or> cmd \<in> set (ran w (snd (nm_SetIfaceDNS bus iface servers domains w)))
      \<or> cmd \<in> set (ran w (snd (nm_SetIfaceDHCP bus iface d4 d6 w)))"
    and "take 3 cmd = [''nmcli'', ''connection'', ''modify'']"
  shows "\<exists>c v s. nb_GetSettings bus c v = Inr s \<and> nm_setting s ''connection'' ''id'' = Some (NvString (cmd ! 3))
    \<and> (iface_name_of s = iface \<or> iface_name_of s = [])"
proof -
  have "own_command bus iface cmd"
    using assms(1) addresses_own routes_own dns_own dhcp_own by (blast intro: runs_ran)
  then show ?thesis using assms(2) unfolding own_command_def modifies_def may_change_def by metis
qed

lemma nm_touches_own_profiles_witness:
  "let cmd = [''nmcli'', ''connection'', ''modify'', ''Wired'', ''ipv4.method'', ''auto''] in
   cmd \<in> set (ran bench_nm_world (snd (nm_SetIfaceDHCP bench_nm ''eth0'' True False bench_nm_world)))
   \<and> (\<exists>c v s. nb_GetSettings bench_nm c v = Inr s \<and> nm_setting s ''connection'' ''id'' = Some (NvString (cmd ! 3))
     \<and> (iface_name_of s = ''eth0'' \<or> iface_name_of s = []))"
proof -
  let ?cmd = "[''nmcli'', ''connection'', ''modify'', ''Wired'', ''ipv4.method'', ''auto'']"
  have r: "?cmd \<in> set (ran bench_nm_world (snd (nm_SetIfaceDHCP bench_nm ''eth0'' True False bench_nm_world)))" by code_simp
  have "take 3 ?cmd = [''nmcli'', ''connection'', ''modify'']" by simp
  from nm_touches_own_profiles [OF disjI2 [OF disjI2 [OF disjI2 [OF r]]] this] r show ?thesis unfolding Let_def by blast
qed

text \<open>
  A route without a gateway is printed with the text Go has for a nil address, which is
  handed to \<open>nmcli\<close> for a next hop together with the other routes of the family.
\<close>

lemma nm_onlink_route:
  "[''nmcli'', ''connection'', ''modify'', ''Wired'', ''ipv4.routes'', ''10.0.0.0/8 <nil> 0'']
     \<in> set (ran bench_nm_world (snd (nm_SetIfaceRoutes bench_nm ''eth0''
       [\<lparr>rt_Destination = Some \<lparr>net_ip = [10, 0, 0, 0], net_mask = [255, 0, 0, 0]\<rparr>, rt_Gateway = [], rt_Metric = 0\<rparr>] bench_nm_world)))"
  by code_simp

end
