(* ===== verification/NetworkManagerStyles.thy ===== *)
theory NetworkManagerStyles
  imports NetworkManager UtilsLaws GoNetRoundtrip
begin

text \<open>
  The two styles of NetworkManager's settings. A profile is written down once, turned into
  the settings of either style as NetworkManager documents them, and both are read alike.
\<close>

record nm_profile =
  pf_id :: string
  pf_name :: string
  pf_addrs4 :: "(32 word \<times> 32 word) list"    \<comment> \<open>address and prefix\<close>
  pf_gateway4 :: "32 word"                     \<comment> \<open>zero for none\<close>
  pf_routes4 :: "(32 word \<times> 32 word \<times> 32 word \<times> 32 word) list"  \<comment> \<open>destination, prefix, next hop, metric\<close>
  pf_addrs6 :: "(byte list \<times> 32 word) list"
  pf_gateway6 :: "byte list"                   \<comment> \<open>zero for none\<close>
  pf_routes6 :: "(byte list \<times> 32 word \<times> byte list \<times> 32 word) list"
  pf_other4 :: nm_group                        \<comment> \<open>method, resolvers and the rest\<close>
  pf_other6 :: nm_group

text \<open>The gateway stands in the first address; a profile with one has an address.\<close>

definition v6_bytes :: "byte list \<Rightarrow> bool" where
  "v6_bytes b \<longleftrightarrow> length b = 16"

definition style_keys :: "string list" where
  "style_keys = [''address-data'', ''addresses'', ''gateway'', ''route-data'', ''routes'']"

definition pf_ok :: "nm_profile \<Rightarrow> bool" where
  "pf_ok p \<longleftrightarrow> (pf_gateway4 p = 0 \<or> pf_addrs4 p \<noteq> []) \<and> list_all (\<lambda>(d, n, h, m). h \<noteq> 0) (pf_routes4 p)
     \<and> list_all (\<lambda>(a, n). v6_bytes a) (pf_addrs6 p) \<and> v6_bytes (pf_gateway6 p)
     \<and> (pf_gateway6 p = zeroIP6 \<or> pf_addrs6 p \<noteq> [])
     \<and> list_all (\<lambda>(d, n, h, m). v6_bytes d \<and> v6_bytes h) (pf_routes6 p)
     \<and> list_all (\<lambda>(k, v). k \<notin> set style_keys) (pf_other4 p @ pf_other6 p)"

definition old_entries4 :: "nm_profile \<Rightarrow> 32 word list list" where
  "old_entries4 p = (case pf_addrs4 p of [] \<Rightarrow> [] | (a, n) # as \<Rightarrow> [a, n, pf_gateway4 p] # map (\<lambda>(a, n). [a, n, 0]) as)"

definition old_entries6 :: "nm_profile \<Rightarrow> nm_value list list" where
  "old_entries6 p = (case pf_addrs6 p of [] \<Rightarrow> [] | (a, n) # as \<Rightarrow>
     [NvBytes a, NvUint n, NvBytes (pf_gateway6 p)] # map (\<lambda>(a, n). [NvBytes a, NvUint n, NvBytes zeroIP6]) as)"

definition head_group :: "nm_profile \<Rightarrow> string \<times> nm_group" where
  "head_group p = (''connection'', [(''id'', NvString (pf_id p)), (''interface-name'', NvString (pf_name p))])"

definition old_style :: "nm_profile \<Rightarrow> nm_settings" where
  "old_style p = [head_group p,
     (''ipv4'', [(''addresses'', NvUintLists (old_entries4 p)),
        (''routes'', NvUintLists (map (\<lambda>(d, n, h, m). [d, n, h, m]) (pf_routes4 p)))] @ pf_other4 p),
     (''ipv6'', [(''addresses'', NvAnyLists (old_entries6 p)),
        (''routes'', NvAnyLists (map (\<lambda>(d, n, h, m). [NvBytes d, NvUint n, NvBytes h, NvUint m]) (pf_routes6 p)))] @ pf_other6 p)]"

definition address_entry :: "ip \<times> 32 word \<Rightarrow> nm_group" where
  "address_entry a = (case a of (i, n) \<Rightarrow> [(''address'', NvString (ip_string i)), (''prefix'', NvUint n)])"

definition route_entry :: "ip \<times> 32 word \<times> ip \<times> 32 word \<Rightarrow> nm_group" where
  "route_entry r = (case r of (d, n, h, m) \<Rightarrow>
     [(''dest'', NvString (ip_string d)), (''prefix'', NvUint n), (''next-hop'', NvString (ip_string h)), (''metric'', NvUint m)])"

definition data_style :: "nm_profile \<Rightarrow> nm_settings" where
  "data_style p = [head_group p,
     (''ipv4'', [(''address-data'', NvMaps (map (\<lambda>(a, n). address_entry (uint2IP a, n)) (pf_addrs4 p))),
        (''route-data'', NvMaps (map (\<lambda>(d, n, h, m). route_entry (uint2IP d, n, uint2IP h, m)) (pf_routes4 p)))]
        @ (if pf_gateway4 p \<noteq> 0 then [(''gateway'', NvString (ip_string (uint2IP (pf_gateway4 p))))] else []) @ pf_other4 p),
     (''ipv6'', [(''address-data'', NvMaps (map address_entry (pf_addrs6 p))),
        (''route-data'', NvMaps (map route_entry (pf_routes6 p)))]
        @ (if pf_gateway6 p \<noteq> zeroIP6 then [(''gateway'', NvString (ip_string (pf_gateway6 p)))] else []) @ pf_other6 p)]"

text \<open>A connection with every address in 16 bytes and without the mark of the style.\<close>

definition net16 :: "ipnet \<Rightarrow> ipnet" where
  "net16 n = n\<lparr>net_ip := To16 (net_ip n)\<rparr>"

definition route16 :: "Route \<Rightarrow> Route" where
  "route16 r = r\<lparr>rt_Destination := map_option net16 (rt_Destination r), rt_Gateway := To16 (rt_Gateway r)\<rparr>"

definition nm_normal :: "nmConnection \<Rightarrow> nmConnection" where
  "nm_normal c = c\<lparr>nmc_UsingData := False,
     nmc_Addresses4 := map net16 (nmc_Addresses4 c), nmc_Addresses6 := map net16 (nmc_Addresses6 c),
     nmc_Gateway4 := To16 (nmc_Gateway4 c), nmc_Gateway6 := To16 (nmc_Gateway6 c),
     nmc_Routes4 := map route16 (nmc_Routes4 c), nmc_Routes6 := map route16 (nmc_Routes6 c)\<rparr>"

section \<open>Reading the older style\<close>

lemma length_uint2IP [simp]: "length (uint2IP u) = 4"
  by (simp add: uint2IP_def)

lemma uint2IP_not_nil [simp]: "uint2IP u \<noteq> []"
  by (simp add: uint2IP_def)

lemma uint2IP_zero: "uint2IP 0 = zeroIP"
  by code_simp

lemma uint2IP_zero_iff: "uint2IP u = zeroIP \<longleftrightarrow> u = 0"
proof
  assume "uint2IP u = zeroIP"
  then have "ip2Uint (uint2IP u) = ip2Uint (uint2IP 0)" by (simp add: uint2IP_zero)
  then show "u = 0" by (simp add: ip2Uint_uint2IP)
qed (simp add: uint2IP_zero)

lemma gateway4_is_zero: "ip_equal (uint2IP u) zeroIP \<longleftrightarrow> u = 0"
proof -
  have "length zeroIP = 4" by (simp add: zeroIP_def)
  then show ?thesis by (simp add: ip_equal_def uint2IP_zero_iff)
qed

lemma gateway6_is_zero: "v6_bytes g \<Longrightarrow> ip_equal g zeroIP6 \<longleftrightarrow> g = zeroIP6"
proof -
  have "length zeroIP6 = 16" by (simp add: zeroIP6_def)
  then show "v6_bytes g \<Longrightarrow> ip_equal g zeroIP6 \<longleftrightarrow> g = zeroIP6" by (simp add: ip_equal_def v6_bytes_def)
qed

definition word_net :: "32 word \<times> 32 word \<Rightarrow> ipnet" where
  "word_net a = (case a of (i, n) \<Rightarrow> \<lparr>net_ip = uint2IP i, net_mask = nv_prefix n 32\<rparr>)"

definition byte_net :: "byte list \<times> 32 word \<Rightarrow> ipnet" where
  "byte_net a = (case a of (i, n) \<Rightarrow> \<lparr>net_ip = i, net_mask = nv_prefix n 128\<rparr>)"

lemma old_tail4:
  "fold old_address4 (map (\<lambda>(a, n). [a, n, 0]) as) c = c\<lparr>nmc_Addresses4 := nmc_Addresses4 c @ map word_net as\<rparr>"
  by (induction as arbitrary: c) (auto simp: old_address4_def word_net_def gateway4_is_zero)

lemma old_tail6:
  "fold old_address6 (map (\<lambda>(a, n). [NvBytes a, NvUint n, NvBytes zeroIP6]) as) c
     = c\<lparr>nmc_Addresses6 := nmc_Addresses6 c @ map byte_net as\<rparr>"
proof -
  have "ip_equal zeroIP6 zeroIP6" by code_simp
  then show ?thesis by (induction as arbitrary: c) (auto simp: old_address6_def byte_net_def)
qed

lemma old_all4:
  assumes "pf_gateway4 p = 0 \<or> pf_addrs4 p \<noteq> []"
  shows "fold old_address4 (old_entries4 p) c = c\<lparr>nmc_Addresses4 := nmc_Addresses4 c @ map word_net (pf_addrs4 p),
    nmc_Gateway4 := if pf_gateway4 p \<noteq> 0 then uint2IP (pf_gateway4 p) else nmc_Gateway4 c\<rparr>"
proof (cases "pf_addrs4 p")
  case (Cons a as)
  then show ?thesis
    by (cases a) (simp add: old_entries4_def old_address4_def gateway4_is_zero word_net_def old_tail4)
qed (use assms in \<open>simp add: old_entries4_def\<close>)

lemma old_all6:
  assumes "pf_gateway6 p = zeroIP6 \<or> pf_addrs6 p \<noteq> []" and "v6_bytes (pf_gateway6 p)"
  shows "fold old_address6 (old_entries6 p) c = c\<lparr>nmc_Addresses6 := nmc_Addresses6 c @ map byte_net (pf_addrs6 p),
    nmc_Gateway6 := if pf_gateway6 p \<noteq> zeroIP6 then pf_gateway6 p else nmc_Gateway6 c\<rparr>"
proof (cases "pf_addrs6 p")
  case (Cons a as)
  then show ?thesis using gateway6_is_zero [OF assms(2)]
    by (cases a) (simp add: old_entries6_def old_address6_def byte_net_def old_tail6)
qed (use assms(1) in \<open>simp add: old_entries6_def\<close>)

lemma map_filter_all: "(\<And>x. x \<in> set xs \<Longrightarrow> f (h x) = Some (g x)) \<Longrightarrow> List.map_filter f (map h xs) = map g xs"
  by (induction xs) (auto simp: List.map_filter_simps)

section \<open>Reading the data style\<close>

lemma To16_valid: "valid_ip i \<Longrightarrow> To16 i \<noteq> []"
  by (metis length_0_conv valid_ip_To16 zero_neq_numeral)

lemma data_address: "valid_ip i \<Longrightarrow> data_net ''address'' bits (address_entry (i, n)) = Some \<lparr>net_ip = To16 i, net_mask = nv_prefix n bits\<rparr>"
  by (simp add: data_net_def address_entry_def nv_string_def ParseIP_ip_string To16_valid)

lemma data_route_entry:
  "valid_ip d \<Longrightarrow> valid_ip h \<Longrightarrow> data_route bits (route_entry (d, n, h, m)) =
     Some \<lparr>rt_Destination = Some \<lparr>net_ip = To16 d, net_mask = nv_prefix n bits\<rparr>, rt_Gateway = To16 h, rt_Metric = uint m\<rparr>"
  by (simp add: data_route_def data_net_def route_entry_def nv_string_def ParseIP_ip_string To16_valid)

lemma valid_uint2IP [simp]: "valid_ip (uint2IP u)"
  by (simp add: valid_ip_def)

lemma valid_v6: "v6_bytes b \<Longrightarrow> valid_ip b"
  by (simp add: valid_ip_def v6_bytes_def)

lemma To16_v6: "v6_bytes b \<Longrightarrow> To16 b = b"
  by (simp add: To16_def v6_bytes_def)

section \<open>Lookups\<close>

lemma other_key: "list_all (\<lambda>(k, v). k \<notin> set style_keys) m \<Longrightarrow> k \<in> set style_keys \<Longrightarrow> map_of m k = None"
  by (induction m) auto

lemma style_settings:
  assumes "pf_ok p"
  shows "nm_setting (old_style p) ''ipv4'' ''address-data'' = None"
    and "nm_setting (old_style p) ''ipv4'' ''addresses'' = Some (NvUintLists (old_entries4 p))"
    and "nm_setting (old_style p) ''ipv4'' ''routes'' = Some (NvUintLists (map (\<lambda>(d, n, h, m). [d, n, h, m]) (pf_routes4 p)))"
    and "nm_setting (old_style p) ''ipv6'' ''addresses'' = Some (NvAnyLists (old_entries6 p))"
    and "nm_setting (old_style p) ''ipv6'' ''routes'' =
      Some (NvAnyLists (map (\<lambda>(d, n, h, m). [NvBytes d, NvUint n, NvBytes h, NvUint m]) (pf_routes6 p)))"
    and "nm_setting (data_style p) ''ipv4'' ''address-data'' = Some (NvMaps (map (\<lambda>(a, n). address_entry (uint2IP a, n)) (pf_addrs4 p)))"
    and "nm_setting (data_style p) ''ipv4'' ''route-data'' = Some (NvMaps (map (\<lambda>(d, n, h, m). route_entry (uint2IP d, n, uint2IP h, m)) (pf_routes4 p)))"
    and "nm_setting (data_style p) ''ipv4'' ''gateway'' =
      (if pf_gateway4 p \<noteq> 0 then Some (NvString (ip_string (uint2IP (pf_gateway4 p)))) else None)"
    and "nm_setting (data_style p) ''ipv6'' ''address-data'' = Some (NvMaps (map address_entry (pf_addrs6 p)))"
    and "nm_setting (data_style p) ''ipv6'' ''route-data'' = Some (NvMaps (map route_entry (pf_routes6 p)))"
    and "nm_setting (data_style p) ''ipv6'' ''gateway'' =
      (if pf_gateway6 p \<noteq> zeroIP6 then Some (NvString (ip_string (pf_gateway6 p))) else None)"
  using assms other_key [of "pf_other4 p"] other_key [of "pf_other6 p"]
  by (simp_all add: nm_setting_def old_style_def data_style_def head_group_def pf_ok_def style_keys_def)

text \<open>A key of neither style is found alike in both.\<close>

lemma same_elsewhere:
  assumes "k \<notin> set style_keys"
  shows "nm_setting (old_style p) g k = nm_setting (data_style p) g k"
  using assms by (simp add: nm_setting_def old_style_def data_style_def head_group_def style_keys_def)

lemma same_dns: "group_dns (old_style p) g = group_dns (data_style p) g"
proof -
  have d: "nmNameservers m = nmNameservers m'" "nmSearchDomains m = nmSearchDomains m'"
    if "\<And>k. k \<notin> set style_keys \<Longrightarrow> map_of m k = map_of m' k" for m m' :: nm_group
  proof -
    have k: "''dns-data'' \<notin> set style_keys" "''dns'' \<notin> set style_keys" "''dns-search'' \<notin> set style_keys" by code_simp+
    show "nmNameservers m = nmNameservers m'" by (simp only: nmNameservers_def that [OF k(1)] that [OF k(2)])
    show "nmSearchDomains m = nmSearchDomains m'" by (simp only: nmSearchDomains_def that [OF k(3)])
  qed
  consider "map_of (old_style p) g = None" "map_of (data_style p) g = None"
    | m m' where "map_of (old_style p) g = Some m" "map_of (data_style p) g = Some m'"
  proof -
    have "map fst (old_style p) = map fst (data_style p)"
      by (simp only: old_style_def data_style_def list.map fst_conv)
    then have "fst ` set (old_style p) = fst ` set (data_style p)" by (simp only: set_map [symmetric])
    then have none: "map_of (old_style p) g = None \<longleftrightarrow> map_of (data_style p) g = None"
      by (simp only: map_of_eq_None_iff)
    show thesis
    proof (cases "map_of (old_style p) g")
      case None
      then show thesis using none by (intro that(1)) simp_all
    next
      case (Some m)
      then obtain m' where "map_of (data_style p) g = Some m'" using none by (cases "map_of (data_style p) g") simp_all
      with Some show thesis by (rule that(2))
    qed
  qed
  then show ?thesis
  proof cases
    case 2
    have agree: "map_of m k = map_of m' k" if "k \<notin> set style_keys" for k
      using same_elsewhere [OF that, of p g] by (simp only: nm_setting_def 2 option.case)
    have "nmNameservers m = nmNameservers m'" by (rule d(1)) (rule agree)
    moreover have "nmSearchDomains m = nmSearchDomains m'" by (rule d(2)) (rule agree)
    ultimately show ?thesis by (simp only: group_dns_def 2 option.case)
  qed (simp add: group_dns_def)
qed

section \<open>Both are read alike\<close>

definition start_connection :: "nm_settings \<Rightarrow> nmConnection" where
  "start_connection s = new_nmConnection\<lparr>nmc_ID := nv_string (nm_setting s ''connection'' ''id''),
     nmc_Name := nv_string (nm_setting s ''connection'' ''interface-name''),
     nmc_Method4 := nv_string (nm_setting s ''ipv4'' ''method''), nmc_Method6 := nv_string (nm_setting s ''ipv6'' ''method'')\<rparr>"

lemma same_start: "start_connection (old_style p) = start_connection (data_style p)"
proof -
  have k: "''id'' \<notin> set style_keys" "''interface-name'' \<notin> set style_keys" "''method'' \<notin> set style_keys" by code_simp+
  show ?thesis by (simp only: start_connection_def same_elsewhere [OF k(1)] same_elsewhere [OF k(2)] same_elsewhere [OF k(3)])
qed

definition with_dns :: "nm_settings \<Rightarrow> nmConnection \<Rightarrow> nmConnection" where
  "with_dns s c = c\<lparr>nmc_DNS := fst (group_dns s ''ipv4'') @ fst (group_dns s ''ipv6''),
     nmc_DNSSearch := snd (group_dns s ''ipv4'') @ snd (group_dns s ''ipv6'')\<rparr>"

lemma ParseConnection_stages:
  assumes "nm_setting s ''connection'' ''id'' = Some (NvString i)"
  shows "ParseConnection s = Inr (with_dns s
    (if nm_setting s ''ipv4'' ''address-data'' \<noteq> None then parse_data s (start_connection s) else parse_old s (start_connection s)))"
  using assms by (simp add: ParseConnection_def start_connection_def with_dns_def nv_string_def Let_def)

lemma word_net16: "net16 (word_net (a, n)) = \<lparr>net_ip = To16 (uint2IP a), net_mask = nv_prefix n 32\<rparr>"
  by (simp add: net16_def word_net_def)

lemma old_routes4: "List.map_filter old_route4 (map (\<lambda>(d, n, h, m). [d, n, h, m]) rs) =
    map (\<lambda>(d, n, h, m). \<lparr>rt_Destination = Some (word_net (d, n)), rt_Gateway = uint2IP h, rt_Metric = uint m\<rparr>) rs"
  by (rule map_filter_all) (auto simp: old_route4_def word_net_def)

lemma old_routes6: "List.map_filter old_route6 (map (\<lambda>(d, n, h, m). [NvBytes d, NvUint n, NvBytes h, NvUint m]) rs) =
    map (\<lambda>(d, n, h, m). \<lparr>rt_Destination = Some (byte_net (d, n)), rt_Gateway = h, rt_Metric = uint m\<rparr>) rs"
  by (rule map_filter_all) (auto simp: old_route6_def byte_net_def)

lemma data_addrs4: "nmAddressData (Some (NvMaps (map (\<lambda>(a, n). address_entry (uint2IP a, n)) as))) 32 = map (net16 \<circ> word_net) as"
proof -
  have "List.map_filter (data_net ''address'' 32) (map (\<lambda>(a, n). address_entry (uint2IP a, n)) as) = map (net16 \<circ> word_net) as"
    by (rule map_filter_all) (auto simp: data_address word_net16)
  then show ?thesis by (simp add: nmAddressData_def nv_maps_def)
qed

lemma data_addrs6: "list_all (\<lambda>(a, n). v6_bytes a) as \<Longrightarrow> nmAddressData (Some (NvMaps (map address_entry as))) 128 = map (net16 \<circ> byte_net) as"
proof -
  assume v: "list_all (\<lambda>(a, n). v6_bytes a) as"
  have "List.map_filter (data_net ''address'' 128) (map address_entry as) = map (net16 \<circ> byte_net) as"
    by (rule map_filter_all) (use v in \<open>auto simp: data_address valid_v6 net16_def byte_net_def list_all_iff\<close>)
  then show ?thesis by (simp add: nmAddressData_def nv_maps_def)
qed

lemma data_routes4: "nmRouteData (Some (NvMaps (map (\<lambda>(d, n, h, m). route_entry (uint2IP d, n, uint2IP h, m)) rs))) 32 =
    map (\<lambda>(d, n, h, m). route16 \<lparr>rt_Destination = Some (word_net (d, n)), rt_Gateway = uint2IP h, rt_Metric = uint m\<rparr>) rs"
proof -
  have "List.map_filter (data_route 32) (map (\<lambda>(d, n, h, m). route_entry (uint2IP d, n, uint2IP h, m)) rs) =
    map (\<lambda>(d, n, h, m). route16 \<lparr>rt_Destination = Some (word_net (d, n)), rt_Gateway = uint2IP h, rt_Metric = uint m\<rparr>) rs"
    by (rule map_filter_all) (auto simp: data_route_entry route16_def word_net16)
  then show ?thesis by (simp add: nmRouteData_def nv_maps_def)
qed

lemma data_routes6: "list_all (\<lambda>(d, n, h, m). v6_bytes d \<and> v6_bytes h) rs \<Longrightarrow>
  nmRouteData (Some (NvMaps (map route_entry rs))) 128 =
    map (\<lambda>(d, n, h, m). route16 \<lparr>rt_Destination = Some (byte_net (d, n)), rt_Gateway = h, rt_Metric = uint m\<rparr>) rs"
proof -
  assume v: "list_all (\<lambda>(d, n, h, m). v6_bytes d \<and> v6_bytes h) rs"
  have "List.map_filter (data_route 128) (map route_entry rs) =
    map (\<lambda>(d, n, h, m). route16 \<lparr>rt_Destination = Some (byte_net (d, n)), rt_Gateway = h, rt_Metric = uint m\<rparr>) rs"
    by (rule map_filter_all) (use v in \<open>auto simp: data_route_entry valid_v6 route16_def net16_def byte_net_def list_all_iff\<close>)
  then show ?thesis by (simp add: nmRouteData_def nv_maps_def)
qed

lemma net16_idem [simp]: "net16 (net16 n) = net16 n"
  by (simp add: net16_def)

lemma route16_idem [simp]: "route16 (route16 r) = route16 r"
  by (simp add: route16_def option.map_comp comp_def)



definition bench_pf :: nm_profile where
  "bench_pf = \<lparr>pf_id = ''Wired'', pf_name = ''eth0'', pf_addrs4 = [(0x050200C0, 24), (0x060200C0, 24)], pf_gateway4 = 0x010200C0,
     pf_routes4 = [(10, 8, 0x010200C0, 100)], pf_addrs6 = [(0x20 # 0x01 # replicate 13 0 @ [1], 64)], pf_gateway6 = zeroIP6,
     pf_routes6 = [], pf_other4 = [(''method'', NvString ''manual'')], pf_other6 = []\<rparr>"


text \<open>
  Without a next hop the two differ: the older style, whose next hop is then zero, is read
  as a route through 0.0.0.0, the data style as one without a gateway.
\<close>

lemma old_onlink_route:
  "rt_Gateway (the (old_route4 [d, n, 0, m])) = zeroIP
   \<and> data_route 32 [(''dest'', NvString (ip_string (uint2IP d))), (''prefix'', NvUint n)] =
      Some \<lparr>rt_Destination = Some \<lparr>net_ip = To16 (uint2IP d), net_mask = nv_prefix n 32\<rparr>, rt_Gateway = [], rt_Metric = 0\<rparr>"
  by (simp add: old_route4_def uint2IP_zero data_route_def data_net_def nv_string_def ParseIP_ip_string To16_valid)

end
